(* ===== verification/Prelude.thy ===== *)
theory Prelude
  imports Complex_Main "HOL-Library.AList" "HOL-Library.Multiset" "HOL-Library.List_Lexorder" "HOL-Library.Char_ord"
begin

text \<open>
  What the component theories share: the errors the Python code raises as a datatype and the
  results of fallible code as a sum, insertion-ordered dictionaries as association lists, instants
  and civil dates, the string operations the validators use, and the collections of hints.
\<close>

named_theorems guards \<open>equations that unfold the guards of an operation\<close>
named_theorems keeps \<open>operations that keep an invariant\<close>

subsection \<open>Errors and results\<close>

text \<open>
  Every \<^verbatim>\<open>raise\<close> of the modelled code is a value. The string names the message (or the
  field a pydantic validator refuses). pydantic's \<^verbatim>\<open>ValidationError\<close> is kept apart from a plain
  \<^verbatim>\<open>ValueError\<close>, of which it is a subclass in Python.
\<close>

datatype err =
    ValueError string
  | ValidationError string
  | KeyError string
  | TypeError string
  | RuntimeError string
  | IntegrityError
  | InvalidOperation
  | DivisionByZero
  | DataGapError
  | HeartbeatStaleError
  | ReconciliationFailureError
  | EvidenceUnavailableError

type_synonym 'a res = "err + 'a"

definition bind_res :: "'a res \<Rightarrow> ('a \<Rightarrow> 'b res) \<Rightarrow> 'b res" where
  "bind_res m f = (case m of Inl e \<Rightarrow> Inl e | Inr x \<Rightarrow> f x)"

definition check :: "bool \<Rightarrow> err \<Rightarrow> unit res" where
  "check b e = (if b then Inr () else Inl e)"

lemma bind_res_simps [simp]:
  "bind_res (Inl e) f = Inl e"
  "bind_res (Inr x) f = f x"
  by (simp_all add: bind_res_def)

lemma bind_res_Inr_iff [simp]: "bind_res m f = Inr y \<longleftrightarrow> (\<exists>x. m = Inr x \<and> f x = Inr y)"
  by (cases m) simp_all

lemma bind_res_Inl_iff:
  "bind_res m f = Inl e \<longleftrightarrow> m = Inl e \<or> (\<exists>x. m = Inr x \<and> f x = Inl e)"
  by (cases m) simp_all

lemma check_Inr_iff [simp]: "check b e = Inr u \<longleftrightarrow> b"
  by (simp add: check_def)

lemma check_Inl_iff [simp]: "check b e = Inl e' \<longleftrightarrow> \<not> b \<and> e' = e"
  by (auto simp add: check_def)

lemma check_simps [simp]:
  "check True e = Inr ()"
  "check False e = Inl e"
  by (simp_all add: check_def)

fun map_res :: "('a \<Rightarrow> 'b res) \<Rightarrow> 'a list \<Rightarrow> 'b list res" where
  "map_res f [] = Inr []"
| "map_res f (x # xs) = bind_res (f x) (\<lambda>y. bind_res (map_res f xs) (\<lambda>ys. Inr (y # ys)))"

lemma map_res_Inr_length: "map_res f xs = Inr ys \<Longrightarrow> length ys = length xs"
  by (induction xs arbitrary: ys) auto

lemma map_res_total: "(\<And>x. x \<in> set xs \<Longrightarrow> f x = Inr (g x)) \<Longrightarrow> map_res f xs = Inr (map g xs)"
  by (induction xs) auto

subsection \<open>Dictionaries\<close>

text \<open>
  A Python dict keeps the order in which its keys were first inserted; storing to a present key
  keeps its place. \<open>AList.update\<close> has exactly this behaviour, so a dict is an association list,
  read by \<open>map_of\<close>.
\<close>

type_synonym ('k, 'v) dict = "('k \<times> 'v) list"

definition dict_ok :: "('k, 'v) dict \<Rightarrow> bool" where
  "dict_ok d \<longleftrightarrow> distinct (map fst d)"

definition dget :: "('k, 'v) dict \<Rightarrow> 'k \<Rightarrow> 'v \<Rightarrow> 'v" where
  "dget d k v0 = (case map_of d k of None \<Rightarrow> v0 | Some v \<Rightarrow> v)"

lemma dict_ok_Nil [simp]: "dict_ok []"
  by (simp add: dict_ok_def)

lemma dict_ok_update [simp]: "dict_ok d \<Longrightarrow> dict_ok (AList.update k v d)"
  by (simp add: dict_ok_def distinct_update)

lemma map_of_update_same [simp]: "map_of (AList.update k v d) k = Some v"
  by (simp add: update_conv')

lemma map_of_update_other [simp]: "k' \<noteq> k \<Longrightarrow> map_of (AList.update k v d) k' = map_of d k'"
  by (simp add: update_conv')

lemma map_of_update: "map_of (AList.update k v d) = (map_of d)(k \<mapsto> v)"
  by (simp add: update_conv')

lemma keys_update [simp]: "fst ` set (AList.update k v d) = insert k (fst ` set d)"
proof -
  have "fst ` set (AList.update k v d) = dom (map_of (AList.update k v d))"
    by (simp add: dom_map_of_conv_image_fst)
  also have "\<dots> = insert k (fst ` set d)"
    by (simp add: update_conv' dom_map_of_conv_image_fst)
  finally show ?thesis .
qed

lemma update_in_set:
  "x \<in> set (AList.update k v d) \<Longrightarrow> x = (k, v) \<or> x \<in> set d"
  by (induction d) (auto split: if_splits)

lemma update_append_fresh: "map_of d k = None \<Longrightarrow> AList.update k v d = d @ [(k, v)]"
  by (induction d) (auto split: if_splits)

lemma length_update_present: "map_of d k \<noteq> None \<Longrightarrow> length (AList.update k v d) = length d"
  by (induction d) (auto split: if_splits)

lemma dict_ok_map_of: "dict_ok d \<Longrightarrow> (k, v) \<in> set d \<Longrightarrow> map_of d k = Some v"
  by (simp add: dict_ok_def)

subsection \<open>Instants, dates\<close>

text \<open>
  An aware \<^verbatim>\<open>datetime\<close> is compared and subtracted as an instant: whole microseconds since
  1970-01-01T00:00:00Z. A \<^verbatim>\<open>timedelta\<close> is a number of microseconds. A \<^verbatim>\<open>date\<close> is its day number
  since 1970-01-01. A datetime as it arrives in a constructor is a wall clock with its UTC offset,
  which is absent in a naive one.
\<close>

type_synonym instant = int
type_synonym day = int

definition seconds :: "int \<Rightarrow> int" where
  "seconds n = n * 1000000"

definition minutes :: "int \<Rightarrow> int" where
  "minutes n = n * 60000000"

definition hours :: "int \<Rightarrow> int" where
  "hours n = n * 3600000000"

definition days :: "int \<Rightarrow> int" where
  "days n = n * 86400000000"

lemmas durations = seconds_def minutes_def hours_def days_def

definition utc_date :: "instant \<Rightarrow> day" where
  "utc_date t = t div 86400000000"

record pydatetime =
  wall :: int
  offset :: "int option"

definition aware :: "pydatetime \<Rightarrow> bool" where
  "aware t \<longleftrightarrow> offset t \<noteq> None"

definition to_utc :: "pydatetime \<Rightarrow> instant" where
  "to_utc t = wall t - (case offset t of None \<Rightarrow> 0 | Some z \<Rightarrow> z)"

subsection \<open>Strings\<close>

text \<open>Python's \<^verbatim>\<open>str.strip\<close> and \<^verbatim>\<open>str.upper\<close> on ASCII text.\<close>

definition is_space :: "char \<Rightarrow> bool" where
  "is_space c \<longleftrightarrow> (let n = of_char c :: nat in n = 32 \<or> (9 \<le> n \<and> n \<le> 13) \<or> (28 \<le> n \<and> n \<le> 31))"

definition upper_char :: "char \<Rightarrow> char" where
  "upper_char c =
     (let n = of_char c :: nat in if 97 \<le> n \<and> n \<le> 122 then char_of (n - 32) else c)"

definition py_strip :: "string \<Rightarrow> string" where
  "py_strip s = rev (dropWhile is_space (rev (dropWhile is_space s)))"

definition py_upper :: "string \<Rightarrow> string" where
  "py_upper s = map upper_char s"

definition normalize_symbol :: "string \<Rightarrow> string" where
  "normalize_symbol s = py_upper (py_strip s)"

lemma of_char_upper_char:
  "of_char (upper_char c) =
     (let n = of_char c :: nat in if 97 \<le> n \<and> n \<le> 122 then n - 32 else n)"
  by (auto simp add: upper_char_def Let_def intro: mod_less)

lemma upper_char_idem [simp]: "upper_char (upper_char c) = upper_char c"
proof -
  let ?n = "of_char c :: nat"
  show ?thesis
  proof (cases "97 \<le> ?n \<and> ?n \<le> 122")
    case True
    then have "of_char (upper_char c) = ?n - 32" by (simp add: of_char_upper_char)
    with True have "\<not> 97 \<le> (of_char (upper_char c) :: nat)" by linarith
    then show ?thesis unfolding upper_char_def [of "upper_char c"] by (simp add: Let_def)
  next
    case False
    then have "upper_char c = c" by (auto simp add: upper_char_def Let_def)
    then show ?thesis by simp
  qed
qed

lemma is_space_upper_char [simp]: "is_space (upper_char c) = is_space c"
  unfolding is_space_def of_char_upper_char by (auto simp: Let_def)

lemma dropWhile_rev_dropWhile:
  "dropWhile P (rev (dropWhile P (rev (dropWhile P s)))) = rev (dropWhile P (rev (dropWhile P s)))"
proof -
  let ?t = "dropWhile P s"
  have "rev (dropWhile P (rev ?t)) = [] \<or> \<not> P (hd (rev (dropWhile P (rev ?t))))"
  proof (cases "rev (dropWhile P (rev ?t))")
    case Nil
    then show ?thesis by simp
  next
    case (Cons a list)
    have "?t = rev (dropWhile P (rev ?t)) @ rev (takeWhile P (rev ?t))"
      by (metis rev_append rev_rev_ident takeWhile_dropWhile_id)
    with Cons have "hd ?t = a" and "?t \<noteq> []"
      by (metis append_Cons list.sel(1)) (metis Cons append_is_Nil_conv list.distinct(1) \<open>?t = _\<close>)
    then have "\<not> P a" using hd_dropWhile by metis
    with Cons show ?thesis by simp
  qed
  then show ?thesis
    by (metis dropWhile.simps(1) dropWhile_eq_self_iff)
qed

lemma py_strip_idem [simp]: "py_strip (py_strip s) = py_strip s"
  by (simp add: py_strip_def dropWhile_rev_dropWhile)

lemma py_strip_py_upper: "py_strip (py_upper s) = py_upper (py_strip s)"
  by (simp add: py_strip_def py_upper_def dropWhile_map rev_map comp_def)

lemma normalize_symbol_idem [simp]: "normalize_symbol (normalize_symbol s) = normalize_symbol s"
  by (simp add: normalize_symbol_def py_strip_py_upper) (simp add: py_upper_def)

text \<open>The decimal numeral of a natural number.\<close>

fun show_nat :: "nat \<Rightarrow> string" where
  "show_nat n = (if n < 10 then [] else show_nat (n div 10)) @ [char_of (48 + n mod 10)]"

subsection \<open>Methods on shared state\<close>

text \<open>
  A method that may raise, as a function of the state it runs in: the state is kept when it raises,
  as the object's fields are.
\<close>

type_synonym ('s, 'a) routine = "'s \<Rightarrow> 'a res \<times> 's"

definition return_st :: "'a \<Rightarrow> ('s, 'a) routine" where
  "return_st x s = (Inr x, s)"

definition raise_st :: "err \<Rightarrow> ('s, 'a) routine" where
  "raise_st e s = (Inl e, s)"

definition bind_st :: "('s, 'a) routine \<Rightarrow> ('a \<Rightarrow> ('s, 'b) routine) \<Rightarrow> ('s, 'b) routine" where
  "bind_st m f s = (case m s of (r, s') \<Rightarrow> (case r of Inl e \<Rightarrow> (Inl e, s') | Inr x \<Rightarrow> f x s'))"

definition lift_st :: "'a res \<Rightarrow> ('s, 'a) routine" where
  "lift_st r s = (r, s)"

lemma bind_st_simps [simp]:
  "m s = (Inr x, s') \<Longrightarrow> bind_st m f s = f x s'"
  "m s = (Inl e, s') \<Longrightarrow> bind_st m f s = (Inl e, s')"
  by (simp_all add: bind_st_def)

text \<open>
  \<open>outcome m Q E s\<close>: run in state \<open>s\<close>, the method either returns with \<open>Q\<close> of its result and the new
  state, or raises in a state where \<open>E\<close> holds. The equations compute it through a method's text, so a
  property of a method reduces to one of the calls it makes.
\<close>

definition outcome :: "('s, 'a) routine \<Rightarrow> ('a \<Rightarrow> 's \<Rightarrow> bool) \<Rightarrow> ('s \<Rightarrow> bool) \<Rightarrow> 's \<Rightarrow> bool" where
  "outcome m Q E s \<longleftrightarrow> (case m s of (r, s') \<Rightarrow> (case r of Inl e \<Rightarrow> E s' | Inr x \<Rightarrow> Q x s'))"

lemma outcome_bind [simp]: "outcome (bind_st m f) Q E s = outcome m (\<lambda>x. outcome (f x) Q E) E s"
  by (auto simp: outcome_def bind_st_def split: prod.splits sum.splits)

lemma outcome_return [simp]: "outcome (return_st x) Q E s = Q x s"
  by (simp add: outcome_def return_st_def)

lemma outcome_raise [simp]: "outcome (raise_st e) Q E s = E s"
  by (simp add: outcome_def raise_st_def)

lemma outcome_lift [simp]: "outcome (lift_st r) Q E s = (case r of Inl e \<Rightarrow> E s | Inr x \<Rightarrow> Q x s)"
  by (simp add: outcome_def lift_st_def)

lemma outcome_if [simp]: "outcome (if b then m else m') Q E s = (if b then outcome m Q E s else outcome m' Q E s)"
  by simp

lemma outcome_mono:
  "outcome m Q E s \<Longrightarrow> (\<And>x t. Q x t \<Longrightarrow> Q' x t) \<Longrightarrow> (\<And>t. E t \<Longrightarrow> E' t) \<Longrightarrow> outcome m Q' E' s"
  by (auto simp: outcome_def split: prod.splits sum.splits)

lemma outcome_always: "outcome m (\<lambda>_. Q) Q s \<longleftrightarrow> Q (snd (m s))"
  by (simp add: outcome_def split: prod.splits sum.splits)

lemma outcomeI:
  "(\<And>e t. m s = (Inl e, t) \<Longrightarrow> E t) \<Longrightarrow> (\<And>x t. m s = (Inr x, t) \<Longrightarrow> Q x t) \<Longrightarrow> outcome m Q E s"
  by (auto simp: outcome_def split: prod.splits sum.splits)

lemma outcome_Inr: "outcome m Q E s \<Longrightarrow> m s = (Inr x, t) \<Longrightarrow> Q x t"
  by (auto simp: outcome_def)

text \<open>A method that keeps an invariant, whether it returns or raises, and the rules that compose such methods.\<close>

definition preserves :: "('s \<Rightarrow> bool) \<Rightarrow> ('s, 'a) routine \<Rightarrow> bool" where
  "preserves I m \<longleftrightarrow> (\<forall>s. I s \<longrightarrow> I (snd (m s)))"

lemma preserves_outcome: "preserves I m \<longleftrightarrow> (\<forall>s. I s \<longrightarrow> outcome m (\<lambda>_. I) I s)"
  by (simp add: preserves_def outcome_always)

lemma preservesD: "preserves I m \<Longrightarrow> I s \<Longrightarrow> m s = (r, s') \<Longrightarrow> I s'"
  by (auto simp: preserves_def dest: spec [of _ s])

lemma preserves_bind [intro]: "preserves I m \<Longrightarrow> (\<And>x. preserves I (f x)) \<Longrightarrow> preserves I (bind_st m f)"
  unfolding preserves_outcome by (blast intro: outcome_mono [where Q = "\<lambda>_. I" and E = I] iffD2 [OF outcome_bind])

lemma preserves_bind_lift [intro]: "(\<And>x. r = Inr x \<Longrightarrow> preserves I (f x)) \<Longrightarrow> preserves I (bind_st (lift_st r) f)"
  by (cases r) (simp_all add: preserves_def bind_st_def lift_st_def)

lemma preserves_return [intro, simp]: "preserves I (return_st x)" "preserves I (raise_st e)" "preserves I (lift_st r)"
  by (simp_all add: preserves_def return_st_def raise_st_def lift_st_def)

lemma preserves_if [intro]: "(b \<Longrightarrow> preserves I m) \<Longrightarrow> (\<not> b \<Longrightarrow> preserves I m') \<Longrightarrow> preserves I (if b then m else m')"
  by simp

lemma preserves_when [intro]: "preserves I m \<Longrightarrow> preserves I m' \<Longrightarrow> preserves I (\<lambda>s. if b s then m s else m' s)"
  by (simp add: preserves_def)

lemma preserves_read [intro]: "(\<And>e. preserves I (m e)) \<Longrightarrow> preserves I (\<lambda>e. m e e)"
  by (simp add: preserves_def)

subsection \<open>Machines\<close>

text \<open>
  A stateful component as a machine: the states it may start in and its steps. An invariant that
  holds at the start and that every step keeps holds wherever the machine can get; a quantity that
  no step lowers is never lower later.
\<close>

locale machine =
  fixes start :: "'s \<Rightarrow> bool"
    and step :: "'s \<Rightarrow> 's \<Rightarrow> bool"
    and inv :: "'s \<Rightarrow> bool"
  assumes inv_start: "start s \<Longrightarrow> inv s"
    and inv_step: "inv s \<Longrightarrow> step s t \<Longrightarrow> inv t"
begin

lemma inv_run: "step\<^sup>*\<^sup>* s t \<Longrightarrow> inv s \<Longrightarrow> inv t"
  by (induction rule: rtranclp_induct) (auto intro: inv_step)

lemma inv_reachable: "start s \<Longrightarrow> step\<^sup>*\<^sup>* s t \<Longrightarrow> inv t"
  by (blast intro: inv_run inv_start)

end

locale growing_machine = machine start step inv
  for start :: "'s \<Rightarrow> bool" and step inv +
  fixes below :: "'s \<Rightarrow> 's \<Rightarrow> bool"
  assumes below_refl: "below s s"
    and below_trans: "below s t \<Longrightarrow> below t u \<Longrightarrow> below s u"
    and below_step: "inv s \<Longrightarrow> step s t \<Longrightarrow> below s t"
begin

lemma below_run: "step\<^sup>*\<^sup>* s t \<Longrightarrow> inv s \<Longrightarrow> below s t"
  by (induction rule: rtranclp_induct) (blast intro: below_refl below_trans below_step inv_run)+

end

subsection \<open>Control stores\<close>

text \<open>
  Two components keep named control values (the kill switch, a pause): the local ledger and the
  production repository. What their clients rely on is that a value read is the one last written
  under that name. \<open>'m\<close> is what a write records besides (its time, its trace).
\<close>

locale control_store =
  fixes get :: "'s \<Rightarrow> string \<Rightarrow> string option"
    and put :: "'m \<Rightarrow> string \<Rightarrow> string \<Rightarrow> 's \<Rightarrow> 's"
  assumes get_put_same: "get (put m k v s) k = Some v"
    and get_put_other: "k' \<noteq> k \<Longrightarrow> get (put m k v s) k' = get s k'"
begin

lemma get_put: "get (put m k v s) = (get s)(k \<mapsto> v)"
  by (rule ext) (simp add: get_put_same get_put_other)

lemma get_writes:
  "get (fold (\<lambda>(m, k, v). put m k v) ws s) k =
     (case find (\<lambda>(m, k', v). k' = k) (rev ws) of None \<Rightarrow> get s k | Some (m, k', v) \<Rightarrow> Some v)"
  by (induction ws rule: rev_induct) (auto simp: get_put split: prod.splits)

lemma get_untouched:
  "k \<notin> (fst \<circ> snd) ` set ws \<Longrightarrow> get (fold (\<lambda>(m, k, v). put m k v) ws s) k = get s k"
  by (induction ws arbitrary: s) (auto simp: get_put_other)

end

end
