(* ===== verification/Decimal28.thy ===== *)
theory Decimal28
  imports Prelude
begin

text \<open>
  Python's \<^verbatim>\<open>decimal.Decimal\<close> under the default context, which the code never changes: 28
  significant digits, rounding half to even. A Decimal is its rational value; \<open>dround\<close> is the
  context's rounding and every operation is the exact result rounded by it. Comparison, \<^verbatim>\<open>min\<close> and
  \<^verbatim>\<open>max\<close> are exact. Division by zero and a \<^verbatim>\<open>quantize\<close> whose coefficient would need more than 28
  digits are errors. The exponent of a value (its trailing zeros) and the context's exponent range
  of plus or minus 999999 are not represented.
\<close>

type_synonym dec = rat

subsection \<open>Rounding to an integer\<close>

locale rounding =
  fixes rnd :: "rat \<Rightarrow> int"
  assumes rnd_of_int: "rnd (of_int n) = n"
    and rnd_mono: "x \<le> y \<Longrightarrow> rnd x \<le> rnd y"
begin

lemma rnd_le: "x \<le> of_int n \<Longrightarrow> rnd x \<le> n"
  using rnd_mono [of x "of_int n"] by (simp add: rnd_of_int)

lemma rnd_ge: "of_int n \<le> x \<Longrightarrow> n \<le> rnd x"
  using rnd_mono [of "of_int n" x] by (simp add: rnd_of_int)

lemma rnd_nonneg: "0 \<le> x \<Longrightarrow> 0 \<le> rnd x"
  using rnd_ge [of 0 x] by simp

lemma rnd_nonpos: "x \<le> 0 \<Longrightarrow> rnd x \<le> 0"
  using rnd_le [of x 0] by simp

lemma rnd_near: "\<bar>of_int (rnd x) - x\<bar> < 1"
proof -
  have "\<lfloor>x\<rfloor> \<le> rnd x" by (rule rnd_ge) simp
  moreover have "rnd x \<le> \<lceil>x\<rceil>" by (rule rnd_le) simp
  ultimately have "of_int \<lfloor>x\<rfloor> \<le> (of_int (rnd x) :: rat)" "of_int (rnd x) \<le> (of_int \<lceil>x\<rceil> :: rat)"
    by simp_all
  then show ?thesis by linarith
qed

end

definition round_floor :: "rat \<Rightarrow> int" where
  "round_floor x = \<lfloor>x\<rfloor>"

definition round_ceiling :: "rat \<Rightarrow> int" where
  "round_ceiling x = \<lceil>x\<rceil>"

definition round_down :: "rat \<Rightarrow> int" where
  "round_down x = (if 0 \<le> x then \<lfloor>x\<rfloor> else \<lceil>x\<rceil>)"

definition round_half_up :: "rat \<Rightarrow> int" where
  "round_half_up x = (if 0 \<le> x then \<lfloor>x + 1 / 2\<rfloor> else - \<lfloor>- x + 1 / 2\<rfloor>)"

definition round_half_even :: "rat \<Rightarrow> int" where
  "round_half_even x =
     (let f = \<lfloor>x\<rfloor>; d = x - of_int f in
      if d < 1 / 2 then f else if d > 1 / 2 then f + 1 else if even f then f else f + 1)"

interpretation rfloor: rounding round_floor
  by unfold_locales (simp_all add: round_floor_def floor_mono)

interpretation rceiling: rounding round_ceiling
  by unfold_locales (simp_all add: round_ceiling_def ceiling_mono)

interpretation rdown: rounding round_down
proof
  fix x y :: rat
  assume "x \<le> y"
  then show "round_down x \<le> round_down y"
    unfolding round_down_def
    by (auto simp: floor_mono ceiling_mono intro: order_trans [of _ "0::int"])
qed (simp add: round_down_def)

interpretation rhalf_up: rounding round_half_up
proof
  show "round_half_up (of_int n) = n" for n
  proof -
    have "\<lfloor>of_int m + 1 / 2 :: rat\<rfloor> = m" for m :: int by linarith
    from this [of n] this [of "- n"] show ?thesis by (simp add: round_half_up_def)
  qed
next
  fix x y :: rat
  assume xy: "x \<le> y"
  consider "0 \<le> x" | "x < 0" "0 \<le> y" | "y < 0" by linarith
  then show "round_half_up x \<le> round_half_up y"
  proof cases
    case 1
    with xy show ?thesis by (simp add: round_half_up_def floor_mono)
  next
    case 2
    then have "- \<lfloor>- x + 1 / 2\<rfloor> \<le> 0" "0 \<le> \<lfloor>y + 1 / 2\<rfloor>" by simp_all
    then have "- \<lfloor>- x + 1 / 2\<rfloor> \<le> \<lfloor>y + 1 / 2\<rfloor>" by (rule order_trans)
    with 2 show ?thesis by (simp add: round_half_up_def)
  next
    case 3
    with xy have "\<lfloor>- y + 1 / 2\<rfloor> \<le> \<lfloor>- x + 1 / 2\<rfloor>" by (intro floor_mono) simp
    with 3 xy show ?thesis by (simp add: round_half_up_def)
  qed
qed

lemma round_half_even_bounds: "\<lfloor>x\<rfloor> \<le> round_half_even x" "round_half_even x \<le> \<lfloor>x\<rfloor> + 1"
  by (simp_all add: round_half_even_def Let_def)

interpretation rhalf_even: rounding round_half_even
proof
  fix x y :: rat
  assume xy: "x \<le> y"
  show "round_half_even x \<le> round_half_even y"
  proof (cases "\<lfloor>x\<rfloor> = \<lfloor>y\<rfloor>")
    case True
    with xy show ?thesis by (auto simp add: round_half_even_def Let_def)
  next
    case False
    with floor_mono [OF xy] have "\<lfloor>x\<rfloor> + 1 \<le> \<lfloor>y\<rfloor>" by simp
    with round_half_even_bounds [of x] round_half_even_bounds [of y] show ?thesis by linarith
  qed
qed (simp add: round_half_even_def)

lemma round_half_even_minus: "round_half_even (- x) = - round_half_even x"
proof (cases "x = of_int \<lfloor>x\<rfloor>")
  case True
  then show ?thesis by (metis of_int_minus rhalf_even.rnd_of_int)
next
  case False
  then have fl: "\<lfloor>- x\<rfloor> = - \<lfloor>x\<rfloor> - 1" by linarith
  show ?thesis by (auto simp add: round_half_even_def Let_def fl)
qed

lemma round_half_even_error: "\<bar>of_int (round_half_even x) - x\<bar> \<le> 1 / 2"
proof -
  define f where "f = (of_int \<lfloor>x\<rfloor> :: rat)"
  have f: "f \<le> x" "x < f + 1" unfolding f_def by linarith+
  have "of_int (round_half_even x) =
      (if x - f < 1 / 2 then f else if x - f > 1 / 2 then f + 1
       else if even \<lfloor>x\<rfloor> then f else f + 1)"
    by (simp add: round_half_even_def Let_def f_def)
  with f show ?thesis by (simp add: abs_le_iff split: if_splits)
qed

subsection \<open>The adjusted exponent\<close>

function ilog10 :: "int \<Rightarrow> nat" where
  "ilog10 n = (if n < 10 then 0 else Suc (ilog10 (n div 10)))"
  by pat_completeness auto
termination
  by (relation "measure nat") auto

declare ilog10.simps [simp del]

lemma ilog10_bounds: "1 \<le> n \<Longrightarrow> 10 ^ ilog10 n \<le> n \<and> n < 10 ^ Suc (ilog10 n)"
proof (induction n rule: ilog10.induct)
  case (1 n)
  show ?case
  proof (cases "n < 10")
    case True
    with 1 show ?thesis by (simp add: ilog10.simps [of n])
  next
    case False
    then have "1 \<le> n div 10" by linarith
    with False 1 have "10 ^ ilog10 (n div 10) \<le> n div 10 \<and> n div 10 < 10 ^ Suc (ilog10 (n div 10))"
      by blast
    then have "10 * 10 ^ ilog10 (n div 10) \<le> n" "n < 10 * 10 ^ Suc (ilog10 (n div 10))"
      by linarith+
    with False show ?thesis by (simp add: ilog10.simps [of n])
  qed
qed

definition adjusted :: "rat \<Rightarrow> int" where
  "adjusted x = (if 1 \<le> \<bar>x\<bar> then int (ilog10 \<lfloor>\<bar>x\<bar>\<rfloor>)
                 else - int (ilog10 (\<lceil>1 / \<bar>x\<bar>\<rceil> - 1)) - 1)"

lemma adjusted_minus [simp]: "adjusted (- x) = adjusted x"
  by (simp add: adjusted_def)

lemma adjusted_bounds:
  assumes "x \<noteq> 0"
  shows "10 powi adjusted x \<le> \<bar>x\<bar>" and "\<bar>x\<bar> < 10 powi (adjusted x + 1)"
proof -
  have "10 powi adjusted x \<le> \<bar>x\<bar> \<and> \<bar>x\<bar> < 10 powi (adjusted x + 1)"
  proof (cases "1 \<le> \<bar>x\<bar>")
    case True
    define n where "n = \<lfloor>\<bar>x\<bar>\<rfloor>"
    have n: "1 \<le> n" "of_int n \<le> \<bar>x\<bar>" "\<bar>x\<bar> < of_int (n + 1)"
      using True unfolding n_def by (simp_all add: le_floor_iff) linarith
    from ilog10_bounds [OF n(1)] have "10 ^ ilog10 n \<le> n" and hi: "n + 1 \<le> 10 ^ Suc (ilog10 n)"
      by auto
    then have "(of_int (10 ^ ilog10 n) :: rat) \<le> of_int n"
      "(of_int (n + 1) :: rat) \<le> of_int (10 ^ Suc (ilog10 n))"
      unfolding of_int_le_iff by simp_all
    with n have "10 ^ ilog10 n \<le> \<bar>x\<bar>" "\<bar>x\<bar> < 10 ^ Suc (ilog10 n)"
      unfolding of_int_power of_int_numeral by (blast intro: order_trans less_le_trans)+
    moreover have "adjusted x = int (ilog10 n)" using True by (simp add: adjusted_def n_def)
    ultimately show ?thesis
      by (simp add: power_int_def nat_add_distrib)
  next
    case False
    define m where "m = \<lceil>1 / \<bar>x\<bar>\<rceil> - 1"
    have y: "1 < 1 / \<bar>x\<bar>" using False assms by (simp add: field_simps)
    have m: "1 \<le> m" "of_int m < 1 / \<bar>x\<bar>" "1 / \<bar>x\<bar> \<le> of_int (m + 1)"
      using y unfolding m_def by linarith+
    from ilog10_bounds [OF m(1)] have "10 ^ ilog10 m \<le> m" and hi: "m + 1 \<le> 10 ^ Suc (ilog10 m)"
      by auto
    then have "(of_int (10 ^ ilog10 m) :: rat) \<le> of_int m"
      "(of_int (m + 1) :: rat) \<le> of_int (10 ^ Suc (ilog10 m))"
      unfolding of_int_le_iff by simp_all
    with m have b: "10 ^ ilog10 m < 1 / \<bar>x\<bar>" "1 / \<bar>x\<bar> \<le> 10 ^ Suc (ilog10 m)"
      unfolding of_int_power of_int_numeral by (blast intro: order_trans le_less_trans)+
    have "\<bar>x\<bar> < 1 / 10 ^ ilog10 m" "1 / 10 ^ Suc (ilog10 m) \<le> \<bar>x\<bar>"
      using b assms by (simp_all add: field_simps)
    moreover have "adjusted x = - int (Suc (ilog10 m))" "adjusted x + 1 = - int (ilog10 m)"
      using False by (simp_all add: adjusted_def m_def)
    moreover have "(10::rat) powi (- int k) = 1 / 10 ^ k" for k
      by (simp only: power_int_minus power_int_of_nat inverse_eq_divide)
    ultimately show ?thesis by (simp only:)
  qed
  then show "10 powi adjusted x \<le> \<bar>x\<bar>" and "\<bar>x\<bar> < 10 powi (adjusted x + 1)" by simp_all
qed

lemma powi_less: "(10::rat) powi a < 10 powi b \<Longrightarrow> a < b"
  by (metis linorder_not_less one_le_numeral power_int_increasing)

lemma powi_mono: "a \<le> b \<Longrightarrow> (10::rat) powi a \<le> 10 powi b"
  by (simp add: power_int_increasing)

lemma powi_pos [simp]: "(0::rat) < 10 powi a"
  by (simp add: zero_less_power_int)

lemma pmul: "(10::rat) powi a * 10 powi b = 10 powi (a + b)"
  by (simp add: power_int_add)

lemma adjusted_mono:
  assumes "x \<noteq> 0" "\<bar>x\<bar> \<le> \<bar>y\<bar>"
  shows "adjusted x \<le> adjusted y"
proof -
  from assms have "y \<noteq> 0" by auto
  have "10 powi adjusted x \<le> \<bar>x\<bar>" using adjusted_bounds(1) [OF assms(1)] .
  also have "\<dots> \<le> \<bar>y\<bar>" by (rule assms(2))
  also have "\<dots> < 10 powi (adjusted y + 1)" using adjusted_bounds(2) [OF \<open>y \<noteq> 0\<close>] .
  finally show ?thesis using powi_less by fastforce
qed

subsection \<open>The context's rounding\<close>

definition dround :: "rat \<Rightarrow> dec" where
  "dround x = (if x = 0 then 0
     else (let s = 27 - adjusted x in of_int (round_half_even (x * 10 powi s)) * 10 powi (- s)))"

lemma dround_0 [simp]: "dround 0 = 0"
  by (simp add: dround_def)

lemma dround_minus [simp]: "dround (- x) = - dround x"
  by (simp add: dround_def Let_def round_half_even_minus)

lemma dround_pos_bounds:
  assumes "0 < x"
  shows "10 powi adjusted x \<le> dround x" and "dround x \<le> 10 powi (adjusted x + 1)"
proof -
  let ?s = "27 - adjusted x"
  have x: "x \<noteq> 0" "\<bar>x\<bar> = x" using assms by simp_all
  have "10 powi adjusted x * 10 powi ?s \<le> x * 10 powi ?s"
    "x * 10 powi ?s \<le> 10 powi (adjusted x + 1) * 10 powi ?s"
    using adjusted_bounds [OF x(1)] unfolding x(2) by (simp_all add: mult_right_mono less_imp_le)
  then have "of_int (10 ^ 27) \<le> x * 10 powi ?s" "x * 10 powi ?s \<le> of_int (10 ^ 28)"
    by (simp_all add: pmul)
  then have "10 ^ 27 \<le> round_half_even (x * 10 powi ?s)" "round_half_even (x * 10 powi ?s) \<le> 10 ^ 28"
    by (auto intro: rhalf_even.rnd_ge rhalf_even.rnd_le)
  then have "(of_int (10 ^ 27) :: rat) \<le> of_int (round_half_even (x * 10 powi ?s))"
    "of_int (round_half_even (x * 10 powi ?s)) \<le> (of_int (10 ^ 28) :: rat)"
    unfolding of_int_le_iff .
  then have "10 powi 27 * 10 powi (- ?s) \<le> dround x" "dround x \<le> 10 powi 28 * 10 powi (- ?s)"
    using x(1) by (simp_all add: dround_def Let_def mult_right_mono del: minus_diff_eq)
  then show "10 powi adjusted x \<le> dround x" and "dround x \<le> 10 powi (adjusted x + 1)"
    unfolding pmul by (simp_all add: add.commute)
qed

lemma dround_pos: "0 < x \<Longrightarrow> 0 < dround x"
  using dround_pos_bounds(1) [of x] powi_pos [of "adjusted x"] by linarith

lemma dround_nonneg: "0 \<le> x \<Longrightarrow> 0 \<le> dround x"
  using dround_pos [of x] by (cases "x = 0") auto

lemma dround_neg: "x < 0 \<Longrightarrow> dround x < 0"
  using dround_pos [of "- x"] by simp

lemma dround_eq_0_iff [simp]: "dround x = 0 \<longleftrightarrow> x = 0"
  using dround_pos [of x] dround_neg [of x] by (cases x "0::rat" rule: linorder_cases) auto

lemma dround_mono_pos:
  assumes "0 < x" "x \<le> y"
  shows "dround x \<le> dround y"
proof (cases "adjusted x = adjusted y")
  case True
  have "x * 10 powi (27 - adjusted x) \<le> y * 10 powi (27 - adjusted y)"
    using assms True by (simp add: mult_right_mono less_imp_le)
  then have "round_half_even (x * 10 powi (27 - adjusted x)) \<le> round_half_even (y * 10 powi (27 - adjusted y))"
    by (rule rhalf_even.rnd_mono)
  with True assms show ?thesis by (simp add: dround_def Let_def mult_right_mono less_imp_le)
next
  case False
  from assms have "adjusted x \<le> adjusted y" by (intro adjusted_mono) auto
  with False have "(10::rat) powi (adjusted x + 1) \<le> 10 powi adjusted y" by (intro powi_mono) simp
  moreover have "dround x \<le> 10 powi (adjusted x + 1)" "10 powi adjusted y \<le> dround y"
    using assms by (auto intro: dround_pos_bounds)
  ultimately show ?thesis by linarith
qed

lemma dround_mono: "x \<le> y \<Longrightarrow> dround x \<le> dround y"
proof -
  assume xy: "x \<le> y"
  consider "0 < x" | "x \<le> 0" "0 \<le> y" | "y < 0" by linarith
  then show ?thesis
  proof cases
    case 1
    then show ?thesis using xy by (rule dround_mono_pos)
  next
    case 2
    then show ?thesis using dround_nonneg [of y] dround_nonneg [of "- x"] by simp
  next
    case 3
    with xy have "dround (- y) \<le> dround (- x)" by (intro dround_mono_pos) auto
    then show ?thesis by simp
  qed
qed

text \<open>A value with at most 28 significant digits is left alone.\<close>

definition fits28 :: "rat \<Rightarrow> bool" where
  "fits28 x \<longleftrightarrow> (\<exists>(c::int) (e::int). \<bar>c\<bar> < 10 ^ 28 \<and> x = of_int c * 10 powi e)"

lemma fits28_0 [simp]: "fits28 0"
  unfolding fits28_def by (intro exI [of _ 0]) simp

lemma fits28_of_int: "\<bar>n\<bar> < 10 ^ 28 \<Longrightarrow> fits28 (of_int n)"
  unfolding fits28_def by (intro exI [of _ n] exI [of _ 0]) simp

lemma fits28_scaled: "\<bar>n\<bar> < 10 ^ 28 \<Longrightarrow> fits28 (of_int n / 10 ^ k)"
  unfolding fits28_def
  by (intro exI [of _ n] exI [of _ "- int k"]) (simp add: power_int_minus field_simps)

lemma dround_fits:
  assumes "fits28 x"
  shows "dround x = x"
proof (cases "x = 0")
  case False
  obtain c e where c: "\<bar>c\<bar> < 10 ^ 28" and x: "x = of_int c * 10 powi e"
    using assms unfolding fits28_def by blast
  have "10 powi adjusted x \<le> \<bar>of_int c\<bar> * (10 powi e :: rat)"
    using adjusted_bounds(1) [OF False] by (simp add: x abs_mult)
  also have "\<bar>of_int c :: rat\<bar> < 10 ^ 28" using c by (metis of_int_abs of_int_less_numeral_power_cancel_iff)
  then have "\<bar>of_int c\<bar> * 10 powi e < 10 powi 28 * (10 powi e :: rat)"
    by simp
  also have "\<dots> = 10 powi (28 + e)" by (rule pmul)
  finally have "adjusted x < 28 + e" by (rule powi_less)
  then obtain k where k: "27 - adjusted x + e = int k" using nonneg_int_cases [of "27 - adjusted x + e"] by auto
  have "x * 10 powi (27 - adjusted x) = of_int c * 10 powi (27 - adjusted x + e)"
    by (simp add: x power_int_add)
  also have "\<dots> = of_int (c * 10 ^ k)" by (simp add: k)
  finally have "round_half_even (x * 10 powi (27 - adjusted x)) = c * 10 ^ k"
    by (simp only: rhalf_even.rnd_of_int)
  then have "dround x = of_int c * 10 powi int k * 10 powi (- (27 - adjusted x))"
    using False by (simp add: dround_def Let_def)
  also have "\<dots> = of_int c * 10 powi (int k + - (27 - adjusted x))"
    by (simp only: pmul mult.assoc)
  also have "int k + - (27 - adjusted x) = e" using k by simp
  finally show ?thesis by (simp add: x)
qed simp

lemma fits28_dround: "fits28 (dround x)"
proof (cases "x = 0")
  case False
  let ?s = "27 - adjusted x"
  let ?N = "round_half_even (x * 10 powi ?s)"
  have d: "dround x = of_int ?N * 10 powi (- ?s)" using False by (simp add: dround_def Let_def)
  have "\<bar>x\<bar> * 10 powi ?s \<le> 10 powi (adjusted x + 1) * 10 powi ?s"
    using adjusted_bounds(2) [OF False] by (simp add: mult_right_mono less_imp_le)
  then have "\<bar>x * 10 powi ?s\<bar> \<le> of_int (10 ^ 28)"
    by (simp add: abs_mult pmul)
  then have "?N \<le> 10 ^ 28" "- (10 ^ 28) \<le> ?N"
    by (auto simp add: abs_le_iff intro!: rhalf_even.rnd_le rhalf_even.rnd_ge)
  then consider "\<bar>?N\<bar> < 10 ^ 28" | "?N = 10 ^ 28" | "?N = - (10 ^ 28)" by linarith
  then show ?thesis
  proof cases
    case 1
    with d show ?thesis unfolding fits28_def by blast
  next
    case 2
    with d have "dround x = 10 powi 28 * 10 powi (- ?s)" by simp
    then have "dround x = of_int 1 * 10 powi (28 + - ?s)" by (simp only: pmul)
    then show ?thesis unfolding fits28_def by (intro exI [of _ 1] exI) simp
  next
    case 3
    with d have "dround x = - (10 powi 28 * 10 powi (- ?s))" by simp
    then have "dround x = of_int (- 1) * 10 powi (28 + - ?s)" by (simp only: pmul)
    then show ?thesis unfolding fits28_def by (intro exI [of _ "- 1"] exI) simp
  qed
qed simp

lemma dround_idem [simp]: "dround (dround x) = dround x"
  by (rule dround_fits) (rule fits28_dround)

lemma dround_le: "x \<le> y \<Longrightarrow> fits28 y \<Longrightarrow> dround x \<le> y"
  using dround_mono [of x y] by (simp add: dround_fits)

lemma dround_ge: "y \<le> x \<Longrightarrow> fits28 y \<Longrightarrow> y \<le> dround x"
  using dround_mono [of y x] by (simp add: dround_fits)

lemma dround_error: "\<bar>dround x - x\<bar> \<le> \<bar>x\<bar> / (2 * 10 ^ 27)"
proof (cases "x = 0")
  case False
  let ?s = "27 - adjusted x" and ?p = "10 powi (27 - adjusted x) :: rat"
  have p: "0 < ?p" by simp
  have "dround x - x = (of_int (round_half_even (x * ?p)) - x * ?p) * 10 powi (- ?s)"
    using False p by (simp add: dround_def Let_def power_int_minus left_diff_distrib del: minus_diff_eq)
  then have "\<bar>dround x - x\<bar> \<le> 1 / 2 * 10 powi (- ?s)"
    using round_half_even_error [of "x * ?p"] by (simp add: abs_mult mult_right_mono)
  also have "10 powi (- ?s) = 10 powi adjusted x / (10 ^ 27 :: rat)"
    by (simp add: power_int_diff)
  also have "1 / 2 * (10 powi adjusted x / (10 ^ 27 :: rat)) \<le> 1 / 2 * (\<bar>x\<bar> / 10 ^ 27)"
    using adjusted_bounds(1) [OF False] by (simp add: divide_right_mono)
  finally show ?thesis by simp
qed simp

subsection \<open>Operations\<close>

definition dadd :: "dec \<Rightarrow> dec \<Rightarrow> dec" where
  "dadd x y = dround (x + y)"

definition dsub :: "dec \<Rightarrow> dec \<Rightarrow> dec" where
  "dsub x y = dround (x - y)"

definition dmul :: "dec \<Rightarrow> dec \<Rightarrow> dec" where
  "dmul x y = dround (x * y)"

definition dneg :: "dec \<Rightarrow> dec" where
  "dneg x = dround (- x)"

definition dabs :: "dec \<Rightarrow> dec" where
  "dabs x = dround \<bar>x\<bar>"

text \<open>Division by a divisor the code fixes to a nonzero constant, and by any divisor.\<close>

definition dquo :: "dec \<Rightarrow> dec \<Rightarrow> dec" where
  "dquo x y = dround (x / y)"

definition ddiv :: "dec \<Rightarrow> dec \<Rightarrow> dec res" where
  "ddiv x y = (if y = 0 then Inl (if x = 0 then InvalidOperation else DivisionByZero)
               else Inr (dquo x y))"

text \<open>\<^verbatim>\<open>sum(xs, Decimal(0))\<close> adds from the left.\<close>

definition dsum :: "dec list \<Rightarrow> dec" where
  "dsum xs = foldl dadd 0 xs"

text \<open>\<^verbatim>\<open>x.quantize(Decimal("1E-k"), rounding=...)\<close> and \<^verbatim>\<open>x.to_integral_value(rounding=...)\<close>.\<close>

definition quantize :: "(rat \<Rightarrow> int) \<Rightarrow> nat \<Rightarrow> dec \<Rightarrow> dec res" where
  "quantize rnd k x =
     (let n = rnd (x * 10 ^ k) in
      if \<bar>n\<bar> < 10 ^ 28 then Inr (of_int n / 10 ^ k) else Inl InvalidOperation)"

definition to_integral :: "(rat \<Rightarrow> int) \<Rightarrow> dec \<Rightarrow> dec" where
  "to_integral rnd x = of_int (rnd x)"

lemmas dops = dadd_def dsub_def dmul_def dneg_def dabs_def dquo_def

lemma dadd_0 [simp]: "dadd 0 x = dround x" "dadd x 0 = dround x"
  by (simp_all add: dadd_def)

lemma dmul_0 [simp]: "dmul 0 x = 0" "dmul x 0 = 0"
  by (simp_all add: dmul_def)

lemma dsub_self [simp]: "dsub x x = 0"
  by (simp add: dsub_def)

lemma dsub_eq_0_iff [simp]: "dsub x y = 0 \<longleftrightarrow> x = y"
  by (simp add: dsub_def)

lemma dsub_nonneg: "y \<le> x \<Longrightarrow> 0 \<le> dsub x y"
  by (simp add: dsub_def dround_nonneg)

lemma dround_sign_le: "0 \<le> dround x \<longleftrightarrow> 0 \<le> x" "dround x \<le> 0 \<longleftrightarrow> x \<le> 0"
  using dround_nonneg [of x] dround_neg [of x] dround_pos [of x] dround_nonneg [of "- x"]
  by (auto simp: not_le [symmetric] not_less)

lemma dround_sign_less: "0 < dround x \<longleftrightarrow> 0 < x" "dround x < 0 \<longleftrightarrow> x < 0"
  using dround_sign_le [of x] by (simp_all add: not_le [symmetric])

lemmas dround_sign = dround_sign_le dround_sign_less

lemma dadd_nonneg: "0 \<le> x \<Longrightarrow> 0 \<le> y \<Longrightarrow> 0 \<le> dadd x y"
  by (simp add: dadd_def dround_nonneg)

lemma dmul_nonneg: "0 \<le> x \<Longrightarrow> 0 \<le> y \<Longrightarrow> 0 \<le> dmul x y"
  by (simp add: dmul_def dround_nonneg)

lemma dquo_nonneg: "0 \<le> x \<Longrightarrow> 0 \<le> y \<Longrightarrow> 0 \<le> dquo x y"
  by (simp add: dquo_def dround_nonneg)

lemma dabs_nonneg [simp]: "0 \<le> dabs x"
  by (simp add: dabs_def dround_nonneg)

lemma dabs_eq: "dabs x = \<bar>dround x\<bar>"
  by (cases "0 \<le> x") (auto simp: dabs_def dround_sign)

lemma dsum_Nil [simp]: "dsum [] = 0"
  by (simp add: dsum_def)

lemma dsum_snoc: "dsum (xs @ [x]) = dadd (dsum xs) x"
  by (simp add: dsum_def)

lemma dsum_nonneg: "(\<And>x. x \<in> set xs \<Longrightarrow> 0 \<le> x) \<Longrightarrow> 0 \<le> dsum xs"
  by (induction xs rule: rev_induct) (auto simp: dsum_snoc intro: dadd_nonneg)

lemma dsum_single [simp]: "dsum [x] = dround x"
  by (simp add: dsum_def)

lemma ddiv_Inr_iff: "ddiv x y = Inr z \<longleftrightarrow> y \<noteq> 0 \<and> z = dround (x / y)"
  by (auto simp: ddiv_def dquo_def)

context rounding
begin

lemma quantize_Inr_iff:
  "quantize rnd k x = Inr y \<longleftrightarrow>
     \<bar>rnd (x * 10 ^ k)\<bar> < 10 ^ 28 \<and> y = of_int (rnd (x * 10 ^ k)) / 10 ^ k"
  by (auto simp: quantize_def Let_def)

lemma quantize_fits: "quantize rnd k x = Inr y \<Longrightarrow> fits28 y"
  by (auto simp: quantize_Inr_iff intro: fits28_scaled)

lemma quantize_nonneg: "quantize rnd k x = Inr y \<Longrightarrow> 0 \<le> x \<Longrightarrow> 0 \<le> y"
  by (auto simp: quantize_Inr_iff intro!: divide_nonneg_pos rnd_nonneg)

lemma quantize_mono:
  assumes "quantize rnd k x = Inr x'" "quantize rnd k y = Inr y'" "x \<le> y"
  shows "x' \<le> y'"
proof -
  have "rnd (x * 10 ^ k) \<le> rnd (y * 10 ^ k)"
    using assms(3) by (intro rnd_mono mult_right_mono) auto
  with assms(1,2) show ?thesis by (auto simp: quantize_Inr_iff divide_right_mono)
qed

lemma quantize_idem: "quantize rnd k x = Inr y \<Longrightarrow> quantize rnd k y = Inr y"
  by (auto simp: quantize_Inr_iff rnd_of_int)

lemma quantize_near: "quantize rnd k x = Inr y \<Longrightarrow> \<bar>y - x\<bar> < 1 / 10 ^ k"
proof -
  assume "quantize rnd k x = Inr y"
  then have "y - x = (of_int (rnd (x * 10 ^ k)) - x * 10 ^ k) / 10 ^ k"
    by (auto simp: quantize_Inr_iff diff_divide_distrib)
  then have "\<bar>y - x\<bar> = \<bar>of_int (rnd (x * 10 ^ k)) - x * 10 ^ k\<bar> / 10 ^ k"
    by simp
  also have "\<dots> < 1 / 10 ^ k"
    using rnd_near by (intro divide_strict_right_mono) auto
  finally show ?thesis .
qed

lemma quantize_grid:
  assumes "\<bar>n\<bar> < 10 ^ 28"
  shows "quantize rnd k (of_int n / 10 ^ k) = Inr (of_int n / 10 ^ k)"
  using assms by (simp add: quantize_Inr_iff rnd_of_int)

end

subsection \<open>Decimal grids\<close>

text \<open>
  Sums and differences of values with at most \<open>k\<close> decimals are exact while they stay below
  \<open>10 ^ (28 - k)\<close>: the setting of exact accounting.
\<close>

definition on_grid :: "nat \<Rightarrow> dec \<Rightarrow> bool" where
  "on_grid k x \<longleftrightarrow> x * 10 ^ k = of_int \<lfloor>x * 10 ^ k\<rfloor>"

lemma on_gridE:
  assumes "on_grid k x"
  obtains n :: int where "x = of_int n / 10 ^ k"
proof (rule that)
  show "x = of_int \<lfloor>x * 10 ^ k\<rfloor> / 10 ^ k" using assms by (simp add: on_grid_def field_simps)
qed

lemma on_gridI: "x = of_int n / 10 ^ k \<Longrightarrow> on_grid k x"
  by (simp add: on_grid_def)

lemma on_grid_add: "on_grid k x \<Longrightarrow> on_grid k y \<Longrightarrow> on_grid k (x + y)"
  by (elim on_gridE, rule on_gridI [of _ "n + na" for n na]) (simp add: add_divide_distrib)

lemma on_grid_diff: "on_grid k x \<Longrightarrow> on_grid k y \<Longrightarrow> on_grid k (x - y)"
  by (elim on_gridE, rule on_gridI [of _ "n - na" for n na]) (simp add: diff_divide_distrib)

lemma on_grid_mult: "on_grid k x \<Longrightarrow> on_grid l y \<Longrightarrow> on_grid (k + l) (x * y)"
  by (elim on_gridE, rule on_gridI [of _ "n * na" for n na]) (simp add: power_add)

lemma on_grid_of_int [simp]: "on_grid k (of_int n)"
  by (rule on_gridI [of _ "n * 10 ^ k"]) simp

lemma on_grid_weaken: "on_grid k x \<Longrightarrow> k \<le> l \<Longrightarrow> on_grid l x"
  using on_grid_mult [of k x "l - k" "of_int 1"] on_grid_of_int [of "l - k" 1] by simp

lemma quantize_on_grid: "rounding rnd \<Longrightarrow> quantize rnd k x = Inr y \<Longrightarrow> on_grid k y"
  by (auto simp: rounding.quantize_Inr_iff intro: on_gridI)

lemma grid_fits28:
  assumes "on_grid k x" "\<bar>x\<bar> * 10 ^ k < 10 ^ 28"
  shows "fits28 x"
proof -
  obtain n :: int where n: "x = of_int n / 10 ^ k" using assms(1) by (rule on_gridE)
  with assms(2) have "\<bar>of_int n :: rat\<bar> < of_int (10 ^ 28)" by (simp add: abs_divide)
  then have "\<bar>n\<bar> < 10 ^ 28" by (metis of_int_abs of_int_less_iff)
  then show ?thesis unfolding n by (rule fits28_scaled)
qed

lemma dadd_exact: "on_grid k x \<Longrightarrow> on_grid k y \<Longrightarrow> \<bar>x + y\<bar> * 10 ^ k < 10 ^ 28 \<Longrightarrow> dadd x y = x + y"
  unfolding dadd_def by (intro dround_fits grid_fits28 [of k] on_grid_add)

lemma dsub_exact: "on_grid k x \<Longrightarrow> on_grid k y \<Longrightarrow> \<bar>x - y\<bar> * 10 ^ k < 10 ^ 28 \<Longrightarrow> dsub x y = x - y"
  unfolding dsub_def by (intro dround_fits grid_fits28 [of k] on_grid_diff)

lemma dmul_exact:
  "on_grid k x \<Longrightarrow> on_grid l y \<Longrightarrow> \<bar>x * y\<bar> * 10 ^ (k + l) < 10 ^ 28 \<Longrightarrow> dmul x y = x * y"
  unfolding dmul_def by (intro dround_fits grid_fits28 [of "k + l"] on_grid_mult)

subsection \<open>Evaluating concrete amounts\<close>

text \<open>Concrete amounts with at most twelve decimals are evaluated by rewriting.\<close>

lemma dround_grid12:
  "x * 10 ^ 12 = of_int \<lfloor>x * 10 ^ 12\<rfloor> \<Longrightarrow> \<bar>x\<bar> < 10 ^ 16 \<Longrightarrow> dround x = x"
  by (intro dround_fits grid_fits28 [of 12]) (simp_all add: on_grid_def)

lemma floor_ratio:
  "\<lfloor>(numeral a :: rat) / numeral b\<rfloor> = numeral a div numeral b"
  "\<lfloor>1 / (numeral b :: rat)\<rfloor> = 1 div numeral b"
  "\<lfloor>- ((numeral a :: rat) / numeral b)\<rfloor> = (- numeral a) div numeral b"
  "\<lfloor>- (1 / (numeral b :: rat))\<rfloor> = (- 1) div numeral b"
  using floor_divide_of_int_eq [of "numeral a" "numeral b", where 'a = rat]
    floor_divide_of_int_eq [of 1 "numeral b", where 'a = rat]
    floor_divide_of_int_eq [of "- numeral a" "numeral b", where 'a = rat]
    floor_divide_of_int_eq [of "- 1" "numeral b", where 'a = rat]
  by simp_all

lemma ceiling_ratio:
  "\<lceil>(numeral a :: rat) / numeral b\<rceil> = - ((- numeral a) div numeral b)"
  "\<lceil>1 / (numeral b :: rat)\<rceil> = - ((- 1) div numeral b)"
  by (simp_all add: ceiling_def floor_ratio)

lemmas dec_eval = dround_grid12 floor_ratio ceiling_ratio dops ddiv_def quantize_def to_integral_def
  round_half_up_def round_down_def round_ceiling_def round_floor_def Let_def

end
