(* ===== verification/Domain.thy ===== *)
theory Domain
  imports Decimal28
begin

text \<open>
  The value types of \<^verbatim>\<open>domain.py\<close>. A frozen pydantic model is a record; constructing one runs the
  field constraints, then the field validators, then the model validator, and a refusal is a
  \<open>ValidationError\<close> carrying the field's name (pydantic reports every failing field, the model the
  first). Timestamps are instants: \<open>MarketBar\<close> converts to UTC, and every other model compares
  aware datetimes only.
\<close>

datatype side = BUY | SELL

datatype order_type = MARKET | LIMIT

datatype order_status = FILLED | REJECTED

definition require_gt0 :: "string \<Rightarrow> dec \<Rightarrow> unit res" where
  "require_gt0 f x = check (0 < x) (ValidationError f)"

definition require_ge0 :: "string \<Rightarrow> dec \<Rightarrow> unit res" where
  "require_ge0 f x = check (0 \<le> x) (ValidationError f)"

definition require_length :: "string \<Rightarrow> nat \<Rightarrow> nat \<Rightarrow> string \<Rightarrow> unit res" where
  "require_length f lo hi s = check (lo \<le> length s \<and> length s \<le> hi) (ValidationError f)"

lemma require_simps [simp]:
  "require_gt0 f x = Inr u \<longleftrightarrow> 0 < x"
  "require_ge0 f x = Inr u \<longleftrightarrow> 0 \<le> x"
  "require_length f lo hi s = Inr u \<longleftrightarrow> lo \<le> length s \<and> length s \<le> hi"
  by (simp_all add: require_gt0_def require_ge0_def require_length_def)

subsection \<open>Bars\<close>

record market_bar =
  bar_symbol :: string
  bar_time :: instant
  bar_open :: dec
  bar_high :: dec
  bar_low :: dec
  bar_close :: dec
  bar_volume :: dec

definition mk_market_bar ::
  "string \<Rightarrow> pydatetime \<Rightarrow> dec \<Rightarrow> dec \<Rightarrow> dec \<Rightarrow> dec \<Rightarrow> dec \<Rightarrow> market_bar res" where
  "mk_market_bar sy ts op hi lo cl vol =
     bind_res (require_length ''symbol'' 1 32 sy) (\<lambda>_.
     bind_res (check (aware ts) (ValidationError ''timestamp must be timezone-aware'')) (\<lambda>_.
     bind_res (require_gt0 ''open'' op) (\<lambda>_.
     bind_res (require_gt0 ''high'' hi) (\<lambda>_.
     bind_res (require_gt0 ''low'' lo) (\<lambda>_.
     bind_res (require_gt0 ''close'' cl) (\<lambda>_.
     bind_res (require_ge0 ''volume'' vol) (\<lambda>_.
     bind_res (check (\<not> (hi < max op cl \<or> lo > min op cl))
                (ValidationError ''OHLC values are inconsistent'')) (\<lambda>_.
     bind_res (check (\<not> lo > hi) (ValidationError ''low cannot exceed high'')) (\<lambda>_.
     Inr \<lparr>bar_symbol = normalize_symbol sy, bar_time = to_utc ts, bar_open = op, bar_high = hi,
          bar_low = lo, bar_close = cl, bar_volume = vol\<rparr>)))))))))"

definition bar_ok :: "market_bar \<Rightarrow> bool" where
  "bar_ok b \<longleftrightarrow> 0 < bar_open b \<and> 0 < bar_high b \<and> 0 < bar_low b \<and> 0 < bar_close b \<and> 0 \<le> bar_volume b
     \<and> bar_low b \<le> min (bar_open b) (bar_close b) \<and> max (bar_open b) (bar_close b) \<le> bar_high b
     \<and> normalize_symbol (bar_symbol b) = bar_symbol b"

lemma mk_market_bar_ok: "mk_market_bar sy ts op hi lo cl vol = Inr b \<Longrightarrow> bar_ok b"
  by (auto simp: mk_market_bar_def bar_ok_def)

lemma mk_market_bar_time:
  "mk_market_bar sy ts op hi lo cl vol = Inr b \<Longrightarrow> bar_time b = to_utc ts \<and> offset ts \<noteq> None"
  by (auto simp: mk_market_bar_def aware_def)

text \<open>The validator's second test is implied by its first: it refuses nothing more.\<close>

lemma mk_market_bar_accepts:
  assumes "bar_ok b" "1 \<le> length (bar_symbol b)" "length (bar_symbol b) \<le> 32"
  shows "mk_market_bar (bar_symbol b) \<lparr>wall = bar_time b, offset = Some 0\<rparr> (bar_open b) (bar_high b)
           (bar_low b) (bar_close b) (bar_volume b) = Inr b"
  using assms by (auto simp: mk_market_bar_def bar_ok_def aware_def to_utc_def)

subsection \<open>Intents and orders\<close>

record trade_intent =
  ti_strategy :: string
  ti_symbol :: string
  ti_weight :: dec
  ti_generated_at :: instant
  ti_rationale :: string

definition mk_trade_intent ::
  "string \<Rightarrow> string \<Rightarrow> dec \<Rightarrow> instant \<Rightarrow> string \<Rightarrow> trade_intent res" where
  "mk_trade_intent strat sy w t why =
     bind_res (check (1 \<le> length strat) (ValidationError ''strategy_id'')) (\<lambda>_.
     bind_res (require_length ''symbol'' 1 32 sy) (\<lambda>_.
     bind_res (check (0 \<le> w \<and> w \<le> 1) (ValidationError ''target_weight'')) (\<lambda>_.
     bind_res (require_length ''rationale'' 1 500 why) (\<lambda>_.
     Inr \<lparr>ti_strategy = strat, ti_symbol = normalize_symbol sy, ti_weight = w,
          ti_generated_at = t, ti_rationale = why\<rparr>))))"

record order_request =
  or_client_id :: string
  or_decision :: string
  or_strategy :: string
  or_symbol :: string
  or_side :: side
  or_quantity :: dec
  or_type :: order_type
  or_submitted_at :: instant

definition mk_order_request ::
  "string \<Rightarrow> string \<Rightarrow> string \<Rightarrow> string \<Rightarrow> side \<Rightarrow> dec \<Rightarrow> order_type \<Rightarrow> instant \<Rightarrow> order_request res" where
  "mk_order_request cid did strat sy sd q ty t =
     bind_res (require_length ''client_order_id'' 1 128 cid) (\<lambda>_.
     bind_res (require_length ''decision_id'' 1 64 did) (\<lambda>_.
     bind_res (check (1 \<le> length strat) (ValidationError ''strategy_id'')) (\<lambda>_.
     bind_res (require_length ''symbol'' 1 32 sy) (\<lambda>_.
     bind_res (require_gt0 ''quantity'' q) (\<lambda>_.
     Inr \<lparr>or_client_id = cid, or_decision = did, or_strategy = strat, or_symbol = normalize_symbol sy,
          or_side = sd, or_quantity = q, or_type = ty, or_submitted_at = t\<rparr>)))))"

lemma mk_order_request_Inr:
  "mk_order_request cid did strat sy sd q ty t = Inr r \<Longrightarrow>
     0 < or_quantity r \<and> or_quantity r = q \<and> or_side r = sd \<and> or_type r = ty
     \<and> or_symbol r = normalize_symbol sy \<and> or_client_id r = cid \<and> or_decision r = did
     \<and> or_strategy r = strat \<and> or_submitted_at r = t"
  by (auto simp: mk_order_request_def)

text \<open>The signed quantity the risk gate and the order manager compute from an order.\<close>

definition signed_quantity :: "order_request \<Rightarrow> dec" where
  "signed_quantity r = (if or_side r = BUY then or_quantity r else dneg (or_quantity r))"

subsection \<open>Fills, positions, account snapshots\<close>

record fill =
  fl_id :: string
  fl_client_id :: string
  fl_symbol :: string
  fl_side :: side
  fl_quantity :: dec
  fl_price :: dec
  fl_commission :: dec
  fl_at :: instant

definition mk_fill ::
  "string \<Rightarrow> string \<Rightarrow> string \<Rightarrow> side \<Rightarrow> dec \<Rightarrow> dec \<Rightarrow> dec \<Rightarrow> instant \<Rightarrow> fill res" where
  "mk_fill fid cid sy sd q p c t =
     bind_res (require_gt0 ''quantity'' q) (\<lambda>_.
     bind_res (require_gt0 ''price'' p) (\<lambda>_.
     bind_res (require_ge0 ''commission'' c) (\<lambda>_.
     Inr \<lparr>fl_id = fid, fl_client_id = cid, fl_symbol = sy, fl_side = sd, fl_quantity = q,
          fl_price = p, fl_commission = c, fl_at = t\<rparr>)))"

definition fill_notional :: "fill \<Rightarrow> dec" where
  "fill_notional f = dmul (fl_quantity f) (fl_price f)"

record position =
  ps_symbol :: string
  ps_quantity :: dec
  ps_average_price :: dec
  ps_market_price :: dec
  ps_realized_pnl :: dec

definition mk_position :: "string \<Rightarrow> dec \<Rightarrow> dec \<Rightarrow> dec \<Rightarrow> dec \<Rightarrow> position res" where
  "mk_position sy q ap mp pnl =
     bind_res (require_ge0 ''average_price'' ap) (\<lambda>_.
     bind_res (require_gt0 ''market_price'' mp) (\<lambda>_.
     Inr \<lparr>ps_symbol = sy, ps_quantity = q, ps_average_price = ap, ps_market_price = mp,
          ps_realized_pnl = pnl\<rparr>))"

definition market_value :: "position \<Rightarrow> dec" where
  "market_value p = dmul (ps_quantity p) (ps_market_price p)"

definition unrealized_pnl :: "position \<Rightarrow> dec" where
  "unrealized_pnl p = dmul (ps_quantity p) (dsub (ps_market_price p) (ps_average_price p))"

record account_snapshot =
  ac_as_of :: instant
  ac_cash :: dec
  ac_equity :: dec
  ac_day_start_equity :: dec
  ac_high_watermark :: dec
  ac_positions :: "position list"

definition mk_account_snapshot ::
  "instant \<Rightarrow> dec \<Rightarrow> dec \<Rightarrow> dec \<Rightarrow> dec \<Rightarrow> position list \<Rightarrow> account_snapshot res" where
  "mk_account_snapshot t c e d h ps =
     bind_res (require_gt0 ''equity'' e) (\<lambda>_.
     bind_res (require_gt0 ''day_start_equity'' d) (\<lambda>_.
     bind_res (require_gt0 ''high_watermark'' h) (\<lambda>_.
     Inr \<lparr>ac_as_of = t, ac_cash = c, ac_equity = e, ac_day_start_equity = d, ac_high_watermark = h,
          ac_positions = ps\<rparr>)))"

definition position_for :: "account_snapshot \<Rightarrow> string \<Rightarrow> position option" where
  "position_for a sy = find (\<lambda>p. ps_symbol p = normalize_symbol sy) (ac_positions a)"

definition quantity_for :: "account_snapshot \<Rightarrow> string \<Rightarrow> dec" where
  "quantity_for a sy = (case position_for a sy of None \<Rightarrow> 0 | Some p \<Rightarrow> ps_quantity p)"

definition gross_exposure :: "account_snapshot \<Rightarrow> dec" where
  "gross_exposure a = dsum (map (\<lambda>p. dabs (market_value p)) (ac_positions a))"

definition daily_return :: "account_snapshot \<Rightarrow> dec res" where
  "daily_return a = bind_res (ddiv (ac_equity a) (ac_day_start_equity a)) (\<lambda>r. Inr (dsub r 1))"

definition drawdown :: "account_snapshot \<Rightarrow> dec res" where
  "drawdown a = bind_res (ddiv (ac_equity a) (ac_high_watermark a)) (\<lambda>r. Inr (dsub r 1))"

definition snapshot_ok :: "account_snapshot \<Rightarrow> bool" where
  "snapshot_ok a \<longleftrightarrow> 0 < ac_equity a \<and> 0 < ac_day_start_equity a \<and> 0 < ac_high_watermark a"

lemma mk_account_snapshot_Inr:
  "mk_account_snapshot t c e d h ps = Inr a \<longleftrightarrow>
     0 < e \<and> 0 < d \<and> 0 < h \<and>
     a = \<lparr>ac_as_of = t, ac_cash = c, ac_equity = e, ac_day_start_equity = d,
          ac_high_watermark = h, ac_positions = ps\<rparr>"
  by (auto simp: mk_account_snapshot_def)

lemma mk_account_snapshot_ok: "mk_account_snapshot t c e d h ps = Inr a \<Longrightarrow> snapshot_ok a"
  by (auto simp: mk_account_snapshot_Inr snapshot_ok_def)

text \<open>Once a snapshot exists its two ratios never divide by zero.\<close>

lemma snapshot_ratios:
  assumes "snapshot_ok a"
  shows "daily_return a = Inr (dsub (dquo (ac_equity a) (ac_day_start_equity a)) 1)"
    and "drawdown a = Inr (dsub (dquo (ac_equity a) (ac_high_watermark a)) 1)"
  using assms by (simp_all add: daily_return_def drawdown_def ddiv_def snapshot_ok_def)

subsection \<open>Decisions and steps\<close>

record risk_decision =
  rd_approved :: bool
  rd_codes :: "string list"
  rd_message :: string
  rd_projected_gross :: dec

record engine_step =
  es_time :: instant
  es_symbol :: string
  es_intent :: "trade_intent option"
  es_order :: "order_request option"
  es_risk :: "risk_decision option"
  es_fill :: "fill option"
  es_equity :: dec

record paper_position_state =
  pp_symbol :: string
  pp_quantity :: dec
  pp_average_price :: dec
  pp_realized_pnl :: dec
  pp_entry_commission :: dec

definition mk_paper_position_state ::
  "string \<Rightarrow> dec \<Rightarrow> dec \<Rightarrow> dec \<Rightarrow> dec \<Rightarrow> paper_position_state res" where
  "mk_paper_position_state sy q ap pnl ec =
     bind_res (require_ge0 ''average_price'' ap) (\<lambda>_.
     bind_res (require_ge0 ''entry_commission'' ec) (\<lambda>_.
     Inr \<lparr>pp_symbol = sy, pp_quantity = q, pp_average_price = ap, pp_realized_pnl = pnl,
          pp_entry_commission = ec\<rparr>))"

record paper_broker_state =
  pb_cash :: dec
  pb_positions :: "paper_position_state list"
  pb_marks :: "(string, dec) dict"
  pb_fills :: "fill list"
  pb_session_date :: "day option"
  pb_day_start_equity :: dec
  pb_high_watermark :: dec

definition mk_paper_broker_state ::
  "dec \<Rightarrow> paper_position_state list \<Rightarrow> (string, dec) dict \<Rightarrow> fill list \<Rightarrow> day option \<Rightarrow> dec \<Rightarrow> dec
     \<Rightarrow> paper_broker_state res" where
  "mk_paper_broker_state c ps ms fs sd d h =
     bind_res (require_gt0 ''day_start_equity'' d) (\<lambda>_.
     bind_res (require_gt0 ''high_watermark'' h) (\<lambda>_.
     Inr \<lparr>pb_cash = c, pb_positions = ps, pb_marks = ms, pb_fills = fs, pb_session_date = sd,
          pb_day_start_equity = d, pb_high_watermark = h\<rparr>))"

end
