(* ===== verification/Config.thy ===== *)
theory Config
  imports Domain
begin

text \<open>
  The configuration models of \<^verbatim>\<open>config.py\<close>: each as a record, its construction as the field
  constraints followed by the model validator. A \<^verbatim>\<open>time\<close> of the day is its number of microseconds
  since midnight.
\<close>

definition in_range :: "string \<Rightarrow> bool \<Rightarrow> unit res" where
  "in_range f b = check b (ValidationError f)"

lemma in_range_Inr [simp]: "in_range f b = Inr u \<longleftrightarrow> b"
  by (simp add: in_range_def)

record risk_limits =
  max_gross_exposure :: dec
  max_position_exposure :: dec
  max_order_exposure :: dec
  max_positions :: int
  max_daily_loss :: dec
  max_drawdown :: dec
  max_orders_per_hour :: int
  max_data_age_seconds :: int
  max_participation :: dec
  allow_shorting :: bool
  allow_leverage :: bool

definition default_risk_limits :: risk_limits where
  "default_risk_limits = \<lparr>max_gross_exposure = 1/2, max_position_exposure = 1/20,
     max_order_exposure = 1/50, max_positions = 10, max_daily_loss = 1/100, max_drawdown = 15/1000,
     max_orders_per_hour = 20, max_data_age_seconds = 120, max_participation = 1/100,
     allow_shorting = False, allow_leverage = False\<rparr>"

definition mk_risk_limits :: "risk_limits \<Rightarrow> risk_limits res" where
  "mk_risk_limits l =
     bind_res (in_range ''max_gross_exposure'' (0 < max_gross_exposure l \<and> max_gross_exposure l \<le> 1)) (\<lambda>_.
     bind_res (in_range ''max_position_exposure'' (0 < max_position_exposure l \<and> max_position_exposure l \<le> 1)) (\<lambda>_.
     bind_res (in_range ''max_order_exposure'' (0 < max_order_exposure l \<and> max_order_exposure l \<le> 1)) (\<lambda>_.
     bind_res (in_range ''max_positions'' (0 < max_positions l)) (\<lambda>_.
     bind_res (in_range ''max_daily_loss'' (0 < max_daily_loss l \<and> max_daily_loss l < 1)) (\<lambda>_.
     bind_res (in_range ''max_drawdown'' (0 < max_drawdown l \<and> max_drawdown l < 1)) (\<lambda>_.
     bind_res (in_range ''max_orders_per_hour'' (0 < max_orders_per_hour l)) (\<lambda>_.
     bind_res (in_range ''max_data_age_seconds'' (0 < max_data_age_seconds l)) (\<lambda>_.
     bind_res (in_range ''max_volume_participation'' (0 < max_participation l \<and> max_participation l \<le> 1)) (\<lambda>_.
     bind_res (check (\<not> max_order_exposure l > max_position_exposure l)
       (ValidationError ''max_order_exposure cannot exceed max_position_exposure'')) (\<lambda>_.
     bind_res (check (\<not> max_position_exposure l > max_gross_exposure l)
       (ValidationError ''max_position_exposure cannot exceed max_gross_exposure'')) (\<lambda>_.
     Inr l)))))))))))"

definition limits_ok :: "risk_limits \<Rightarrow> bool" where
  "limits_ok l \<longleftrightarrow> mk_risk_limits l = Inr l"

lemma limits_ok_iff:
  "limits_ok l \<longleftrightarrow>
     0 < max_order_exposure l \<and> max_order_exposure l \<le> max_position_exposure l
     \<and> max_position_exposure l \<le> max_gross_exposure l \<and> max_gross_exposure l \<le> 1
     \<and> 0 < max_positions l \<and> 0 < max_daily_loss l \<and> max_daily_loss l < 1
     \<and> 0 < max_drawdown l \<and> max_drawdown l < 1 \<and> 0 < max_orders_per_hour l
     \<and> 0 < max_data_age_seconds l \<and> 0 < max_participation l \<and> max_participation l \<le> 1"
  unfolding limits_ok_def mk_risk_limits_def by auto

lemma default_limits_ok: "limits_ok default_risk_limits"
  by (simp add: limits_ok_iff default_risk_limits_def)

record broker_config =
  starting_cash :: dec
  slippage_bps :: dec
  spread_bps :: dec
  commission_bps :: dec
  bk_participation :: dec

definition default_broker_config :: broker_config where
  "default_broker_config = \<lparr>starting_cash = 100000, slippage_bps = 2, spread_bps = 1,
     commission_bps = 1, bk_participation = 1/100\<rparr>"

definition mk_broker_config :: "broker_config \<Rightarrow> broker_config res" where
  "mk_broker_config c =
     bind_res (in_range ''starting_cash'' (0 < starting_cash c)) (\<lambda>_.
     bind_res (in_range ''slippage_bps'' (0 \<le> slippage_bps c \<and> slippage_bps c \<le> 100)) (\<lambda>_.
     bind_res (in_range ''spread_bps'' (0 \<le> spread_bps c \<and> spread_bps c \<le> 100)) (\<lambda>_.
     bind_res (in_range ''commission_bps'' (0 \<le> commission_bps c \<and> commission_bps c \<le> 100)) (\<lambda>_.
     bind_res (in_range ''max_volume_participation'' (0 < bk_participation c \<and> bk_participation c \<le> 1)) (\<lambda>_.
     Inr c)))))"

definition broker_config_ok :: "broker_config \<Rightarrow> bool" where
  "broker_config_ok c \<longleftrightarrow> mk_broker_config c = Inr c"

lemma broker_config_ok_iff:
  "broker_config_ok c \<longleftrightarrow> 0 < starting_cash c \<and> 0 \<le> slippage_bps c \<and> slippage_bps c \<le> 100
     \<and> 0 \<le> spread_bps c \<and> spread_bps c \<le> 100 \<and> 0 \<le> commission_bps c \<and> commission_bps c \<le> 100
     \<and> 0 < bk_participation c \<and> bk_participation c \<le> 1"
  unfolding broker_config_ok_def mk_broker_config_def by auto

record strategy_config =
  sc_strategy_id :: string
  fast_window :: int
  slow_window :: int
  volatility_window :: int
  target_annual_volatility :: dec
  mean_reversion_window :: int
  mean_reversion_entry_z :: dec
  mean_reversion_exit_z :: dec
  execution_delay_bars :: int
  sc_target_weight :: dec

definition mk_strategy_config :: "strategy_config \<Rightarrow> strategy_config res" where
  "mk_strategy_config c =
     bind_res (in_range ''fast_window'' (2 \<le> fast_window c)) (\<lambda>_.
     bind_res (in_range ''slow_window'' (3 \<le> slow_window c)) (\<lambda>_.
     bind_res (in_range ''volatility_window'' (2 \<le> volatility_window c)) (\<lambda>_.
     bind_res (in_range ''target_annual_volatility'' (0 < target_annual_volatility c \<and> target_annual_volatility c \<le> 1)) (\<lambda>_.
     bind_res (in_range ''mean_reversion_window'' (3 \<le> mean_reversion_window c)) (\<lambda>_.
     bind_res (in_range ''mean_reversion_entry_z'' (mean_reversion_entry_z c < 0)) (\<lambda>_.
     bind_res (in_range ''mean_reversion_exit_z'' (mean_reversion_exit_z c \<le> 0)) (\<lambda>_.
     bind_res (in_range ''execution_delay_bars'' (0 \<le> execution_delay_bars c \<and> execution_delay_bars c \<le> 10)) (\<lambda>_.
     bind_res (in_range ''target_weight'' (0 < sc_target_weight c \<and> sc_target_weight c \<le> 1)) (\<lambda>_.
     bind_res (check (\<not> fast_window c \<ge> slow_window c)
       (ValidationError ''fast_window must be less than slow_window'')) (\<lambda>_.
     bind_res (check (\<not> mean_reversion_entry_z c \<ge> mean_reversion_exit_z c)
       (ValidationError ''mean_reversion_entry_z must be below mean_reversion_exit_z'')) (\<lambda>_.
     Inr c)))))))))))"

record intraday_config =
  intraday_enabled :: bool
  primary_bar_minutes :: int
  context_bar_minutes :: int
  entry_start :: int
  no_new_entries_after :: int
  flatten_start :: int
  hard_flatten_deadline :: int
  regular_session_close :: int
  minimum_order_notional :: dec
  maximum_order_notional :: dec
  maximum_position_exposure :: dec
  maximum_gross_exposure :: dec
  maximum_positions :: int
  maximum_round_trips_per_day :: int
  symbol_cooldown_minutes :: int
  minimum_expected_edge_bps :: dec
  quote_max_age_seconds :: int
  bar_max_age_seconds :: int
  reconciliation_interval_seconds :: int
  heartbeat_max_age_seconds :: int

definition default_intraday_config :: intraday_config where
  "default_intraday_config = \<lparr>intraday_enabled = False, primary_bar_minutes = 5,
     context_bar_minutes = 15, entry_start = hours 9 + minutes 35,
     no_new_entries_after = hours 15 + minutes 30, flatten_start = hours 15 + minutes 50,
     hard_flatten_deadline = hours 15 + minutes 55, regular_session_close = hours 16,
     minimum_order_notional = 10, maximum_order_notional = 25,
     maximum_position_exposure = 5/1000, maximum_gross_exposure = 1/100, maximum_positions = 2,
     maximum_round_trips_per_day = 2, symbol_cooldown_minutes = 30,
     minimum_expected_edge_bps = 15, quote_max_age_seconds = 10, bar_max_age_seconds = 90,
     reconciliation_interval_seconds = 60, heartbeat_max_age_seconds = 60\<rparr>"

definition session_schedule :: "intraday_config \<Rightarrow> int list" where
  "session_schedule c = [entry_start c, no_new_entries_after c, flatten_start c,
     hard_flatten_deadline c, regular_session_close c]"

definition validate_intraday :: "intraday_config \<Rightarrow> intraday_config res" where
  "validate_intraday c =
     bind_res (check (context_bar_minutes c mod primary_bar_minutes c = 0)
       (ValidationError ''context_bar_minutes must be a multiple of primary_bar_minutes'')) (\<lambda>_.
     bind_res (check (\<not> (sort (session_schedule c) \<noteq> session_schedule c
           \<or> card (set (session_schedule c)) \<noteq> length (session_schedule c)))
       (ValidationError ''intraday session times must be strictly increasing'')) (\<lambda>_.
     bind_res (check (\<not> minimum_order_notional c > maximum_order_notional c)
       (ValidationError ''minimum_order_notional cannot exceed maximum_order_notional'')) (\<lambda>_.
     bind_res (check (\<not> maximum_position_exposure c > maximum_gross_exposure c)
       (ValidationError ''maximum_position_exposure cannot exceed maximum_gross_exposure'')) (\<lambda>_.
     Inr c))))"

definition mk_intraday_config :: "intraday_config \<Rightarrow> intraday_config res" where
  "mk_intraday_config c =
     bind_res (in_range ''primary_bar_minutes'' (0 < primary_bar_minutes c \<and> primary_bar_minutes c \<le> 60)) (\<lambda>_.
     bind_res (in_range ''context_bar_minutes'' (0 < context_bar_minutes c \<and> context_bar_minutes c \<le> 60)) (\<lambda>_.
     bind_res (in_range ''minimum_order_notional'' (0 < minimum_order_notional c)) (\<lambda>_.
     bind_res (in_range ''maximum_order_notional'' (0 < maximum_order_notional c)) (\<lambda>_.
     bind_res (in_range ''maximum_position_exposure'' (0 < maximum_position_exposure c \<and> maximum_position_exposure c \<le> 1)) (\<lambda>_.
     bind_res (in_range ''maximum_gross_exposure'' (0 < maximum_gross_exposure c \<and> maximum_gross_exposure c \<le> 1)) (\<lambda>_.
     bind_res (in_range ''maximum_positions'' (0 < maximum_positions c)) (\<lambda>_.
     bind_res (in_range ''maximum_round_trips_per_day'' (0 < maximum_round_trips_per_day c)) (\<lambda>_.
     bind_res (in_range ''symbol_cooldown_minutes'' (0 \<le> symbol_cooldown_minutes c)) (\<lambda>_.
     bind_res (in_range ''minimum_expected_edge_bps'' (0 < minimum_expected_edge_bps c)) (\<lambda>_.
     bind_res (in_range ''quote_max_age_seconds'' (0 < quote_max_age_seconds c)) (\<lambda>_.
     bind_res (in_range ''bar_max_age_seconds'' (0 < bar_max_age_seconds c)) (\<lambda>_.
     bind_res (in_range ''reconciliation_interval_seconds'' (0 < reconciliation_interval_seconds c)) (\<lambda>_.
     bind_res (in_range ''heartbeat_max_age_seconds'' (0 < heartbeat_max_age_seconds c)) (\<lambda>_.
     validate_intraday c))))))))))))))"

lemma sort_eq_self_iff: "sort xs = xs \<longleftrightarrow> sorted xs"
  by (metis sorted_sort sorted_sort_id)

lemma validate_intraday_schedule:
  "validate_intraday c = Inr c' \<Longrightarrow> sorted_wrt (<) (session_schedule c)"
  by (auto simp: validate_intraday_def sort_eq_self_iff card_distinct strict_sorted_iff)

lemma mk_intraday_config_schedule:
  "mk_intraday_config c = Inr c' \<Longrightarrow>
     c' = c \<and> entry_start c < no_new_entries_after c \<and> no_new_entries_after c < flatten_start c
     \<and> flatten_start c < hard_flatten_deadline c \<and> hard_flatten_deadline c < regular_session_close c"
  using validate_intraday_schedule [of c c']
  by (auto simp: mk_intraday_config_def session_schedule_def validate_intraday_def)

lemma default_intraday_ok: "mk_intraday_config default_intraday_config = Inr default_intraday_config"
  by (simp add: mk_intraday_config_def in_range_def validate_intraday_def session_schedule_def
      default_intraday_config_def durations)

record app_config =
  trading_enabled :: bool
  cfg_risk :: risk_limits
  cfg_broker :: broker_config
  cfg_strategy :: strategy_config
  cfg_intraday :: intraday_config

definition strategy_fits_risk :: "app_config \<Rightarrow> app_config res" where
  "strategy_fits_risk a =
     bind_res (check (\<not> sc_target_weight (cfg_strategy a) > max_order_exposure (cfg_risk a))
       (ValidationError ''strategy target_weight cannot exceed max_order_exposure'')) (\<lambda>_.
     bind_res (check (\<not> maximum_position_exposure (cfg_intraday a) > max_position_exposure (cfg_risk a))
       (ValidationError ''intraday position exposure cannot exceed hard risk limit'')) (\<lambda>_.
     bind_res (check (\<not> maximum_gross_exposure (cfg_intraday a) > max_gross_exposure (cfg_risk a))
       (ValidationError ''intraday gross exposure cannot exceed hard risk limit'')) (\<lambda>_.
     bind_res (check (\<not> maximum_positions (cfg_intraday a) > max_positions (cfg_risk a))
       (ValidationError ''intraday maximum positions cannot exceed hard risk limit'')) (\<lambda>_.
     Inr a))))"

definition mk_app_config :: "app_config \<Rightarrow> app_config res" where
  "mk_app_config a =
     bind_res (mk_risk_limits (cfg_risk a)) (\<lambda>_.
     bind_res (mk_broker_config (cfg_broker a)) (\<lambda>_.
     bind_res (mk_strategy_config (cfg_strategy a)) (\<lambda>_.
     bind_res (mk_intraday_config (cfg_intraday a)) (\<lambda>_.
     strategy_fits_risk a))))"

end
