(* ===== verification/Strategy.thy ===== *)
theory Strategy
  imports Config
begin

text \<open>
  \<^verbatim>\<open>strategy.py\<close>: the strategies that turn bars into target weights. A strategy is its state and
  \<^verbatim>\<open>on_bar\<close>, a method that may raise (an intent is validated when it is built). A bounded deque is a
  list kept to its last entries; a \<^verbatim>\<open>defaultdict\<close> is an association list read with a default. The
  figures that go through binary floats (a volatility, a z-score) and the text a Decimal prints as are
  parameters.
\<close>

definition push :: "nat \<Rightarrow> 'a list \<Rightarrow> 'a \<Rightarrow> 'a list" where
  "push n xs x = drop (Suc (length xs) - n) (xs @ [x])"

definition last_n :: "nat \<Rightarrow> 'a list \<Rightarrow> 'a list" where
  "last_n n xs = drop (length xs - n) xs"

lemma push_last_n: "push n (last_n n xs) x = last_n n (xs @ [x])"
  by (cases "length xs \<le> n") (auto simp: push_def last_n_def Suc_diff_le not_le)

lemma length_last_n [simp]: "length (last_n n xs) = min n (length xs)"
  by (simp add: last_n_def)

lemma last_n_last_n: "m \<le> n \<Longrightarrow> last_n m (last_n n xs) = last_n m xs"
proof (cases "n \<le> length xs")
  case True
  assume "m \<le> n"
  with True have "n - m + (length xs - n) = length xs - m" "length xs - (length xs - n) = n" by simp_all
  then show ?thesis by (simp add: last_n_def)
qed (simp add: last_n_def)

definition average_of :: "int \<Rightarrow> dec list \<Rightarrow> dec res" where
  "average_of w xs = ddiv (dsum (last_n (nat w) xs)) (of_int w)"

type_synonym history = "(string, dec list) dict"

definition remember :: "nat \<Rightarrow> market_bar \<Rightarrow> history \<Rightarrow> history" where
  "remember n bar h = AList.update (bar_symbol bar) (push n (dget h (bar_symbol bar) []) (bar_close bar)) h"

subsection \<open>The crossover baseline\<close>

definition sma_weight :: "strategy_config \<Rightarrow> dec list \<Rightarrow> dec res" where
  "sma_weight c values =
     bind_res (average_of (fast_window c) values) (\<lambda>fast.
     bind_res (ddiv (dsum values) (of_int (slow_window c))) (\<lambda>slow.
     Inr (if fast > slow then sc_target_weight c else 0)))"

definition sma_on_bar :: "strategy_config \<Rightarrow> market_bar \<Rightarrow> (history, trade_intent option) routine" where
  "sma_on_bar c bar h =
     (let h' = remember (nat (slow_window c)) bar h;
          values = dget h' (bar_symbol bar) []
      in if int (length values) < slow_window c then (Inr None, h')
         else (bind_res (sma_weight c values) (\<lambda>w.
               bind_res (mk_trade_intent (sc_strategy_id c) (bar_symbol bar) w (bar_time bar)
                 (''fast SMA is '' @ (if w > 0 then ''above'' else ''at-or-below'') @ '' slow SMA'')) (\<lambda>i.
               Inr (Some i))), h'))"

subsection \<open>The constant weight\<close>

definition mk_constant_weight :: "string \<Rightarrow> dec \<Rightarrow> (string \<times> dec) res" where
  "mk_constant_weight sid w =
     bind_res (check (0 \<le> w \<and> w \<le> 1) (ValueError ''target_weight must be between zero and one'')) (\<lambda>_. Inr (sid, w))"

definition constant_on_bar ::
  "(dec \<Rightarrow> string) \<Rightarrow> market_bar \<Rightarrow> (string \<times> dec, trade_intent option) routine" where
  "constant_on_bar show_dec bar s =
     (bind_res (mk_trade_intent (fst s) (bar_symbol bar) (snd s) (bar_time bar)
        (''constant target weight '' @ show_dec (snd s))) (\<lambda>i. Inr (Some i)), s)"

subsection \<open>The volatility target\<close>

definition vol_history :: "strategy_config \<Rightarrow> int" where
  "vol_history c = max (slow_window c) (volatility_window c + 1)"

definition vol_scale :: "strategy_config \<Rightarrow> dec \<Rightarrow> dec res" where
  "vol_scale c v =
     bind_res (ddiv (target_annual_volatility c) (max v (1 / 1000000))) (\<lambda>r. Inr (min 1 r))"

definition vol_weight :: "(dec list \<Rightarrow> dec) \<Rightarrow> strategy_config \<Rightarrow> dec list \<Rightarrow> dec res" where
  "vol_weight vol c values =
     bind_res (average_of (fast_window c) values) (\<lambda>fast.
     bind_res (average_of (slow_window c) values) (\<lambda>slow.
     if fast \<le> slow then Inr 0
     else bind_res (vol_scale c (vol (last_n (nat (volatility_window c + 1)) values))) (\<lambda>sc.
          Inr (dmul (sc_target_weight c) sc))))"

definition vol_on_bar ::
  "(dec list \<Rightarrow> dec) \<Rightarrow> (dec list \<Rightarrow> string) \<Rightarrow> strategy_config \<Rightarrow> market_bar \<Rightarrow> (history, trade_intent option) routine" where
  "vol_on_bar vol why c bar h =
     (let h' = remember (nat (vol_history c)) bar h;
          values = dget h' (bar_symbol bar) []
      in if int (length values) < vol_history c then (Inr None, h')
         else (bind_res (vol_weight vol c values) (\<lambda>w.
               bind_res (mk_trade_intent ''volatility-target-trend-v1'' (bar_symbol bar) w (bar_time bar) (why values)) (\<lambda>i.
               Inr (Some i))), h'))"

subsection \<open>The delay\<close>

record 's delayed =
  dl_inner :: 's
  dl_bars :: nat
  dl_pending :: "trade_intent option list"

definition mk_delayed :: "'s \<Rightarrow> int \<Rightarrow> 's delayed res" where
  "mk_delayed s d =
     bind_res (check (\<not> d < 0) (ValueError ''delay_bars cannot be negative'')) (\<lambda>_.
     Inr \<lparr>dl_inner = s, dl_bars = nat d, dl_pending = []\<rparr>)"

definition re_dated :: "nat \<Rightarrow> market_bar \<Rightarrow> trade_intent \<Rightarrow> trade_intent" where
  "re_dated d bar i = i\<lparr>ti_generated_at := bar_time bar,
     ti_rationale := ti_rationale i @ ''; executed after '' @ show_nat d @ ''-bar delay''\<rparr>"

definition delayed_on_bar ::
  "(market_bar \<Rightarrow> ('s, trade_intent option) routine) \<Rightarrow> market_bar \<Rightarrow> ('s delayed, trade_intent option) routine" where
  "delayed_on_bar inner bar s =
     (case inner bar (dl_inner s) of
        (Inl e, s1) \<Rightarrow> (Inl e, s\<lparr>dl_inner := s1\<rparr>)
      | (Inr current, s1) \<Rightarrow>
        if dl_bars s = 0 then (Inr current, s\<lparr>dl_inner := s1\<rparr>)
        else (let q = dl_pending s @ [current]
              in if length q \<le> dl_bars s then (Inr None, s\<lparr>dl_inner := s1, dl_pending := q\<rparr>)
                 else (Inr (map_option (re_dated (dl_bars s) bar) (hd q)), s\<lparr>dl_inner := s1, dl_pending := tl q\<rparr>)))"

subsection \<open>Mean reversion\<close>

record reversion =
  mr_prices :: history
  mr_targets :: "(string, dec) dict"

text \<open>\<open>z\<close> is the z-score of the last close among the window's, none when they do not vary.\<close>

definition reversion_target :: "strategy_config \<Rightarrow> dec option \<Rightarrow> dec \<Rightarrow> dec" where
  "reversion_target c z held =
     (let score = (case z of None \<Rightarrow> 0 | Some s \<Rightarrow> s)
      in if score \<le> mean_reversion_entry_z c then sc_target_weight c
         else if score \<ge> mean_reversion_exit_z c then 0 else held)"

definition reversion_on_bar ::
  "(dec list \<Rightarrow> dec option) \<Rightarrow> (dec option \<Rightarrow> string) \<Rightarrow> strategy_config \<Rightarrow> market_bar
     \<Rightarrow> (reversion, trade_intent option) routine" where
  "reversion_on_bar z why c bar s =
     (let h' = remember (nat (mean_reversion_window c)) bar (mr_prices s);
          values = dget h' (bar_symbol bar) [];
          s1 = s\<lparr>mr_prices := h'\<rparr>
      in if int (length values) < mean_reversion_window c then (Inr None, s1)
         else (let target = reversion_target c (z values) (dget (mr_targets s) (bar_symbol bar) 0)
               in (bind_res (mk_trade_intent ''zscore-mean-reversion-v1'' (bar_symbol bar) target (bar_time bar)
                     (why (z values))) (\<lambda>i. Inr (Some i)),
                   s1\<lparr>mr_targets := AList.update (bar_symbol bar) target (mr_targets s)\<rparr>)))"

subsection \<open>What the strategies have seen\<close>

text \<open>The closes of one symbol among the bars, oldest first.\<close>

definition closes :: "string \<Rightarrow> market_bar list \<Rightarrow> dec list" where
  "closes sy bs = map bar_close (filter (\<lambda>b. bar_symbol b = sy) bs)"

definition states :: "(market_bar \<Rightarrow> ('s, 'a) routine) \<Rightarrow> market_bar list \<Rightarrow> 's \<Rightarrow> 's" where
  "states m bs s = fold (\<lambda>b s. snd (m b s)) bs s"

fun outputs :: "(market_bar \<Rightarrow> ('s, 'a) routine) \<Rightarrow> market_bar list \<Rightarrow> 's \<Rightarrow> 'a res list" where
  "outputs m [] s = []"
| "outputs m (b # bs) s = fst (m b s) # outputs m bs (snd (m b s))"

lemma length_outputs [simp]: "length (outputs m bs s) = length bs"
  by (induction bs arbitrary: s) auto

lemma remembered: "dget (fold (remember n) bs []) sy [] = last_n n (closes sy bs)"
proof (induction bs rule: rev_induct)
  case Nil
  then show ?case by (simp add: dget_def closes_def last_n_def)
next
  case (snoc b bs)
  then show ?case
    by (cases "bar_symbol b = sy") (auto simp: remember_def dget_def closes_def push_last_n split: option.splits)
qed

lemma sma_state: "states (sma_on_bar c) bs [] = fold (remember (nat (slow_window c))) bs []"
proof -
  have "snd (sma_on_bar c b h) = remember (nat (slow_window c)) b h" for b h by (simp add: sma_on_bar_def Let_def)
  then show ?thesis by (simp add: states_def)
qed

definition strategy_config_ok :: "strategy_config \<Rightarrow> bool" where
  "strategy_config_ok c \<longleftrightarrow> mk_strategy_config c = Inr c"

lemma strategy_config_okD:
  "strategy_config_ok c \<Longrightarrow> 2 \<le> fast_window c \<and> fast_window c < slow_window c \<and> 0 < sc_target_weight c
     \<and> sc_target_weight c \<le> 1 \<and> 2 \<le> volatility_window c \<and> 0 < target_annual_volatility c"
  by (auto simp: strategy_config_ok_def mk_strategy_config_def)

text \<open>The crossover strategy's decision on a bar depends only on the closes of that symbol: it is silent
  until it has seen a full slow window of them, and from then on it asks for the configured weight when the
  average of the last fast window exceeds that of the last slow window, and for nothing otherwise.\<close>

theorem sma_decides:
  assumes c: "strategy_config_ok c" "sc_strategy_id c \<noteq> []"
    and sy: "bar_symbol b = sy" "sy \<noteq> []" "length sy \<le> 32"
  shows "(case fst (sma_on_bar c b (states (sma_on_bar c) bs [])) of
      Inl e \<Rightarrow> False
    | Inr None \<Rightarrow> int (length (closes sy (bs @ [b]))) < slow_window c
    | Inr (Some i) \<Rightarrow> slow_window c \<le> int (length (closes sy (bs @ [b])))
        \<and> ti_symbol i = normalize_symbol sy \<and> ti_generated_at i = bar_time b
        \<and> ti_weight i =
            (if dquo (dsum (last_n (nat (fast_window c)) (closes sy (bs @ [b])))) (of_int (fast_window c))
                > dquo (dsum (last_n (nat (slow_window c)) (closes sy (bs @ [b])))) (of_int (slow_window c))
             then sc_target_weight c else 0))"
proof -
  note w = strategy_config_okD [OF c(1)]
  let ?h = "states (sma_on_bar c) bs []" and ?n = "nat (slow_window c)"
  have seen: "dget (remember ?n b ?h) sy [] = last_n ?n (closes sy (bs @ [b]))"
    using remembered [of ?n "bs @ [b]" sy] by (simp add: sma_state)
  have short: "last_n (nat (fast_window c)) (last_n ?n xs) = last_n (nat (fast_window c)) xs" for xs :: "dec list"
    by (rule last_n_last_n) (use w in \<open>simp add: nat_mono\<close>)
  have full: "int (min ?n k) < slow_window c \<longleftrightarrow> int k < slow_window c" for k using w by auto
  show ?thesis
    using w c(2) sy
    by (simp add: sma_on_bar_def Let_def seen full sma_weight_def average_of_def ddiv_def short
        mk_trade_intent_def require_length_def Suc_le_eq)
qed

definition demo_sma :: strategy_config where
  "demo_sma = \<lparr>sc_strategy_id = ''sma-crossover-v1'', fast_window = 2, slow_window = 3, volatility_window = 20,
     target_annual_volatility = 1/10, mean_reversion_window = 20, mean_reversion_entry_z = -3/2,
     mean_reversion_exit_z = -1/4, execution_delay_bars = 1, sc_target_weight = 1/50\<rparr>"

definition demo_close :: "instant \<Rightarrow> dec \<Rightarrow> market_bar" where
  "demo_close t p = \<lparr>bar_symbol = ''SPY'', bar_time = t, bar_open = p, bar_high = p, bar_low = p,
     bar_close = p, bar_volume = 1000\<rparr>"

lemma demo_sma_ok: "strategy_config_ok demo_sma"
  by (simp add: strategy_config_ok_def mk_strategy_config_def demo_sma_def in_range_def)

theorem sma_decides_witness:
  "\<exists>i. fst (sma_on_bar demo_sma (demo_close 3 17)
      (states (sma_on_bar demo_sma) [demo_close 1 10, demo_close 2 12] [])) = Inr (Some i) \<and> ti_weight i = 1 / 50"
proof -
  have cl: "closes ''SPY'' ([demo_close 1 10, demo_close 2 12] @ [demo_close 3 17]) = [10, 12, 17]"
    by (simp add: closes_def demo_close_def)
  have avg: "dquo (dsum (last_n 2 [10, 12, 17])) 2 = 29 / 2"
    "dquo (dsum (last_n 3 [10, 12, 17])) 3 = 13"
    by (simp_all add: last_n_def dsum_def dec_eval)
  show ?thesis
    using sma_decides [OF demo_sma_ok, of "demo_close 3 17" "''SPY''" "[demo_close 1 10, demo_close 2 12]"]
    unfolding cl
    by (simp add: avg demo_sma_def demo_close_def split: sum.splits option.splits)
qed

subsection \<open>What the delay does\<close>

text \<open>The delayed strategy, bar by bar, against what the inner one said.\<close>

definition delayed_by :: "nat \<Rightarrow> market_bar list \<Rightarrow> trade_intent option res list \<Rightarrow> nat \<Rightarrow> trade_intent option res" where
  "delayed_by d bs inner k =
     (if k < d then Inr None else bind_res (inner ! (k - d)) (\<lambda>i. Inr (if d = 0 then i else map_option (re_dated d (bs ! k)) i)))"

lemma delayed_outputs_aux:
  assumes "\<forall>r \<in> set (outputs inner bs s). \<exists>i. r = Inr i" and "0 < d" and "length q \<le> d" and "k < length bs"
  shows "outputs (delayed_on_bar inner) bs \<lparr>dl_inner = s, dl_bars = d, dl_pending = q\<rparr> ! k =
    (if k + length q < d then Inr None
     else bind_res ((map Inr q @ outputs inner bs s) ! (k + length q - d)) (\<lambda>i. Inr (map_option (re_dated d (bs ! k)) i)))"
  using assms
proof (induction bs arbitrary: s q k)
  case (Cons b bs)
  obtain i where i: "fst (inner b s) = Inr i" using Cons.prems(1) by auto
  obtain s1 where m: "inner b s = (Inr i, s1)" using i by (cases "inner b s") auto
  show ?case
  proof (cases "length q < d")
    case True
    then have step: "delayed_on_bar inner b \<lparr>dl_inner = s, dl_bars = d, dl_pending = q\<rparr>
        = (Inr None, \<lparr>dl_inner = s1, dl_bars = d, dl_pending = q @ [i]\<rparr>)"
      using m Cons.prems(2) by (simp add: delayed_on_bar_def Let_def)
    show ?thesis
      using Cons.IH [of s1 "q @ [i]" "k - 1"] Cons.prems True m step by (cases k) auto
  next
    case False
    then have q: "length q = d" using Cons.prems(3) by simp
    then obtain a q' where a: "q = a # q'" using Cons.prems(2) by (cases q) auto
    have step: "delayed_on_bar inner b \<lparr>dl_inner = s, dl_bars = d, dl_pending = q\<rparr>
        = (Inr (map_option (re_dated d b) a), \<lparr>dl_inner = s1, dl_bars = d, dl_pending = q' @ [i]\<rparr>)"
      using m Cons.prems(2) q by (simp add: delayed_on_bar_def Let_def a)
    show ?thesis
      using Cons.IH [of s1 "q' @ [i]" "k - 1"] Cons.prems m step q by (cases k) (auto simp: a)
  qed
qed simp

text \<open>C19 A delayed strategy never acts on a bar's own signal early: while the inner strategy does not raise,
  the answer to bar number k is nothing for the first d bars, and after that exactly the inner answer of
  d bars before, dated with the executing bar.\<close>

theorem delayed_no_lookahead:
  assumes "\<forall>r \<in> set (outputs inner bs s). \<exists>i. r = Inr i" and "k < length bs"
    and "mk_delayed s (int d) = Inr w"
  shows "outputs (delayed_on_bar inner) bs w ! k = delayed_by d bs (outputs inner bs s) k"
proof (cases "d = 0")
  case False
  then show ?thesis
    using delayed_outputs_aux [OF assms(1) _ _ assms(2), of d "[]"] assms(3)
    by (auto simp: mk_delayed_def delayed_by_def)
next
  case True
  have "outputs (delayed_on_bar inner) bs \<lparr>dl_inner = s, dl_bars = 0, dl_pending = []\<rparr> = outputs inner bs s"
    using assms(1)
  proof (induction bs arbitrary: s)
    case (Cons b bs)
    then show ?case by (cases "inner b s") (auto simp: delayed_on_bar_def)
  qed simp
  moreover have "bind_res (outputs inner bs s ! k) Inr = outputs inner bs s ! k"
    using assms(1,2) by (metis bind_res_simps(2) length_outputs nth_mem)
  ultimately show ?thesis using assms(3) True by (simp add: mk_delayed_def delayed_by_def)
qed

theorem delayed_no_lookahead_witness:
  "outputs (delayed_on_bar (constant_on_bar (\<lambda>w. ''half''))) [demo_close 1 10, demo_close 2 12]
      \<lparr>dl_inner = (''flat'', 1 / 2), dl_bars = 1, dl_pending = []\<rparr> ! 1 =
    delayed_by 1 [demo_close 1 10, demo_close 2 12]
      (outputs (constant_on_bar (\<lambda>w. ''half'')) [demo_close 1 10, demo_close 2 12] (''flat'', 1 / 2)) 1"
  by (rule delayed_no_lookahead)
    (simp_all add: constant_on_bar_def mk_trade_intent_def require_length_def demo_close_def mk_delayed_def)

end
