(* ===== verification/Metrics.thy ===== *)
theory Metrics
  imports Domain
begin

text \<open>
  \<^verbatim>\<open>metrics.py\<close>: the decimal figures of a backtest report, computed with the code's loop and
  roundings. The volatility ratios go through binary floats and \<^verbatim>\<open>statistics\<close>; they are not modelled.
\<close>

definition total_return :: "dec list \<Rightarrow> dec res" where
  "total_return eqs =
     (if eqs = [] then Inl (ValueError ''at least one equity observation is required'')
      else bind_res (ddiv (last eqs) (hd eqs)) (\<lambda>r. Inr (dsub r 1)))"

text \<open>The drawdown loop: the running peak and the worst fall from it.\<close>

fun drawdown_loop :: "dec \<Rightarrow> dec \<Rightarrow> dec list \<Rightarrow> dec res" where
  "drawdown_loop peak worst [] = Inr worst"
| "drawdown_loop peak worst (e # es) =
     (let peak' = max peak e
      in bind_res (ddiv e peak') (\<lambda>r. drawdown_loop peak' (min worst (dsub r 1)) es))"

definition maximum_drawdown :: "dec list \<Rightarrow> dec res" where
  "maximum_drawdown eqs =
     (if eqs = [] then Inl (ValueError ''at least one equity observation is required'')
      else drawdown_loop (hd eqs) 0 eqs)"

definition turnover :: "dec list \<Rightarrow> dec \<Rightarrow> dec res" where
  "turnover eqs traded =
     bind_res (ddiv (dsum eqs) (of_nat (length eqs))) (\<lambda>avg.
     if avg > 0 then ddiv traded avg else Inr 0)"

record decimal_metrics =
  dm_total_return :: dec
  dm_max_drawdown :: dec
  dm_turnover :: dec

definition performance_metrics :: "dec list \<Rightarrow> dec \<Rightarrow> decimal_metrics res" where
  "performance_metrics eqs traded =
     bind_res (total_return eqs) (\<lambda>tr.
     bind_res (maximum_drawdown eqs) (\<lambda>dd.
     bind_res (turnover eqs traded) (\<lambda>to.
     Inr \<lparr>dm_total_return = tr, dm_max_drawdown = dd, dm_turnover = to\<rparr>)))"

subsection \<open>What the drawdown is\<close>

text \<open>The fall from one equity to another as the code rounds it.\<close>

definition fall :: "dec \<Rightarrow> dec \<Rightarrow> dec" where
  "fall p e = dsub (dquo e p) 1"

lemma fall_antimono: "0 < p \<Longrightarrow> p \<le> p' \<Longrightarrow> 0 \<le> e \<Longrightarrow> fall p' e \<le> fall p e"
  unfolding fall_def dsub_def dquo_def
  by (intro dround_mono diff_right_mono divide_left_mono) (auto intro: mult_pos_pos)

definition worst_fall :: "dec \<Rightarrow> dec \<Rightarrow> dec list \<Rightarrow> dec \<Rightarrow> bool" where
  "worst_fall p w es d \<longleftrightarrow> d \<le> w \<and> (\<forall>i < length es. d \<le> fall p (es ! i))
     \<and> (\<forall>j < length es. \<forall>i \<le> j. d \<le> fall (es ! i) (es ! j))
     \<and> (d = w \<or> (\<exists>i < length es. d = fall p (es ! i)) \<or> (\<exists>j < length es. \<exists>i \<le> j. d = fall (es ! i) (es ! j)))"

lemma all_less_Suc_shift: "(\<forall>i < Suc n. P i) \<longleftrightarrow> P 0 \<and> (\<forall>i < n. P (Suc i))"
  by (metis less_Suc_eq_0_disj)

lemma ex_less_Suc_shift: "(\<exists>i < Suc n. P i) \<longleftrightarrow> P 0 \<or> (\<exists>i < n. P (Suc i))"
  by (metis less_Suc_eq_0_disj)

lemma all_le_Suc_shift: "(\<forall>i \<le> Suc n. P i) \<longleftrightarrow> P 0 \<and> (\<forall>i \<le> n. P (Suc i))"
  by (metis Suc_le_mono le0 not0_implies_Suc)

lemma ex_le_Suc_shift: "(\<exists>i \<le> Suc n. P i) \<longleftrightarrow> P 0 \<or> (\<exists>i \<le> n. P (Suc i))"
  by (metis Suc_le_mono le0 not0_implies_Suc)

lemma worst_fall_Cons:
  assumes "worst_fall (max p e) (min w (fall (max p e) e)) es d" and p: "0 < p" and e: "0 < e" "\<forall>x \<in> set es. 0 < x"
  shows "worst_fall p w (e # es) d"
proof -
  let ?p = "max p e"
  have pe: "?p = p \<or> ?p = e" by auto
  have down: "fall ?p x \<le> fall p x" "fall ?p x \<le> fall e x" if "0 < x" for x
    using fall_antimono [of p ?p x] fall_antimono [of e ?p x] p e that by auto
  have later: "d \<le> fall p (es ! i)" "d \<le> fall e (es ! i)" if "i < length es" for i
    using assms(1) down [of "es ! i"] e(2) that by (auto simp: worst_fall_def intro: order_trans)
  have first: "d \<le> w" "d \<le> fall p e" "d \<le> fall e e"
    using assms(1) down [OF e(1)] by (auto simp: worst_fall_def)
  have at: "d = w \<or> d = fall p e \<or> d = fall e e \<or> (\<exists>i < length es. d = fall p (es ! i))
      \<or> (\<exists>i < length es. d = fall e (es ! i)) \<or> (\<exists>j < length es. \<exists>i \<le> j. d = fall (es ! i) (es ! j))"
    using assms(1) pe unfolding worst_fall_def min_def by metis
  show ?thesis
    using first later at assms(1)
    by (simp add: worst_fall_def all_less_Suc_shift ex_less_Suc_shift all_le_Suc_shift ex_le_Suc_shift) blast
qed

lemma drawdown_loop_spec:
  "0 < p \<Longrightarrow> \<forall>e \<in> set es. 0 < e \<Longrightarrow> \<exists>d. drawdown_loop p w es = Inr d \<and> worst_fall p w es d"
proof (induction es arbitrary: p w)
  case (Cons e es)
  then have p: "0 < max p e" by auto
  then obtain d where d: "drawdown_loop (max p e) (min w (fall (max p e) e)) es = Inr d"
    and w: "worst_fall (max p e) (min w (fall (max p e) e)) es d"
    using Cons.IH [OF p] Cons.prems(2) by auto
  have "drawdown_loop p w (e # es) = Inr d" using p d by (simp add: Let_def ddiv_def fall_def)
  moreover have "worst_fall p w (e # es) d" using worst_fall_Cons [OF w] Cons.prems by simp
  ultimately show ?case by blast
qed (simp add: worst_fall_def)

lemma fall_self [simp]: "0 < e \<Longrightarrow> fall e e = 0"
  using dround_fits [OF fits28_of_int [of 1]] by (simp add: fall_def dquo_def)

text \<open>C20 The reported maximum drawdown is the worst fall from any earlier equity to a later one, as the
  decimal context rounds it: none is worse, and unless the curve never falls some pair attains it.\<close>

theorem drawdown_is_worst_fall:
  assumes "eqs \<noteq> []" "\<forall>e \<in> set eqs. 0 < e"
  shows "\<exists>d. maximum_drawdown eqs = Inr d
    \<and> (\<forall>j < length eqs. \<forall>i \<le> j. d \<le> fall (eqs ! i) (eqs ! j))
    \<and> (\<exists>j < length eqs. \<exists>i \<le> j. d = fall (eqs ! i) (eqs ! j))"
proof -
  have hd: "0 < hd eqs" "hd eqs = eqs ! 0" using assms by (auto simp: hd_conv_nth)
  obtain d where d: "drawdown_loop (hd eqs) 0 eqs = Inr d" and w: "worst_fall (hd eqs) 0 eqs d"
    using drawdown_loop_spec [OF hd(1) assms(2)] by blast
  have "0 = fall (eqs ! 0) (eqs ! 0)" using hd by simp
  then have "\<exists>j < length eqs. \<exists>i \<le> j. d = fall (eqs ! i) (eqs ! j)"
    using w hd(2) assms(1) unfolding worst_fall_def by (metis le0 length_greater_0_conv)
  with d w assms(1) show ?thesis by (auto simp: maximum_drawdown_def worst_fall_def)
qed

theorem drawdown_is_worst_fall_witness:
  "\<exists>d. maximum_drawdown [100, 120, 90, 110] = Inr d \<and> d \<le> fall 120 90 \<and> fall 120 90 = - 1 / 4"
proof -
  obtain d where "maximum_drawdown [100, 120, 90, 110] = Inr d"
    and *: "\<forall>j < length [100, 120, 90, 110 :: dec]. \<forall>i \<le> j.
      d \<le> fall ([100, 120, 90, 110] ! i) ([100, 120, 90, 110] ! j)"
    using drawdown_is_worst_fall [of "[100, 120, 90, 110]"] by auto
  moreover have "d \<le> fall 120 90" using * [rule_format, of 2 1] by simp
  moreover have "fall 120 90 = - 1 / 4" by (simp add: fall_def dec_eval)
  ultimately show ?thesis by blast
qed

end
