(* ===== verification/Ledger.thy ===== *)
theory Ledger
  imports Prelude
begin

text \<open>
  \<^verbatim>\<open>ledger.py\<close>: the SQLite event ledger and its control table. The connection's state is the list
  of rows of \<^verbatim>\<open>events\<close> in insertion order, the next AUTOINCREMENT value and the rows of
  \<^verbatim>\<open>controls\<close>. A payload is kept as the value that was serialised; the payload that
  \<^verbatim>\<open>set_control\<close> writes is its own constructor. The clock \<^verbatim>\<open>datetime.now(UTC)\<close> is an argument.
\<close>

datatype 'p stored = Payload 'p | ControlPayload string string

record 'p ledger_event =
  ev_sequence :: int
  ev_occurred_at :: instant
  ev_recorded_at :: instant
  ev_type :: string
  ev_trace :: string
  ev_payload :: "'p stored"

record control =
  ct_value :: string
  ct_updated_at :: instant

record 'p ledger =
  lg_events :: "'p ledger_event list"
  lg_next :: int
  lg_controls :: "(string, control) dict"

definition new_ledger :: "'p ledger" where
  "new_ledger = \<lparr>lg_events = [], lg_next = 1, lg_controls = []\<rparr>"

definition insert_event ::
  "string \<Rightarrow> 'p stored \<Rightarrow> instant \<Rightarrow> string \<Rightarrow> instant \<Rightarrow> 'p ledger \<Rightarrow> 'p ledger" where
  "insert_event ty p occurred trace now l =
     l\<lparr>lg_events := lg_events l @ [\<lparr>ev_sequence = lg_next l, ev_occurred_at = occurred,
         ev_recorded_at = now, ev_type = ty, ev_trace = trace, ev_payload = p\<rparr>],
       lg_next := lg_next l + 1\<rparr>"

definition append_event ::
  "string \<Rightarrow> 'p \<Rightarrow> instant \<Rightarrow> string \<Rightarrow> instant \<Rightarrow> 'p ledger \<Rightarrow> int \<times> 'p ledger" where
  "append_event ty p occurred trace now l =
     (lg_next l, insert_event ty (Payload p) occurred trace now l)"

text \<open>\<^verbatim>\<open>ORDER BY sequence DESC LIMIT n\<close>; SQLite reads a negative limit as none.\<close>

definition by_sequence_desc :: "'p ledger_event list \<Rightarrow> 'p ledger_event list" where
  "by_sequence_desc es = rev (sort_key ev_sequence es)"

definition sql_limit :: "int \<Rightarrow> 'a list \<Rightarrow> 'a list" where
  "sql_limit n xs = (if n < 0 then xs else take (nat n) xs)"

definition events :: "int \<Rightarrow> 'p ledger \<Rightarrow> 'p ledger_event list" where
  "events limit l = sql_limit limit (by_sequence_desc (lg_events l))"

definition event_count :: "'p ledger \<Rightarrow> nat" where
  "event_count l = length (lg_events l)"

definition event_counts :: "'p ledger \<Rightarrow> (string, nat) dict" where
  "event_counts l =
     map (\<lambda>ty. (ty, length (filter (\<lambda>e. ev_type e = ty) (lg_events l))))
       (remdups (map ev_type (lg_events l)))"

definition latest_event :: "string \<Rightarrow> 'p ledger \<Rightarrow> 'p ledger_event option" where
  "latest_event ty l =
     (case sql_limit 1 (by_sequence_desc (filter (\<lambda>e. ev_type e = ty) (lg_events l))) of
        [] \<Rightarrow> None | e # _ \<Rightarrow> Some e)"

definition get_control :: "string \<Rightarrow> string option \<Rightarrow> 'p ledger \<Rightarrow> string option" where
  "get_control key dflt l =
     (case map_of (lg_controls l) key of None \<Rightarrow> dflt | Some c \<Rightarrow> Some (ct_value c))"

definition set_control ::
  "string \<Rightarrow> string \<Rightarrow> instant \<Rightarrow> string \<Rightarrow> instant \<Rightarrow> 'p ledger \<Rightarrow> 'p ledger" where
  "set_control key v occurred trace now l =
     insert_event ''control_changed'' (ControlPayload key v) occurred trace now
       (l\<lparr>lg_controls := AList.update key \<lparr>ct_value = v, ct_updated_at = now\<rparr> (lg_controls l)\<rparr>)"

subsection \<open>The ledger's invariant\<close>

definition ledger_ok :: "'p ledger \<Rightarrow> bool" where
  "ledger_ok l \<longleftrightarrow> sorted_wrt (<) (map ev_sequence (lg_events l))
     \<and> (\<forall>e \<in> set (lg_events l). 1 \<le> ev_sequence e \<and> ev_sequence e < lg_next l) \<and> 1 \<le> lg_next l
     \<and> dict_ok (lg_controls l)"

lemma new_ledger_ok [keeps]: "ledger_ok new_ledger"
  by (simp add: ledger_ok_def new_ledger_def)

lemma insert_event_ok [keeps]: "ledger_ok l \<Longrightarrow> ledger_ok (insert_event ty p oc tr now l)"
  by (fastforce simp: ledger_ok_def insert_event_def sorted_wrt_append)

lemma set_control_ok [keeps]: "ledger_ok l \<Longrightarrow> ledger_ok (set_control k v oc tr now l)"
  unfolding set_control_def by (rule insert_event_ok) (simp add: ledger_ok_def)

lemma by_sequence_desc_ok: "ledger_ok l \<Longrightarrow> by_sequence_desc (lg_events l) = rev (lg_events l)"
  unfolding ledger_ok_def by_sequence_desc_def
  by (simp add: sorted_sort_id strict_sorted_iff sort_key_id_if_sorted)

lemma by_sequence_desc_filter:
  "ledger_ok l \<Longrightarrow>
     by_sequence_desc (filter P (lg_events l)) = rev (filter P (lg_events l))"
proof -
  assume "ledger_ok l"
  then have "sorted (map ev_sequence (lg_events l))" by (simp add: ledger_ok_def strict_sorted_iff)
  then have "sorted (map ev_sequence (filter P (lg_events l)))" by (rule sorted_filter)
  then show ?thesis by (simp add: by_sequence_desc_def sort_key_id_if_sorted)
qed

lemma events_ok: "ledger_ok l \<Longrightarrow> events n l = sql_limit n (rev (lg_events l))"
  by (simp add: events_def by_sequence_desc_ok)

subsection \<open>Reads after writes\<close>

lemma lg_events_insert [simp]:
  "lg_events (insert_event ty p oc tr now l) = lg_events l @ [\<lparr>ev_sequence = lg_next l,
     ev_occurred_at = oc, ev_recorded_at = now, ev_type = ty, ev_trace = tr, ev_payload = p\<rparr>]"
  "lg_controls (insert_event ty p oc tr now l) = lg_controls l"
  "lg_next (insert_event ty p oc tr now l) = lg_next l + 1"
  by (simp_all add: insert_event_def)

lemma latest_event_rev:
  "ledger_ok l \<Longrightarrow> latest_event ty l = find (\<lambda>e. ev_type e = ty) (rev (lg_events l))"
proof -
  assume ok: "ledger_ok l"
  have "find P xs = (case filter P xs of [] \<Rightarrow> None | x # _ \<Rightarrow> Some x)" for P :: "'a ledger_event \<Rightarrow> bool" and xs
    by (induction xs) auto
  from this [of "\<lambda>e. ev_type e = ty" "rev (lg_events l)"] show ?thesis
    by (simp add: latest_event_def by_sequence_desc_filter [OF ok] sql_limit_def rev_filter split: list.splits)
qed

lemma latest_event_insert:
  "ledger_ok l \<Longrightarrow> latest_event ty (insert_event ty' p oc tr now l) =
     (if ty' = ty then Some \<lparr>ev_sequence = lg_next l, ev_occurred_at = oc, ev_recorded_at = now,
         ev_type = ty, ev_trace = tr, ev_payload = p\<rparr> else latest_event ty l)"
  by (simp add: latest_event_rev insert_event_ok)

interpretation ledger_controls: control_store
  "\<lambda>l k. get_control k None l" "\<lambda>(oc, tr, now) k v. set_control k v oc tr now"
  by unfold_locales (auto simp: get_control_def set_control_def split: prod.splits)

lemma get_control_default: "get_control k (Some d) l = Some (case get_control k None l of None \<Rightarrow> d | Some v \<Rightarrow> v)"
  by (simp add: get_control_def split: option.splits)

lemma get_control_insert_event [simp]: "get_control k d (insert_event ty p oc tr now l) = get_control k d l"
  by (simp add: get_control_def)

lemma sum_event_counts: "sum_list (map snd (event_counts l)) = event_count l"
proof -
  have "sum_list (map (\<lambda>ty. length (filter (\<lambda>e. f e = ty) es)) ts) = length (filter (\<lambda>e. f e \<in> set ts) es)"
    if "distinct ts" for f :: "'a ledger_event \<Rightarrow> string" and es ts
    using that
  proof (induction ts)
    case (Cons t ts)
    have "length (filter (\<lambda>e. f e = t) es) + length (filter (\<lambda>e. f e \<in> set ts) es)
        = length (filter (\<lambda>e. f e = t \<or> f e \<in> set ts) es)"
      using Cons.prems by (induction es) auto
    with Cons show ?case by simp
  qed simp
  from this [of "remdups (map ev_type (lg_events l))" ev_type "lg_events l"]
  show ?thesis
    by (simp add: event_counts_def event_count_def comp_def)
qed

subsection \<open>The ledger as a machine\<close>

inductive ledger_step :: "'p ledger \<Rightarrow> 'p ledger \<Rightarrow> bool" where
  step_append: "ledger_step l (snd (append_event ty p oc tr now l))"
| step_control: "ledger_step l (set_control k v oc tr now l)"

definition extends :: "'p ledger \<Rightarrow> 'p ledger \<Rightarrow> bool" where
  "extends l m \<longleftrightarrow> (\<exists>es. lg_events m = lg_events l @ es)"

interpretation ledger_machine: growing_machine "\<lambda>l. l = new_ledger" ledger_step ledger_ok extends
proof
  show "ledger_ok l \<Longrightarrow> ledger_step l m \<Longrightarrow> ledger_ok m" for l m :: "'p ledger"
    by (erule ledger_step.cases) (auto simp: append_event_def intro: keeps)
  show "ledger_step l m \<Longrightarrow> extends l m" for l m :: "'p ledger"
    by (erule ledger_step.cases) (auto simp: append_event_def set_control_def extends_def)
qed (auto simp: extends_def intro: keeps)

text \<open>What the controls should be, read off the audit trail alone: the last recorded change.\<close>

fun replay :: "'p ledger_event list \<Rightarrow> (string \<rightharpoonup> string)" where
  "replay [] = Map.empty"
| "replay (e # es) =
     (case ev_payload e of
        ControlPayload k v \<Rightarrow> (\<lambda>k'. case replay es k' of None \<Rightarrow> (if k' = k then Some v else None) | Some w \<Rightarrow> Some w)
      | Payload p \<Rightarrow> replay es)"

lemma replay_snoc:
  "replay (es @ [e]) = (case ev_payload e of ControlPayload k v \<Rightarrow> (replay es)(k \<mapsto> v) | Payload p \<Rightarrow> replay es)"
  by (induction es) (auto simp: fun_eq_iff split: stored.splits option.splits)

definition audited :: "'p ledger \<Rightarrow> bool" where
  "audited l \<longleftrightarrow> (\<forall>k. get_control k None l = replay (lg_events l) k)"

interpretation audit_machine: machine "\<lambda>l. l = new_ledger" ledger_step audited
proof
  show "audited l \<Longrightarrow> ledger_step l m \<Longrightarrow> audited m" for l m :: "'p ledger"
    by (erule ledger_step.cases)
      (auto simp: append_event_def set_control_def audited_def replay_snoc get_control_def)
qed (simp add: audited_def new_ledger_def get_control_def)

end
