(* ===== verification/Broker.thy ===== *)
theory Broker
  imports Config
begin

text \<open>
  \<^verbatim>\<open>broker.py\<close>: the deterministic paper broker. Its object state is a record; a method that may
  raise returns its result together with the state it leaves behind, so that what an exception has
  already changed is visible. \<open>fid\<close> stands for the digest of the formatted fill key, which depends on
  the text of Decimals and is not part of the value model.
\<close>

definition money :: "dec \<Rightarrow> dec res" where
  "money v = quantize round_half_up 4 v"

record position_state =
  st_quantity :: dec
  st_average_price :: dec
  st_realized_pnl :: dec
  st_entry_commission :: dec

definition empty_position :: position_state where
  "empty_position = \<lparr>st_quantity = 0, st_average_price = 0, st_realized_pnl = 0,
     st_entry_commission = 0\<rparr>"

record paper_broker =
  bk_config :: broker_config
  bk_cash :: dec
  bk_positions :: "(string, position_state) dict"
  bk_marks :: "(string, dec) dict"
  bk_fills :: "(string, fill) dict"
  bk_session_date :: "day option"
  bk_day_start_equity :: dec
  bk_high_watermark :: dec

definition new_broker :: "broker_config \<Rightarrow> paper_broker" where
  "new_broker c = \<lparr>bk_config = c, bk_cash = starting_cash c, bk_positions = [], bk_marks = [],
     bk_fills = [], bk_session_date = None, bk_day_start_equity = starting_cash c,
     bk_high_watermark = starting_cash c\<rparr>"

definition broker_fills :: "paper_broker \<Rightarrow> fill list" where
  "broker_fills b = map snd (bk_fills b)"

definition fill_count :: "paper_broker \<Rightarrow> nat" where
  "fill_count b = length (bk_fills b)"

definition calculate_equity :: "paper_broker \<Rightarrow> dec" where
  "calculate_equity b =
     dadd (bk_cash b)
       (dsum (map (\<lambda>(s, p). dmul (st_quantity p) (dget (bk_marks b) s (st_average_price p)))
          (bk_positions b)))"

definition mark :: "market_bar \<Rightarrow> paper_broker \<Rightarrow> paper_broker" where
  "mark bar b =
     (let prior = calculate_equity b;
          b1 = (if bk_session_date b \<noteq> Some (utc_date (bar_time bar))
                then b\<lparr>bk_session_date := Some (utc_date (bar_time bar)), bk_day_start_equity := prior\<rparr>
                else b);
          b2 = b1\<lparr>bk_marks := AList.update (bar_symbol bar) (bar_close bar) (bk_marks b1)\<rparr>
      in b2\<lparr>bk_high_watermark := max (bk_high_watermark b2) (calculate_equity b2)\<rparr>)"

subsection \<open>Submission\<close>

definition execution_cost :: "broker_config \<Rightarrow> dec" where
  "execution_cost c = dadd (dquo (slippage_bps c) 10000) (dquo (spread_bps c) 20000)"

definition cost_multiplier :: "broker_config \<Rightarrow> side \<Rightarrow> dec" where
  "cost_multiplier c sd = (if sd = BUY then dadd 1 (execution_cost c) else dsub 1 (execution_cost c))"

definition execution_price :: "broker_config \<Rightarrow> side \<Rightarrow> dec \<Rightarrow> dec res" where
  "execution_price c sd close = quantize round_half_up 6 (dmul close (cost_multiplier c sd))"

definition available_quantity :: "broker_config \<Rightarrow> dec \<Rightarrow> dec" where
  "available_quantity c vol = to_integral round_down (dmul vol (bk_participation c))"

definition commission_on :: "broker_config \<Rightarrow> dec \<Rightarrow> dec res" where
  "commission_on c notional = money (dquo (dmul notional (commission_bps c)) 10000)"

text \<open>The position and the cash after a purchase and after a sale.\<close>

definition buy_position :: "dec \<Rightarrow> dec \<Rightarrow> dec \<Rightarrow> position_state \<Rightarrow> position_state res" where
  "buy_position q notional comm p =
     (let nq = dadd (st_quantity p) q in
      bind_res (ddiv (dadd (dmul (st_quantity p) (st_average_price p)) notional) nq) (\<lambda>avg.
      Inr (p\<lparr>st_average_price := avg, st_quantity := nq,
             st_entry_commission := dadd (st_entry_commission p) comm\<rparr>)))"

definition sell_position :: "dec \<Rightarrow> dec \<Rightarrow> dec \<Rightarrow> position_state \<Rightarrow> position_state res" where
  "sell_position q price comm p =
     bind_res (ddiv (dmul (st_entry_commission p) q) (st_quantity p)) (\<lambda>alloc.
     (let p1 = p\<lparr>st_realized_pnl := dadd (st_realized_pnl p)
                   (dsub (dsub (dmul (dsub price (st_average_price p)) q) comm) alloc),
                 st_entry_commission := dsub (st_entry_commission p) alloc,
                 st_quantity := dsub (st_quantity p) q\<rparr>
      in Inr (if st_quantity p1 = 0 then p1\<lparr>st_average_price := 0, st_entry_commission := 0\<rparr> else p1)))"

definition settle ::
  "side \<Rightarrow> dec \<Rightarrow> dec \<Rightarrow> dec \<Rightarrow> dec \<Rightarrow> position_state \<Rightarrow> dec \<Rightarrow> (position_state \<times> dec) res" where
  "settle sd q price notional comm p cash =
     (case sd of
        BUY \<Rightarrow>
          (let required = dadd notional comm in
           bind_res (check (\<not> required > cash)
             (ValueError ''paper broker rejected order for insufficient cash'')) (\<lambda>_.
           bind_res (buy_position q notional comm p) (\<lambda>p'. Inr (p', dsub cash required))))
      | SELL \<Rightarrow>
          bind_res (sell_position q price comm p) (\<lambda>p'.
          Inr (p', dadd cash (dsub notional comm))))"

text \<open>The terms of an execution, before any state is touched.\<close>

definition execution_terms ::
  "broker_config \<Rightarrow> order_request \<Rightarrow> market_bar \<Rightarrow> position_state \<Rightarrow> (dec \<times> dec \<times> dec \<times> dec) res" where
  "execution_terms c r bar p =
     bind_res (check (\<not> (or_side r = SELL \<and> or_quantity r > st_quantity p))
       (ValueError ''paper broker rejected order that would create a short'')) (\<lambda>_.
     bind_res (execution_price c (or_side r) (bar_close bar)) (\<lambda>price.
     (let q = min (or_quantity r) (available_quantity c (bar_volume bar)) in
      bind_res (check (\<not> q \<le> 0)
        (ValueError ''paper broker rejected order for insufficient bar liquidity'')) (\<lambda>_.
      (let notional = dmul price q in
       bind_res (commission_on c notional) (\<lambda>comm. Inr (price, q, notional, comm)))))))"

definition submit ::
  "(string \<Rightarrow> dec \<Rightarrow> dec \<Rightarrow> string) \<Rightarrow> order_request \<Rightarrow> market_bar \<Rightarrow> paper_broker \<Rightarrow> fill res \<times> paper_broker" where
  "submit fid r bar b =
     (if or_type r \<noteq> MARKET
      then (Inl (ValueError ''bar-only broker cannot infer limit fills from OHLC touches''), b)
      else case map_of (bk_fills b) (or_client_id r) of Some f \<Rightarrow> (Inr f, b)
      | None \<Rightarrow>
        if or_symbol r \<noteq> bar_symbol bar
        then (Inl (ValueError ''order symbol does not match execution bar''), b)
        else
          (let s = or_symbol r;
               p = dget (bk_positions b) s empty_position;
               b0 = (case map_of (bk_positions b) s of
                       None \<Rightarrow> b\<lparr>bk_positions := AList.update s p (bk_positions b)\<rparr>
                     | Some _ \<Rightarrow> b)
           in case execution_terms (bk_config b) r bar p of
                Inl e \<Rightarrow> (Inl e, b0)
              | Inr (price, q, notional, comm) \<Rightarrow>
                (case settle (or_side r) q price notional comm p (bk_cash b) of
                   Inl e \<Rightarrow> (Inl e, b0)
                 | Inr (p', cash') \<Rightarrow>
                   (let b1 = b0\<lparr>bk_positions := AList.update s p' (bk_positions b0), bk_cash := cash'\<rparr>
                    in case mk_fill (fid (or_client_id r) price q) (or_client_id r) s (or_side r) q price
                              comm (bar_time bar) of
                         Inl e \<Rightarrow> (Inl e, b1)
                       | Inr f \<Rightarrow>
                         (Inr f, mark bar (b1\<lparr>bk_fills := AList.update (or_client_id r) f (bk_fills b1)\<rparr>))))))"

subsection \<open>Valuation, export, restore\<close>

definition by_key :: "(string, 'v) dict \<Rightarrow> (string, 'v) dict" where
  "by_key d = sort_key fst d"

definition open_positions :: "paper_broker \<Rightarrow> position list res" where
  "open_positions b =
     map_res (\<lambda>(s, p). mk_position s (st_quantity p) (st_average_price p) (dget (bk_marks b) s 0)
                (st_realized_pnl p))
       (filter (\<lambda>(s, p). st_quantity p \<noteq> 0 \<and> map_of (bk_marks b) s \<noteq> None) (by_key (bk_positions b)))"

definition account :: "instant \<Rightarrow> paper_broker \<Rightarrow> account_snapshot res \<times> paper_broker" where
  "account as_of b =
     (case open_positions b of
        Inl e \<Rightarrow> (Inl e, b)
      | Inr ps \<Rightarrow>
        (let equity = dadd (bk_cash b) (dsum (map market_value ps));
             b' = b\<lparr>bk_high_watermark := max (bk_high_watermark b) equity\<rparr>
         in (bind_res (money (bk_cash b')) (\<lambda>c.
             bind_res (money equity) (\<lambda>e.
             bind_res (money (bk_day_start_equity b')) (\<lambda>d.
             bind_res (money (bk_high_watermark b')) (\<lambda>h.
             mk_account_snapshot as_of c e d h ps)))), b')))"

definition export_state :: "paper_broker \<Rightarrow> paper_broker_state res" where
  "export_state b =
     bind_res (map_res (\<lambda>(s, p). mk_paper_position_state s (st_quantity p) (st_average_price p)
                 (st_realized_pnl p) (st_entry_commission p)) (by_key (bk_positions b))) (\<lambda>ps.
     mk_paper_broker_state (bk_cash b) ps (bk_marks b) (broker_fills b) (bk_session_date b)
       (bk_day_start_equity b) (bk_high_watermark b))"

definition dict_of :: "('k \<times> 'v) list \<Rightarrow> ('k, 'v) dict" where
  "dict_of kvs = fold (\<lambda>(k, v). AList.update k v) kvs []"

definition from_state :: "broker_config \<Rightarrow> paper_broker_state \<Rightarrow> paper_broker" where
  "from_state c st = (new_broker c)\<lparr>bk_cash := pb_cash st,
     bk_positions := dict_of (map (\<lambda>p. (pp_symbol p, \<lparr>st_quantity = pp_quantity p,
        st_average_price = pp_average_price p, st_realized_pnl = pp_realized_pnl p,
        st_entry_commission = pp_entry_commission p\<rparr>)) (pb_positions st)),
     bk_marks := pb_marks st,
     bk_fills := dict_of (map (\<lambda>f. (fl_client_id f, f)) (pb_fills st)),
     bk_session_date := pb_session_date st, bk_day_start_equity := pb_day_start_equity st,
     bk_high_watermark := pb_high_watermark st\<rparr>"

end
