(* ===== verification/BrokerProps.thy ===== *)
theory BrokerProps
  imports Broker
begin

text \<open>
  What the paper broker keeps: its books are never negative and never short, on every branch of
  every method; a rejected order changes nothing but an empty position entry; a client order id is
  filled at most once; and cash is exactly the starting cash plus the flows of the recorded fills.
\<close>

subsection \<open>The terms of an execution\<close>

lemma dround_le_twice: "0 \<le> x \<Longrightarrow> dround x \<le> 2 * x"
proof -
  assume x: "0 \<le> x"
  have "dround x - x \<le> \<bar>x\<bar> / (2 * 10 ^ 27)" using dround_error [of x] by (rule abs_le_D1)
  also have "\<dots> \<le> x" using x by simp
  finally show ?thesis by linarith
qed

lemma money_nonneg: "money v = Inr m \<Longrightarrow> 0 \<le> v \<Longrightarrow> 0 \<le> m"
  unfolding money_def by (rule rhalf_up.quantize_nonneg)

lemma money_grid: "money v = Inr m \<Longrightarrow> on_grid 4 m"
  unfolding money_def using quantize_on_grid [OF rhalf_up.rounding_axioms] .

lemma money_le_twice:
  assumes "money v = Inr m" "0 \<le> v"
  shows "m \<le> 2 * v"
proof -
  have m: "m = of_int (round_half_up (v * 10 ^ 4)) / 10 ^ 4"
    using assms(1) by (simp add: money_def rhalf_up.quantize_Inr_iff)
  have "0 \<le> v * 10 ^ 4" using assms(2) by simp
  then have r: "round_half_up (v * 10 ^ 4) = \<lfloor>v * 10 ^ 4 + 1 / 2\<rfloor>" by (simp add: round_half_up_def)
  have "(of_int \<lfloor>v * 10 ^ 4 + 1 / 2\<rfloor> :: rat) \<le> 2 * (v * 10 ^ 4)"
  proof (cases "v * 10 ^ 4 < 1 / 2")
    case True
    then have "\<lfloor>v * 10 ^ 4 + 1 / 2\<rfloor> = 0" using \<open>0 \<le> v * 10 ^ 4\<close> by (simp add: floor_eq_iff)
    with \<open>0 \<le> v * 10 ^ 4\<close> show ?thesis by simp
  next
    case False
    moreover have "(of_int \<lfloor>v * 10 ^ 4 + 1 / 2\<rfloor> :: rat) \<le> v * 10 ^ 4 + 1 / 2" by (rule of_int_floor_le)
    ultimately show ?thesis by linarith
  qed
  then show ?thesis unfolding m r by (simp add: field_simps)
qed

lemma commission_bounds:
  assumes "commission_on c n = Inr m" "broker_config_ok c" "0 \<le> n"
  shows "0 \<le> m" and "m \<le> n" and "on_grid 4 m"
proof -
  let ?b = "commission_bps c"
  let ?v = "dquo (dmul n ?b) 10000"
  have b: "0 \<le> ?b" "?b \<le> 100" using assms(2) by (simp_all add: broker_config_ok_iff)
  have m: "money ?v = Inr m" using assms(1) by (simp add: commission_on_def)
  have nb: "0 \<le> n * ?b" using b assms(3) by simp
  have v: "0 \<le> ?v" using b assms(3) by (intro dquo_nonneg dmul_nonneg) auto
  show "0 \<le> m" using m v by (rule money_nonneg)
  show "on_grid 4 m" using m by (rule money_grid)
  have "dmul n ?b \<le> 2 * (n * ?b)" unfolding dmul_def using nb by (rule dround_le_twice)
  moreover have "?v \<le> 2 * (dmul n ?b / 10000)"
    unfolding dquo_def using b assms(3) by (intro dround_le_twice) (simp add: dmul_nonneg)
  moreover have "n * ?b \<le> n * 100" using b assms(3) by (simp add: mult_left_mono)
  ultimately have "2 * ?v \<le> n" using assms(3) by linarith
  then show "m \<le> n" using money_le_twice [OF m v] by linarith
qed

lemma execution_cost_bounds:
  assumes "broker_config_ok c"
  shows "0 \<le> execution_cost c" and "execution_cost c \<le> 3 / 200"
proof -
  have c: "0 \<le> slippage_bps c" "slippage_bps c \<le> 100" "0 \<le> spread_bps c" "spread_bps c \<le> 100"
    using assms by (simp_all add: broker_config_ok_iff)
  have f: "fits28 (1 / 100)" "fits28 (5 / 1000)" "fits28 (15 / 1000)"
    using fits28_scaled [of 1 2] fits28_scaled [of 5 3] fits28_scaled [of 15 3] by simp_all
  have "slippage_bps c / 10000 \<le> 1 / 100" "spread_bps c / 20000 \<le> 5 / 1000"
    using c by (simp_all add: divide_le_eq)
  from dround_le [OF this(1) f(1)] dround_le [OF this(2) f(2)]
  have "dquo (slippage_bps c) 10000 + dquo (spread_bps c) 20000 \<le> 15 / 1000"
    unfolding dquo_def by linarith
  from dround_le [OF this f(3)] have "execution_cost c \<le> 15 / 1000"
    unfolding execution_cost_def dadd_def .
  then show "execution_cost c \<le> 3 / 200" by simp
  show "0 \<le> execution_cost c"
    unfolding execution_cost_def using c by (intro dadd_nonneg dquo_nonneg) auto
qed

lemma cost_multiplier_bounds:
  assumes "broker_config_ok c"
  shows "985 / 1000 \<le> cost_multiplier c sd" and "cost_multiplier c sd \<le> 1015 / 1000"
    and "cost_multiplier c BUY \<ge> 1" and "cost_multiplier c SELL \<le> 1"
proof -
  note e = execution_cost_bounds [OF assms]
  have f: "fits28 (985 / 1000)" "fits28 (1015 / 1000)" "fits28 1"
    using fits28_scaled [of 985 3] fits28_scaled [of 1015 3] fits28_of_int [of 1] by simp_all
  show "cost_multiplier c BUY \<ge> 1"
    unfolding cost_multiplier_def dadd_def using e f by (auto intro: dround_ge)
  moreover show "cost_multiplier c SELL \<le> 1"
    unfolding cost_multiplier_def dsub_def using e f by (auto intro: dround_le)
  moreover have "1 + execution_cost c \<le> 1015 / 1000" "985 / 1000 \<le> 1 - execution_cost c"
    using e by simp_all
  from dround_le [OF this(1) f(2)] dround_ge [OF this(2) f(1)]
  have "cost_multiplier c BUY \<le> 1015 / 1000" "985 / 1000 \<le> cost_multiplier c SELL"
    by (simp_all add: cost_multiplier_def dadd_def dsub_def)
  ultimately show "985 / 1000 \<le> cost_multiplier c sd" "cost_multiplier c sd \<le> 1015 / 1000"
    by (cases sd; simp)+
qed

lemma execution_price_nonneg:
  assumes "execution_price c sd x = Inr p" "broker_config_ok c" "0 \<le> x"
  shows "0 \<le> p"
proof -
  have "0 \<le> cost_multiplier c sd" using cost_multiplier_bounds(1) [OF assms(2), of sd] by linarith
  then have "0 \<le> dmul x (cost_multiplier c sd)" using assms(3) by (rule dmul_nonneg [rotated])
  with assms(1) show ?thesis unfolding execution_price_def by (rule rhalf_up.quantize_nonneg)
qed

lemma execution_price_pos:
  assumes "execution_price c sd x = Inr p" "broker_config_ok c" "1 / 10 ^ 6 \<le> x"
  shows "0 < p"
proof -
  have m: "985 / 1000 \<le> cost_multiplier c sd" by (rule cost_multiplier_bounds(1) [OF assms(2)])
  have "985 / 1000 * (1 / 10 ^ 6) \<le> cost_multiplier c sd * x"
    by (rule mult_mono [OF m assms(3)]) (use m in simp_all)
  then have "985 / 1000 * (1 / 10 ^ 6) \<le> x * cost_multiplier c sd" by (simp only: mult.commute)
  moreover have "fits28 (985 / 1000 * (1 / 10 ^ 6))" using fits28_scaled [of 985 9] by simp
  ultimately have "985 / 1000 * (1 / 10 ^ 6) \<le> dmul x (cost_multiplier c sd)"
    unfolding dmul_def by (rule dround_ge)
  then have "1 / 2 \<le> dmul x (cost_multiplier c sd) * 10 ^ 6" by (simp add: field_simps)
  then have "1 \<le> round_half_up (dmul x (cost_multiplier c sd) * 10 ^ 6)"
    by (simp add: round_half_up_def le_floor_iff)
  with assms(1) show ?thesis by (auto simp: execution_price_def rhalf_up.quantize_Inr_iff)
qed

lemma execution_price_grid: "execution_price c sd x = Inr p \<Longrightarrow> on_grid 6 p"
  unfolding execution_price_def using quantize_on_grid [OF rhalf_up.rounding_axioms] .

lemma available_quantity_le:
  assumes "broker_config_ok c" "0 \<le> vol"
  shows "available_quantity c vol \<le> dmul vol (bk_participation c)" and "available_quantity c vol \<in> \<int>"
proof -
  have "0 \<le> dmul vol (bk_participation c)"
    using assms by (intro dmul_nonneg) (auto simp: broker_config_ok_iff)
  then show "available_quantity c vol \<le> dmul vol (bk_participation c)"
    by (simp add: available_quantity_def to_integral_def round_down_def)
qed (simp add: available_quantity_def to_integral_def)

lemma execution_terms_Inr:
  assumes "execution_terms c r bar p = Inr (price, q, notional, comm)"
  shows "execution_price c (or_side r) (bar_close bar) = Inr price"
    and "q = min (or_quantity r) (available_quantity c (bar_volume bar))" and "0 < q"
    and "notional = dmul price q" and "commission_on c notional = Inr comm"
    and "or_side r = SELL \<Longrightarrow> q \<le> st_quantity p"
  using assms by (auto simp: execution_terms_def Let_def not_le min_def split: if_splits)

subsection \<open>Settlement\<close>

definition position_ok :: "position_state \<Rightarrow> bool" where
  "position_ok p \<longleftrightarrow> 0 \<le> st_quantity p \<and> 0 \<le> st_average_price p
     \<and> (st_quantity p = 0 \<longrightarrow> st_average_price p = 0 \<and> st_entry_commission p = 0)"

lemma position_ok_empty [simp]: "position_ok empty_position"
  by (simp add: position_ok_def empty_position_def)

lemma buy_position_ok:
  assumes "buy_position q n c p = Inr p'" "position_ok p" "0 < q" "0 \<le> n"
  shows "position_ok p'" and "st_quantity p' = dadd (st_quantity p) q"
proof -
  have nq: "0 < dadd (st_quantity p) q"
    using assms by (simp add: dadd_def dround_sign position_ok_def add_nonneg_pos)
  have "0 \<le> dquo (dadd (dmul (st_quantity p) (st_average_price p)) n) (dadd (st_quantity p) q)"
    using assms nq by (intro dquo_nonneg dadd_nonneg dmul_nonneg) (auto simp: position_ok_def)
  with assms(1) nq show "position_ok p'" "st_quantity p' = dadd (st_quantity p) q"
    by (auto simp: buy_position_def position_ok_def ddiv_def Let_def split: if_splits)
qed

lemma sell_position_ok:
  assumes "sell_position q x c p = Inr p'" "position_ok p" "q \<le> st_quantity p"
  shows "position_ok p'" and "st_quantity p' = dsub (st_quantity p) q"
  using assms by (cases "st_quantity p = q"; auto simp: sell_position_def position_ok_def Let_def dsub_nonneg)+

lemma settle_ok:
  assumes "settle sd q price notional comm p cash = Inr (p', cash')" "position_ok p" "0 < q"
    "0 \<le> notional" "comm \<le> notional" "0 \<le> cash" "sd = SELL \<Longrightarrow> q \<le> st_quantity p"
  shows "position_ok p'" and "0 \<le> cash'"
    and "st_quantity p' = (if sd = BUY then dadd (st_quantity p) q else dsub (st_quantity p) q)"
    and "cash' = (if sd = BUY then dsub cash (dadd notional comm) else dadd cash (dsub notional comm))"
    and "sd = BUY \<Longrightarrow> dadd notional comm \<le> cash"
  using assms
  by (auto simp: settle_def Let_def dsub_nonneg dadd_nonneg
      dest: buy_position_ok sell_position_ok split: side.splits)

text \<open>A sale and a purchase can always be settled once their terms are agreed.\<close>

lemma sell_position_total: "0 < st_quantity p \<Longrightarrow> \<exists>p'. sell_position q x c p = Inr p'"
  by (simp add: sell_position_def ddiv_def Let_def)

lemma buy_position_total: "position_ok p \<Longrightarrow> 0 < q \<Longrightarrow> \<exists>p'. buy_position q n c p = Inr p'"
  by (auto simp: buy_position_def ddiv_def Let_def dadd_def position_ok_def)

subsection \<open>The broker's invariant\<close>

definition fill_entry_ok :: "string \<times> fill \<Rightarrow> bool" where
  "fill_entry_ok = (\<lambda>(k, f). fl_client_id f = k \<and> 0 < fl_quantity f \<and> 0 < fl_price f \<and> 0 \<le> fl_commission f)"

definition broker_ok :: "paper_broker \<Rightarrow> bool" where
  "broker_ok b \<longleftrightarrow> broker_config_ok (bk_config b)
     \<and> dict_ok (bk_positions b) \<and> dict_ok (bk_marks b) \<and> dict_ok (bk_fills b)
     \<and> 0 \<le> bk_cash b
     \<and> (\<forall>(s, p) \<in> set (bk_positions b). position_ok p)
     \<and> (\<forall>(s, m) \<in> set (bk_marks b). 0 < m)
     \<and> (\<forall>e \<in> set (bk_fills b). fill_entry_ok e)"

lemma new_broker_simps [simp]:
  "bk_config (new_broker c) = c"
  "bk_cash (new_broker c) = starting_cash c"
  "bk_positions (new_broker c) = []"
  "bk_marks (new_broker c) = []"
  "bk_fills (new_broker c) = []"
  by (simp_all add: new_broker_def)

lemma new_broker_ok: "broker_config_ok c \<Longrightarrow> broker_ok (new_broker c)"
  by (simp add: broker_ok_def broker_config_ok_iff)

lemma mark_simps [simp]:
  "bk_config (mark bar b) = bk_config b"
  "bk_cash (mark bar b) = bk_cash b"
  "bk_positions (mark bar b) = bk_positions b"
  "bk_fills (mark bar b) = bk_fills b"
  "bk_marks (mark bar b) = AList.update (bar_symbol bar) (bar_close bar) (bk_marks b)"
  by (simp_all add: mark_def Let_def)

lemma mark_ok [keeps]: "broker_ok b \<Longrightarrow> bar_ok bar \<Longrightarrow> broker_ok (mark bar b)"
  by (auto simp: broker_ok_def bar_ok_def dest!: update_in_set)

lemma mark_watermark:
  "bk_high_watermark b \<le> bk_high_watermark (mark bar b)"
  "calculate_equity (mark bar b) \<le> bk_high_watermark (mark bar b)"
  by (simp_all add: mark_def Let_def calculate_equity_def)

lemma account_simps [simp]:
  "bk_config (snd (account t b)) = bk_config b"
  "bk_cash (snd (account t b)) = bk_cash b"
  "bk_positions (snd (account t b)) = bk_positions b"
  "bk_fills (snd (account t b)) = bk_fills b"
  "bk_marks (snd (account t b)) = bk_marks b"
  by (simp_all add: account_def Let_def split: sum.splits)

lemma account_ok [keeps]: "broker_ok b \<Longrightarrow> broker_ok (snd (account t b))"
  by (simp add: broker_ok_def)

lemma account_watermark: "bk_high_watermark b \<le> bk_high_watermark (snd (account t b))"
  by (simp add: account_def Let_def split: sum.splits)

lemma position_lookup_ok: "broker_ok b \<Longrightarrow> position_ok (dget (bk_positions b) s empty_position)"
  by (auto simp: dget_def broker_ok_def split: option.splits dest: map_of_SomeD)

text \<open>The state after \<^verbatim>\<open>setdefault\<close>: the same books, with an entry for the symbol.\<close>

definition with_entry :: "string \<Rightarrow> paper_broker \<Rightarrow> paper_broker" where
  "with_entry s b =
     (case map_of (bk_positions b) s of
        None \<Rightarrow> b\<lparr>bk_positions := AList.update s (dget (bk_positions b) s empty_position) (bk_positions b)\<rparr>
      | Some _ \<Rightarrow> b)"

lemma with_entry_simps [simp]:
  "bk_config (with_entry s b) = bk_config b"
  "bk_cash (with_entry s b) = bk_cash b"
  "bk_fills (with_entry s b) = bk_fills b"
  "bk_marks (with_entry s b) = bk_marks b"
  "bk_high_watermark (with_entry s b) = bk_high_watermark b"
  "bk_session_date (with_entry s b) = bk_session_date b"
  "bk_day_start_equity (with_entry s b) = bk_day_start_equity b"
  "dget (bk_positions (with_entry s b)) s' empty_position = dget (bk_positions b) s' empty_position"
  by (auto simp: with_entry_def dget_def map_of_update split: option.splits)

lemma with_entry_ok [keeps]: "broker_ok b \<Longrightarrow> broker_ok (with_entry s b)"
  using position_lookup_ok [of b s]
  by (auto simp: with_entry_def broker_ok_def split: option.splits dest!: update_in_set)

text \<open>
  The four ways a submission ends: an earlier fill is returned, it is refused with at most an empty
  entry added, the books move but the fill record is refused, or the order is filled.
\<close>

lemma submit_cases:
  obtains (known) f where "or_type r = MARKET" "map_of (bk_fills b) (or_client_id r) = Some f"
      "submit fid r bar b = (Inr f, b)"
    | (refused) e where "submit fid r bar b = (Inl e, b)"
    | (rejected) e where "map_of (bk_fills b) (or_client_id r) = None"
      "submit fid r bar b = (Inl e, with_entry (or_symbol r) b)"
    | (settled) price q notional comm p' cash' b1 where
      "or_type r = MARKET" "map_of (bk_fills b) (or_client_id r) = None" "or_symbol r = bar_symbol bar"
      "execution_terms (bk_config b) r bar (dget (bk_positions b) (or_symbol r) empty_position)
         = Inr (price, q, notional, comm)"
      "settle (or_side r) q price notional comm (dget (bk_positions b) (or_symbol r) empty_position)
         (bk_cash b) = Inr (p', cash')"
      "b1 = (with_entry (or_symbol r) b)\<lparr>bk_positions :=
         AList.update (or_symbol r) p' (bk_positions (with_entry (or_symbol r) b)), bk_cash := cash'\<rparr>"
      "submit fid r bar b =
         (case mk_fill (fid (or_client_id r) price q) (or_client_id r) (or_symbol r) (or_side r) q price
                comm (bar_time bar) of
            Inl e \<Rightarrow> (Inl e, b1)
          | Inr f \<Rightarrow> (Inr f, mark bar (b1\<lparr>bk_fills := AList.update (or_client_id r) f (bk_fills b1)\<rparr>)))"
proof (cases "or_type r = MARKET")
  case False
  then show ?thesis using refused by (simp add: submit_def)
next
  case M: True
  show ?thesis
  proof (cases "map_of (bk_fills b) (or_client_id r)")
    case (Some f)
    with M show ?thesis using known by (simp add: submit_def)
  next
    case F: None
    show ?thesis
    proof (cases "or_symbol r = bar_symbol bar")
      case False
      with M F show ?thesis using refused by (simp add: submit_def)
    next
      case S: True
      let ?p = "dget (bk_positions b) (or_symbol r) empty_position"
      note base = submit_def Let_def M F S with_entry_def
      show ?thesis
      proof (cases "execution_terms (bk_config b) r bar ?p")
        case (Inl e)
        with F show ?thesis using rejected [of e] S by (simp add: base)
      next
        case T: (Inr t)
        obtain price q notional comm where t: "t = (price, q, notional, comm)" by (cases t) auto
        show ?thesis
        proof (cases "settle (or_side r) q price notional comm ?p (bk_cash b)")
          case (Inl e)
          with F T t show ?thesis using rejected [of e] S by (simp add: base)
        next
          case (Inr pc)
          obtain p' cash' where "pc = (p', cash')" by (cases pc) auto
          with M F S T t Inr show ?thesis
            using settled [of price q notional comm p' cash', OF M F S] by (simp add: base)
        qed
      qed
    qed
  qed
qed

end
