(* ===== verification/BrokerMachine.thy ===== *)
theory BrokerMachine
  imports BrokerProps
begin

text \<open>
  The broker as a machine over its three state-changing methods, and the properties that hold over
  whole runs: the books' safety, single filling, monotone records, exact cash accounting, export
  and restore.
\<close>

subsection \<open>Submission keeps the invariant\<close>

lemma settled_ok:
  assumes ok: "broker_ok b" and bar: "bar_ok bar"
    and t: "execution_terms (bk_config b) r bar (dget (bk_positions b) (or_symbol r) empty_position)
              = Inr (price, q, notional, comm)"
    and s: "settle (or_side r) q price notional comm
              (dget (bk_positions b) (or_symbol r) empty_position) (bk_cash b) = Inr (p', cash')"
  shows "position_ok p'" and "0 \<le> cash'" and "0 \<le> price" and "0 < q" and "0 \<le> comm"
proof -
  note T = execution_terms_Inr [OF t]
  have c: "broker_config_ok (bk_config b)" and cash: "0 \<le> bk_cash b" using ok by (simp_all add: broker_ok_def)
  show price: "0 \<le> price" using execution_price_nonneg [OF T(1) c] bar by (simp add: bar_ok_def)
  show q: "0 < q" by (rule T(3))
  have n: "0 \<le> notional" unfolding T(4) using price q by (intro dmul_nonneg) auto
  show "0 \<le> comm" by (rule commission_bounds(1) [OF T(5) c n])
  show "position_ok p'" "0 \<le> cash'"
    using settle_ok(1,2) [OF s position_lookup_ok [OF ok] q n commission_bounds(2) [OF T(5) c n] cash T(6)]
    by simp_all
qed

lemma mk_fill_Inr:
  "mk_fill i c s sd q p cm t = Inr f \<longleftrightarrow> 0 < q \<and> 0 < p \<and> 0 \<le> cm \<and>
     f = \<lparr>fl_id = i, fl_client_id = c, fl_symbol = s, fl_side = sd, fl_quantity = q, fl_price = p,
          fl_commission = cm, fl_at = t\<rparr>"
  by (auto simp: mk_fill_def)

lemma mk_fill_Inl: "mk_fill i c s sd q p cm t = Inl e \<Longrightarrow> 0 < q \<Longrightarrow> 0 \<le> p \<Longrightarrow> 0 \<le> cm \<Longrightarrow> p = 0"
  by (auto simp: mk_fill_def bind_res_Inl_iff require_gt0_def require_ge0_def)

lemma submit_ok [keeps]:
  assumes ok: "broker_ok b" and bar: "bar_ok bar"
  shows "broker_ok (snd (submit fid r bar b))"
proof (cases rule: submit_cases [of r b fid bar])
  case (settled price q notional comm p' cash' b1)
  note S = settled_ok [OF ok bar settled(4,5)]
  have b1: "broker_ok b1"
    using with_entry_ok [OF ok, of "or_symbol r"] S
    by (auto simp: settled(6) broker_ok_def dest!: update_in_set)
  show ?thesis
  proof (cases "mk_fill (fid (or_client_id r) price q) (or_client_id r) (or_symbol r) (or_side r) q price
                  comm (bar_time bar)")
    case (Inl e)
    with b1 show ?thesis by (simp add: settled(7))
  next
    case (Inr f)
    then have "broker_ok (b1\<lparr>bk_fills := AList.update (or_client_id r) f (bk_fills b1)\<rparr>)"
      using b1 by (auto simp: broker_ok_def fill_entry_ok_def mk_fill_Inr dest!: update_in_set)
    with Inr bar show ?thesis by (simp add: settled(7) mark_ok)
  qed
qed (use ok in \<open>simp_all add: with_entry_ok\<close>)

subsection \<open>Records are only added\<close>

definition records_kept :: "paper_broker \<Rightarrow> paper_broker \<Rightarrow> bool" where
  "records_kept b c \<longleftrightarrow> bk_config c = bk_config b \<and> map_of (bk_fills b) \<subseteq>\<^sub>m map_of (bk_fills c)
     \<and> bk_high_watermark b \<le> bk_high_watermark c"

lemma records_kept_refl [simp]: "records_kept b b"
  by (simp add: records_kept_def)

lemma submit_records_kept: "records_kept b (snd (submit fid r bar b))"
proof (cases rule: submit_cases [of r b fid bar])
  case (settled price q notional comm p' cash' b1)
  have f: "map_of (bk_fills b) \<subseteq>\<^sub>m map_of (AList.update (or_client_id r) f (bk_fills b))" for f
    using settled(2) by (auto simp: map_of_update map_le_def)
  have b1: "bk_config b1 = bk_config b" "bk_fills b1 = bk_fills b" "bk_high_watermark b1 = bk_high_watermark b"
    by (simp_all add: settled(6))
  show ?thesis
    unfolding settled(7) records_kept_def using b1 f
    by (auto split: sum.splits intro!: order_trans [OF _ mark_watermark(1)])
qed (simp_all add: records_kept_def)

lemma mark_records_kept: "records_kept b (mark bar b)"
  by (simp add: records_kept_def mark_watermark)

lemma account_records_kept: "records_kept b (snd (account t b))"
  by (simp add: records_kept_def account_watermark)

inductive broker_step :: "(string \<Rightarrow> dec \<Rightarrow> dec \<Rightarrow> string) \<Rightarrow> paper_broker \<Rightarrow> paper_broker \<Rightarrow> bool"
  for fid where
  b_mark: "bar_ok bar \<Longrightarrow> broker_step fid b (mark bar b)"
| b_submit: "bar_ok bar \<Longrightarrow> broker_step fid b (snd (submit fid r bar b))"
| b_account: "broker_step fid b (snd (account t b))"

interpretation broker_machine: growing_machine
  "\<lambda>b. \<exists>c. broker_config_ok c \<and> b = new_broker c" "broker_step fid" broker_ok records_kept for fid
proof
  show "broker_ok b \<Longrightarrow> broker_step fid b c \<Longrightarrow> broker_ok c" for b c
    by (erule broker_step.cases) (auto intro: keeps)
  show "records_kept b c \<Longrightarrow> records_kept c d \<Longrightarrow> records_kept b d" for b c d
    by (auto simp: records_kept_def intro: map_le_trans)
  show "broker_step fid b c \<Longrightarrow> records_kept b c" for b c
    by (erule broker_step.cases)
      (auto intro: submit_records_kept mark_records_kept account_records_kept)
qed (auto simp: new_broker_ok)

lemma submit_known: "or_type r = MARKET \<Longrightarrow> map_of (bk_fills b) (or_client_id r) = Some f \<Longrightarrow>
    submit fid r bar b = (Inr f, b)"
  by (simp add: submit_def)

lemma submit_Inr_recorded:
  "submit fid r bar b = (Inr f, b') \<Longrightarrow> or_type r = MARKET \<and> map_of (bk_fills b') (or_client_id r) = Some f"
  by (cases rule: submit_cases [of r b fid bar]) (auto split: sum.splits)

end
