(* ===== verification/Risk.thy ===== *)
theory Risk
  imports Config
begin

text \<open>
  \<^verbatim>\<open>risk.py\<close>: the pre-trade risk gateway. The engine's state is its limits, the times of the orders
  it approved (a deque, oldest first) and its kill switch. \<open>evaluate\<close> collects rejection codes in the
  code's order and approves exactly when there are none; the divisions it makes can raise.
\<close>

record risk_engine =
  rk_limits :: risk_limits
  rk_order_times :: "instant list"
  rk_kill_switch :: bool

definition new_risk_engine :: "risk_limits \<Rightarrow> risk_engine" where
  "new_risk_engine l = \<lparr>rk_limits = l, rk_order_times = [], rk_kill_switch = False\<rparr>"

definition activate_kill_switch :: "risk_engine \<Rightarrow> risk_engine" where
  "activate_kill_switch k = k\<lparr>rk_kill_switch := True\<rparr>"

definition reset_kill_switch :: "risk_engine \<Rightarrow> risk_engine" where
  "reset_kill_switch k = k\<lparr>rk_kill_switch := False\<rparr>"

definition code :: "bool \<Rightarrow> string \<Rightarrow> string list" where
  "code b c = (if b then [c] else [])"

definition projected_quantity :: "account_snapshot \<Rightarrow> order_request \<Rightarrow> dec" where
  "projected_quantity a r = dadd (quantity_for a (or_symbol r)) (signed_quantity r)"

definition risk_reducing :: "account_snapshot \<Rightarrow> order_request \<Rightarrow> bool" where
  "risk_reducing a r \<longleftrightarrow> dabs (projected_quantity a r) < dabs (quantity_for a (or_symbol r))"

text \<open>The checks every order gets: the age of the data, the switches, shorting, liquidity.\<close>

definition market_codes ::
  "risk_engine \<Rightarrow> order_request \<Rightarrow> market_bar \<Rightarrow> account_snapshot \<Rightarrow> instant \<Rightarrow> bool \<Rightarrow> string list res" where
  "market_codes k r bar a observed enabled =
     (let l = rk_limits k; age = observed - bar_time bar; pq = projected_quantity a r;
          early = code (age < 0 \<or> age > seconds (max_data_age_seconds l)) ''STALE_DATA''
            @ code ((\<not> enabled \<or> rk_kill_switch k) \<and> \<not> risk_reducing a r) ''TRADING_DISABLED''
            @ code (pq < 0 \<and> \<not> allow_shorting l) ''SHORTING_DISABLED''
      in if bar_volume bar \<le> 0 then Inr (early @ [''NO_LIQUIDITY''])
         else bind_res (ddiv (or_quantity r) (bar_volume bar)) (\<lambda>part.
              Inr (early @ code (part > max_participation l) ''MAX_VOLUME_PARTICIPATION'')))"

definition order_notional :: "order_request \<Rightarrow> market_bar \<Rightarrow> dec" where
  "order_notional r bar = dmul (or_quantity r) (bar_close bar)"

definition projected_symbol_value :: "account_snapshot \<Rightarrow> order_request \<Rightarrow> market_bar \<Rightarrow> dec" where
  "projected_symbol_value a r bar = dabs (dmul (projected_quantity a r) (bar_close bar))"

definition projected_gross :: "account_snapshot \<Rightarrow> order_request \<Rightarrow> market_bar \<Rightarrow> dec" where
  "projected_gross a r bar =
     dadd (dsub (gross_exposure a) (dabs (dmul (quantity_for a (or_symbol r)) (bar_close bar))))
       (projected_symbol_value a r bar)"

definition projected_symbols :: "account_snapshot \<Rightarrow> order_request \<Rightarrow> string set" where
  "projected_symbols a r =
     (let held = ps_symbol ` set (ac_positions a)
      in if projected_quantity a r > 0 then insert (or_symbol r) held else held)"

text \<open>The checks an order that does not reduce the position gets besides.\<close>

definition exposure_codes ::
  "risk_limits \<Rightarrow> order_request \<Rightarrow> market_bar \<Rightarrow> account_snapshot \<Rightarrow> dec \<Rightarrow> string list res" where
  "exposure_codes l r bar a gross_ratio =
     bind_res (ddiv (order_notional r bar) (ac_equity a)) (\<lambda>order_ratio.
     bind_res (ddiv (projected_symbol_value a r bar) (ac_equity a)) (\<lambda>position_ratio.
     bind_res (daily_return a) (\<lambda>daily.
     bind_res (drawdown a) (\<lambda>draw.
     Inr (code (order_ratio > max_order_exposure l) ''MAX_ORDER_EXPOSURE''
        @ code (position_ratio > max_position_exposure l) ''MAX_POSITION_EXPOSURE''
        @ code (gross_ratio > max_gross_exposure l) ''MAX_GROSS_EXPOSURE''
        @ code (int (card (projected_symbols a r)) > max_positions l) ''MAX_POSITIONS''
        @ code (daily \<le> dneg (max_daily_loss l)) ''MAX_DAILY_LOSS''
        @ code (draw \<le> dneg (max_drawdown l)) ''MAX_DRAWDOWN''
        @ code (\<not> allow_leverage l \<and> or_side r = BUY \<and> order_notional r bar > ac_cash a)
            ''LEVERAGE_DISABLED'')))))"

definition recent :: "instant \<Rightarrow> instant list \<Rightarrow> instant list" where
  "recent observed ts = dropWhile (\<lambda>t. t \<le> observed - hours 1) ts"

definition join_codes :: "string list \<Rightarrow> string" where
  "join_codes cs = concat (case cs of [] \<Rightarrow> [] | c # cs' \<Rightarrow> c # map (\<lambda>d. '', '' @ d) cs')"

text \<open>All codes but the order rate, with the projected gross exposure the decision reports.\<close>

definition gate_codes ::
  "risk_engine \<Rightarrow> order_request \<Rightarrow> market_bar \<Rightarrow> account_snapshot \<Rightarrow> instant \<Rightarrow> bool \<Rightarrow> (string list \<times> dec) res" where
  "gate_codes k r bar a observed enabled =
     bind_res (market_codes k r bar a observed enabled) (\<lambda>early.
     bind_res (ddiv (projected_gross a r bar) (ac_equity a)) (\<lambda>gross_ratio.
     bind_res (if risk_reducing a r then Inr [] else exposure_codes (rk_limits k) r bar a gross_ratio) (\<lambda>late.
     Inr (early @ late, gross_ratio))))"

definition evaluate ::
  "order_request \<Rightarrow> market_bar \<Rightarrow> account_snapshot \<Rightarrow> instant \<Rightarrow> bool \<Rightarrow> risk_engine
     \<Rightarrow> risk_decision res \<times> risk_engine" where
  "evaluate r bar a observed enabled k =
     (case gate_codes k r bar a observed enabled of
        Inl e \<Rightarrow> (Inl e, k)
      | Inr (codes0, gross_ratio) \<Rightarrow>
        (let times = recent observed (rk_order_times k);
             codes = codes0 @ code (int (length times) \<ge> max_orders_per_hour (rk_limits k)
                                      \<and> \<not> risk_reducing a r) ''ORDER_RATE_LIMIT'';
             approved = (codes = [])
         in (Inr \<lparr>rd_approved = approved, rd_codes = codes,
                 rd_message = (if approved then ''approved'' else ''rejected: '' @ join_codes codes),
                 rd_projected_gross = gross_ratio\<rparr>,
             k\<lparr>rk_order_times := (if approved then times @ [observed] else times)\<rparr>)))"

subsection \<open>What a decision means\<close>

lemma code_eq_Nil [simp]: "code b c = [] \<longleftrightarrow> \<not> b"
  by (simp add: code_def)

lemma set_code [simp]: "set (code b c) = (if b then {c} else {})"
  by (simp add: code_def)

text \<open>With a valid snapshot no check divides by zero: an evaluation always decides.\<close>

lemma market_codes_total: "\<exists>cs. market_codes k r bar a t e = Inr cs"
  by (simp add: market_codes_def Let_def ddiv_def)

lemma exposure_codes_total: "snapshot_ok a \<Longrightarrow> \<exists>cs. exposure_codes l r bar a g = Inr cs"
  by (simp add: exposure_codes_def snapshot_ratios ddiv_def snapshot_ok_def)

lemma gate_codes_total:
  assumes "snapshot_ok a"
  shows "\<exists>cs g. gate_codes k r bar a t e = Inr (cs, g)"
proof -
  obtain early where "market_codes k r bar a t e = Inr early" using market_codes_total by blast
  moreover have "ddiv (projected_gross a r bar) (ac_equity a) = Inr (dquo (projected_gross a r bar) (ac_equity a))"
    using assms by (simp add: ddiv_def snapshot_ok_def)
  moreover obtain late where
    "(if risk_reducing a r then Inr []
      else exposure_codes (rk_limits k) r bar a (dquo (projected_gross a r bar) (ac_equity a))) = Inr late"
    using exposure_codes_total [OF assms] by (cases "risk_reducing a r") (auto, blast)
  ultimately show ?thesis by (simp add: gate_codes_def)
qed

lemma evaluate_total: "snapshot_ok a \<Longrightarrow> \<exists>d. fst (evaluate r bar a t e k) = Inr d"
  using gate_codes_total [of a k r bar t e] by (auto simp: evaluate_def Let_def)

text \<open>The conditions under which an order passes, as the limits state them.\<close>

definition market_acceptable ::
  "risk_engine \<Rightarrow> order_request \<Rightarrow> market_bar \<Rightarrow> account_snapshot \<Rightarrow> instant \<Rightarrow> bool \<Rightarrow> bool" where
  "market_acceptable k r bar a t e \<longleftrightarrow>
     bar_time bar \<le> t \<and> t - bar_time bar \<le> seconds (max_data_age_seconds (rk_limits k))
     \<and> (risk_reducing a r \<or> e \<and> \<not> rk_kill_switch k)
     \<and> (allow_shorting (rk_limits k) \<or> 0 \<le> projected_quantity a r)
     \<and> 0 < bar_volume bar
     \<and> dquo (or_quantity r) (bar_volume bar) \<le> max_participation (rk_limits k)"

definition exposure_acceptable :: "risk_limits \<Rightarrow> order_request \<Rightarrow> market_bar \<Rightarrow> account_snapshot \<Rightarrow> bool" where
  "exposure_acceptable l r bar a \<longleftrightarrow>
     dquo (order_notional r bar) (ac_equity a) \<le> max_order_exposure l
     \<and> dquo (projected_symbol_value a r bar) (ac_equity a) \<le> max_position_exposure l
     \<and> dquo (projected_gross a r bar) (ac_equity a) \<le> max_gross_exposure l
     \<and> int (card (projected_symbols a r)) \<le> max_positions l
     \<and> dneg (max_daily_loss l) < dsub (dquo (ac_equity a) (ac_day_start_equity a)) 1
     \<and> dneg (max_drawdown l) < dsub (dquo (ac_equity a) (ac_high_watermark a)) 1
     \<and> (allow_leverage l \<or> or_side r = SELL \<or> order_notional r bar \<le> ac_cash a)"

definition acceptable ::
  "risk_engine \<Rightarrow> order_request \<Rightarrow> market_bar \<Rightarrow> account_snapshot \<Rightarrow> instant \<Rightarrow> bool \<Rightarrow> bool" where
  "acceptable k r bar a t e \<longleftrightarrow> market_acceptable k r bar a t e \<and>
     (risk_reducing a r \<or> exposure_acceptable (rk_limits k) r bar a
        \<and> int (length (recent t (rk_order_times k))) < max_orders_per_hour (rk_limits k))"

lemma market_codes_Nil: "market_codes k r bar a t e = Inr [] \<longleftrightarrow> market_acceptable k r bar a t e"
  by (auto simp: market_codes_def Let_def ddiv_def market_acceptable_def not_less not_le)

lemma exposure_codes_Nil:
  "snapshot_ok a \<Longrightarrow> exposure_codes l r bar a (dquo (projected_gross a r bar) (ac_equity a)) = Inr []
     \<longleftrightarrow> exposure_acceptable l r bar a"
  by (cases "or_side r")
    (simp_all add: exposure_codes_def snapshot_ratios ddiv_def snapshot_ok_def exposure_acceptable_def
      not_less not_le)

lemma evaluate_approved_iff:
  assumes "snapshot_ok a"
  shows "(\<exists>d. fst (evaluate r bar a t e k) = Inr d \<and> rd_approved d) \<longleftrightarrow> acceptable k r bar a t e"
proof -
  obtain early where m: "market_codes k r bar a t e = Inr early" using market_codes_total by blast
  let ?g = "dquo (projected_gross a r bar) (ac_equity a)"
  have g: "ddiv (projected_gross a r bar) (ac_equity a) = Inr ?g"
    using assms by (simp add: ddiv_def snapshot_ok_def)
  obtain late where x: "exposure_codes (rk_limits k) r bar a ?g = Inr late"
    using exposure_codes_total [OF assms] by blast
  have "early = [] \<longleftrightarrow> market_acceptable k r bar a t e" "late = [] \<longleftrightarrow> exposure_acceptable (rk_limits k) r bar a"
    using m x market_codes_Nil [of k r bar a t e] exposure_codes_Nil [OF assms, of "rk_limits k" r bar] by auto
  then show ?thesis
    by (auto simp: evaluate_def gate_codes_def Let_def m g x acceptable_def not_le)
qed

text \<open>What an evaluation does to the engine.\<close>

lemma evaluate_state:
  "snd (evaluate r bar a t e k) = k \<or>
   snd (evaluate r bar a t e k) = k\<lparr>rk_order_times := recent t (rk_order_times k)\<rparr> \<or>
   snd (evaluate r bar a t e k) = k\<lparr>rk_order_times := recent t (rk_order_times k) @ [t]\<rparr>"
  by (auto simp: evaluate_def Let_def split: sum.splits prod.splits)

lemma evaluate_keeps [simp]:
  "rk_limits (snd (evaluate r bar a t e k)) = rk_limits k"
  "rk_kill_switch (snd (evaluate r bar a t e k)) = rk_kill_switch k"
  using evaluate_state [of r bar a t e k] by auto

lemma evaluate_approved_state:
  "fst (evaluate r bar a t e k) = Inr d \<Longrightarrow> rd_approved d \<Longrightarrow>
     snd (evaluate r bar a t e k) = k\<lparr>rk_order_times := recent t (rk_order_times k) @ [t]\<rparr>"
  by (auto simp: evaluate_def Let_def split: sum.splits prod.splits)

lemma evaluate_refused_state:
  "fst (evaluate r bar a t e k) = Inr d \<Longrightarrow> \<not> rd_approved d \<Longrightarrow>
     snd (evaluate r bar a t e k) = k\<lparr>rk_order_times := recent t (rk_order_times k)\<rparr>"
  by (auto simp: evaluate_def Let_def split: sum.splits prod.splits)

lemma evaluate_error_state: "fst (evaluate r bar a t e k) = Inl x \<Longrightarrow> snd (evaluate r bar a t e k) = k"
  by (auto simp: evaluate_def Let_def split: sum.splits prod.splits)

lemma evaluate_codes: "fst (evaluate r bar a t e k) = Inr d \<Longrightarrow> rd_approved d \<longleftrightarrow> rd_codes d = []"
  by (auto simp: evaluate_def Let_def split: sum.splits prod.splits)

end
