(* ===== verification/Targets.thy ===== *)
theory Targets
  imports Domain
begin

text \<open>
  The intent of a portfolio strategy (\<^verbatim>\<open>portfolio.py\<close>, \<^verbatim>\<open>PortfolioIntent\<close>): a target weight per symbol.
  Its validators run on construction, the symbols first.
\<close>

record portfolio_intent =
  pi_strategy :: string
  pi_time :: instant
  pi_weights :: "(string, dec) dict"
  pi_rationale :: string

definition normalize_weights :: "(string, dec) dict \<Rightarrow> (string, dec) dict" where
  "normalize_weights ws = fold (\<lambda>(sy, w). AList.update (normalize_symbol sy) w) ws []"

definition mk_portfolio_intent :: "string \<Rightarrow> instant \<Rightarrow> (string, dec) dict \<Rightarrow> string \<Rightarrow> portfolio_intent res" where
  "mk_portfolio_intent strat t ws why =
     bind_res (check (1 \<le> length strat) (ValidationError ''strategy_id'')) (\<lambda>_.
     bind_res (require_length ''rationale'' 1 1000 why) (\<lambda>_.
     (let weights = normalize_weights ws in
      bind_res (check (\<not> list_ex (\<lambda>(sy, w). w < 0 \<or> w > 1) weights)
        (ValidationError ''portfolio target weights must be between zero and one'')) (\<lambda>_.
      bind_res (check (\<not> dsum (map snd weights) > 1) (ValidationError ''portfolio target weights cannot exceed one'')) (\<lambda>_.
      Inr \<lparr>pi_strategy = strat, pi_time = t, pi_weights = weights, pi_rationale = why\<rparr>)))))"

definition weight_of :: "portfolio_intent \<Rightarrow> string \<Rightarrow> dec" where
  "weight_of i sy = dget (pi_weights i) sy 0"

definition intent_ok :: "portfolio_intent \<Rightarrow> bool" where
  "intent_ok i \<longleftrightarrow> dict_ok (pi_weights i) \<and> list_all (\<lambda>(sy, w). 0 \<le> w \<and> w \<le> 1 \<and> normalize_symbol sy = sy) (pi_weights i)
     \<and> dsum (map snd (pi_weights i)) \<le> 1 \<and> pi_strategy i \<noteq> []"

lemma normalize_weights_ok: "dict_ok (normalize_weights ws) \<and> list_all (\<lambda>(sy, w). normalize_symbol sy = sy) (normalize_weights ws)"
proof -
  have "dict_ok d \<and> list_all (\<lambda>(sy, w). normalize_symbol sy = sy) d \<Longrightarrow>
      dict_ok (fold (\<lambda>(sy, w). AList.update (normalize_symbol sy) w) ws d)
      \<and> list_all (\<lambda>(sy, w). normalize_symbol sy = sy) (fold (\<lambda>(sy, w). AList.update (normalize_symbol sy) w) ws d)" for d
  proof (induction ws arbitrary: d)
    case (Cons x ws)
    show ?case
      unfolding fold_simps comp_def by (rule Cons.IH)
        (use Cons.prems in \<open>cases x, auto simp: list_all_iff dest!: update_in_set\<close>)
  qed simp
  then show ?thesis by (simp add: normalize_weights_def)
qed

lemma mk_portfolio_intent_ok: "mk_portfolio_intent strat t ws why = Inr i \<Longrightarrow> intent_ok i"
  using normalize_weights_ok [of ws]
  by (auto simp: mk_portfolio_intent_def intent_ok_def Let_def list_ex_iff list_all_iff not_less split_def)

lemma zero_weights: "dget (normalize_weights (map (\<lambda>b. (k b, 0)) bs)) sy 0 = (0::dec)"
proof -
  have "dget d sy 0 = 0 \<Longrightarrow> dget (fold (\<lambda>(sy, w). AList.update (normalize_symbol sy) w) (map (\<lambda>b. (k b, 0)) bs) d) sy 0 = (0::dec)" for d
  proof (induction bs arbitrary: d)
    case (Cons b bs)
    show ?case
      unfolding list.map fold_simps comp_def by (rule Cons.IH)
        (use Cons.prems in \<open>cases "sy = normalize_symbol (k b)"; simp add: dget_def\<close>)
  qed simp
  then show ?thesis by (simp add: normalize_weights_def dget_def)
qed

lemma weight_of_bounds: "intent_ok i \<Longrightarrow> 0 \<le> weight_of i sy \<and> weight_of i sy \<le> 1"
  by (auto simp: weight_of_def dget_def intent_ok_def list_all_iff split: option.split dest!: map_of_SomeD)

end
