(* ===== verification/Engine.thy ===== *)
theory Engine
  imports Strategy Metrics Ledger BrokerMachine Risk Targets
begin

text \<open>
  \<^verbatim>\<open>engine.py\<close>: the trading engine, which ties strategy, risk gate, paper broker and ledger
  together, one bar at a time. Its state is the components' states and its two counters. Every ledger
  write, broker call and early return of \<^verbatim>\<open>process_bar\<close> is a step here, in the code's order, and a
  raise anywhere keeps what was done before it. The strategy is a parameter, as it is in the code; so
  are the digests (SHA-256 of formatted text) that name decisions and orders, and the clock.
\<close>

datatype payload =
    IntentPayload trade_intent
  | DecisionPayload risk_decision
  | OrderPayload order_request
  | FillPayload fill
  | CheckpointPayload paper_broker_state
  | ProgressPayload string instant string
  | TargetsPayload portfolio_intent
  | PortfolioProgressPayload instant string string

record naming =
  nm_decision :: "trade_intent \<Rightarrow> string"
  nm_bar :: "market_bar \<Rightarrow> string"
  nm_strategy :: "string \<Rightarrow> string"
  nm_fill :: "string \<Rightarrow> dec \<Rightarrow> dec \<Rightarrow> string"
  nm_clock :: "int \<Rightarrow> instant"

record 's engine =
  en_config :: app_config
  en_fingerprint :: string
  en_strategy :: 's
  en_broker :: paper_broker
  en_risk :: risk_engine
  en_ledger :: "payload ledger"
  en_orders :: nat
  en_rejections :: nat

definition new_engine ::
  "app_config \<Rightarrow> string \<Rightarrow> 's \<Rightarrow> paper_broker \<Rightarrow> risk_engine \<Rightarrow> payload ledger \<Rightarrow> 's engine" where
  "new_engine c fp s b k l = \<lparr>en_config = c, en_fingerprint = fp, en_strategy = s, en_broker = b,
     en_risk = k, en_ledger = l, en_orders = 0, en_rejections = 0\<rparr>"

subsection \<open>Calls on the components\<close>

definition on_strategy :: "('s, 'a) routine \<Rightarrow> ('s engine, 'a) routine" where
  "on_strategy m e = (case m (en_strategy e) of (r, s) \<Rightarrow> (r, e\<lparr>en_strategy := s\<rparr>))"

definition on_broker :: "(paper_broker, 'a) routine \<Rightarrow> ('s engine, 'a) routine" where
  "on_broker m e = (case m (en_broker e) of (r, b) \<Rightarrow> (r, e\<lparr>en_broker := b\<rparr>))"

definition on_risk :: "(risk_engine, 'a) routine \<Rightarrow> ('s engine, 'a) routine" where
  "on_risk m e = (case m (en_risk e) of (r, k) \<Rightarrow> (r, e\<lparr>en_risk := k\<rparr>))"

definition log_at ::
  "naming \<Rightarrow> string \<Rightarrow> payload \<Rightarrow> instant \<Rightarrow> string \<Rightarrow> ('s engine, unit) routine" where
  "log_at nm ty p t trace e =
     (Inr (), e\<lparr>en_ledger := snd (append_event ty p t trace (nm_clock nm (lg_next (en_ledger e))) (en_ledger e))\<rparr>)"

abbreviation log_event ::
  "naming \<Rightarrow> string \<Rightarrow> payload \<Rightarrow> market_bar \<Rightarrow> string \<Rightarrow> ('s engine, unit) routine" where
  "log_event nm ty p bar trace \<equiv> log_at nm ty p (bar_time bar) trace"

definition record_progress :: "naming \<Rightarrow> market_bar \<Rightarrow> string \<Rightarrow> ('s engine, unit) routine" where
  "record_progress nm bar trace e =
     log_event nm ''engine_progress'' (ProgressPayload (bar_symbol bar) (bar_time bar) (en_fingerprint e)) bar trace e"

definition count_order :: "('s engine, unit) routine" where
  "count_order e = (Inr (), e\<lparr>en_orders := en_orders e + 1\<rparr>)"

definition count_rejection :: "('s engine, unit) routine" where
  "count_rejection e = (Inr (), e\<lparr>en_rejections := en_rejections e + 1\<rparr>)"

subsection \<open>Planning an order\<close>

definition client_id :: "naming \<Rightarrow> trade_intent \<Rightarrow> string" where
  "client_id nm i = ''ta-'' @ nm_strategy nm (ti_strategy i) @ '':'' @ nm_decision nm i @ '':1''"

definition order_difference :: "dec \<Rightarrow> dec \<Rightarrow> dec \<Rightarrow> dec \<Rightarrow> dec res" where
  "order_difference equity weight close current =
     bind_res (ddiv (dmul equity weight) close) (\<lambda>t. Inr (dsub (to_integral round_down t) current))"

definition order_for :: "naming \<Rightarrow> trade_intent \<Rightarrow> dec \<Rightarrow> market_bar \<Rightarrow> order_request option res" where
  "order_for nm i d bar =
     (if d = 0 then Inr None
      else bind_res (mk_order_request (client_id nm i) (nm_decision nm i) (ti_strategy i) (ti_symbol i)
             (if d > 0 then BUY else SELL) (dabs d) MARKET (bar_time bar)) (\<lambda>r. Inr (Some r)))"

definition plan_order :: "naming \<Rightarrow> trade_intent \<Rightarrow> dec \<Rightarrow> market_bar \<Rightarrow> ('s engine, order_request option) routine" where
  "plan_order nm i equity bar =
     bind_st (on_broker (account (bar_time bar))) (\<lambda>a.
     lift_st (bind_res (order_difference equity (ti_weight i) (bar_close bar) (quantity_for a (ti_symbol i))) (\<lambda>d.
       order_for nm i d bar)))"

subsection \<open>One bar\<close>

definition execute_order ::
  "naming \<Rightarrow> market_bar \<Rightarrow> string \<Rightarrow> trade_intent \<Rightarrow> order_request \<Rightarrow> risk_decision \<Rightarrow> ('s engine, engine_step) routine" where
  "execute_order nm bar trace i r d =
     bind_st (log_event nm ''order_submitted'' (OrderPayload r) bar trace) (\<lambda>_.
     bind_st (on_broker (submit (nm_fill nm) r bar)) (\<lambda>f.
     bind_st (log_event nm ''order_filled'' (FillPayload f) bar trace) (\<lambda>_.
     bind_st (on_broker (account (bar_time bar))) (\<lambda>a.
     bind_st (on_broker (\<lambda>b. (export_state b, b))) (\<lambda>st.
     bind_st (log_event nm ''broker_checkpoint'' (CheckpointPayload st) bar trace) (\<lambda>_.
     bind_st (record_progress nm bar trace) (\<lambda>_.
     return_st \<lparr>es_time = bar_time bar, es_symbol = bar_symbol bar, es_intent = Some i, es_order = Some r,
       es_risk = Some d, es_fill = Some f, es_equity = ac_equity a\<rparr>)))))))"

definition judge_order ::
  "naming \<Rightarrow> market_bar \<Rightarrow> instant \<Rightarrow> string \<Rightarrow> trade_intent \<Rightarrow> order_request \<Rightarrow> account_snapshot
     \<Rightarrow> ('s engine, engine_step) routine" where
  "judge_order nm bar observed trace i r a =
     bind_st count_order (\<lambda>_.
     bind_st (\<lambda>e. on_risk (evaluate r bar a observed (trading_enabled (en_config e))) e) (\<lambda>d.
     bind_st (log_event nm ''risk_decision'' (DecisionPayload d) bar trace) (\<lambda>_.
     if \<not> rd_approved d
     then bind_st count_rejection (\<lambda>_.
          bind_st (record_progress nm bar trace) (\<lambda>_.
          return_st \<lparr>es_time = bar_time bar, es_symbol = bar_symbol bar, es_intent = Some i, es_order = Some r,
            es_risk = Some d, es_fill = None, es_equity = ac_equity a\<rparr>))
     else execute_order nm bar trace i r d)))"

definition act_on_intent ::
  "naming \<Rightarrow> market_bar \<Rightarrow> instant \<Rightarrow> trade_intent \<Rightarrow> account_snapshot \<Rightarrow> ('s engine, engine_step) routine" where
  "act_on_intent nm bar observed i a =
     (let trace = nm_decision nm i in
      bind_st (log_event nm ''trade_intent'' (IntentPayload i) bar trace) (\<lambda>_.
      bind_st (plan_order nm i (ac_equity a) bar) (\<lambda>planned.
      case planned of
        None \<Rightarrow> bind_st (record_progress nm bar trace) (\<lambda>_.
          return_st \<lparr>es_time = bar_time bar, es_symbol = bar_symbol bar, es_intent = Some i, es_order = None,
            es_risk = None, es_fill = None, es_equity = ac_equity a\<rparr>)
      | Some r \<Rightarrow> judge_order nm bar observed trace i r a)))"

type_synonym 's on_bar = "market_bar \<Rightarrow> ('s, trade_intent option) routine"

definition process_bar :: "naming \<Rightarrow> 's on_bar \<Rightarrow> market_bar \<Rightarrow> instant option \<Rightarrow> ('s engine, engine_step) routine" where
  "process_bar nm strategy bar observed_at =
     bind_st (on_broker (\<lambda>b. (Inr (), mark bar b))) (\<lambda>_.
     bind_st (on_strategy (strategy bar)) (\<lambda>intent.
     bind_st (on_broker (account (bar_time bar))) (\<lambda>a.
     case intent of
       None \<Rightarrow> bind_st (record_progress nm bar (nm_bar nm bar)) (\<lambda>_.
         return_st \<lparr>es_time = bar_time bar, es_symbol = bar_symbol bar, es_intent = None, es_order = None,
           es_risk = None, es_fill = None, es_equity = ac_equity a\<rparr>)
     | Some i \<Rightarrow> act_on_intent nm bar (case observed_at of None \<Rightarrow> bar_time bar | Some t \<Rightarrow> t) i a)))"

subsection \<open>A backtest\<close>

fun run_bars :: "naming \<Rightarrow> 's on_bar \<Rightarrow> market_bar list \<Rightarrow> dec list \<Rightarrow> ('s engine, dec list) routine" where
  "run_bars nm strategy [] eqs = return_st eqs"
| "run_bars nm strategy (b # bs) eqs =
     bind_st (process_bar nm strategy b None) (\<lambda>step. run_bars nm strategy bs (eqs @ [es_equity step]))"

record backtest_report =
  rp_symbol :: string
  rp_started_at :: instant
  rp_ended_at :: instant
  rp_starting_equity :: dec
  rp_ending_equity :: dec
  rp_metrics :: decimal_metrics
  rp_orders :: nat
  rp_fills :: nat
  rp_rejected :: nat
  rp_final_positions :: "position list"

definition traded_notional :: "paper_broker \<Rightarrow> dec" where
  "traded_notional b = dsum (map fill_notional (broker_fills b))"

definition run_report ::
  "market_bar \<Rightarrow> market_bar \<Rightarrow> dec \<Rightarrow> dec \<Rightarrow> dec list \<Rightarrow> account_snapshot \<Rightarrow> ('s engine, backtest_report) routine" where
  "run_report first final starting traded0 eqs a e =
     (bind_res (performance_metrics eqs (dsub (traded_notional (en_broker e)) traded0)) (\<lambda>m.
      Inr \<lparr>rp_symbol = bar_symbol first, rp_started_at = bar_time first, rp_ended_at = bar_time final,
        rp_starting_equity = starting, rp_ending_equity = ac_equity a, rp_metrics = m,
        rp_orders = en_orders e, rp_fills = fill_count (en_broker e), rp_rejected = en_rejections e,
        rp_final_positions = ac_positions a\<rparr>), e)"

definition run_backtest :: "naming \<Rightarrow> 's on_bar \<Rightarrow> market_bar list \<Rightarrow> ('s engine, backtest_report) routine" where
  "run_backtest nm strategy bars e0 =
     (if bars = [] then raise_st (ValueError ''at least one market bar is required'') e0
      else bind_st (on_broker (account (bar_time (hd bars)))) (\<lambda>a0.
           bind_st (run_bars nm strategy bars [ac_equity a0]) (\<lambda>eqs.
           bind_st (on_broker (account (bar_time (last bars)))) (\<lambda>a.
           bind_st (on_broker (\<lambda>b. (export_state b, b))) (\<lambda>st.
           bind_st (log_event nm ''broker_checkpoint'' (CheckpointPayload st) (last bars) (nm_bar nm (last bars))) (\<lambda>_.
           run_report (hd bars) (last bars) (ac_equity a0) (traded_notional (en_broker e0)) eqs a))))) e0)"

end
