(* ===== verification/BrokerAccounting.thy ===== *)
theory BrokerAccounting
  imports BrokerMachine
begin

text \<open>
  Exact accounting. Prices have six decimals and commissions four, so while order quantities have
  at most four decimals and no amount reaches \<open>10 ^ 17\<close>, no operation on the cash rounds: the cash
  is, to the last digit, the starting cash plus what the recorded fills paid and received.
\<close>

definition cash_flow :: "fill \<Rightarrow> rat" where
  "cash_flow f = (if fl_side f = BUY then - (fl_price f * fl_quantity f) - fl_commission f
                  else fl_price f * fl_quantity f - fl_commission f)"

definition booked :: "paper_broker \<Rightarrow> rat" where
  "booked b = sum_list (map cash_flow (broker_fills b))"

definition small :: "rat \<Rightarrow> bool" where
  "small x \<longleftrightarrow> \<bar>x\<bar> < 10 ^ 17"

lemma cash_add_exact:
  "on_grid 10 x \<Longrightarrow> on_grid 10 y \<Longrightarrow> \<bar>x + y\<bar> < 10 ^ 18 \<Longrightarrow> dadd x y = x + y"
  by (rule dadd_exact [of 10]) simp_all

lemma cash_sub_exact:
  "on_grid 10 x \<Longrightarrow> on_grid 10 y \<Longrightarrow> \<bar>x - y\<bar> < 10 ^ 18 \<Longrightarrow> dsub x y = x - y"
  by (rule dsub_exact [of 10]) simp_all

lemma settled_cash_exact:
  assumes c: "broker_config_ok c" and q4: "on_grid 4 (or_quantity r)" and bar: "bar_ok bar"
    and t: "execution_terms c r bar p = Inr (price, q, notional, comm)"
    and s: "settle (or_side r) q price notional comm p cash = Inr (p', cash')"
    and p: "position_ok p" and cash: "on_grid 10 cash" "0 \<le> cash" "small cash"
    and n: "small (price * q)"
  shows "on_grid 10 cash'" and "cash' = cash + (if or_side r = BUY then - (price * q) - comm else price * q - comm)"
proof -
  note T = execution_terms_Inr [OF t]
  have price: "0 \<le> price" using execution_price_nonneg [OF T(1) c] bar by (simp add: bar_ok_def)
  have "on_grid 4 (available_quantity c (bar_volume bar))" by (simp add: available_quantity_def to_integral_def)
  with q4 have "on_grid 4 q" unfolding T(2) by (simp add: min_def)
  with execution_price_grid [OF T(1)] have g: "on_grid 10 (price * q)"
    using on_grid_mult [of 6 price 4 q] by simp
  have pq: "0 \<le> price * q" using price T(3) by simp
  have notional: "notional = price * q"
    unfolding T(4) using execution_price_grid [OF T(1)] \<open>on_grid 4 q\<close> n
    by (intro dmul_exact [of 6 _ 4]) (simp_all add: small_def)
  have comm: "0 \<le> comm" "comm \<le> notional" "on_grid 4 comm"
    using commission_bounds [OF T(5) c] pq by (simp_all add: notional)
  have gc: "on_grid 10 comm" using comm(3) by (rule on_grid_weaken) simp
  have lim: "price * q < 10 ^ 17" "cash < 10 ^ 17" using n cash(3) by (simp_all add: small_def)
  note S = settle_ok(4,5) [OF s p T(3) _ comm(2) cash(2) T(6)]
  have "on_grid 10 cash' \<and>
    cash' = cash + (if or_side r = BUY then - (price * q) - comm else price * q - comm)"
  proof (cases "or_side r = BUY")
    case True
    have req: "dadd notional comm = price * q + comm"
      unfolding notional using g gc comm lim pq notional by (intro cash_add_exact) auto
    then have le: "price * q + comm \<le> cash" using S(2) True pq by (simp add: notional)
    have "dsub cash (price * q + comm) = cash - (price * q + comm)"
      using cash g gc lim le comm pq by (intro cash_sub_exact on_grid_add) auto
    then have "cash' = cash - (price * q + comm)"
      using S(1) True pq req by (simp add: notional)
    with True g gc cash(1) show ?thesis by (auto intro: on_grid_diff on_grid_add)
  next
    case False
    have net: "dsub notional comm = price * q - comm"
      unfolding notional using g gc comm lim pq notional by (intro cash_sub_exact) auto
    have "dadd cash (price * q - comm) = cash + (price * q - comm)"
      using cash g gc lim comm pq notional by (intro cash_add_exact on_grid_diff) auto
    then have "cash' = cash + (price * q - comm)"
      using S(1) False pq net by (simp add: notional)
    with False g gc cash(1) show ?thesis by (auto intro: on_grid_diff on_grid_add)
  qed
  then show "on_grid 10 cash'"
    and "cash' = cash + (if or_side r = BUY then - (price * q) - comm else price * q - comm)" by blast+
qed

text \<open>A broker that opened with \<open>c0\<close> in cash and whose books balance.\<close>

definition balanced :: "dec \<Rightarrow> paper_broker \<Rightarrow> bool" where
  "balanced c0 b \<longleftrightarrow> broker_ok b \<and> on_grid 10 (bk_cash b) \<and> booked b = bk_cash b - c0"

text \<open>Steps that stay within the bounds: the cash and what any fill moves are below \<open>10 ^ 17\<close>.\<close>

definition within_bounds :: "paper_broker \<Rightarrow> bool" where
  "within_bounds b \<longleftrightarrow> small (bk_cash b) \<and> (\<forall>f \<in> set (broker_fills b). small (fl_price f * fl_quantity f))"

inductive bounded_step ::
  "(string \<Rightarrow> dec \<Rightarrow> dec \<Rightarrow> string) \<Rightarrow> paper_broker \<Rightarrow> paper_broker \<Rightarrow> bool" for fid where
  bs_mark: "bar_ok bar \<Longrightarrow> bounded_step fid b (mark bar b)"
| bs_account: "bounded_step fid b (snd (account t b))"
| bs_submit: "bar_ok bar \<Longrightarrow> on_grid 4 (or_quantity r) \<Longrightarrow> within_bounds b
     \<Longrightarrow> within_bounds (snd (submit fid r bar b)) \<Longrightarrow> bounded_step fid b (snd (submit fid r bar b))"

lemma booked_simps [simp]:
  "booked (mark bar b) = booked b"
  "booked (snd (account t b)) = booked b"
  "booked (with_entry s b) = booked b"
  by (simp_all add: booked_def broker_fills_def)

lemma submit_balanced:
  assumes bal: "balanced c0 b" and bar: "bar_ok bar" and q4: "on_grid 4 (or_quantity r)"
    and w: "within_bounds b" "within_bounds (snd (submit fid r bar b))"
  shows "balanced c0 (snd (submit fid r bar b))"
proof -
  have ok: "broker_ok b" and g: "on_grid 10 (bk_cash b)" and cash: "booked b = bk_cash b - c0"
    using bal by (simp_all add: balanced_def)
  have ok': "broker_ok (snd (submit fid r bar b))" by (rule submit_ok [OF ok bar])
  show ?thesis
  proof (cases rule: submit_cases [of r b fid bar])
    case (settled price q notional comm p' cash' b1)
    note S = settled_ok [OF ok bar settled(4,5)]
    have c: "broker_config_ok (bk_config b)" "0 \<le> bk_cash b" using ok by (simp_all add: broker_ok_def)
    have small0: "small (bk_cash b)" using w(1) by (simp add: within_bounds_def)
    note exact = settled_cash_exact [OF c(1) q4 bar settled(4,5) position_lookup_ok [OF ok] g c(2) small0]
    let ?mk = "mk_fill (fid (or_client_id r) price q) (or_client_id r) (or_symbol r) (or_side r) q price
                  comm (bar_time bar)"
    show ?thesis
    proof (cases ?mk)
      case (Inl e)
      then have "price = 0" using mk_fill_Inl S(3,4,5) by blast
      moreover from this have "comm = 0"
        using execution_terms_Inr(4,5) [OF settled(4)] commission_bounds(1,2) [OF _ c(1)]
        by fastforce
      ultimately have "cash' = bk_cash b" "on_grid 10 cash'" using exact by (simp_all add: small_def)
      with Inl ok' cash show ?thesis
        by (simp add: settled(6,7) balanced_def booked_def broker_fills_def)
    next
      case (Inr f)
      let ?b' = "mark bar (b1\<lparr>bk_fills := AList.update (or_client_id r) f (bk_fills b1)\<rparr>)"
      have f: "fl_side f = or_side r" "fl_quantity f = q" "fl_price f = price" "fl_commission f = comm"
        using Inr by (simp_all add: mk_fill_Inr)
      have fills: "broker_fills ?b' = broker_fills b @ [f]"
        using settled(2) by (simp add: broker_fills_def settled(6) update_append_fresh)
      have sub: "submit fid r bar b = (Inr f, ?b')" using Inr settled(7) by simp
      then have "small (price * q)" using w(2) fills f by (simp add: within_bounds_def)
      from exact [OF this] have "on_grid 10 (bk_cash ?b')" "bk_cash ?b' = bk_cash b + cash_flow f"
        by (simp_all add: settled(6) cash_flow_def f)
      with ok' cash fills sub show ?thesis by (simp add: balanced_def booked_def)
    qed
  qed (use bal ok' in \<open>simp_all add: balanced_def\<close>)
qed

lemma mark_balanced: "balanced c0 b \<Longrightarrow> bar_ok bar \<Longrightarrow> balanced c0 (mark bar b)"
  by (simp add: balanced_def mark_ok)

lemma account_balanced: "balanced c0 b \<Longrightarrow> balanced c0 (snd (account t b))"
  by (simp add: balanced_def account_ok)

interpretation accounting: machine
  "\<lambda>b. \<exists>c. broker_config_ok c \<and> on_grid 10 (starting_cash c) \<and> starting_cash c = c0 \<and> b = new_broker c"
  "bounded_step fid" "balanced c0" for fid c0
proof
  show "balanced c0 b \<Longrightarrow> bounded_step fid b c \<Longrightarrow> balanced c0 c" for b c
    by (erule bounded_step.cases) (auto intro: submit_balanced mark_balanced account_balanced)
qed (auto simp: balanced_def new_broker_ok booked_def broker_fills_def)

subsection \<open>Quantities\<close>

text \<open>What the recorded fills say is held of a symbol.\<close>

definition signed_fill :: "fill \<Rightarrow> rat" where
  "signed_fill f = (if fl_side f = BUY then fl_quantity f else - fl_quantity f)"

definition held :: "string \<Rightarrow> paper_broker \<Rightarrow> rat" where
  "held s b = sum_list (map signed_fill (filter (\<lambda>f. fl_symbol f = s) (broker_fills b)))"

definition quantity_of :: "string \<Rightarrow> paper_broker \<Rightarrow> dec" where
  "quantity_of s b = st_quantity (dget (bk_positions b) s empty_position)"

definition matched :: "paper_broker \<Rightarrow> bool" where
  "matched b \<longleftrightarrow> broker_ok b \<and> (\<forall>s. on_grid 4 (quantity_of s b) \<and> held s b = quantity_of s b)"

inductive tradable_step ::
  "(string \<Rightarrow> dec \<Rightarrow> dec \<Rightarrow> string) \<Rightarrow> paper_broker \<Rightarrow> paper_broker \<Rightarrow> bool" for fid where
  ts_mark: "bar_ok bar \<Longrightarrow> tradable_step fid b (mark bar b)"
| ts_account: "tradable_step fid b (snd (account t b))"
| ts_submit: "bar_ok bar \<Longrightarrow> 1 / 10 ^ 6 \<le> bar_close bar \<Longrightarrow> on_grid 4 (or_quantity r)
     \<Longrightarrow> quantity_of (or_symbol r) b < 10 ^ 23 \<Longrightarrow> or_quantity r < 10 ^ 23
     \<Longrightarrow> tradable_step fid b (snd (submit fid r bar b))"

lemma matched_simps:
  "held s (mark bar b) = held s b" "quantity_of s (mark bar b) = quantity_of s b"
  "held s (snd (account t b)) = held s b" "quantity_of s (snd (account t b)) = quantity_of s b"
  "held s (with_entry k b) = held s b" "quantity_of s (with_entry k b) = quantity_of s b"
  by (simp_all add: held_def quantity_of_def broker_fills_def)

lemma submit_matched:
  assumes m: "matched b" and bar: "bar_ok bar" "1 / 10 ^ 6 \<le> bar_close bar"
    and q4: "on_grid 4 (or_quantity r)"
    and lim: "quantity_of (or_symbol r) b < 10 ^ 23" "or_quantity r < 10 ^ 23"
  shows "matched (snd (submit fid r bar b))"
proof -
  have ok: "broker_ok b" using m by (simp add: matched_def)
  have ok': "broker_ok (snd (submit fid r bar b))" by (rule submit_ok [OF ok bar(1)])
  show ?thesis
  proof (cases rule: submit_cases [of r b fid bar])
    case (settled price q notional comm p' cash' b1)
    note S = settled_ok [OF ok bar(1) settled(4,5)]
    note T = execution_terms_Inr [OF settled(4)]
    have c: "broker_config_ok (bk_config b)" "0 \<le> bk_cash b" using ok by (simp_all add: broker_ok_def)
    have "0 < price" by (rule execution_price_pos [OF T(1) c(1) bar(2)])
    then obtain f where f: "mk_fill (fid (or_client_id r) price q) (or_client_id r) (or_symbol r)
        (or_side r) q price comm (bar_time bar) = Inr f"
      and ff: "fl_side f = or_side r" "fl_quantity f = q" "fl_symbol f = or_symbol r"
      using S(4,5) by (simp add: mk_fill_Inr)
    let ?p = "dget (bk_positions b) (or_symbol r) empty_position"
    let ?b' = "mark bar (b1\<lparr>bk_fills := AList.update (or_client_id r) f (bk_fills b1)\<rparr>)"
    have "on_grid 4 (available_quantity (bk_config b) (bar_volume bar))"
      by (simp add: available_quantity_def to_integral_def)
    with q4 have gq: "on_grid 4 q" unfolding T(2) by (simp add: min_def)
    have gp: "on_grid 4 (st_quantity ?p)" using m by (simp add: matched_def quantity_of_def)
    have p: "0 \<le> st_quantity ?p" "st_quantity ?p < 10 ^ 23"
      using position_lookup_ok [OF ok, of "or_symbol r"] lim by (simp_all add: position_ok_def quantity_of_def)
    have ql: "q < 10 ^ 23" using lim(2) T(2) by simp
    have n: "0 \<le> notional" unfolding T(4) using S(3) T(3) by (intro dmul_nonneg) auto
    have q': "st_quantity p' = (if or_side r = BUY then dadd (st_quantity ?p) q else dsub (st_quantity ?p) q)"
      by (rule settle_ok(3) [OF settled(5) position_lookup_ok [OF ok] T(3) n
            commission_bounds(2) [OF T(5) c(1) n] c(2) T(6)])
    have exact: "st_quantity p' = st_quantity ?p + signed_fill f"
    proof (cases "or_side r = BUY")
      case True
      then show ?thesis unfolding q' signed_fill_def ff
        using gp gq p ql T(3) by (simp add: dadd_exact [of 4])
    next
      case False
      then have "q \<le> st_quantity ?p" using T(6) by (cases "or_side r") auto
      with False show ?thesis unfolding q' signed_fill_def ff
        using gp gq p ql T(3) by (simp add: dsub_exact [of 4])
    qed
    have fills: "broker_fills ?b' = broker_fills b @ [f]"
      using settled(2) by (simp add: broker_fills_def settled(6) update_append_fresh)
    have "on_grid 4 (quantity_of s ?b') \<and> held s ?b' = quantity_of s ?b'" for s
    proof (cases "s = or_symbol r")
      case True
      have "on_grid 4 (st_quantity ?p + signed_fill f)"
        using gp gq on_grid_diff [OF gp gq] by (auto simp: signed_fill_def ff intro: on_grid_add)
      moreover have "quantity_of s ?b' = st_quantity p'"
        by (simp add: True quantity_of_def settled(6) dget_def)
      moreover have "held s ?b' = held s b + signed_fill f"
        unfolding held_def fills by (simp add: True ff)
      moreover have "held s b = st_quantity ?p" using m by (simp add: True matched_def quantity_of_def)
      ultimately show ?thesis by (simp add: exact)
    next
      case False
      then have "quantity_of s ?b' = quantity_of s b"
        using matched_simps(6) [of s "or_symbol r" b]
        by (simp add: quantity_of_def settled(6) dget_def)
      moreover have "held s ?b' = held s b" unfolding held_def fills using False by (simp add: ff)
      ultimately show ?thesis using m by (simp add: matched_def)
    qed
    with ok' show ?thesis by (simp add: settled(7) f matched_def)
  qed (use m ok' in \<open>simp_all add: matched_def matched_simps\<close>)
qed

lemma mark_matched: "matched b \<Longrightarrow> bar_ok bar \<Longrightarrow> matched (mark bar b)"
  by (simp add: matched_def matched_simps mark_ok)

lemma account_matched: "matched b \<Longrightarrow> matched (snd (account t b))"
  by (simp add: matched_def matched_simps account_ok)

interpretation matching: machine
  "\<lambda>b. \<exists>c. broker_config_ok c \<and> b = new_broker c" "tradable_step fid" matched for fid
proof
  show "matched b \<Longrightarrow> tradable_step fid b c \<Longrightarrow> matched c" for b c
    by (erule tradable_step.cases) (auto intro: submit_matched mark_matched account_matched)
qed (auto simp: matched_def new_broker_ok held_def quantity_of_def broker_fills_def dget_def
       empty_position_def on_grid_def)

end
