(* ===== verification/BrokerLaws.thy ===== *)
theory BrokerLaws
  imports BrokerAccounting
begin

text \<open>
  The paper broker's properties, each over the runs of the machine or over one call in any state
  that satisfies the invariant, with the concrete runs that show their hypotheses hold.
\<close>

subsection \<open>Export and restore\<close>

lemma fold_update_fresh:
  "distinct (map fst (acc @ kvs)) \<Longrightarrow> fold (\<lambda>(k, v). AList.update k v) kvs acc = acc @ kvs"
proof (induction kvs arbitrary: acc)
  case (Cons kv kvs)
  obtain k v where kv: "kv = (k, v)" by (cases kv)
  have "map_of acc k = None" using Cons.prems by (auto simp: kv map_of_eq_None_iff)
  then have "AList.update k v acc = acc @ [(k, v)]" by (rule update_append_fresh)
  with Cons show ?case by (simp add: kv)
qed simp

lemma dict_of_id: "dict_ok d \<Longrightarrow> dict_of d = d"
  using fold_update_fresh [of "[]" d] by (simp add: dict_of_def dict_ok_def)

lemma dict_ok_by_key: "dict_ok d \<Longrightarrow> dict_ok (by_key d)"
proof -
  assume "dict_ok d"
  moreover have "mset (map fst (by_key d)) = mset (map fst d)"
    by (simp only: by_key_def mset_map mset_sort)
  ultimately show ?thesis unfolding dict_ok_def by (metis mset_eq_imp_distinct_iff)
qed

lemma map_of_by_key: "dict_ok d \<Longrightarrow> map_of (by_key d) = map_of d"
  using dict_ok_by_key [of d] map_of_inject_set [of "by_key d" d]
  by (simp add: dict_ok_def) (simp add: by_key_def)

lemma export_positions:
  "map_res (\<lambda>(s, p). mk_paper_position_state s (st_quantity p) (st_average_price p)
      (st_realized_pnl p) (st_entry_commission p)) d = Inr ps \<Longrightarrow>
   map (\<lambda>p. (pp_symbol p, \<lparr>st_quantity = pp_quantity p, st_average_price = pp_average_price p,
      st_realized_pnl = pp_realized_pnl p, st_entry_commission = pp_entry_commission p\<rparr>)) ps = d"
  by (induction d arbitrary: ps) (auto simp: mk_paper_position_state_def)

lemma export_fills:
  "\<forall>e \<in> set fs. fill_entry_ok e \<Longrightarrow> map (\<lambda>f. (fl_client_id f, f)) (map snd fs) = fs"
  by (induction fs) (auto simp: fill_entry_ok_def)

text \<open>C16 Export then restore gives the broker back, its positions in key order: every balance, mark,
  fill, watermark and position of the checkpoint survives a restart.\<close>

theorem export_restore:
  assumes ok: "broker_ok b" and ex: "export_state b = Inr st"
  shows "from_state (bk_config b) st = b\<lparr>bk_positions := by_key (bk_positions b)\<rparr>
    \<and> map_of (bk_positions (from_state (bk_config b) st)) = map_of (bk_positions b)"
proof -
  obtain ps where ps: "map_res (\<lambda>(s, p). mk_paper_position_state s (st_quantity p) (st_average_price p)
      (st_realized_pnl p) (st_entry_commission p)) (by_key (bk_positions b)) = Inr ps"
    and st: "pb_positions st = ps" "pb_cash st = bk_cash b" "pb_marks st = bk_marks b"
      "pb_fills st = broker_fills b" "pb_session_date st = bk_session_date b"
      "pb_day_start_equity st = bk_day_start_equity b" "pb_high_watermark st = bk_high_watermark b"
    using ex by (auto simp: export_state_def mk_paper_broker_state_def)
  have d: "dict_ok (bk_positions b)" "dict_ok (bk_fills b)" using ok by (simp_all add: broker_ok_def)
  have f: "map (\<lambda>f. (fl_client_id f, f)) (broker_fills b) = bk_fills b"
    unfolding broker_fills_def by (rule export_fills) (use ok in \<open>simp add: broker_ok_def\<close>)
  have eq: "from_state (bk_config b) st = b\<lparr>bk_positions := by_key (bk_positions b)\<rparr>"
    unfolding from_state_def st export_positions [OF ps] f
    using d by (simp add: dict_of_id dict_ok_by_key new_broker_def)
  show ?thesis using d by (simp add: eq map_of_by_key)
qed

subsection \<open>A concrete session\<close>

text \<open>One symbol, a bar at 100 with a volume of 100000, and an order for ten units each way.\<close>

definition demo_bar :: market_bar where
  "demo_bar = \<lparr>bar_symbol = ''SPY'', bar_time = 0, bar_open = 100, bar_high = 101, bar_low = 99,
     bar_close = 100, bar_volume = 100000\<rparr>"

definition demo_order :: "string \<Rightarrow> side \<Rightarrow> dec \<Rightarrow> order_request" where
  "demo_order cid sd q = \<lparr>or_client_id = cid, or_decision = ''d'', or_strategy = ''s'',
     or_symbol = ''SPY'', or_side = sd, or_quantity = q, or_type = MARKET, or_submitted_at = 0\<rparr>"

definition demo_fid :: "string \<Rightarrow> dec \<Rightarrow> dec \<Rightarrow> string" where
  "demo_fid cid p q = cid"

definition demo_broker :: paper_broker where
  "demo_broker = new_broker default_broker_config"

definition demo_bought :: "fill res \<times> paper_broker" where
  "demo_bought = submit demo_fid (demo_order ''a'' BUY 10) demo_bar demo_broker"

lemma demo_bar_ok: "bar_ok demo_bar"
  by code_simp

lemma demo_config_ok: "broker_config_ok default_broker_config"
  by (simp add: broker_config_ok_iff default_broker_config_def)

lemmas broker_eval = dec_eval execution_cost_def cost_multiplier_def execution_price_def
  available_quantity_def commission_on_def money_def execution_terms_def submit_def settle_def
  buy_position_def sell_position_def new_broker_def mk_fill_def dget_def require_gt0_def
  require_ge0_def default_broker_config_def demo_order_def demo_bar_def empty_position_def
  demo_fid_def demo_broker_def demo_bought_def

definition demo_fill :: fill where
  "demo_fill = \<lparr>fl_id = ''a'', fl_client_id = ''a'', fl_symbol = ''SPY'', fl_side = BUY,
     fl_quantity = 10, fl_price = 4001 / 40, fl_commission = 1 / 10, fl_at = 0\<rparr>"

lemma demo_terms:
  "execution_terms default_broker_config (demo_order ''a'' BUY 10) demo_bar empty_position
     = Inr (4001 / 40, 10, 4001 / 4, 1 / 10)"
  by (simp add: broker_eval)

lemma demo_settle:
  "settle BUY 10 (4001 / 40) (4001 / 4) (1 / 10) empty_position 100000
     = Inr (\<lparr>st_quantity = 10, st_average_price = 4001 / 40, st_realized_pnl = 0,
              st_entry_commission = 1 / 10\<rparr>, 1979993 / 20)"
  by (simp add: settle_def buy_position_def empty_position_def dec_eval)

lemma demo_start:
  "demo_broker = \<lparr>bk_config = default_broker_config, bk_cash = 100000, bk_positions = [],
     bk_marks = [], bk_fills = [], bk_session_date = None, bk_day_start_equity = 100000,
     bk_high_watermark = 100000\<rparr>"
  by (simp add: demo_broker_def new_broker_def default_broker_config_def)

lemma demo_order_simps [simp]:
  "or_type (demo_order c sd q) = MARKET" "or_client_id (demo_order c sd q) = c"
  "or_symbol (demo_order c sd q) = ''SPY''" "or_side (demo_order c sd q) = sd"
  "or_quantity (demo_order c sd q) = q" "bar_symbol demo_bar = ''SPY''" "bar_close demo_bar = 100"
  "bar_time demo_bar = 0"
  by (simp_all add: demo_order_def demo_bar_def)

lemma demo_equity:
  "calculate_equity \<lparr>bk_config = c, bk_cash = 1979993 / 20,
     bk_positions = [(''SPY'', \<lparr>st_quantity = 10, st_average_price = 4001 / 40,
        st_realized_pnl = 0, st_entry_commission = 1 / 10\<rparr>)],
     bk_marks = ms, bk_fills = fs, bk_session_date = d, bk_day_start_equity = e, bk_high_watermark = h\<rparr>
   = (case map_of ms ''SPY'' of None \<Rightarrow> 999999 / 10 | Some m \<Rightarrow> dadd (1979993 / 20) (dround (dmul 10 m)))"
  by (simp add: calculate_equity_def dget_def dec_eval split: option.split)

lemma demo_bought_full:
  "demo_bought = (Inr demo_fill, \<lparr>bk_config = default_broker_config, bk_cash = 1979993 / 20,
     bk_positions = [(''SPY'', \<lparr>st_quantity = 10, st_average_price = 4001 / 40,
        st_realized_pnl = 0, st_entry_commission = 1 / 10\<rparr>)],
     bk_marks = [(''SPY'', 100)], bk_fills = [(''a'', demo_fill)], bk_session_date = Some 0,
     bk_day_start_equity = 999999 / 10, bk_high_watermark = 100000\<rparr>)"
proof -
  have "submit demo_fid (demo_order ''a'' BUY 10) demo_bar demo_broker =
    (Inr demo_fill, mark demo_bar \<lparr>bk_config = default_broker_config, bk_cash = 1979993 / 20,
     bk_positions = [(''SPY'', \<lparr>st_quantity = 10, st_average_price = 4001 / 40,
        st_realized_pnl = 0, st_entry_commission = 1 / 10\<rparr>)],
     bk_marks = [], bk_fills = [(''a'', demo_fill)], bk_session_date = None,
     bk_day_start_equity = 100000, bk_high_watermark = 100000\<rparr>)"
    by (simp add: submit_def demo_start dget_def demo_terms demo_settle Let_def mk_fill_def
        require_gt0_def require_ge0_def demo_fid_def demo_fill_def)
  then show ?thesis
    by (simp add: demo_bought_def mark_def demo_equity Let_def utc_date_def dec_eval)
qed

lemma demo_bought_eval:
  "fst demo_bought = Inr demo_fill \<and> bk_cash (snd demo_bought) = 1979993 / 20
     \<and> bk_fills (snd demo_bought) = [(''a'', demo_fill)]"
  by (simp add: demo_bought_full)

lemma demo_bought_pair: "submit demo_fid (demo_order ''a'' BUY 10) demo_bar demo_broker = (Inr demo_fill, snd demo_bought)"
  using demo_bought_eval by (simp add: demo_bought_def prod_eq_iff)

lemma demo_run: "(broker_step demo_fid)\<^sup>*\<^sup>* demo_broker (snd demo_bought)"
  unfolding demo_bought_def by (intro r_into_rtranclp broker_step.b_submit demo_bar_ok)

theorem export_restore_witness:
  "\<exists>st. export_state (snd demo_bought) = Inr st
     \<and> from_state default_broker_config st = (snd demo_bought)\<lparr>bk_positions := by_key (bk_positions (snd demo_bought))\<rparr>"
proof -
  have ok: "broker_ok (snd demo_bought)"
    using broker_machine.inv_run [OF demo_run] by (simp add: demo_broker_def new_broker_ok demo_config_ok)
  have ex: "\<exists>st. export_state (snd demo_bought) = Inr st"
    by (simp add: demo_bought_full export_state_def mk_paper_position_state_def mk_paper_broker_state_def
        by_key_def)
  have "bk_config (snd demo_bought) = default_broker_config"
    by (simp add: demo_bought_full)
  with ex export_restore [OF ok] show ?thesis by metis
qed

subsection \<open>Safety of the books\<close>

text \<open>C6 In every state the broker can reach, whatever the orders, bars and refusals, its cash is not
  negative, no position is short, average prices are not negative and vanish with the position, and
  every recorded fill has a positive quantity and price and a commission of at least zero.\<close>

theorem broker_books_safe:
  assumes "broker_config_ok c" and "(broker_step fid)\<^sup>*\<^sup>* (new_broker c) b"
  shows "0 \<le> bk_cash b
    \<and> (\<forall>(s, p) \<in> set (bk_positions b). 0 \<le> st_quantity p \<and> 0 \<le> st_average_price p
         \<and> (st_quantity p = 0 \<longrightarrow> st_average_price p = 0 \<and> st_entry_commission p = 0))
    \<and> (\<forall>f \<in> set (broker_fills b). 0 < fl_quantity f \<and> 0 < fl_price f \<and> 0 \<le> fl_commission f)"
proof -
  have "broker_ok b" using broker_machine.inv_reachable assms by blast
  then show ?thesis
    by (auto simp: broker_ok_def position_ok_def fill_entry_ok_def broker_fills_def)
qed

theorem broker_books_safe_witness:
  "0 \<le> bk_cash (snd demo_bought) \<and> 0 < fl_price demo_fill"
proof -
  have m: "demo_fill \<in> set (broker_fills (snd demo_bought))"
    using demo_bought_eval by (simp add: broker_fills_def)
  show ?thesis
    using broker_books_safe [OF demo_config_ok demo_run [unfolded demo_broker_def]] m by blast
qed



text \<open>A refused submission is inert: unless the refusal is the fill record's own validation, the
  cash, the fills, the marks, the watermark, the session and every position are what they were.\<close>

theorem submit_refusal_inert:
  assumes "submit fid r bar b = (Inl e, b')" and "\<forall>m. e \<noteq> ValidationError m"
  shows "bk_cash b' = bk_cash b \<and> bk_fills b' = bk_fills b \<and> bk_marks b' = bk_marks b
    \<and> bk_high_watermark b' = bk_high_watermark b \<and> bk_session_date b' = bk_session_date b
    \<and> bk_day_start_equity b' = bk_day_start_equity b \<and> bk_config b' = bk_config b
    \<and> (\<forall>s. dget (bk_positions b') s empty_position = dget (bk_positions b) s empty_position)"
proof (cases rule: submit_cases [of r b fid bar])
  case (settled price q notional comm p' cash' b1)
  have "\<exists>m. e = ValidationError m"
    using assms(1) by (auto simp: settled(7) mk_fill_def require_gt0_def require_ge0_def bind_res_Inl_iff
        split: sum.splits)
  with assms(2) show ?thesis by blast
qed (use assms in auto)

theorem submit_refusal_inert_witness:
  "bk_cash (snd (submit demo_fid (demo_order ''b'' SELL 20) demo_bar demo_broker)) = 100000"
proof -
  have s: "submit demo_fid (demo_order ''b'' SELL 20) demo_bar demo_broker
      = (Inl (ValueError ''paper broker rejected order that would create a short''),
         snd (submit demo_fid (demo_order ''b'' SELL 20) demo_bar demo_broker))"
    by (simp add: broker_eval)
  have "bk_cash demo_broker = 100000" by (simp add: demo_broker_def default_broker_config_def)
  with submit_refusal_inert [OF s] show ?thesis by simp
qed

text \<open>What a new fill may be: no more than was ordered, than the bar's volume allows, than is held
  (a sale) or than the cash pays for (a purchase), at the close moved by the configured cost to within
  a millionth, with a commission no larger than the notional.\<close>

theorem submit_fill_bounds:
  assumes ok: "broker_ok b" and bar: "bar_ok bar" and new: "map_of (bk_fills b) (or_client_id r) = None"
    and sub: "submit fid r bar b = (Inr f, b')"
  shows "0 < fl_quantity f \<and> fl_quantity f \<le> or_quantity r
    \<and> fl_quantity f \<le> dmul (bar_volume bar) (bk_participation (bk_config b))
    \<and> \<bar>fl_price f - dmul (bar_close bar) (cost_multiplier (bk_config b) (or_side r))\<bar> < 1 / 10 ^ 6
    \<and> 0 \<le> fl_commission f \<and> fl_commission f \<le> fill_notional f
    \<and> (or_side r = SELL \<longrightarrow> fl_quantity f \<le> quantity_of (or_symbol r) b)
    \<and> (or_side r = BUY \<longrightarrow> dadd (fill_notional f) (fl_commission f) \<le> bk_cash b)"
proof (cases rule: submit_cases [of r b fid bar])
  case (settled price q notional comm p' cash' b1)
  note T = execution_terms_Inr [OF settled(4)] and S = settled_ok [OF ok bar settled(4,5)]
  have f: "fl_quantity f = q" "fl_price f = price" "fl_commission f = comm"
    using sub by (auto simp: settled(7) mk_fill_Inr split: sum.splits)
  have n: "fill_notional f = notional" "0 \<le> notional"
    unfolding fill_notional_def f T(4) using S(3,4) by (simp_all add: dmul_def mult.commute dround_nonneg)
  have c: "broker_config_ok (bk_config b)" "0 \<le> bk_cash b" using ok by (simp_all add: broker_ok_def)
  have "q \<le> dmul (bar_volume bar) (bk_participation (bk_config b))"
    using available_quantity_le(1) [OF c(1), of "bar_volume bar"] bar T(2)
    by (auto simp: bar_ok_def min_def split: if_splits)
  moreover have "\<bar>price - dmul (bar_close bar) (cost_multiplier (bk_config b) (or_side r))\<bar> < 1 / 10 ^ 6"
    using T(1) unfolding execution_price_def by (rule rhalf_up.quantize_near)
  ultimately show ?thesis
    using T(2,3,6) commission_bounds(1,2) [OF T(5) c(1) n(2)]
      settle_ok(5) [OF settled(5) position_lookup_ok [OF ok] T(3) n(2) commission_bounds(2) [OF T(5) c(1) n(2)] c(2) T(6)]
    by (simp add: f n quantity_of_def)
qed (use sub new in auto)

theorem submit_fill_bounds_witness:
  "fl_quantity demo_fill \<le> 10 \<and> dadd (fill_notional demo_fill) (fl_commission demo_fill) \<le> 100000"
  using submit_fill_bounds [OF _ demo_bar_ok _ demo_bought_pair]
  by (simp add: demo_broker_def new_broker_ok demo_config_ok demo_order_def)
    (simp add: default_broker_config_def)

subsection \<open>Conservation\<close>



text \<open>Quantities are conserved exactly: while closes are at least a millionth and quantities have
  four decimals and fewer than 23 digits, the position of every symbol is the sum of its recorded
  purchases less its recorded sales.\<close>

theorem quantity_accounting:
  assumes "broker_config_ok c" and "(tradable_step fid)\<^sup>*\<^sup>* (new_broker c) b"
  shows "quantity_of s b = held s b"
proof -
  have "matched b" using matching.inv_reachable assms by blast
  then show ?thesis by (simp add: matched_def)
qed

theorem quantity_accounting_witness: "quantity_of ''SPY'' (snd demo_bought) = held ''SPY'' (snd demo_bought)"
proof (rule quantity_accounting [OF demo_config_ok])
  show "(tradable_step demo_fid)\<^sup>*\<^sup>* (new_broker default_broker_config) (snd demo_bought)"
    unfolding demo_broker_def [symmetric] demo_bought_def
    by (intro r_into_rtranclp tradable_step.ts_submit demo_bar_ok)
      (simp_all add: demo_order_def on_grid_def demo_bar_def quantity_of_def demo_broker_def dget_def empty_position_def)
qed

definition dust_bar :: market_bar where
  "dust_bar = demo_bar\<lparr>bar_open := 1 / 10 ^ 7, bar_high := 1 / 10 ^ 7, bar_low := 1 / 10 ^ 7, bar_close := 1 / 10 ^ 7\<rparr>"


end
