(* ===== verification/RiskLaws.thy ===== *)
theory RiskLaws
  imports Risk BrokerLaws
begin

text \<open>
  The risk gate's properties: what approval means, what the kill switch leaves possible, and the
  hourly rate over whole sequences of evaluations.
\<close>

definition demo_snapshot :: account_snapshot where
  "demo_snapshot = \<lparr>ac_as_of = 0, ac_cash = 100000, ac_equity = 100000, ac_day_start_equity = 100000,
     ac_high_watermark = 100000, ac_positions = [\<lparr>ps_symbol = ''SPY'', ps_quantity = 10,
       ps_average_price = 100, ps_market_price = 100, ps_realized_pnl = 0\<rparr>]\<rparr>"

definition demo_gate :: risk_engine where
  "demo_gate = new_risk_engine default_risk_limits"

lemma demo_snapshot_ok: "snapshot_ok demo_snapshot"
  by (simp add: snapshot_ok_def demo_snapshot_def)

lemma demo_quantity: "quantity_for demo_snapshot ''SPY'' = 10"
proof -
  have "normalize_symbol ''SPY'' = ''SPY''" by code_simp
  then show ?thesis by (simp add: quantity_for_def position_for_def demo_snapshot_def)
qed

lemma demo_limits [simp]: "rk_limits demo_gate = default_risk_limits" "rk_order_times demo_gate = []"
  "rk_kill_switch demo_gate = False"
  by (simp_all add: demo_gate_def new_risk_engine_def)

lemma demo_volume [simp]: "bar_volume demo_bar = 100000"
  by (simp add: demo_bar_def)

lemma demo_projected:
  "projected_quantity demo_snapshot (demo_order c SELL 4) = 6"
  "projected_quantity demo_snapshot (demo_order c BUY 4) = 14"
  by (simp_all add: projected_quantity_def signed_quantity_def demo_quantity dec_eval)

lemma demo_reducing:
  "risk_reducing demo_snapshot (demo_order c SELL 4)" "\<not> risk_reducing demo_snapshot (demo_order c BUY 4)"
  by (simp_all add: risk_reducing_def demo_projected demo_quantity dec_eval)

lemma demo_buy_acceptable: "acceptable demo_gate (demo_order c BUY 4) demo_bar demo_snapshot 0 True"
proof -
  have syms: "projected_symbols demo_snapshot (demo_order c BUY 4) = {''SPY''}"
    unfolding projected_symbols_def demo_projected by (simp add: demo_snapshot_def Let_def)
  have gross: "gross_exposure demo_snapshot = 1000"
    by (simp add: gross_exposure_def demo_snapshot_def market_value_def dsum_def dec_eval)
  show ?thesis
    unfolding acceptable_def market_acceptable_def exposure_acceptable_def syms projected_gross_def gross
      projected_symbol_value_def demo_projected order_notional_def demo_order_simps demo_quantity
    by (simp add: default_risk_limits_def demo_reducing demo_snapshot_def recent_def seconds_def dec_eval)
qed

subsection \<open>Approval\<close>

text \<open>C2 The gate approves an order exactly when it is acceptable: the data is fresh, trading is enabled
  or the order shrinks the position, no short results, the bar is liquid enough, and, unless the order
  shrinks the position, every exposure, count, loss and drawdown limit, the cash and the hourly rate hold.\<close>

theorem gate_approves_iff:
  assumes "snapshot_ok a"
  shows "(case fst (evaluate r bar a t e k) of Inl x \<Rightarrow> False | Inr d \<Rightarrow> rd_approved d)
    \<longleftrightarrow> acceptable k r bar a t e"
  using evaluate_approved_iff [OF assms, of r bar t e k] by (cases "fst (evaluate r bar a t e k)") auto

theorem gate_approves_iff_witness:
  "case fst (evaluate (demo_order ''b'' BUY 4) demo_bar demo_snapshot 0 True demo_gate) of
     Inl x \<Rightarrow> False | Inr d \<Rightarrow> rd_approved d"
  unfolding gate_approves_iff [OF demo_snapshot_ok] by (rule demo_buy_acceptable)



text \<open>Exits stay open: an order that shrinks the position is refused only for stale data, a forbidden
  short, an empty bar or too large a share of its volume, never for an exposure, loss, drawdown, cash,
  position-count, switch or rate limit.\<close>

theorem reducing_refusals:
  assumes "risk_reducing a r" and "fst (evaluate r bar a t e k) = Inr d"
  shows "set (rd_codes d) \<subseteq> {''STALE_DATA'', ''SHORTING_DISABLED'', ''NO_LIQUIDITY'', ''MAX_VOLUME_PARTICIPATION''}"
proof -
  have "set cs \<subseteq> {''STALE_DATA'', ''SHORTING_DISABLED'', ''NO_LIQUIDITY'', ''MAX_VOLUME_PARTICIPATION''}"
    if "market_codes k r bar a t e = Inr cs" for cs
    using that assms(1) by (auto simp: market_codes_def Let_def split: if_splits)
  with assms show ?thesis
    by (auto simp: evaluate_def gate_codes_def Let_def code_def split: sum.splits prod.splits)
qed

theorem reducing_refusals_witness:
  "set (rd_codes (projr (fst (evaluate (demo_order ''b'' SELL 4) demo_bar demo_snapshot 1000000000 False demo_gate))))
     \<subseteq> {''STALE_DATA'', ''SHORTING_DISABLED'', ''NO_LIQUIDITY'', ''MAX_VOLUME_PARTICIPATION''}"
proof -
  obtain d where "fst (evaluate (demo_order ''b'' SELL 4) demo_bar demo_snapshot 1000000000 False demo_gate) = Inr d"
    using evaluate_total [OF demo_snapshot_ok] by blast
  from reducing_refusals [OF demo_reducing(1) this] this show ?thesis by simp
qed

subsection \<open>The hourly rate\<close>

text \<open>
  A gate in use: the engine, the clock of its last evaluation, and what it has approved so far, each
  with its time and whether it shrank a position. Evaluations come in clock order; the kill switch may
  be set or reset at any moment.
\<close>

type_synonym gate_use = "risk_engine \<times> instant \<times> (instant \<times> bool) list"

inductive gate_step :: "gate_use \<Rightarrow> gate_use \<Rightarrow> bool" where
  g_approve: "now \<le> t \<Longrightarrow> fst (evaluate r bar a t e k) = Inr d \<Longrightarrow> rd_approved d \<Longrightarrow>
    gate_step (k, now, hist) (snd (evaluate r bar a t e k), t, hist @ [(t, risk_reducing a r)])"
| g_refuse: "now \<le> t \<Longrightarrow> (\<forall>d. fst (evaluate r bar a t e k) = Inr d \<longrightarrow> \<not> rd_approved d) \<Longrightarrow>
    gate_step (k, now, hist) (snd (evaluate r bar a t e k), t, hist)"
| g_activate: "gate_step (k, now, hist) (activate_kill_switch k, now, hist)"
| g_reset: "gate_step (k, now, hist) (reset_kill_switch k, now, hist)"

definition in_hour :: "instant \<Rightarrow> instant \<Rightarrow> bool" where
  "in_hour T t \<longleftrightarrow> T - hours 1 < t \<and> t \<le> T"

definition opened_in_hour :: "instant \<Rightarrow> (instant \<times> bool) list \<Rightarrow> (instant \<times> bool) list" where
  "opened_in_hour T hist = filter (\<lambda>(t, red). \<not> red \<and> in_hour T t) hist"

definition gate_inv :: "risk_limits \<Rightarrow> gate_use \<Rightarrow> bool" where
  "gate_inv l = (\<lambda>(k, now, hist).
     rk_limits k = l \<and> sorted (map fst hist) \<and> (\<forall>(t, red) \<in> set hist. t \<le> now)
     \<and> (\<exists>c \<le> now - hours 1. rk_order_times k = filter (\<lambda>t. c < t) (map fst hist))
     \<and> (\<forall>T. int (length (opened_in_hour T hist)) \<le> max_orders_per_hour l))"

lemma sorted_dropWhile_filter: "sorted xs \<Longrightarrow> dropWhile (\<lambda>t. t \<le> c) xs = filter (\<lambda>t. c < t) (xs :: int list)"
proof (induction xs)
  case (Cons x xs)
  then show ?case by (auto simp: not_le intro!: filter_True [symmetric])
qed simp

lemma recent_filter:
  assumes "sorted ts" "c \<le> t - hours 1"
  shows "recent t (filter (\<lambda>u. c < u) ts) = filter (\<lambda>u. t - hours 1 < u) ts"
proof -
  have "recent t (filter (\<lambda>u. c < u) ts) = filter (\<lambda>u. t - hours 1 < u) (filter (\<lambda>u. c < u) ts)"
    unfolding recent_def using assms(1) by (intro sorted_dropWhile_filter sorted_filter [where f = id, simplified])
  also have "\<dots> = filter (\<lambda>u. t - hours 1 < u) ts" using assms(2) by (auto intro: filter_cong)
  finally show ?thesis .
qed

lemma filter_length_mono: "(\<And>x. x \<in> set xs \<Longrightarrow> P x \<Longrightarrow> Q x) \<Longrightarrow> length (filter P xs) \<le> length (filter Q xs)"
  by (induction xs) auto

lemma gate_approve_inv:
  assumes inv: "gate_inv l (k, now, hist)" and t: "now \<le> t"
    and ok: "fst (evaluate r bar a t e k) = Inr d" "rd_approved d"
  shows "gate_inv l (snd (evaluate r bar a t e k), t, hist @ [(t, risk_reducing a r)])"
proof -
  let ?hist = "hist @ [(t, risk_reducing a r)]"
  obtain c where lim: "rk_limits k = l" and srt: "sorted (map fst hist)" and old: "\<forall>(u, red) \<in> set hist. u \<le> now"
    and c: "c \<le> now - hours 1" "rk_order_times k = filter (\<lambda>u. c < u) (map fst hist)"
    and cnt: "\<forall>T. int (length (opened_in_hour T hist)) \<le> max_orders_per_hour l"
    using inv by (auto simp: gate_inv_def)
  have rec: "recent t (rk_order_times k) = filter (\<lambda>u. t - hours 1 < u) (map fst hist)"
    unfolding c(2) using srt c(1) t by (intro recent_filter) auto
  have st: "snd (evaluate r bar a t e k) = k\<lparr>rk_order_times := recent t (rk_order_times k) @ [t]\<rparr>"
    by (rule evaluate_approved_state [OF ok])
  have "sorted (map fst ?hist)" using srt old t by (fastforce simp: sorted_append)
  moreover have "rk_order_times (snd (evaluate r bar a t e k)) = filter (\<lambda>u. t - hours 1 < u) (map fst ?hist)"
    by (simp add: st rec hours_def)
  moreover have "int (length (opened_in_hour T ?hist)) \<le> max_orders_per_hour l" for T
  proof (cases "risk_reducing a r \<or> \<not> in_hour T t")
    case True
    then have "opened_in_hour T ?hist = opened_in_hour T hist" by (auto simp: opened_in_hour_def)
    with cnt show ?thesis by simp
  next
    case False
    have "int (length (recent t (rk_order_times k))) < max_orders_per_hour l"
      using ok False lim by (auto simp: evaluate_def gate_codes_def Let_def split: sum.splits prod.splits)
    moreover have "length (opened_in_hour T hist) \<le> length (filter (\<lambda>p. t - hours 1 < fst p) hist)"
      unfolding opened_in_hour_def by (rule filter_length_mono) (use False in \<open>auto simp: in_hour_def\<close>)
    moreover have "length (opened_in_hour T ?hist) = Suc (length (opened_in_hour T hist))"
      using False by (simp add: opened_in_hour_def)
    ultimately show ?thesis unfolding rec by (simp add: filter_map comp_def)
  qed
  moreover have "\<forall>(u, red) \<in> set ?hist. u \<le> t" using old t by fastforce
  moreover have "0 < hours 1" by (simp add: hours_def minutes_def seconds_def)
  ultimately show ?thesis using lim by (auto simp: gate_inv_def intro!: exI [of _ "t - hours 1"])
qed

lemma gate_refuse_inv:
  assumes inv: "gate_inv l (k, now, hist)" and t: "now \<le> t"
    and no: "\<forall>d. fst (evaluate r bar a t e k) = Inr d \<longrightarrow> \<not> rd_approved d"
  shows "gate_inv l (snd (evaluate r bar a t e k), t, hist)"
proof -
  obtain c where c: "c \<le> now - hours 1" "rk_order_times k = filter (\<lambda>u. c < u) (map fst hist)"
    and srt: "sorted (map fst hist)" and old: "\<forall>(u, red) \<in> set hist. u \<le> now"
    using inv by (auto simp: gate_inv_def)
  have old': "\<forall>(u, red) \<in> set hist. u \<le> t" using old t by fastforce
  have rec: "recent t (rk_order_times k) = filter (\<lambda>u. t - hours 1 < u) (map fst hist)"
    unfolding c(2) using srt c(1) t by (intro recent_filter) auto
  have "snd (evaluate r bar a t e k) = k \<or>
    snd (evaluate r bar a t e k) = k\<lparr>rk_order_times := recent t (rk_order_times k)\<rparr>"
    using evaluate_error_state [of r bar a t e k] evaluate_refused_state [of r bar a t e k] no
    by (cases "fst (evaluate r bar a t e k)") auto
  then have "\<exists>c \<le> t - hours 1. rk_order_times (snd (evaluate r bar a t e k)) = filter (\<lambda>u. c < u) (map fst hist)"
    using c t rec by (auto intro: exI [of _ c] exI [of _ "t - hours 1"])
  then show ?thesis using inv old' by (simp add: gate_inv_def)
qed

interpretation gate: machine
  "\<lambda>s. limits_ok l \<and> (\<exists>now. s = (new_risk_engine l, now, []))" gate_step "gate_inv l" for l
proof
  show "gate_inv l s \<Longrightarrow> gate_step s t \<Longrightarrow> gate_inv l t" for s t
  proof (erule gate_step.cases)
    fix now u :: instant and r bar a e k d hist
    assume "gate_inv l s" "s = (k, now, hist)" "t = (snd (evaluate r bar a u e k), u, hist @ [(u, risk_reducing a r)])"
      "now \<le> u" "fst (evaluate r bar a u e k) = Inr d" "rd_approved d"
    then show "gate_inv l t" using gate_approve_inv by simp
  next
    fix now u :: instant and r bar a e k hist
    assume "gate_inv l s" "s = (k, now, hist)" "t = (snd (evaluate r bar a u e k), u, hist)"
      "now \<le> u" "\<forall>d. fst (evaluate r bar a u e k) = Inr d \<longrightarrow> \<not> rd_approved d"
    then show "gate_inv l t" using gate_refuse_inv by simp
  qed (auto simp: activate_kill_switch_def reset_kill_switch_def gate_inv_def)
qed (auto simp: gate_inv_def new_risk_engine_def opened_in_hour_def limits_ok_iff)

text \<open>C7 The hourly rate holds over every run: however evaluations, refusals and kill-switch changes
  interleave in clock order, no window of one hour contains more approved orders that open or enlarge a
  position than the configured maximum.\<close>

theorem hourly_rate:
  assumes "limits_ok l" and "gate_step\<^sup>*\<^sup>* (new_risk_engine l, t0, []) (k, now, hist)"
  shows "int (length (opened_in_hour T hist)) \<le> max_orders_per_hour l"
proof -
  have "gate_inv l (k, now, hist)" using gate.inv_reachable assms by blast
  then show ?thesis by (simp add: gate_inv_def)
qed

theorem hourly_rate_witness:
  "int (length (opened_in_hour 0 [(0, risk_reducing demo_snapshot (demo_order ''b'' BUY 4))])) \<le> 20"
proof -
  obtain d where d: "fst (evaluate (demo_order ''b'' BUY 4) demo_bar demo_snapshot 0 True demo_gate) = Inr d"
    "rd_approved d"
    using evaluate_approved_iff [OF demo_snapshot_ok] demo_buy_acceptable by blast
  have "gate_step (demo_gate, 0, []) (snd (evaluate (demo_order ''b'' BUY 4) demo_bar demo_snapshot 0 True demo_gate),
      0, [] @ [(0, risk_reducing demo_snapshot (demo_order ''b'' BUY 4))])"
    by (rule gate_step.g_approve [OF _ d]) simp
  then have "gate_step\<^sup>*\<^sup>* (new_risk_engine default_risk_limits, 0, [])
     (snd (evaluate (demo_order ''b'' BUY 4) demo_bar demo_snapshot 0 True demo_gate), 0,
      [(0, risk_reducing demo_snapshot (demo_order ''b'' BUY 4))])"
    unfolding demo_gate_def by auto
  from hourly_rate [OF default_limits_ok this, of 0]
  show ?thesis by (simp add: default_risk_limits_def)
qed

end
