(* ===== verification/EngineLaws.thy ===== *)
theory EngineLaws
  imports Engine BrokerLaws RiskLaws
begin

text \<open>
  The engine's properties: every fill in the ledger is explained by what was logged before it, the
  counters agree with the ledger, the engine moves the broker only by the broker's own operations, and
  a planned sale never exceeds the holding.
\<close>

subsection \<open>The calls, as outcomes\<close>

abbreviation trail :: "'s engine \<Rightarrow> payload ledger_event list" where
  "trail e \<equiv> lg_events (en_ledger e)"

definition logged_at :: "naming \<Rightarrow> string \<Rightarrow> payload \<Rightarrow> instant \<Rightarrow> string \<Rightarrow> 's engine \<Rightarrow> 's engine" where
  "logged_at nm ty p t trace e = snd (log_at nm ty p t trace e)"

abbreviation logged :: "naming \<Rightarrow> string \<Rightarrow> payload \<Rightarrow> market_bar \<Rightarrow> string \<Rightarrow> 's engine \<Rightarrow> 's engine" where
  "logged nm ty p bar trace \<equiv> logged_at nm ty p (bar_time bar) trace"

lemma outcome_log [simp]: "outcome (log_at nm ty p t trace) Q E e = Q () (logged_at nm ty p t trace e)"
  by (simp add: outcome_def logged_at_def log_at_def)

lemma logged_simps [simp]:
  "en_broker (logged_at nm ty p t trace e) = en_broker e"
  "en_risk (logged_at nm ty p t trace e) = en_risk e"
  "en_config (logged_at nm ty p t trace e) = en_config e"
  "en_orders (logged_at nm ty p t trace e) = en_orders e"
  "en_rejections (logged_at nm ty p t trace e) = en_rejections e"
  by (simp_all add: logged_at_def log_at_def)

lemma trail_logged:
  "\<exists>ev. trail (logged_at nm ty p t trace e) = trail e @ [ev] \<and> ev_payload ev = Payload p \<and> ev_trace ev = trace"
  by (simp add: logged_at_def log_at_def append_event_def)

lemma outcome_progress [simp]:
  "outcome (record_progress nm bar trace) Q E e =
     Q () (logged nm ''engine_progress'' (ProgressPayload (bar_symbol bar) (bar_time bar) (en_fingerprint e)) bar trace e)"
  by (simp add: outcome_def logged_at_def record_progress_def log_at_def)

lemma outcome_on_broker [simp]:
  "outcome (on_broker m) Q E e = outcome m (\<lambda>x b. Q x (e\<lparr>en_broker := b\<rparr>)) (\<lambda>b. E (e\<lparr>en_broker := b\<rparr>)) (en_broker e)"
  by (auto simp: outcome_def on_broker_def split: prod.splits sum.splits)

lemma outcome_on_risk [simp]:
  "outcome (on_risk m) Q E e = outcome m (\<lambda>x k. Q x (e\<lparr>en_risk := k\<rparr>)) (\<lambda>k. E (e\<lparr>en_risk := k\<rparr>)) (en_risk e)"
  by (auto simp: outcome_def on_risk_def split: prod.splits sum.splits)

lemma outcome_on_strategy [simp]:
  "outcome (on_strategy m) Q E e = outcome m (\<lambda>x s. Q x (e\<lparr>en_strategy := s\<rparr>)) (\<lambda>s. E (e\<lparr>en_strategy := s\<rparr>)) (en_strategy e)"
  by (auto simp: outcome_def on_strategy_def split: prod.splits sum.splits)

lemma outcome_counts [simp]:
  "outcome count_order Q E e = Q () (e\<lparr>en_orders := en_orders e + 1\<rparr>)"
  "outcome count_rejection Q E e = Q () (e\<lparr>en_rejections := en_rejections e + 1\<rparr>)"
  by (simp_all add: outcome_def count_order_def count_rejection_def)

lemma outcome_all: "(\<And>x t. Q x t) \<Longrightarrow> (\<And>t. E t) \<Longrightarrow> outcome m Q E s"
  by (rule outcomeI)

text \<open>What each broker call leaves, whatever the engine goes on to do with it.\<close>

lemma account_outcome:
  assumes "broker_ok b" and "\<And>a b'. broker_ok b' \<Longrightarrow> snapshot_ok a \<Longrightarrow> Q a b'" and "\<And>b'. broker_ok b' \<Longrightarrow> E b'"
  shows "outcome (account t) Q E b"
proof (rule outcomeI)
  show "E b'" if "account t b = (Inl x, b')" for x b' using assms(3) account_ok [OF assms(1), of t] that by simp
  show "Q a b'" if "account t b = (Inr a, b')" for a b'
  proof (rule assms(2))
    show "broker_ok b'" using account_ok [OF assms(1), of t] that by simp
    show "snapshot_ok a"
      using that by (auto simp: account_def Let_def split: sum.splits intro: mk_account_snapshot_ok)
  qed
qed

lemma submit_outcome:
  assumes "broker_ok b" "bar_ok bar"
    and "\<And>f b'. broker_ok b' \<Longrightarrow> fl_client_id f = or_client_id r \<Longrightarrow> Q f b'" and "\<And>b'. broker_ok b' \<Longrightarrow> E b'"
  shows "outcome (submit fid r bar) Q E b"
proof (rule outcomeI)
  have ok: "broker_ok (snd (submit fid r bar b))" by (rule submit_ok [OF assms(1,2)])
  show "E b'" if "submit fid r bar b = (Inl x, b')" for x b' using assms(4) ok that by simp
  show "Q f b'" if "submit fid r bar b = (Inr f, b')" for f b'
  proof (rule assms(3))
    show "broker_ok b'" using ok that by simp
    then show "fl_client_id f = or_client_id r"
      using submit_Inr_recorded [OF that] by (auto simp: broker_ok_def fill_entry_ok_def dest!: map_of_SomeD)
  qed
qed

lemma export_outcome: "(\<And>x. Q x b) \<Longrightarrow> E b \<Longrightarrow> outcome (\<lambda>b. (export_state b, b)) Q E b"
  by (auto simp: outcome_def split: sum.splits)

lemma evaluate_outcome:
  assumes "snapshot_ok a" and "\<And>d k'. Q d k'"
  shows "outcome (evaluate r bar a t en) Q E k"
proof (rule outcomeI)
  show "E k'" if "evaluate r bar a t en k = (Inl x, k')" for x k'
    using evaluate_total [OF assms(1), of r bar t en k] that by auto
qed (use assms(2) in blast)

subsection \<open>Explained fills\<close>

text \<open>
  Entry \<open>k\<close> of the ledger, when it is a fill, comes right after the intent, the approving decision and
  the submission of the order it fills, all under one trace.
\<close>

definition justified :: "payload ledger_event list \<Rightarrow> nat \<Rightarrow> bool" where
  "justified es k \<longleftrightarrow>
     (case ev_payload (es ! k) of
        Payload (FillPayload f) \<Rightarrow>
          3 \<le> k \<and> (\<exists>i d r. ev_payload (es ! (k - 3)) = Payload (IntentPayload i)
            \<and> ev_payload (es ! (k - 2)) = Payload (DecisionPayload d) \<and> rd_approved d
            \<and> ev_payload (es ! (k - 1)) = Payload (OrderPayload r)
            \<and> or_symbol r = normalize_symbol (ti_symbol i) \<and> fl_client_id f = or_client_id r)
          \<and> (\<forall>n \<in> {1, 2, 3}. ev_trace (es ! (k - n)) = ev_trace (es ! k))
      | _ \<Rightarrow> True)"

definition explained :: "payload ledger_event list \<Rightarrow> bool" where
  "explained es \<longleftrightarrow> (\<forall>k < length es. justified es k)"

fun is_fill :: "payload stored \<Rightarrow> bool" where
  "is_fill (Payload (FillPayload f)) = True"
| "is_fill _ = False"

lemma justified_append: "k < length es \<Longrightarrow> justified (es @ fs) k = justified es k"
proof -
  assume k: "k < length es"
  then have eq: "(es @ fs) ! (k - n) = es ! (k - n)" "(es @ fs) ! k = es ! k" for n
    by (simp_all add: nth_append less_imp_diff_less)
  show ?thesis unfolding justified_def eq by (rule refl)
qed

lemma explained_snoc: "explained (es @ [ev]) \<longleftrightarrow> explained es \<and> justified (es @ [ev]) (length es)"
  by (auto simp: explained_def less_Suc_eq justified_append)

lemma explained_other: "\<not> is_fill (ev_payload ev) \<Longrightarrow> explained (es @ [ev]) \<longleftrightarrow> explained es"
  by (auto simp: explained_snoc justified_def split: stored.splits payload.splits)

lemma explained_fill:
  assumes "explained es" and es: "es = before @ [ei, ed, eo]"
    and "ev_payload ei = Payload (IntentPayload i)" "ev_payload ed = Payload (DecisionPayload d)" "rd_approved d"
    and "ev_payload eo = Payload (OrderPayload r)" "ev_payload ef = Payload (FillPayload f)"
    and "or_symbol r = normalize_symbol (ti_symbol i)" "fl_client_id f = or_client_id r"
    and "ev_trace ei = t" "ev_trace ed = t" "ev_trace eo = t" "ev_trace ef = t"
  shows "explained (es @ [ef])"
proof -
  have at: "(es @ [ef]) ! length es = ef" "(es @ [ef]) ! (length es - 1) = eo"
    "(es @ [ef]) ! (length es - 2) = ed" "(es @ [ef]) ! (length es - 3) = ei" and "3 \<le> length es"
    by (simp_all add: es nth_append)
  with assms show ?thesis unfolding explained_snoc justified_def by auto
qed

text \<open>The counters against the ledger: orders are decisions, rejections the decisions against.\<close>

fun decision_in :: "payload stored \<Rightarrow> risk_decision option" where
  "decision_in (Payload (DecisionPayload d)) = Some d"
| "decision_in _ = None"

definition decisions :: "payload ledger_event list \<Rightarrow> risk_decision list" where
  "decisions es = List.map_filter (\<lambda>ev. decision_in (ev_payload ev)) es"

lemma decisions_Nil [simp]: "decisions [] = []"
  by (simp add: decisions_def)

lemma decisions_snoc:
  "decisions (es @ [ev]) = decisions es @ (case decision_in (ev_payload ev) of None \<Rightarrow> [] | Some d \<Rightarrow> [d])"
  by (simp add: decisions_def map_filter_def split: option.splits)

definition counted :: "nat \<Rightarrow> nat \<Rightarrow> payload ledger_event list \<Rightarrow> bool" where
  "counted orders rejections es \<longleftrightarrow> orders = length (decisions es)
     \<and> rejections = length (filter (\<lambda>d. \<not> rd_approved d) (decisions es))"

definition engine_ok :: "'s engine \<Rightarrow> bool" where
  "engine_ok e \<longleftrightarrow> broker_ok (en_broker e) \<and> explained (trail e) \<and> counted (en_orders e) (en_rejections e) (trail e)"

text \<open>Writing an entry that is neither a fill nor a decision.\<close>

fun plain :: "payload \<Rightarrow> bool" where
  "plain (FillPayload f) = False"
| "plain (DecisionPayload d) = False"
| "plain _ = True"

lemma logged_plain:
  assumes "plain p"
  shows "explained (trail (logged_at nm ty p t trace e)) \<longleftrightarrow> explained (trail e)"
    and "counted n m (trail (logged_at nm ty p t trace e)) \<longleftrightarrow> counted n m (trail e)"
proof -
  obtain ev where ev: "trail (logged_at nm ty p t trace e) = trail e @ [ev]" "ev_payload ev = Payload p"
    using trail_logged by blast
  have "\<not> is_fill (ev_payload ev)" "decision_in (ev_payload ev) = None"
    using assms ev(2) by (cases p; simp)+
  then show "explained (trail (logged_at nm ty p t trace e)) \<longleftrightarrow> explained (trail e)"
    "counted n m (trail (logged_at nm ty p t trace e)) \<longleftrightarrow> counted n m (trail e)"
    by (simp_all add: ev(1) explained_other counted_def decisions_snoc)
qed

lemma logged_plain_ok [simp]: "plain p \<Longrightarrow> engine_ok (logged_at nm ty p t trace e) \<longleftrightarrow> engine_ok e"
  by (simp add: engine_ok_def logged_plain)

lemma engine_ok_broker: "engine_ok e \<Longrightarrow> broker_ok b \<Longrightarrow> engine_ok (e\<lparr>en_broker := b\<rparr>)"
  by (simp add: engine_ok_def)

lemma engine_ok_parts [simp]:
  "engine_ok (e\<lparr>en_strategy := s\<rparr>) \<longleftrightarrow> engine_ok e"
  "engine_ok (e\<lparr>en_risk := k\<rparr>) \<longleftrightarrow> engine_ok e"
  by (simp_all add: engine_ok_def)

lemma execute_order_ok:
  assumes ok: "engine_ok e" and bar: "bar_ok bar"
    and pre: "trail e = before @ [ei, ed]" "ev_payload ei = Payload (IntentPayload i)"
      "ev_payload ed = Payload (DecisionPayload d)" "rd_approved d" "ev_trace ei = trace" "ev_trace ed = trace"
    and sy: "or_symbol r = normalize_symbol (ti_symbol i)"
  shows "outcome (execute_order nm bar trace i r d) (\<lambda>_. engine_ok) engine_ok e"
proof -
  let ?e1 = "logged nm ''order_submitted'' (OrderPayload r) bar trace e"
  have e1: "engine_ok ?e1" using ok by simp
  have filled: "engine_ok (logged nm ''order_filled'' (FillPayload f) bar trace (?e1\<lparr>en_broker := b\<rparr>))"
    if b: "broker_ok b" and f: "fl_client_id f = or_client_id r" for f b
  proof -
    obtain eo where eo: "trail ?e1 = trail e @ [eo]" "ev_payload eo = Payload (OrderPayload r)" "ev_trace eo = trace"
      using trail_logged by blast
    obtain ef where ef: "trail (logged nm ''order_filled'' (FillPayload f) bar trace (?e1\<lparr>en_broker := b\<rparr>))
        = trail ?e1 @ [ef]" "ev_payload ef = Payload (FillPayload f)" "ev_trace ef = trace"
      using trail_logged [of nm _ _ _ _ "?e1\<lparr>en_broker := b\<rparr>"] by fastforce
    have "explained (trail ?e1 @ [ef])"
      by (rule explained_fill [OF _ _ pre(2-4) eo(2) ef(2) sy f pre(5,6) eo(3) ef(3)])
        (use e1 in \<open>simp_all add: engine_ok_def eo(1) pre(1)\<close>)
    moreover have "counted n m (trail ?e1 @ [ef]) \<longleftrightarrow> counted n m (trail ?e1)" for n m
      by (simp add: counted_def decisions_snoc ef(2))
    ultimately show ?thesis using e1 b by (simp add: engine_ok_def ef(1))
  qed
  show ?thesis
    using e1 filled bar
    by (auto simp: execute_order_def engine_ok_def [of ?e1]
        intro!: submit_outcome account_outcome export_outcome engine_ok_broker)
qed

lemma outcome_evaluate:
  "outcome (\<lambda>e. on_risk (evaluate r bar a t (trading_enabled (en_config e))) e) Q E e =
     outcome (evaluate r bar a t (trading_enabled (en_config e))) (\<lambda>x k. Q x (e\<lparr>en_risk := k\<rparr>)) (\<lambda>k. E (e\<lparr>en_risk := k\<rparr>)) (en_risk e)"
  by (auto simp: outcome_def on_risk_def split: prod.splits sum.splits)

lemma judge_order_ok:
  assumes ok: "engine_ok e" and bar: "bar_ok bar" and a: "snapshot_ok a"
    and pre: "trail e = before @ [ei]" "ev_payload ei = Payload (IntentPayload i)" "ev_trace ei = trace"
    and sy: "or_symbol r = normalize_symbol (ti_symbol i)"
  shows "outcome (judge_order nm bar observed trace i r a) (\<lambda>_. engine_ok) engine_ok e"
proof -
  have judged: "let e1 = logged nm ''risk_decision'' (DecisionPayload d) bar trace (e\<lparr>en_orders := Suc (en_orders e), en_risk := k\<rparr>)
      in if rd_approved d then outcome (execute_order nm bar trace i r d) (\<lambda>_. engine_ok) engine_ok e1
         else engine_ok (e1\<lparr>en_rejections := Suc (en_rejections e1)\<rparr>)" for d k
  proof -
    let ?e0 = "e\<lparr>en_orders := Suc (en_orders e), en_risk := k\<rparr>"
    let ?e1 = "logged nm ''risk_decision'' (DecisionPayload d) bar trace ?e0"
    obtain ed where ed: "trail ?e1 = trail e @ [ed]" "ev_payload ed = Payload (DecisionPayload d)" "ev_trace ed = trace"
      using trail_logged [of nm "''risk_decision''" "DecisionPayload d" "bar_time bar" trace ?e0] by auto
    have ex: "explained (trail ?e1)" using ok ed by (simp add: engine_ok_def explained_other)
    have n: "counted (Suc (en_orders e)) (if rd_approved d then en_rejections e else Suc (en_rejections e)) (trail ?e1)"
      using ok ed by (simp add: engine_ok_def counted_def decisions_snoc)
    show ?thesis
    proof (cases "rd_approved d")
      case True
      with ok ex n have "engine_ok ?e1" by (simp add: engine_ok_def)
      then have "outcome (execute_order nm bar trace i r d) (\<lambda>_. engine_ok) engine_ok ?e1"
        by (rule execute_order_ok [OF _ bar _ pre(2) ed(2) True pre(3) ed(3) sy]) (simp add: ed(1) pre(1))
      with True show ?thesis by simp
    next
      case False
      with ok ex n show ?thesis by (simp add: engine_ok_def)
    qed
  qed
  show ?thesis
    unfolding judge_order_def outcome_bind outcome_counts outcome_evaluate
  proof (rule evaluate_outcome [OF a])
    fix d k
    show "outcome (log_event nm ''risk_decision'' (DecisionPayload d) bar trace)
        (\<lambda>x. outcome (if \<not> rd_approved d then bind_st count_rejection (\<lambda>_. bind_st (record_progress nm bar trace) (\<lambda>_.
            return_st \<lparr>es_time = bar_time bar, es_symbol = bar_symbol bar, es_intent = Some i, es_order = Some r,
              es_risk = Some d, es_fill = None, es_equity = ac_equity a\<rparr>)) else execute_order nm bar trace i r d)
          (\<lambda>_. engine_ok) engine_ok) engine_ok (e\<lparr>en_orders := en_orders e + 1, en_risk := k\<rparr>)"
      using judged [of d k] by (simp add: Let_def split: if_splits)
  qed
qed

lemma plan_order_outcome:
  assumes "engine_ok e" and "\<And>e' p. engine_ok e' \<Longrightarrow> trail e' = trail e \<Longrightarrow>
      (\<And>r. p = Some r \<Longrightarrow> or_symbol r = normalize_symbol (ti_symbol i)) \<Longrightarrow> Q p e'"
    and "\<And>e'. engine_ok e' \<Longrightarrow> E e'"
  shows "outcome (plan_order nm i equity bar) Q E e"
proof -
  have "or_symbol r = normalize_symbol (ti_symbol i)" if "order_for nm i d bar = Inr (Some r)" for d r
    using that by (auto simp: order_for_def dest: mk_order_request_Inr split: if_splits)
  then show ?thesis
    unfolding plan_order_def outcome_bind outcome_on_broker outcome_lift
    by (intro account_outcome)
      (use assms(1) in \<open>auto simp: engine_ok_def [of e] intro!: assms(2,3) engine_ok_broker split: sum.splits\<close>)
qed

lemma act_on_intent_ok:
  assumes ok: "engine_ok e" and bar: "bar_ok bar" and a: "snapshot_ok a"
  shows "outcome (act_on_intent nm bar observed i a) (\<lambda>_. engine_ok) engine_ok e"
proof -
  let ?e1 = "logged nm ''trade_intent'' (IntentPayload i) bar (nm_decision nm i) e"
  have e1: "engine_ok ?e1" using ok by simp
  obtain ei where ei: "trail ?e1 = trail e @ [ei]" "ev_payload ei = Payload (IntentPayload i)"
    "ev_trace ei = nm_decision nm i"
    using trail_logged by blast
  have "outcome (plan_order nm i (ac_equity a) bar)
      (\<lambda>p. outcome (case p of None \<Rightarrow> bind_st (record_progress nm bar (nm_decision nm i)) (\<lambda>_. return_st s)
         | Some r \<Rightarrow> judge_order nm bar observed (nm_decision nm i) i r a) (\<lambda>_. engine_ok) engine_ok) engine_ok ?e1" for s
    by (rule plan_order_outcome [OF e1])
      (auto split: option.splits intro!: judge_order_ok [OF _ bar a _ ei(2,3)] simp: ei(1))
  then show ?thesis by (simp add: act_on_intent_def Let_def)
qed

lemma outcome_mark:
  "outcome (on_broker (\<lambda>b. (Inr (), mark bar b))) Q E e = Q () (e\<lparr>en_broker := mark bar (en_broker e)\<rparr>)"
  by (simp add: outcome_def on_broker_def)

lemma process_bar_ok:
  assumes "engine_ok e" and "bar_ok bar"
  shows "engine_ok (snd (process_bar nm strategy bar observed_at e))"
proof -
  let ?m = "e\<lparr>en_broker := mark bar (en_broker e)\<rparr>"
  have m: "engine_ok ?m" "broker_ok (mark bar (en_broker e))"
    using assms by (auto simp: engine_ok_def intro: keeps)
  have acted: "outcome (on_broker (account (bar_time bar))) (\<lambda>a. outcome (case intent of
        None \<Rightarrow> bind_st (record_progress nm bar (nm_bar nm bar)) (\<lambda>_. return_st (step a))
      | Some i \<Rightarrow> act_on_intent nm bar t i a) (\<lambda>_. engine_ok) engine_ok) engine_ok (?m\<lparr>en_strategy := s\<rparr>)" for intent t s step
    unfolding outcome_on_broker
    by (rule account_outcome)
      (use m assms in \<open>auto simp del: engine.update_convs intro!: act_on_intent_ok engine_ok_broker split: option.split\<close>)
  have "outcome (process_bar nm strategy bar observed_at) (\<lambda>_. engine_ok) engine_ok e"
    unfolding process_bar_def outcome_bind outcome_on_strategy outcome_mark
    by (rule outcomeI) (use m acted in simp_all)
  then show ?thesis by (simp add: outcome_always)
qed

lemma run_bars_ok:
  "engine_ok e \<Longrightarrow> \<forall>b \<in> set bars. bar_ok b \<Longrightarrow> outcome (run_bars nm strategy bars eqs) (\<lambda>_. engine_ok) engine_ok e"
proof (induction bars arbitrary: eqs e)
  case (Cons b bs)
  have "outcome (process_bar nm strategy b None) (\<lambda>_. engine_ok) engine_ok e"
    unfolding outcome_always using process_bar_ok [OF Cons.prems(1)] Cons.prems(2) by simp
  then show ?case
    using Cons.IH Cons.prems(2) by (simp) (erule outcome_mono, simp_all)
qed simp

lemma run_backtest_ok:
  assumes "engine_ok e" and "\<forall>b \<in> set bars. bar_ok b"
  shows "engine_ok (snd (run_backtest nm strategy bars e))"
proof -
  have report: "outcome (run_report f l s t0 eqs a) (\<lambda>_. engine_ok) engine_ok e'" if "engine_ok e'" for f l s t0 eqs a and e' :: "'a engine"
    using that by (simp add: outcome_def run_report_def split: sum.splits)
  have closing: "outcome (bind_st (on_broker (account t)) (\<lambda>a. bind_st (on_broker (\<lambda>b. (export_state b, b))) (\<lambda>st.
      bind_st (log_event nm ''broker_checkpoint'' (CheckpointPayload st) l tr) (\<lambda>_. run_report f l s t0 eqs a))))
      (\<lambda>_. engine_ok) engine_ok e'" if "engine_ok e'" for t l tr f s t0 eqs and e' :: "'a engine"
    unfolding outcome_bind outcome_on_broker
    by (intro account_outcome export_outcome)
      (use that in \<open>auto simp: engine_ok_def [of e'] intro!: report engine_ok_broker\<close>)
  have "outcome (run_backtest nm strategy bars) (\<lambda>_. engine_ok) engine_ok e" if "bars \<noteq> []"
  proof -
    have "outcome (bind_st (on_broker (account t)) (\<lambda>a0. bind_st (run_bars nm strategy bars [ac_equity a0]) (F a0)))
        (\<lambda>_. engine_ok) engine_ok e"
      if "\<And>a0 x e'. engine_ok e' \<Longrightarrow> outcome (F a0 x) (\<lambda>_. engine_ok) engine_ok e'" for t F
      unfolding outcome_bind outcome_on_broker
    proof (rule account_outcome)
      show "broker_ok (en_broker e)" using assms(1) by (simp add: engine_ok_def)
      fix a0 b' assume "broker_ok b'"
      then have "engine_ok (e\<lparr>en_broker := b'\<rparr>)" using assms(1) by (rule engine_ok_broker [rotated])
      from run_bars_ok [OF this assms(2)]
      show "outcome (run_bars nm strategy bars [ac_equity a0]) (\<lambda>x. outcome (F a0 x) (\<lambda>_. engine_ok) engine_ok) engine_ok
          (e\<lparr>en_broker := b'\<rparr>)"
        by (rule outcome_mono) (auto intro: that)
    qed (use assms(1) in \<open>auto intro: engine_ok_broker\<close>)
    from this [OF closing] show ?thesis
      using that unfolding run_backtest_def outcome_def [of "\<lambda>e0. if bars = [] then F e0 else G e0" for F G]
      by (simp add: outcome_def)
  qed
  then show ?thesis
    using assms(1) by (cases "bars = []") (simp_all add: outcome_always, simp add: run_backtest_def raise_st_def)
qed

text \<open>
  An engine in use: bars and backtests of valid bars, the operator's switches on its gate, and whatever
  the strategy's own state does between bars.
\<close>

inductive engine_step :: "naming \<Rightarrow> 's on_bar \<Rightarrow> 's engine \<Rightarrow> 's engine \<Rightarrow> bool"
  for nm strategy where
  es_bar: "bar_ok bar \<Longrightarrow> engine_step nm strategy e (snd (process_bar nm strategy bar observed_at e))"
| es_backtest: "\<forall>b \<in> set bars. bar_ok b \<Longrightarrow> engine_step nm strategy e (snd (run_backtest nm strategy bars e))"
| es_gate: "k = activate_kill_switch (en_risk e) \<or> k = reset_kill_switch (en_risk e) \<Longrightarrow>
    engine_step nm strategy e (e\<lparr>en_risk := k\<rparr>)"
| es_strategy: "engine_step nm strategy e (e\<lparr>en_strategy := s\<rparr>)"

interpretation engine: machine
  "\<lambda>e. \<exists>c fp s b k. broker_ok b \<and> e = new_engine c fp s b k new_ledger" "engine_step nm strategy" engine_ok
  for nm strategy
proof
  show "engine_ok e \<Longrightarrow> engine_step nm strategy e e' \<Longrightarrow> engine_ok e'" for e e'
    by (erule engine_step.cases) (auto intro: process_bar_ok run_backtest_ok)
qed (auto simp: engine_ok_def new_engine_def new_ledger_def explained_def counted_def)

subsection \<open>A concrete bar\<close>

definition demo_naming :: naming where
  "demo_naming = \<lparr>nm_decision = \<lambda>i. ''d'', nm_bar = \<lambda>b. ''b'', nm_strategy = \<lambda>s. s, nm_fill = demo_fid, nm_clock = \<lambda>n. n\<rparr>"

definition demo_app :: app_config where
  "demo_app = \<lparr>trading_enabled = True, cfg_risk = default_risk_limits, cfg_broker = default_broker_config,
     cfg_strategy = demo_sma, cfg_intraday = default_intraday_config\<rparr>"

definition demo_engine :: "(string \<times> dec) engine" where
  "demo_engine = new_engine demo_app ''fp'' (''flat'', 1 / 100) demo_broker demo_gate new_ledger"

abbreviation demo_strategy :: "(string \<times> dec) on_bar" where
  "demo_strategy \<equiv> constant_on_bar (\<lambda>w. ''0.01'')"

definition demo_intent :: trade_intent where
  "demo_intent = \<lparr>ti_strategy = ''flat'', ti_symbol = ''SPY'', ti_weight = 1 / 100, ti_generated_at = 0,
     ti_rationale = ''constant target weight 0.01''\<rparr>"

definition demo_marked :: paper_broker where
  "demo_marked = \<lparr>bk_config = default_broker_config, bk_cash = 100000, bk_positions = [], bk_marks = [(''SPY'', 100)],
     bk_fills = [], bk_session_date = Some 0, bk_day_start_equity = 100000, bk_high_watermark = 100000\<rparr>"

definition demo_account :: account_snapshot where
  "demo_account = \<lparr>ac_as_of = 0, ac_cash = 100000, ac_equity = 100000, ac_day_start_equity = 100000,
     ac_high_watermark = 100000, ac_positions = []\<rparr>"

definition demo_planned :: order_request where
  "demo_planned = \<lparr>or_client_id = ''ta-flat:d:1'', or_decision = ''d'', or_strategy = ''flat'', or_symbol = ''SPY'',
     or_side = BUY, or_quantity = 10, or_type = MARKET, or_submitted_at = 0\<rparr>"

lemma demo_symbol: "normalize_symbol ''SPY'' = ''SPY''"
  by code_simp

lemma demo_mark: "mark demo_bar demo_broker = demo_marked"
  by (simp add: mark_def Let_def demo_bar_def demo_broker_def new_broker_def default_broker_config_def demo_marked_def
      calculate_equity_def utc_date_def days_def dec_eval)

lemma demo_intends: "demo_strategy demo_bar (''flat'', 1 / 100) = (Inr (Some demo_intent), (''flat'', 1 / 100))"
  by (simp add: constant_on_bar_def mk_trade_intent_def require_length_def demo_bar_def demo_symbol demo_intent_def)

lemma demo_reads: "account 0 demo_marked = (Inr demo_account, demo_marked)"
  by (simp add: account_def open_positions_def by_key_def demo_marked_def money_def mk_account_snapshot_def
      require_gt0_def demo_account_def dec_eval)

lemma demo_plans:
  "order_difference 100000 (1 / 100) 100 0 = Inr 10"
  "order_for demo_naming demo_intent 10 demo_bar = Inr (Some demo_planned)"
  by (simp_all add: order_difference_def ddiv_def order_for_def mk_order_request_def client_id_def demo_naming_def
      demo_intent_def demo_bar_def demo_symbol require_length_def require_gt0_def demo_planned_def dec_eval)

lemma demo_unheld: "quantity_for demo_account sy = 0"
  by (simp add: quantity_for_def position_for_def demo_account_def)

lemma demo_judged: "acceptable demo_gate demo_planned demo_bar demo_account 0 True"
proof -
  have q: "projected_quantity demo_account demo_planned = 10"
    by (simp add: projected_quantity_def demo_unheld signed_quantity_def demo_planned_def dec_eval)
  have red: "\<not> risk_reducing demo_account demo_planned"
    by (simp add: risk_reducing_def q demo_unheld dec_eval)
  have syms: "projected_symbols demo_account demo_planned = {''SPY''}"
    unfolding projected_symbols_def q by (simp add: demo_account_def demo_planned_def Let_def)
  have gross: "gross_exposure demo_account = 0"
    by (simp add: gross_exposure_def demo_account_def)
  show ?thesis
    unfolding acceptable_def market_acceptable_def exposure_acceptable_def syms projected_gross_def gross
      projected_symbol_value_def q order_notional_def demo_unheld
    by (simp add: default_risk_limits_def red demo_account_def demo_planned_def demo_bar_def recent_def seconds_def dec_eval)
qed

lemma demo_executes: "\<exists>f b. submit demo_fid demo_planned demo_bar demo_marked = (Inr f, b)"
proof -
  have "execution_terms default_broker_config demo_planned demo_bar empty_position = Inr (4001 / 40, 10, 4001 / 4, 1 / 10)"
    by (simp add: broker_eval demo_planned_def)
  moreover note demo_settle
  ultimately show ?thesis
    by (simp add: submit_def demo_planned_def demo_marked_def demo_bar_def dget_def mk_fill_def require_gt0_def require_ge0_def Let_def)
qed

text \<open>The first four entries of that bar are the intent, the decision, the submission and the fill.\<close>

definition fill_at :: "nat \<Rightarrow> 's engine \<Rightarrow> bool" where
  "fill_at k e \<longleftrightarrow> k < length (trail e) \<and> is_fill (ev_payload (trail e ! k))"

lemma fill_at_logged: "fill_at k e \<Longrightarrow> fill_at k (logged_at nm ty p t trace e)"
  using trail_logged [of nm ty p t trace e] by (auto simp: fill_at_def nth_append)

lemma fill_at_broker: "fill_at k (e\<lparr>en_broker := b\<rparr>) \<longleftrightarrow> fill_at k e"
  by (simp add: fill_at_def)

lemma fill_at_new: "length (trail e) = k \<Longrightarrow> fill_at k (logged_at nm ty (FillPayload f) t trace e)"
  using trail_logged [of nm ty "FillPayload f" t trace e] by (auto simp: fill_at_def)

lemma length_trail_logged [simp]: "length (trail (logged_at nm ty p t trace e)) = Suc (length (trail e))"
  using trail_logged [of nm ty p t trace e] by auto

lemma demo_execute_fills:
  assumes "en_broker e = demo_marked" "length (trail e) = 2"
  shows "outcome (execute_order demo_naming demo_bar ''d'' demo_intent demo_planned d) (\<lambda>_. fill_at 3) (fill_at 3) e"
proof -
  obtain f b where run: "submit (nm_fill demo_naming) demo_planned demo_bar demo_marked = (Inr f, b)"
    using demo_executes by (auto simp: demo_naming_def)
  have at: "outcome (submit (nm_fill demo_naming) demo_planned demo_bar) Q E demo_marked = Q f b" for Q E
    by (simp add: outcome_def run)
  show ?thesis
    unfolding execute_order_def outcome_bind outcome_on_broker outcome_log outcome_progress outcome_return
      logged_simps assms(1) at
    by (rule outcome_all; (rule outcome_all)?)
      (auto simp: fill_at_broker assms(2) intro!: fill_at_logged fill_at_new outcome_all)
qed

lemma demo_fills: "fill_at 3 (snd (process_bar demo_naming demo_strategy demo_bar None demo_engine))"
proof -
  have cfg: "en_config demo_engine = demo_app" "en_risk demo_engine = demo_gate" "en_broker demo_engine = demo_broker"
    "en_strategy demo_engine = (''flat'', 1 / 100)" "trail demo_engine = []" "trading_enabled demo_app"
    by (simp_all add: demo_engine_def new_engine_def demo_app_def new_ledger_def)
  obtain d k where d: "evaluate demo_planned demo_bar demo_account 0 True demo_gate = (Inr d, k)" "rd_approved d"
    using evaluate_approved_iff [of demo_account demo_planned demo_bar 0 True demo_gate] demo_judged
    by (cases "evaluate demo_planned demo_bar demo_account 0 True demo_gate")
      (auto simp: snapshot_ok_def demo_account_def)
  have judged: "outcome (evaluate demo_planned demo_bar demo_account 0 True) Q E demo_gate = Q d k" for Q E
    by (simp add: outcome_def d)
  have intends: "outcome (demo_strategy demo_bar) Q E (''flat'', 1 / 100) = Q (Some demo_intent) (''flat'', 1 / 100)" for Q E
    by (simp add: outcome_def demo_intends)
  have reads: "outcome (account 0) Q E demo_marked = Q demo_account demo_marked" for Q E
    by (simp add: outcome_def demo_reads)
  have nm: "nm_decision demo_naming demo_intent = ''d''" by (simp add: demo_naming_def)
  have plans: "bind_res (order_difference (ac_equity demo_account) (ti_weight demo_intent) 100
      (quantity_for demo_account (ti_symbol demo_intent))) (\<lambda>d. order_for demo_naming demo_intent d demo_bar) = Inr (Some demo_planned)"
    using demo_plans by (simp add: demo_unheld) (simp add: demo_account_def demo_intent_def)
  have "outcome (process_bar demo_naming demo_strategy demo_bar None) (\<lambda>_. fill_at 3) (fill_at 3) demo_engine"
    unfolding process_bar_def act_on_intent_def plan_order_def judge_order_def outcome_bind outcome_mark
      outcome_on_strategy outcome_on_broker
    by (simp add: cfg demo_mark intends reads plans Let_def outcome_evaluate judged d(2) nm demo_execute_fills)
  then show ?thesis by (simp add: outcome_always)
qed

lemma demo_engine_run: "(engine_step demo_naming demo_strategy)\<^sup>*\<^sup>*
    (new_engine demo_app ''fp'' (''flat'', 1 / 100) demo_broker demo_gate new_ledger)
    (snd (process_bar demo_naming demo_strategy demo_bar None demo_engine))"
  unfolding demo_engine_def [symmetric] by (rule r_into_rtranclp, rule engine_step.es_bar [OF demo_bar_ok])

subsection \<open>The properties\<close>

text \<open>C1 No unexplained fill: whatever the strategy does, and whether bars succeed or raise, every fill in the
  ledger comes right after the intent, the approving risk decision and the submitted order it belongs to,
  all four under one trace.\<close>

theorem fills_explained:
  assumes "broker_ok b" and "(engine_step nm strategy)\<^sup>*\<^sup>* (new_engine c fp s b k new_ledger) e"
    and "n < length (trail e)" and "ev_payload (trail e ! n) = Payload (FillPayload f)"
  shows "\<exists>i d r. 3 \<le> n \<and> ev_payload (trail e ! (n - 3)) = Payload (IntentPayload i)
    \<and> ev_payload (trail e ! (n - 2)) = Payload (DecisionPayload d) \<and> rd_approved d
    \<and> ev_payload (trail e ! (n - 1)) = Payload (OrderPayload r)
    \<and> or_symbol r = normalize_symbol (ti_symbol i) \<and> fl_client_id f = or_client_id r
    \<and> (\<forall>m \<in> {1, 2, 3}. ev_trace (trail e ! (n - m)) = ev_trace (trail e ! n))"
proof -
  have "engine_ok e" using engine.inv_reachable [OF _ assms(2)] assms(1) by blast
  then have "justified (trail e) n" using assms(3) by (simp add: engine_ok_def explained_def)
  with assms(4) show ?thesis by (auto simp: justified_def)
qed

theorem fills_explained_witness:
  "\<exists>d. ev_payload (trail (snd (process_bar demo_naming demo_strategy demo_bar None demo_engine)) ! 1)
      = Payload (DecisionPayload d) \<and> rd_approved d"
proof -
  let ?e = "snd (process_bar demo_naming demo_strategy demo_bar None demo_engine)"
  obtain f where f: "3 < length (trail ?e)" "ev_payload (trail ?e ! 3) = Payload (FillPayload f)"
    using demo_fills by (auto simp: fill_at_def elim: is_fill.elims)
  have "broker_ok demo_broker" unfolding demo_broker_def by (rule new_broker_ok [OF demo_config_ok])
  from fills_explained [OF this demo_engine_run f]
  show ?thesis by auto
qed

text \<open>The reported counts agree with the audit trail: the engine's order count is the number of risk
  decisions in its ledger, and its rejection count the number of those that refused.\<close>

theorem counts_match_trail:
  assumes "broker_ok b" and "(engine_step nm strategy)\<^sup>*\<^sup>* (new_engine c fp s b k new_ledger) e"
  shows "en_orders e = length (decisions (trail e))
    \<and> en_rejections e = length (filter (\<lambda>d. \<not> rd_approved d) (decisions (trail e)))"
proof -
  have "engine_ok e" using engine.inv_reachable [OF _ assms(2)] assms(1) by blast
  then show ?thesis by (simp add: engine_ok_def counted_def)
qed

theorem counts_match_trail_witness:
  "en_orders (snd (process_bar demo_naming demo_strategy demo_bar None demo_engine)) =
    length (decisions (trail (snd (process_bar demo_naming demo_strategy demo_bar None demo_engine))))"
proof -
  have "broker_ok demo_broker" unfolding demo_broker_def by (rule new_broker_ok [OF demo_config_ok])
  from counts_match_trail [OF this demo_engine_run]
  show ?thesis by simp
qed

subsection \<open>The engine and the broker machine\<close>

text \<open>A bar moves the broker only along the broker machine.\<close>

lemma broker_calls:
  assumes "(broker_step fid)\<^sup>*\<^sup>* b0 b"
  shows "(\<And>x b. (broker_step fid)\<^sup>*\<^sup>* b0 b \<Longrightarrow> Q x b) \<Longrightarrow> (\<And>b. (broker_step fid)\<^sup>*\<^sup>* b0 b \<Longrightarrow> E b) \<Longrightarrow> outcome (account t) Q E b"
    and "bar_ok bar \<Longrightarrow> (\<And>x b. (broker_step fid)\<^sup>*\<^sup>* b0 b \<Longrightarrow> Q' x b) \<Longrightarrow> (\<And>b. (broker_step fid)\<^sup>*\<^sup>* b0 b \<Longrightarrow> E b) \<Longrightarrow>
      outcome (submit fid r bar) Q' E b"
proof -
  have step: "(broker_step fid)\<^sup>*\<^sup>* b0 c" if "broker_step fid b c" for c
    using assms that by (rule rtranclp.rtrancl_into_rtrancl)
  show "outcome (account t) Q E b"
    if "\<And>x b. (broker_step fid)\<^sup>*\<^sup>* b0 b \<Longrightarrow> Q x b" "\<And>b. (broker_step fid)\<^sup>*\<^sup>* b0 b \<Longrightarrow> E b"
    using that step [OF broker_step.b_account, of t] by (auto intro!: outcomeI)
  show "outcome (submit fid r bar) Q' E b"
    if "bar_ok bar" "\<And>x b. (broker_step fid)\<^sup>*\<^sup>* b0 b \<Longrightarrow> Q' x b" "\<And>b. (broker_step fid)\<^sup>*\<^sup>* b0 b \<Longrightarrow> E b"
    using that step [OF broker_step.b_submit [OF that(1)], of r] by (auto intro!: outcomeI)
qed

lemma execute_order_steps:
  assumes "bar_ok bar" "(broker_step (nm_fill nm))\<^sup>*\<^sup>* b0 (en_broker e)"
  shows "outcome (execute_order nm bar trace i r d) (\<lambda>_ e. (broker_step (nm_fill nm))\<^sup>*\<^sup>* b0 (en_broker e))
    (\<lambda>e. (broker_step (nm_fill nm))\<^sup>*\<^sup>* b0 (en_broker e)) e"
  unfolding execute_order_def outcome_bind outcome_on_broker outcome_log outcome_progress outcome_return logged_simps
  by (rule broker_calls(2) [OF assms(2,1)])
    (auto intro!: broker_calls(1) [where ?b0.0 = b0 and fid = "nm_fill nm"] export_outcome)



subsection \<open>Planned orders\<close>

text \<open>A planned sale never exceeds the holding: with equity, weight and price as their models require, the
  order that moves a holding toward a target weight sells at most what is held, in the symbol of the
  intent.\<close>

theorem planned_sale_within_holding:
  assumes "bind_res (order_difference equity (ti_weight i) close own) (\<lambda>d. order_for nm i d bar) = Inr (Some r)"
    and "0 \<le> equity" "0 \<le> ti_weight i" "0 < close" and "fits28 own" and "or_side r = SELL"
  shows "or_quantity r \<le> own \<and> or_symbol r = normalize_symbol (ti_symbol i)"
proof -
  let ?t = "to_integral round_down (dquo (dmul equity (ti_weight i)) close)"
  have d: "order_for nm i (dsub ?t own) bar = Inr (Some r)"
    using assms(1,4) by (simp add: order_difference_def ddiv_def)
  have t: "0 \<le> ?t"
    unfolding to_integral_def using assms(2-4)
    by (simp add: rdown.rnd_nonneg dquo_nonneg dmul_nonneg)
  have r: "\<not> 0 < dsub ?t own" "or_quantity r = dabs (dsub ?t own)" "or_symbol r = normalize_symbol (ti_symbol i)"
    using d assms(6) by (auto simp: order_for_def dest!: mk_order_request_Inr split: if_splits)
  have "dabs (dsub ?t own) = dround (own - ?t)"
    using r(1) dround_minus [of "own - ?t"] by (simp add: dabs_eq dsub_def dround_sign_less dround_nonneg)
  then show ?thesis using t dround_le [OF _ assms(5), of "own - ?t"] r by simp
qed

theorem planned_sale_within_holding_witness:
  "\<exists>r. bind_res (order_difference 100000 (ti_weight demo_intent) 100 25) (\<lambda>d. order_for demo_naming demo_intent d demo_bar)
      = Inr (Some r) \<and> or_quantity r \<le> 25"
proof -
  have d: "order_difference 100000 (ti_weight demo_intent) 100 25 = Inr (- 15)"
    by (simp add: order_difference_def ddiv_def demo_intent_def dec_eval)
  obtain r where r: "order_for demo_naming demo_intent (- 15) demo_bar = Inr (Some r)" "or_side r = SELL"
    by (simp add: order_for_def mk_order_request_def client_id_def demo_naming_def
      demo_intent_def demo_bar_def require_length_def require_gt0_def dec_eval)
  have "fits28 25" using fits28_of_int [of 25] by simp
  with planned_sale_within_holding [of 100000 demo_intent 100 25 demo_naming demo_bar r] d r show ?thesis
    by (simp add: demo_intent_def)
qed

end
