(* ===== verification/LedgerLaws.thy ===== *)
theory LedgerLaws
  imports Ledger
begin

text \<open>
  The ledger's properties: rows are never altered or lost, and the control table is the replay of the
  audit trail.
\<close>

definition demo_ledger :: "string ledger" where
  "demo_ledger = set_control ''kill_switch'' ''true'' 5 ''ops'' 6
     (snd (append_event ''market_bar'' ''{}'' 1 ''t1'' 2 new_ledger))"

lemma demo_ledger_run: "ledger_step\<^sup>*\<^sup>* new_ledger demo_ledger"
  unfolding demo_ledger_def by (blast intro: ledger_step.intros rtranclp.intros)

text \<open>The ledger is append only: from a fresh ledger, after any sequence of appends and control changes,
  every row written earlier is still there unchanged and in place, and the rows' sequence numbers
  strictly increase.\<close>

theorem ledger_append_only:
  assumes "ledger_step\<^sup>*\<^sup>* new_ledger l" and "ledger_step\<^sup>*\<^sup>* l m"
  shows "take (length (lg_events l)) (lg_events m) = lg_events l \<and> sorted_wrt (<) (map ev_sequence (lg_events m))"
proof -
  have l: "ledger_ok l" by (rule ledger_machine.inv_reachable [OF refl assms(1)])
  have "ledger_ok m" by (rule ledger_machine.inv_run [OF assms(2) l])
  moreover have "extends l m" by (rule ledger_machine.below_run [OF assms(2) l])
  ultimately show ?thesis by (auto simp: ledger_ok_def extends_def)
qed

theorem ledger_append_only_witness:
  "take 2 (lg_events (set_control ''kill_switch'' ''false'' 7 ''ops'' 8 demo_ledger)) = lg_events demo_ledger
   \<and> map ev_sequence (lg_events demo_ledger) = [1, 2]"
proof -
  have "ledger_step\<^sup>*\<^sup>* demo_ledger (set_control ''kill_switch'' ''false'' 7 ''ops'' 8 demo_ledger)"
    by (blast intro: ledger_step.intros)
  from ledger_append_only [OF demo_ledger_run this] show ?thesis
    by (simp add: demo_ledger_def set_control_def append_event_def new_ledger_def)
qed

text \<open>C18 The audit trail accounts for the control table: from a fresh ledger, after any sequence of
  appends and control changes, every control's value is the last one recorded by a control event, and
  a control with no such event has none.\<close>

theorem controls_replay:
  assumes "ledger_step\<^sup>*\<^sup>* new_ledger l"
  shows "get_control k None l = replay (lg_events l) k"
  using audit_machine.inv_reachable [OF refl assms] by (simp add: audited_def)

theorem controls_replay_witness:
  "replay (lg_events demo_ledger) ''kill_switch'' = Some ''true''"
  unfolding controls_replay [OF demo_ledger_run, symmetric]
  by (simp add: demo_ledger_def set_control_def get_control_def)

text \<open>Reading an event back: right after a row is written, the newest event of its type is that row,
  and the newest event of any other type is the one it was before.\<close>

theorem latest_event_write:
  assumes "ledger_ok l"
  shows "latest_event ty (snd (append_event ty' p oc tr now l)) =
    (if ty' = ty then Some \<lparr>ev_sequence = lg_next l, ev_occurred_at = oc, ev_recorded_at = now,
       ev_type = ty, ev_trace = tr, ev_payload = Payload p\<rparr> else latest_event ty l)"
  by (simp add: append_event_def latest_event_insert [OF assms])

theorem latest_event_write_witness:
  "latest_event ''market_bar'' (snd (append_event ''fill'' ''{}'' 7 ''t2'' 8 demo_ledger)) =
    latest_event ''market_bar'' demo_ledger"
proof -
  have "ledger_ok demo_ledger" by (rule ledger_machine.inv_reachable [OF refl demo_ledger_run])
  from latest_event_write [OF this, of "''market_bar''" "''fill''"] show ?thesis by simp
qed

end
