(* ===== verification/OrderState.thy ===== *)
theory OrderState
  imports Domain
begin

text \<open>
  \<^verbatim>\<open>order_state.py\<close>: the order lifecycle. The database's \<^verbatim>\<open>orders\<close> table is a dict by order id and
  the \<^verbatim>\<open>events_v2\<close> rows it writes a list; a transaction that raises leaves both as they were. The
  UUIDs and the clock are arguments. The columns hold the decimals exactly (at most 12 places).
\<close>

datatype alpaca_status =
    AL_NEW | AL_PARTIALLY_FILLED | AL_FILLED | AL_DONE_FOR_DAY | AL_CANCELED | AL_EXPIRED | AL_REPLACED
  | AL_PENDING_CANCEL | AL_PENDING_REPLACE | AL_ACCEPTED | AL_PENDING_NEW | AL_ACCEPTED_FOR_BIDDING
  | AL_STOPPED | AL_REJECTED | AL_SUSPENDED | AL_CALCULATED | AL_HELD

datatype lifecycle_state =
    OS_CREATED | OS_RISK_REJECTED | OS_APPROVED | OS_SUBMITTING | OS_ACKNOWLEDGED | OS_PARTIALLY_FILLED
  | OS_FILLED | OS_CANCEL_PENDING | OS_CANCELED | OS_REJECTED | OS_EXPIRED | OS_RECONCILIATION_REQUIRED

definition terminal_states :: "lifecycle_state set" where
  "terminal_states = {OS_RISK_REJECTED, OS_FILLED, OS_CANCELED, OS_REJECTED, OS_EXPIRED}"

fun allowed_transitions :: "lifecycle_state \<Rightarrow> lifecycle_state set" where
  "allowed_transitions OS_CREATED = {OS_RISK_REJECTED, OS_APPROVED}"
| "allowed_transitions OS_APPROVED = {OS_SUBMITTING, OS_RECONCILIATION_REQUIRED}"
| "allowed_transitions OS_SUBMITTING = {OS_ACKNOWLEDGED, OS_REJECTED, OS_RECONCILIATION_REQUIRED}"
| "allowed_transitions OS_ACKNOWLEDGED = {OS_PARTIALLY_FILLED, OS_FILLED, OS_CANCEL_PENDING, OS_REJECTED,
     OS_EXPIRED, OS_RECONCILIATION_REQUIRED}"
| "allowed_transitions OS_PARTIALLY_FILLED = {OS_PARTIALLY_FILLED, OS_FILLED, OS_CANCEL_PENDING, OS_CANCELED,
     OS_RECONCILIATION_REQUIRED}"
| "allowed_transitions OS_CANCEL_PENDING = {OS_PARTIALLY_FILLED, OS_FILLED, OS_CANCELED, OS_RECONCILIATION_REQUIRED}"
| "allowed_transitions OS_RECONCILIATION_REQUIRED = {OS_ACKNOWLEDGED, OS_PARTIALLY_FILLED, OS_FILLED, OS_CANCELED,
     OS_REJECTED, OS_EXPIRED}"
| "allowed_transitions _ = {}"

fun lifecycle_state_from_alpaca :: "alpaca_status \<Rightarrow> lifecycle_state" where
  "lifecycle_state_from_alpaca AL_NEW = OS_ACKNOWLEDGED"
| "lifecycle_state_from_alpaca AL_ACCEPTED = OS_ACKNOWLEDGED"
| "lifecycle_state_from_alpaca AL_PENDING_NEW = OS_SUBMITTING"
| "lifecycle_state_from_alpaca AL_PARTIALLY_FILLED = OS_PARTIALLY_FILLED"
| "lifecycle_state_from_alpaca AL_FILLED = OS_FILLED"
| "lifecycle_state_from_alpaca AL_PENDING_CANCEL = OS_CANCEL_PENDING"
| "lifecycle_state_from_alpaca AL_CANCELED = OS_CANCELED"
| "lifecycle_state_from_alpaca AL_EXPIRED = OS_EXPIRED"
| "lifecycle_state_from_alpaca AL_REJECTED = OS_REJECTED"
| "lifecycle_state_from_alpaca _ = OS_RECONCILIATION_REQUIRED"

record tracked_order =
  tk_id :: string
  tk_client :: string
  tk_broker :: "string option"
  tk_strategy :: string
  tk_symbol :: string
  tk_side :: side
  tk_quantity :: dec
  tk_filled :: dec
  tk_state :: lifecycle_state
  tk_created_at :: instant
  tk_updated_at :: instant

record order_transition =
  tr_order :: string
  tr_from :: lifecycle_state
  tr_to :: lifecycle_state
  tr_at :: instant
  tr_reason :: string
  tr_filled :: dec
  tr_broker :: "string option"

definition mk_order_transition :: "order_transition \<Rightarrow> order_transition res" where
  "mk_order_transition t =
     bind_res (check (1 \<le> length (tr_reason t)) (ValidationError ''reason'')) (\<lambda>_.
     bind_res (require_ge0 ''filled_quantity'' (tr_filled t)) (\<lambda>_. Inr t))"

text \<open>An event row: its trace and the transition it records.\<close>

record order_db =
  od_orders :: "(string, tracked_order) dict"
  od_events :: "(string \<times> order_transition) list"

definition new_order_db :: order_db where
  "new_order_db = \<lparr>od_orders = [], od_events = []\<rparr>"

definition append_transition_event :: "order_transition \<Rightarrow> string \<Rightarrow> order_db \<Rightarrow> order_db" where
  "append_transition_event t trace db = db\<lparr>od_events := od_events db @ [(trace, t)]\<rparr>"

definition create_order :: "string \<Rightarrow> order_request \<Rightarrow> (order_db, tracked_order) routine" where
  "create_order uid r db =
     (let t = \<lparr>tk_id = uid, tk_client = or_client_id r, tk_broker = None, tk_strategy = or_strategy r,
                tk_symbol = or_symbol r, tk_side = or_side r, tk_quantity = or_quantity r, tk_filled = 0,
                tk_state = OS_CREATED, tk_created_at = or_submitted_at r, tk_updated_at = or_submitted_at r\<rparr>
      in if \<not> 0 < or_quantity r then (Inl (ValidationError ''quantity''), db)
         else if map_of (od_orders db) uid \<noteq> None \<or> (\<exists>(k, o') \<in> set (od_orders db). tk_client o' = or_client_id r)
         then (Inl IntegrityError, db)
         else (Inr t, append_transition_event
                \<lparr>tr_order = uid, tr_from = OS_CREATED, tr_to = OS_CREATED, tr_at = or_submitted_at r,
                  tr_reason = ''order created'', tr_filled = 0, tr_broker = None\<rparr> (or_client_id r)
                (db\<lparr>od_orders := AList.update uid t (od_orders db)\<rparr>)))"

definition get_order :: "string \<Rightarrow> order_db \<Rightarrow> tracked_order res" where
  "get_order oid db = (case map_of (od_orders db) oid of None \<Rightarrow> Inl (KeyError oid) | Some t \<Rightarrow> Inr t)"

subsection \<open>A transition\<close>

definition next_filled :: "tracked_order \<Rightarrow> lifecycle_state \<Rightarrow> dec option \<Rightarrow> dec" where
  "next_filled cur target filled =
     (if target = OS_FILLED then tk_quantity cur
      else case filled of Some q \<Rightarrow> q | None \<Rightarrow> tk_filled cur)"

definition resolved_broker_id :: "string option \<Rightarrow> string option \<Rightarrow> string option" where
  "resolved_broker_id given cur = (case given of Some (c # cs) \<Rightarrow> given | _ \<Rightarrow> cur)"

text \<open>The checks between reading the row and writing it.\<close>

definition plan_transition ::
  "tracked_order \<Rightarrow> lifecycle_state \<Rightarrow> string \<Rightarrow> instant \<Rightarrow> dec option \<Rightarrow> string option \<Rightarrow> order_transition res" where
  "plan_transition cur target reason tm filled broker =
     bind_res (check (target \<in> allowed_transitions (tk_state cur)) (ValueError ''invalid order transition'')) (\<lambda>_.
     (let nf = next_filled cur target filled in
      bind_res (check (\<not> nf < tk_filled cur) (ValueError ''filled quantity cannot decrease'')) (\<lambda>_.
      bind_res (check (\<not> nf > tk_quantity cur) (ValueError ''filled quantity cannot exceed order quantity'')) (\<lambda>_.
      bind_res (check (\<not> (target = OS_PARTIALLY_FILLED \<and> \<not> (0 < nf \<and> nf < tk_quantity cur)))
        (ValueError ''partial fill quantity must be between zero and order quantity'')) (\<lambda>_.
      mk_order_transition \<lparr>tr_order = tk_id cur, tr_from = tk_state cur, tr_to = target, tr_at = tm,
        tr_reason = reason, tr_filled = nf, tr_broker = resolved_broker_id broker (tk_broker cur)\<rparr>)))))"

definition apply_transition :: "order_transition \<Rightarrow> tracked_order \<Rightarrow> tracked_order" where
  "apply_transition t cur = cur\<lparr>tk_broker := tr_broker t, tk_filled := tr_filled t, tk_state := tr_to t,
     tk_updated_at := tr_at t\<rparr>"

definition transition ::
  "string \<Rightarrow> lifecycle_state \<Rightarrow> string \<Rightarrow> instant \<Rightarrow> dec option \<Rightarrow> string option \<Rightarrow> (order_db, tracked_order) routine" where
  "transition oid target reason tm filled broker db =
     (case map_of (od_orders db) oid of
        None \<Rightarrow> (Inl (KeyError oid), db)
      | Some cur \<Rightarrow>
        (case plan_transition cur target reason tm filled broker of
           Inl e \<Rightarrow> (Inl e, db)
         | Inr t \<Rightarrow>
           if tr_broker t \<noteq> None \<and> (\<exists>(k, o') \<in> set (od_orders db). k \<noteq> oid \<and> tk_broker o' = tr_broker t)
           then (Inl IntegrityError, db)
           else (let db' = append_transition_event t (tk_client cur)
                       (db\<lparr>od_orders := AList.update oid (apply_transition t cur) (od_orders db)\<rparr>)
                 in (get_order oid db', db'))))"

subsection \<open>What the tables keep\<close>

definition order_ok :: "tracked_order \<Rightarrow> bool" where
  "order_ok t \<longleftrightarrow> 0 < tk_quantity t \<and> 0 \<le> tk_filled t \<and> tk_filled t \<le> tk_quantity t
     \<and> (tk_state t = OS_FILLED \<longrightarrow> tk_filled t = tk_quantity t)
     \<and> (tk_state t = OS_PARTIALLY_FILLED \<longrightarrow> 0 < tk_filled t \<and> tk_filled t < tk_quantity t)"

definition history :: "string \<Rightarrow> order_db \<Rightarrow> order_transition list" where
  "history oid db = filter (\<lambda>t. tr_order t = oid) (map snd (od_events db))"

text \<open>A legal history: it starts with the creation and each entry follows on the one before.\<close>

fun follows :: "order_transition \<Rightarrow> order_transition list \<Rightarrow> bool" where
  "follows t [] = True"
| "follows t (u # us) = (tr_from u = tr_to t \<and> tr_to u \<in> allowed_transitions (tr_to t)
     \<and> tr_filled t \<le> tr_filled u \<and> follows u us)"

definition legal :: "order_transition list \<Rightarrow> bool" where
  "legal h \<longleftrightarrow> (case h of [] \<Rightarrow> False
     | t # ts \<Rightarrow> tr_from t = OS_CREATED \<and> tr_to t = OS_CREATED \<and> tr_filled t = 0 \<and> follows t ts)"

definition current :: "tracked_order \<Rightarrow> order_transition list \<Rightarrow> bool" where
  "current t h \<longleftrightarrow> h \<noteq> [] \<and> tk_state t = tr_to (last h) \<and> tk_filled t = tr_filled (last h) \<and> tk_broker t = tr_broker (last h)"

definition db_ok :: "order_db \<Rightarrow> bool" where
  "db_ok db \<longleftrightarrow> dict_ok (od_orders db)
     \<and> distinct (map (tk_client \<circ> snd) (od_orders db))
     \<and> (\<forall>(k, t) \<in> set (od_orders db). tk_id t = k \<and> order_ok t \<and> legal (history k db) \<and> current t (history k db))
     \<and> (\<forall>(tr, t) \<in> set (od_events db). tr_order t \<in> fst ` set (od_orders db))"

subsection \<open>The operations keep it\<close>

lemma terminal_iff: "s \<in> terminal_states \<longleftrightarrow> allowed_transitions s = {}"
  by (cases s) (auto simp: terminal_states_def)

lemma follows_snoc:
  "follows t (us @ [u]) \<longleftrightarrow> follows t us \<and> tr_from u = tr_to (last (t # us))
     \<and> tr_to u \<in> allowed_transitions (tr_to (last (t # us))) \<and> tr_filled (last (t # us)) \<le> tr_filled u"
  by (induction us arbitrary: t) auto

lemma legal_snoc:
  "h \<noteq> [] \<Longrightarrow> legal (h @ [u]) \<longleftrightarrow> legal h \<and> tr_from u = tr_to (last h)
     \<and> tr_to u \<in> allowed_transitions (tr_to (last h)) \<and> tr_filled (last h) \<le> tr_filled u"
  by (cases h) (auto simp: legal_def follows_snoc)

lemma plan_transition_Inr:
  "plan_transition cur target reason tm filled broker = Inr t \<Longrightarrow>
     target \<in> allowed_transitions (tk_state cur) \<and> tr_filled t = next_filled cur target filled
     \<and> tk_filled cur \<le> tr_filled t \<and> tr_filled t \<le> tk_quantity cur \<and> 0 \<le> tr_filled t
     \<and> (target = OS_PARTIALLY_FILLED \<longrightarrow> 0 < tr_filled t \<and> tr_filled t < tk_quantity cur)
     \<and> tr_order t = tk_id cur \<and> tr_from t = tk_state cur \<and> tr_to t = target \<and> reason \<noteq> []
     \<and> tr_broker t = resolved_broker_id broker (tk_broker cur)"
  by (auto simp: plan_transition_def Let_def mk_order_transition_def require_ge0_def not_less Suc_le_eq)

lemma transition_cases:
  obtains (refused) e where "transition oid target reason tm filled broker db = (Inl e, db)"
  | (moved) cur t where "map_of (od_orders db) oid = Some cur"
      "plan_transition cur target reason tm filled broker = Inr t"
      "transition oid target reason tm filled broker db = (Inr (apply_transition t cur),
         \<lparr>od_orders = AList.update oid (apply_transition t cur) (od_orders db),
          od_events = od_events db @ [(tk_client cur, t)]\<rparr>)"
proof (cases "map_of (od_orders db) oid")
  case None
  then show ?thesis by (auto intro: refused simp: transition_def)
next
  case (Some cur)
  show ?thesis
  proof (cases "plan_transition cur target reason tm filled broker")
    case (Inl e)
    with Some show ?thesis by (auto intro: refused simp: transition_def)
  next
    case (Inr t)
    show ?thesis
    proof (cases "tr_broker t \<noteq> None \<and> (\<exists>(k, o') \<in> set (od_orders db). k \<noteq> oid \<and> tk_broker o' = tr_broker t)")
      case True
      show ?thesis by (rule refused) (simp only: transition_def Some Inr option.case sum.case if_P [OF True])
    next
      case False
      show ?thesis
        by (rule moved [OF Some Inr])
          (simp only: transition_def Some Inr option.case sum.case if_not_P [OF False],
            simp add: Let_def append_transition_event_def get_order_def)
    qed
  qed
qed

lemma create_cases:
  obtains (refused) e where "create_order uid r db = (Inl e, db)"
  | (created) t where "map_of (od_orders db) uid = None" "\<forall>(k, o') \<in> set (od_orders db). tk_client o' \<noteq> or_client_id r"
      "0 < or_quantity r" "tk_id t = uid" "tk_client t = or_client_id r" "tk_quantity t = or_quantity r"
      "tk_filled t = 0" "tk_state t = OS_CREATED" "tk_broker t = None"
      "create_order uid r db = (Inr t,
         \<lparr>od_orders = AList.update uid t (od_orders db),
          od_events = od_events db @ [(or_client_id r, \<lparr>tr_order = uid, tr_from = OS_CREATED, tr_to = OS_CREATED,
             tr_at = or_submitted_at r, tr_reason = ''order created'', tr_filled = 0, tr_broker = None\<rparr>)]\<rparr>)"
proof (cases "0 < or_quantity r \<and> map_of (od_orders db) uid = None
    \<and> (\<forall>(k, o') \<in> set (od_orders db). tk_client o' \<noteq> or_client_id r)")
  case True
  then show ?thesis
    by (intro created) (auto simp: create_order_def Let_def append_transition_event_def)
next
  case False
  then have taken: "map_of (od_orders db) uid \<noteq> None \<or> (\<exists>(k, o') \<in> set (od_orders db). tk_client o' = or_client_id r)"
    if "0 < or_quantity r" using that by auto
  show ?thesis
  proof (cases "0 < or_quantity r")
    case True
    show ?thesis
      by (rule refused) (simp only: create_order_def Let_def True not_True_eq_False if_False if_P [OF taken [OF True]])
  next
    case False
    then show ?thesis by (intro refused) (simp add: create_order_def Let_def)
  qed
qed

lemma map_update_same:
  "dict_ok d \<Longrightarrow> map_of d k = Some v0 \<Longrightarrow> f v = f v0 \<Longrightarrow> map (f \<circ> snd) (AList.update k v d) = map (f \<circ> snd) d"
  by (induction d) (auto simp: dict_ok_def split: if_splits dest: map_of_SomeD)

lemma db_okD:
  assumes "db_ok db" "map_of (od_orders db) k = Some t"
  shows "tk_id t = k" "order_ok t" "legal (history k db)" "current t (history k db)"
  using assms by (auto simp: db_ok_def dest!: map_of_SomeD)

lemma transition_ok [keeps]:
  assumes ok: "db_ok db"
  shows "db_ok (snd (transition oid target reason tm filled broker db))"
proof (cases rule: transition_cases [of oid target reason tm filled broker db])
  case (moved cur t)
  note P = plan_transition_Inr [OF moved(2)] and C = db_okD [OF ok moved(1)]
  let ?d = "AList.update oid (apply_transition t cur) (od_orders db)"
  let ?db = "\<lparr>od_orders = ?d, od_events = od_events db @ [(tk_client cur, t)]\<rparr>"
  have d: "dict_ok (od_orders db)" using ok by (simp add: db_ok_def)
  have tid: "tr_order t = oid" using P C(1) by simp
  have hist: "history k ?db = history k db @ (if k = oid then [t] else [])" for k
    by (simp add: history_def tid)
  have clients: "map (tk_client \<circ> snd) ?d = map (tk_client \<circ> snd) (od_orders db)"
    by (rule map_update_same [OF d moved(1)]) (simp add: apply_transition_def)
  have "order_ok (apply_transition t cur)" using P C(2) by (auto simp: order_ok_def apply_transition_def next_filled_def)
  moreover have h: "history oid db \<noteq> []" using C(4) by (simp add: current_def)
  then have "legal (history oid ?db)" using P C(3,4) by (simp add: hist legal_snoc current_def)
  moreover have "current (apply_transition t cur) (history oid ?db)"
    by (simp add: hist current_def) (simp add: apply_transition_def)
  ultimately have row: "tk_id u = k \<and> order_ok u \<and> legal (history k ?db) \<and> current u (history k ?db)" if "(k, u) \<in> set ?d" for k u
  proof (cases "k = oid")
    case True
    then have "u = apply_transition t cur"
      using that dict_ok_map_of [of ?d k u] d by simp
    then show ?thesis
      using True \<open>order_ok (apply_transition t cur)\<close> \<open>legal (history oid ?db)\<close>
        \<open>current (apply_transition t cur) (history oid ?db)\<close> C(1) by (simp add: apply_transition_def)
  next
    case False
    then have "(k, u) \<in> set (od_orders db)" using that by (auto dest!: update_in_set)
    with ok False show ?thesis by (auto simp: hist db_ok_def)
  qed
  have "\<forall>(tr, u) \<in> set (od_events ?db). tr_order u \<in> fst ` set ?d"
    using ok tid by (auto simp: db_ok_def)
  then have "db_ok ?db" using ok d row by (auto simp: db_ok_def clients)
  then show ?thesis by (simp add: moved(3))
qed (use ok in simp)

lemma create_ok [keeps]:
  assumes ok: "db_ok db"
  shows "db_ok (snd (create_order uid r db))"
proof (cases rule: create_cases [of uid r db])
  case (created t)
  let ?t0 = "\<lparr>tr_order = uid, tr_from = OS_CREATED, tr_to = OS_CREATED, tr_at = or_submitted_at r,
      tr_reason = ''order created'', tr_filled = 0, tr_broker = None\<rparr>"
  let ?d = "AList.update uid t (od_orders db)"
  let ?db = "\<lparr>od_orders = ?d, od_events = od_events db @ [(or_client_id r, ?t0)]\<rparr>"
  have fresh: "uid \<notin> fst ` set (od_orders db)" using created(1) by (simp add: map_of_eq_None_iff)
  have d: "?d = od_orders db @ [(uid, t)]" by (rule update_append_fresh [OF created(1)])
  have none: "history uid db = []"
  proof -
    have "tr_order u \<noteq> uid" if "(tr, u) \<in> set (od_events db)" for tr u
      using ok fresh that by (auto simp: db_ok_def)
    then show ?thesis unfolding history_def filter_empty_conv by fastforce
  qed
  have hist: "history k ?db = history k db @ (if k = uid then [?t0] else [])" for k
    by (simp add: history_def)
  have "order_ok t \<and> legal (history uid ?db) \<and> current t (history uid ?db)"
    using created by (simp add: hist none order_ok_def legal_def current_def)
  moreover have "tk_id u = k \<and> order_ok u \<and> legal (history k ?db) \<and> current u (history k ?db)"
    if "(k, u) \<in> set (od_orders db)" for k u
  proof -
    have "k \<noteq> uid" using fresh that by force
    with ok that show ?thesis by (auto simp: hist db_ok_def)
  qed
  ultimately have "\<forall>(k, u) \<in> set ?d. tk_id u = k \<and> order_ok u \<and> legal (history k ?db) \<and> current u (history k ?db)"
    using created(4) by (auto simp: d)
  moreover have "distinct (map (tk_client \<circ> snd) ?d)"
    using ok created(2,5) by (auto simp: d db_ok_def)
  moreover have "\<forall>(tr, u) \<in> set (od_events ?db). tr_order u \<in> fst ` set ?d"
    using ok by (auto simp: d db_ok_def)
  moreover have "dict_ok ?d" using ok by (simp add: db_ok_def)
  ultimately have "db_ok ?db" by (simp add: db_ok_def)
  then show ?thesis by (simp add: created(10))
qed (use ok in simp)

inductive order_step :: "order_db \<Rightarrow> order_db \<Rightarrow> bool" where
  os_create: "order_step db (snd (create_order uid r db))"
| os_transition: "order_step db (snd (transition oid target reason tm filled broker db))"

text \<open>What no later step undoes: an order stays, its fill never shrinks, a terminal order never moves.\<close>

definition order_later :: "order_db \<Rightarrow> order_db \<Rightarrow> bool" where
  "order_later db db' \<longleftrightarrow> (\<forall>oid t. map_of (od_orders db) oid = Some t \<longrightarrow>
     (\<exists>t'. map_of (od_orders db') oid = Some t' \<and> tk_filled t \<le> tk_filled t' \<and> tk_quantity t' = tk_quantity t
        \<and> tk_client t' = tk_client t \<and> (tk_state t \<in> terminal_states \<longrightarrow> t' = t)))"

lemma order_later_refl: "order_later db db"
  by (simp add: order_later_def)

lemma order_later_trans: "order_later a b \<Longrightarrow> order_later b c \<Longrightarrow> order_later a c"
  unfolding order_later_def by (elim all_forward imp_forward) (auto, metis order_trans)

lemma create_later: "order_later db (snd (create_order uid r db))"
proof (cases rule: create_cases [of uid r db])
  case (created t)
  then show ?thesis by (auto simp: order_later_def map_of_update)
qed (simp add: order_later_refl)

lemma transition_later: "order_later db (snd (transition oid target reason tm filled broker db))"
proof (cases rule: transition_cases [of oid target reason tm filled broker db])
  case (moved cur t)
  have "tk_state cur \<notin> terminal_states" using plan_transition_Inr [OF moved(2)] by (auto simp: terminal_iff)
  then show ?thesis
    using moved(1) plan_transition_Inr [OF moved(2)]
    by (auto simp: order_later_def moved(3) map_of_update apply_transition_def)
qed (simp add: order_later_refl)

interpretation orders: growing_machine "\<lambda>db. db = new_order_db" order_step db_ok order_later
proof
  show "db_ok db \<Longrightarrow> order_step db db' \<Longrightarrow> db_ok db'" for db db'
    by (erule order_step.cases) (auto intro: keeps)
  show "order_step db db' \<Longrightarrow> order_later db db'" for db db'
    by (erule order_step.cases) (auto intro: create_later transition_later)
qed (auto simp: db_ok_def new_order_db_def intro: order_later_refl order_later_trans)

subsection \<open>The properties\<close>

text \<open>An order created and carried to its fill, through a partial one.\<close>

definition demo_request :: order_request where
  "demo_request = \<lparr>or_client_id = ''c1'', or_decision = ''d1'', or_strategy = ''s'', or_symbol = ''SPY'',
     or_side = BUY, or_quantity = 10, or_type = MARKET, or_submitted_at = 0\<rparr>"

definition demo_row :: "lifecycle_state \<Rightarrow> dec \<Rightarrow> tracked_order" where
  "demo_row st f = \<lparr>tk_id = ''o1'', tk_client = ''c1'', tk_broker = (if st = OS_CREATED then None else Some ''b1''),
     tk_strategy = ''s'', tk_symbol = ''SPY'', tk_side = BUY, tk_quantity = 10, tk_filled = f, tk_state = st,
     tk_created_at = 0, tk_updated_at = (if st = OS_CREATED then 0 else 1)\<rparr>"

definition demo_at :: "lifecycle_state \<Rightarrow> dec \<Rightarrow> order_db \<Rightarrow> bool" where
  "demo_at st f db \<longleftrightarrow> order_step\<^sup>*\<^sup>* new_order_db db \<and> od_orders db = [(''o1'', demo_row st f)]"

lemma demo_created: "demo_at OS_CREATED 0 (snd (create_order ''o1'' demo_request new_order_db))"
proof -
  have "od_orders (snd (create_order ''o1'' demo_request new_order_db)) = [(''o1'', demo_row OS_CREATED 0)]"
    by (simp add: create_order_def demo_request_def new_order_db_def demo_row_def append_transition_event_def Let_def)
  then show ?thesis unfolding demo_at_def by (simp add: r_into_rtranclp order_step.os_create)
qed

lemma demo_move:
  assumes "demo_at st f db" "target \<in> allowed_transitions st" "target \<noteq> OS_CREATED"
    and "nf = next_filled (demo_row st f) target q" "f \<le> nf" "nf \<le> 10" "0 \<le> f"
    and "target = OS_PARTIALLY_FILLED \<Longrightarrow> 0 < nf \<and> nf < 10"
  shows "demo_at target nf (snd (transition ''o1'' target ''broker'' 1 q (Some ''b1'') db))"
proof -
  let ?t = "\<lparr>tr_order = ''o1'', tr_from = st, tr_to = target, tr_at = 1, tr_reason = ''broker'', tr_filled = nf,
      tr_broker = Some ''b1''\<rparr>"
  have simps: "tk_state (demo_row st f) = st" "tk_filled (demo_row st f) = f" "tk_quantity (demo_row st f) = 10"
    "tk_id (demo_row st f) = ''o1''"
    by (simp_all add: demo_row_def)
  have "plan_transition (demo_row st f) target ''broker'' 1 q (Some ''b1'') = Inr ?t"
    using assms(2,5-8) unfolding plan_transition_def assms(4) [symmetric] simps
    by (auto simp: Let_def mk_order_transition_def require_ge0_def resolved_broker_id_def check_def)
  moreover have "map_of (od_orders db) ''o1'' = Some (demo_row st f)" using assms(1) by (simp add: demo_at_def)
  moreover have "apply_transition ?t (demo_row st f) = demo_row target nf"
    using assms(3) by (simp add: apply_transition_def demo_row_def)
  ultimately have "od_orders (snd (transition ''o1'' target ''broker'' 1 q (Some ''b1'') db)) = [(''o1'', demo_row target nf)]"
    using assms(1) by (simp add: transition_def demo_at_def Let_def append_transition_event_def)
  then show ?thesis
    using assms(1) by (auto simp: demo_at_def intro: rtranclp.rtrancl_into_rtrancl order_step.os_transition)
qed

lemma demo_filled_order: "\<exists>db. demo_at OS_FILLED 10 db"
proof -
  obtain d1 where "demo_at OS_APPROVED 0 d1" using demo_move [OF demo_created, of OS_APPROVED 0 None] by (auto simp: next_filled_def demo_row_def)
  then obtain d2 where "demo_at OS_SUBMITTING 0 d2" using demo_move [of OS_APPROVED 0 d1 OS_SUBMITTING 0 None] by (auto simp: next_filled_def demo_row_def)
  then obtain d3 where "demo_at OS_ACKNOWLEDGED 0 d3" using demo_move [of OS_SUBMITTING 0 d2 OS_ACKNOWLEDGED 0 None] by (auto simp: next_filled_def demo_row_def)
  then obtain d4 where "demo_at OS_PARTIALLY_FILLED 4 d4" using demo_move [of OS_ACKNOWLEDGED 0 d3 OS_PARTIALLY_FILLED 4 "Some 4"] by (auto simp: next_filled_def)
  then show ?thesis using demo_move [of OS_PARTIALLY_FILLED 4 d4 OS_FILLED 10 None] by (auto simp: next_filled_def demo_row_def)
qed

lemma demo_atD: "demo_at st f db \<Longrightarrow> order_step\<^sup>*\<^sup>* new_order_db db" "demo_at st f db \<Longrightarrow> map_of (od_orders db) ''o1'' = Some (demo_row st f)"
  by (simp_all add: demo_at_def)

text \<open>C22 Every order's audit history is a legal path: it starts with its creation, each entry leaves the state
  the one before reached, along an allowed transition and with no smaller fill, and the order's row shows
  the state and the fill of the last entry.\<close>

theorem order_history_legal:
  assumes "order_step\<^sup>*\<^sup>* new_order_db db" and "map_of (od_orders db) oid = Some t"
  shows "legal (history oid db) \<and> tk_state t = tr_to (last (history oid db)) \<and> tk_filled t = tr_filled (last (history oid db))"
  using db_okD(3,4) [OF orders.inv_reachable [OF refl assms(1)] assms(2)] by (simp add: current_def)

theorem order_history_legal_witness:
  "\<exists>db. demo_at OS_FILLED 10 db \<and> legal (history ''o1'' db) \<and> tr_to (last (history ''o1'' db)) = OS_FILLED"
proof -
  obtain db where db: "demo_at OS_FILLED 10 db" using demo_filled_order by blast
  from order_history_legal [OF demo_atD [OF this]] db show ?thesis by (auto simp: demo_row_def)
qed

text \<open>Fills are accounted within the order: in every reachable database an order's filled quantity lies between
  zero and its quantity, equals it when the order is filled, and is strictly between when it is partially
  filled.\<close>

theorem order_fill_bounds:
  assumes "order_step\<^sup>*\<^sup>* new_order_db db" and "map_of (od_orders db) oid = Some t"
  shows "0 \<le> tk_filled t \<and> tk_filled t \<le> tk_quantity t \<and> 0 < tk_quantity t
    \<and> (tk_state t = OS_FILLED \<longrightarrow> tk_filled t = tk_quantity t)
    \<and> (tk_state t = OS_PARTIALLY_FILLED \<longrightarrow> 0 < tk_filled t \<and> tk_filled t < tk_quantity t)"
  using db_okD(2) [OF orders.inv_reachable [OF refl assms(1)] assms(2)] by (simp add: order_ok_def)

theorem order_fill_bounds_witness:
  "tk_filled (demo_row OS_FILLED 10) = tk_quantity (demo_row OS_FILLED 10)"
proof -
  obtain db where db: "demo_at OS_FILLED 10 db" using demo_filled_order by blast
  from order_fill_bounds [OF demo_atD [OF this]] show ?thesis by (simp add: demo_row_def)
qed

text \<open>Terminal orders never move: once an order is filled, cancelled, rejected or expired, its row is the same
  after any further operations, whatever order ids, states and fills they name.\<close>

theorem terminal_orders_final:
  assumes "order_step\<^sup>*\<^sup>* new_order_db db" and "map_of (od_orders db) oid = Some t"
    and "tk_state t \<in> terminal_states" and "order_step\<^sup>*\<^sup>* db db'"
  shows "map_of (od_orders db') oid = Some t"
proof -
  have "order_later db db'"
    by (rule orders.below_run [OF assms(4) orders.inv_reachable [OF refl assms(1)]])
  with assms(2,3) show ?thesis by (auto simp: order_later_def)
qed

theorem terminal_orders_final_witness:
  "\<exists>db. demo_at OS_FILLED 10 db
    \<and> map_of (od_orders (snd (transition ''o1'' OS_CANCELED ''late'' 9 None None db))) ''o1'' = Some (demo_row OS_FILLED 10)"
proof -
  obtain db where db: "demo_at OS_FILLED 10 db" using demo_filled_order by blast
  have "tk_state (demo_row OS_FILLED 10) \<in> terminal_states" by (simp add: demo_row_def terminal_states_def)
  from terminal_orders_final [OF demo_atD [OF db] this r_into_rtranclp [where r = order_step]] db
  show ?thesis using order_step.os_transition by blast
qed

end
