(* ===== verification/Promotion.thy ===== *)
theory Promotion
  imports Prelude
begin

text \<open>
  \<^verbatim>\<open>promotion.py\<close>: which strategies may trade. The state is the rows of \<^verbatim>\<open>strategy_promotions\<close> in
  insertion order. The audit file, the clock, the UUID and the two text functions (the digest, the
  ISO form of a time) are arguments: the audit is none when the file does not exist, otherwise the
  hash its JSON holds, if any.
\<close>

datatype promotion_status = Active | Superseded | Revoked

record promotion =
  pm_id :: string
  pm_strategy :: string
  pm_dataset_hash :: string
  pm_config_hash :: string
  pm_holdout_hash :: string
  pm_git_sha :: string
  pm_approved_by :: string
  pm_approved_at :: instant
  pm_digest :: string
  pm_status :: promotion_status

definition promotion_authorization :: string where
  "promotion_authorization = ''I approve this qualified strategy for autonomous paper trading''"

record promotion_request =
  pq_strategy :: string
  pq_dataset_hash :: string
  pq_config_hash :: string
  pq_holdout_hash :: string
  pq_git_sha :: string
  pq_qualified :: bool
  pq_audit :: "string option option"
  pq_approved_by :: string
  pq_authorization :: string

definition join_bar :: "string list \<Rightarrow> string" where
  "join_bar ss = concat (case ss of [] \<Rightarrow> [] | s # ss' \<Rightarrow> s # map (\<lambda>t. ''|'' @ t) ss')"

text \<open>The update both operations make: the strategy's active rows get another status.\<close>

definition retire :: "string \<Rightarrow> promotion_status \<Rightarrow> promotion list \<Rightarrow> promotion list" where
  "retire sid st = map (\<lambda>p. if pm_strategy p = sid \<and> pm_status p = Active then p\<lparr>pm_status := st\<rparr> else p)"

definition admissible :: "promotion_request \<Rightarrow> unit res" where
  "admissible q =
     bind_res (check (pq_qualified q) (ValueError ''unqualified strategy cannot be promoted'')) (\<lambda>_.
     bind_res (check (pq_authorization q = promotion_authorization)
       (ValueError ''exact paper promotion authorization is required'')) (\<lambda>_.
     bind_res (check (pq_audit q \<noteq> None) (ValueError ''terminal holdout audit is required'')) (\<lambda>_.
     check (pq_audit q = Some (Some (pq_holdout_hash q)))
       (ValueError ''holdout audit hash does not match promotion evidence''))))"

text \<open>The table's uniqueness constraint besides the identifier and the digest.\<close>

definition evidence :: "promotion \<Rightarrow> string \<times> string \<times> string" where
  "evidence p = (pm_strategy p, pm_dataset_hash p, pm_config_hash p)"

definition promote ::
  "(string \<Rightarrow> string) \<Rightarrow> (instant \<Rightarrow> string) \<Rightarrow> string \<Rightarrow> instant \<Rightarrow> promotion_request \<Rightarrow> (promotion list, string) routine" where
  "promote digest isofmt uid now q rows =
     (case admissible q of
        Inl e \<Rightarrow> (Inl e, rows)
      | Inr _ \<Rightarrow>
        (let d = digest (join_bar [pq_strategy q, pq_dataset_hash q, pq_config_hash q, pq_holdout_hash q,
                   pq_git_sha q, pq_approved_by q, isofmt now]);
             row = \<lparr>pm_id = uid, pm_strategy = pq_strategy q, pm_dataset_hash = pq_dataset_hash q,
                pm_config_hash = pq_config_hash q, pm_holdout_hash = pq_holdout_hash q,
                pm_git_sha = pq_git_sha q, pm_approved_by = pq_approved_by q, pm_approved_at = now,
                pm_digest = d, pm_status = Active\<rparr>
         in if uid \<in> pm_id ` set rows \<or> d \<in> pm_digest ` set rows \<or> evidence row \<in> evidence ` set rows
            then (Inl IntegrityError, rows)
            else (Inr uid, retire (pq_strategy q) Superseded rows @ [row])))"

definition revoke :: "string \<Rightarrow> (promotion list, bool) routine" where
  "revoke sid rows =
     (Inr (\<exists>p \<in> set rows. pm_strategy p = sid \<and> pm_status p = Active), retire sid Revoked rows)"

definition is_strategy_qualified :: "string \<Rightarrow> promotion list \<Rightarrow> bool" where
  "is_strategy_qualified sid rows \<longleftrightarrow> (\<exists>p \<in> set rows. pm_strategy p = sid \<and> pm_status p = Active)"

subsection \<open>One active promotion\<close>

definition active_rows :: "string \<Rightarrow> promotion list \<Rightarrow> promotion list" where
  "active_rows sid rows = filter (\<lambda>p. pm_strategy p = sid \<and> pm_status p = Active) rows"

lemma active_rows_retire:
  "st \<noteq> Active \<Longrightarrow> active_rows sid (retire sid' st rows) = (if sid = sid' then [] else active_rows sid rows)"
proof (induction rows)
  case Nil
  then show ?case by (simp add: active_rows_def retire_def)
next
  case (Cons p ps)
  have split: "active_rows s (q # qs) = (if pm_strategy q = s \<and> pm_status q = Active then [q] else []) @ active_rows s qs"
    for s q qs by (simp add: active_rows_def)
  have tail: "retire sid' st (p # ps) = (if pm_strategy p = sid' \<and> pm_status p = Active then p\<lparr>pm_status := st\<rparr> else p)
      # retire sid' st ps" by (simp add: retire_def)
  show ?case using Cons by (simp add: split tail)
qed

lemma active_rows_append [simp]: "active_rows sid (ps @ qs) = active_rows sid ps @ active_rows sid qs"
  by (simp add: active_rows_def)

lemma active_rows_single: "active_rows sid [p] = (if pm_strategy p = sid \<and> pm_status p = Active then [p] else [])"
  by (simp add: active_rows_def)

lemma qualified_active: "is_strategy_qualified sid rows \<longleftrightarrow> active_rows sid rows \<noteq> []"
  by (auto simp: is_strategy_qualified_def active_rows_def filter_empty_conv)

lemma qualified_retire:
  "st \<noteq> Active \<Longrightarrow> is_strategy_qualified sid (retire sid' st rows) \<longleftrightarrow> sid \<noteq> sid' \<and> is_strategy_qualified sid rows"
  by (simp add: qualified_active active_rows_retire)

lemma promote_cases:
  obtains (refused) e where "promote digest isofmt uid now q rows = (Inl e, rows)"
  | (promoted) row where "admissible q = Inr ()" "pm_strategy row = pq_strategy q" "pm_status row = Active"
      "pm_holdout_hash row = pq_holdout_hash q"
      "evidence row = (pq_strategy q, pq_dataset_hash q, pq_config_hash q)" "evidence row \<notin> evidence ` set rows"
      "promote digest isofmt uid now q rows = (Inr uid, retire (pq_strategy q) Superseded rows @ [row])"
proof (cases "admissible q")
  case (Inl e)
  then show ?thesis by (intro refused) (simp add: promote_def)
next
  case (Inr u)
  show ?thesis
  proof (cases "fst (promote digest isofmt uid now q rows)")
    case (Inl e)
    then show ?thesis
      by (intro refused [of e]) (auto simp: promote_def Inr Let_def split: if_splits)
  next
    case (Inr x)
    with \<open>admissible q = Inr u\<close> show ?thesis
      by (intro promoted) (auto simp: promote_def evidence_def Let_def split: if_splits)
  qed
qed

text \<open>The operator's calls, in sequence.\<close>

datatype promotion_call = Promote string instant promotion_request | Revoke string

fun promotion_step ::
  "(string \<Rightarrow> string) \<Rightarrow> (instant \<Rightarrow> string) \<Rightarrow> promotion_call \<Rightarrow> promotion list \<Rightarrow> promotion list" where
  "promotion_step digest isofmt (Promote uid now q) rows = snd (promote digest isofmt uid now q rows)"
| "promotion_step digest isofmt (Revoke sid) rows = snd (revoke sid rows)"

text \<open>Whether the call promoted or revoked the strategy, when it concerned it at all.\<close>

fun verdict ::
  "(string \<Rightarrow> string) \<Rightarrow> (instant \<Rightarrow> string) \<Rightarrow> string \<Rightarrow> promotion list \<Rightarrow> promotion_call \<Rightarrow> bool option" where
  "verdict digest isofmt sid rows (Promote uid now q) =
     (if pq_strategy q = sid \<and> fst (promote digest isofmt uid now q rows) = Inr uid then Some True else None)"
| "verdict digest isofmt sid rows (Revoke sid') = (if sid' = sid then Some False else None)"

fun verdicts ::
  "(string \<Rightarrow> string) \<Rightarrow> (instant \<Rightarrow> string) \<Rightarrow> string \<Rightarrow> promotion_call list \<Rightarrow> promotion list \<Rightarrow> bool list" where
  "verdicts digest isofmt sid [] rows = []"
| "verdicts digest isofmt sid (c # cs) rows =
     (case verdict digest isofmt sid rows c of None \<Rightarrow> [] | Some v \<Rightarrow> [v])
     @ verdicts digest isofmt sid cs (promotion_step digest isofmt c rows)"

lemma promotion_step_qualified:
  "is_strategy_qualified sid (promotion_step digest isofmt c rows) =
     (case verdict digest isofmt sid rows c of None \<Rightarrow> is_strategy_qualified sid rows | Some v \<Rightarrow> v)"
proof (cases c)
  case (Promote uid now q)
  show ?thesis
    unfolding Promote
    by (cases rule: promote_cases [of digest isofmt uid now q rows])
      (simp_all add: qualified_active active_rows_retire active_rows_single)
next
  case (Revoke sid')
  then show ?thesis by (simp add: revoke_def qualified_retire)
qed

lemma promotion_step_active:
  "length (active_rows sid rows) \<le> 1 \<Longrightarrow> length (active_rows sid (promotion_step digest isofmt c rows)) \<le> 1"
proof (cases c)
  case (Promote uid now q)
  assume "length (active_rows sid rows) \<le> 1"
  then show ?thesis
    unfolding Promote
    by (cases rule: promote_cases [of digest isofmt uid now q rows])
      (simp_all add: active_rows_retire active_rows_single)
next
  case (Revoke sid')
  assume "length (active_rows sid rows) \<le> 1"
  then show ?thesis by (simp add: Revoke revoke_def active_rows_retire)
qed

definition promotion_run ::
  "(string \<Rightarrow> string) \<Rightarrow> (instant \<Rightarrow> string) \<Rightarrow> promotion_call list \<Rightarrow> promotion list" where
  "promotion_run digest isofmt cs = fold (promotion_step digest isofmt) cs []"

lemma run_active: "length (active_rows sid rows) \<le> 1 \<Longrightarrow> length (active_rows sid (fold (promotion_step digest isofmt) cs rows)) \<le> 1"
proof (induction cs arbitrary: rows)
  case (Cons c cs)
  from Cons.IH [OF promotion_step_active [OF Cons.prems]] show ?case by simp
qed simp

lemma run_qualified:
  "is_strategy_qualified sid (fold (promotion_step digest isofmt) cs rows) =
     last (is_strategy_qualified sid rows # verdicts digest isofmt sid cs rows)"
  by (induction cs arbitrary: rows) (auto simp: promotion_step_qualified split: option.splits)

text \<open>C25 A strategy is qualified exactly when the operator's last effective word on it was a promotion: after any
  sequence of promotions and revocations, with refused ones in between, it has at most one active row, and
  has one exactly when the last call that took effect on it promoted it.\<close>

theorem qualified_iff_last_promoted:
  "length (active_rows sid (promotion_run digest isofmt cs)) \<le> 1
    \<and> is_strategy_qualified sid (promotion_run digest isofmt cs) = last (False # verdicts digest isofmt sid cs [])"
  using run_active [of sid "[]"] run_qualified [of sid digest isofmt cs "[]"]
  by (simp add: promotion_run_def active_rows_def is_strategy_qualified_def)

text \<open>No promotion without evidence: a call that promotes had a qualified strategy, the exact authorization
  sentence, and an opened holdout whose recorded hash is the one in the evidence.\<close>

theorem promotion_needs_evidence:
  assumes "promote digest isofmt uid now q rows = (Inr i, rows')"
  shows "pq_qualified q \<and> pq_authorization q = promotion_authorization
    \<and> pq_audit q = Some (Some (pq_holdout_hash q)) \<and> is_strategy_qualified (pq_strategy q) rows'"
proof (cases rule: promote_cases [of digest isofmt uid now q rows])
  case (promoted row)
  then show ?thesis using assms by (auto simp: admissible_def is_strategy_qualified_def)
qed (use assms in simp)

definition demo_evidence :: promotion_request where
  "demo_evidence = \<lparr>pq_strategy = ''sma'', pq_dataset_hash = ''d'', pq_config_hash = ''c'', pq_holdout_hash = ''h'',
     pq_git_sha = ''g'', pq_qualified = True, pq_audit = Some (Some ''h''), pq_approved_by = ''op'',
     pq_authorization = promotion_authorization\<rparr>"

theorem promotion_needs_evidence_witness:
  "is_strategy_qualified ''sma'' (snd (promote (\<lambda>t. t) (\<lambda>t. ''now'') ''u1'' 0 demo_evidence []))"
proof -
  have "fst (promote (\<lambda>t. t) (\<lambda>t. ''now'') ''u1'' 0 demo_evidence []) = Inr ''u1''"
    by (simp add: promote_def admissible_def demo_evidence_def)
  then obtain rows' where "promote (\<lambda>t. t) (\<lambda>t. ''now'') ''u1'' 0 demo_evidence [] = (Inr ''u1'', rows')"
    by (cases "promote (\<lambda>t. t) (\<lambda>t. ''now'') ''u1'' 0 demo_evidence []") auto
  from promotion_needs_evidence [OF this] this show ?thesis by (simp add: demo_evidence_def)
qed

lemma evidence_retire [simp]: "evidence ` set (retire sid st rows) = evidence ` set rows"
proof -
  have "map evidence (retire sid st rows) = map evidence rows" by (simp add: retire_def evidence_def)
  then show ?thesis by (metis list.set_map)
qed

lemma evidence_kept: "evidence ` set rows \<subseteq> evidence ` set (fold (promotion_step digest isofmt) cs rows)"
proof (induction cs arbitrary: rows)
  case (Cons c cs)
  have "evidence ` set rows \<subseteq> evidence ` set (promotion_step digest isofmt c rows)"
  proof (cases c)
    case (Promote uid now q)
    then show ?thesis by (cases rule: promote_cases [of digest isofmt uid now q rows]) auto
  next
    case (Revoke sid)
    then show ?thesis by (simp add: revoke_def)
  qed
  also have "\<dots> \<subseteq> evidence ` set (fold (promotion_step digest isofmt) cs (promotion_step digest isofmt c rows))"
    by (rule Cons.IH)
  finally show ?case by simp
qed simp

text \<open>Evidence is spent once: after a promotion, whatever calls follow (its own revocation included), no later
  call with the same strategy, data and configuration hashes promotes again; a revoked strategy needs new
  evidence.\<close>

theorem evidence_spent_once:
  assumes "promote digest isofmt uid now q rows = (Inr i, rows')"
    and "pq_strategy q' = pq_strategy q" "pq_dataset_hash q' = pq_dataset_hash q" "pq_config_hash q' = pq_config_hash q"
  shows "\<exists>e. fst (promote digest isofmt uid' now' q' (fold (promotion_step digest isofmt) cs rows')) = Inl e"
proof -
  let ?rows = "fold (promotion_step digest isofmt) cs rows'"
  have "(pq_strategy q, pq_dataset_hash q, pq_config_hash q) \<in> evidence ` set rows'"
  proof (cases rule: promote_cases [of digest isofmt uid now q rows])
    case (promoted row)
    then show ?thesis using assms(1) by (auto simp: image_Un intro: rev_image_eqI)
  qed (use assms(1) in simp)
  then have spent: "(pq_strategy q', pq_dataset_hash q', pq_config_hash q') \<in> evidence ` set ?rows"
    using evidence_kept [of rows' digest isofmt cs] assms(2-4) by auto
  show ?thesis
  proof (cases rule: promote_cases [of digest isofmt uid' now' q' ?rows])
    case (promoted row)
    with spent show ?thesis by simp
  qed simp
qed

theorem evidence_spent_once_witness:
  "\<exists>e. fst (promote (\<lambda>t. t) (\<lambda>t. ''now'') ''u2'' 9 demo_evidence
      (snd (revoke ''sma'' (snd (promote (\<lambda>t. t) (\<lambda>t. ''now'') ''u1'' 0 demo_evidence []))))) = Inl e"
proof -
  have "fst (promote (\<lambda>t. t) (\<lambda>t. ''now'') ''u1'' 0 demo_evidence []) = Inr ''u1''"
    by (simp add: promote_def admissible_def demo_evidence_def)
  then obtain rows' where run: "promote (\<lambda>t. t) (\<lambda>t. ''now'') ''u1'' 0 demo_evidence [] = (Inr ''u1'', rows')"
    by (cases "promote (\<lambda>t. t) (\<lambda>t. ''now'') ''u1'' 0 demo_evidence []") auto
  show ?thesis
    using evidence_spent_once [OF run refl refl refl, of "''u2''" 9 "[Revoke ''sma'']"] run by simp
qed

end
