(* ===== verification/Oms.thy ===== *)
theory Oms
  imports Risk Ledger OrderState Promotion
begin

text \<open>
  \<^verbatim>\<open>oms.py\<close>: the order manager before the external paper broker. Its own state is the risk engine and
  the ledger; the broker behind the gateway protocol keeps a state of its own, which only the gateway's
  calls move. The gateway, the qualification gate and the ISO form of a time are parameters. A call of
  the gateway may raise; what was logged before stays.
\<close>

record alpaca_order =
  ao_id :: string
  ao_client :: string
  ao_status :: alpaca_status
  ao_symbol :: string
  ao_side :: side
  ao_quantity :: "dec option"
  ao_notional :: "dec option"
  ao_filled :: dec
  ao_filled_price :: "dec option"
  ao_created_at :: instant

record alpaca_account =
  aa_id :: string
  aa_cash :: dec
  aa_trading_blocked :: bool
  aa_account_blocked :: bool

record alpaca_position =
  ap_symbol :: string
  ap_quantity :: dec
  ap_average_price :: dec

record 'g gateway =
  gw_account :: "('g, alpaca_account) routine"
  gw_positions :: "('g, alpaca_position list) routine"
  gw_submit :: "order_request \<Rightarrow> ('g, alpaca_order) routine"
  gw_find :: "string \<Rightarrow> ('g, alpaca_order option) routine"
  gw_open_orders :: "('g, alpaca_order list) routine"

record oms_submission =
  sb_risk :: risk_decision
  sb_order :: "alpaca_order option"
  sb_recovered :: bool

record reconciliation =
  rc_healthy :: bool
  rc_account :: alpaca_account
  rc_positions :: "alpaca_position list"
  rc_open_orders :: "alpaca_order list"
  rc_mismatches :: "string list"

datatype oms_payload =
    OmsDecision risk_decision
  | OmsOrderState alpaca_order
  | OmsReconciliation reconciliation

record 'g oms =
  om_risk :: risk_engine
  om_ledger :: "oms_payload ledger"
  om_broker :: 'g

definition terminal_order_statuses :: "alpaca_status set" where
  "terminal_order_statuses = {AL_FILLED, AL_DONE_FOR_DAY, AL_CANCELED, AL_EXPIRED, AL_REPLACED, AL_STOPPED,
     AL_REJECTED, AL_SUSPENDED, AL_CALCULATED}"

definition on_gateway :: "('g, 'a) routine \<Rightarrow> ('g oms, 'a) routine" where
  "on_gateway m s = (case m (om_broker s) of (r, g) \<Rightarrow> (r, s\<lparr>om_broker := g\<rparr>))"

definition on_oms_risk :: "(risk_engine, 'a) routine \<Rightarrow> ('g oms, 'a) routine" where
  "on_oms_risk m s = (case m (om_risk s) of (r, k) \<Rightarrow> (r, s\<lparr>om_risk := k\<rparr>))"

text \<open>A ledger write; \<open>clock\<close> is what the wall clock shows when row \<open>n\<close> is written.\<close>

definition oms_log :: "(int \<Rightarrow> instant) \<Rightarrow> string \<Rightarrow> oms_payload \<Rightarrow> instant \<Rightarrow> string \<Rightarrow> ('g oms, unit) routine" where
  "oms_log clock ty p occurred trace s =
     (Inr (), s\<lparr>om_ledger := snd (append_event ty p occurred trace (clock (lg_next (om_ledger s))) (om_ledger s))\<rparr>)"

definition record_order_state :: "(int \<Rightarrow> instant) \<Rightarrow> alpaca_order \<Rightarrow> instant \<Rightarrow> string \<Rightarrow> ('g oms, unit) routine" where
  "record_order_state clock ord observed trace = oms_log clock ''broker_order_state'' (OmsOrderState ord) observed trace"

subsection \<open>Submission\<close>

definition sync_kill_switch :: "('g oms, unit) routine" where
  "sync_kill_switch s =
     (Inr (), s\<lparr>om_risk := (if get_control ''kill_switch'' (Some ''inactive'') (om_ledger s) = Some ''active''
        then activate_kill_switch (om_risk s) else reset_kill_switch (om_risk s))\<rparr>)"

definition qualify :: "(string \<Rightarrow> bool) option \<Rightarrow> account_snapshot \<Rightarrow> order_request \<Rightarrow> risk_decision \<Rightarrow> risk_decision" where
  "qualify gate a r d =
     (if rd_approved d \<and> \<not> (case gate of None \<Rightarrow> False | Some q \<Rightarrow> q (or_strategy r)) \<and> \<not> risk_reducing a r
      then \<lparr>rd_approved = False, rd_codes = [''STRATEGY_NOT_QUALIFIED''],
            rd_message = ''rejected: STRATEGY_NOT_QUALIFIED'', rd_projected_gross = rd_projected_gross d\<rparr>
      else d)"

definition route_order ::
  "'g gateway \<Rightarrow> (int \<Rightarrow> instant) \<Rightarrow> order_request \<Rightarrow> instant \<Rightarrow> risk_decision \<Rightarrow> ('g oms, oms_submission) routine" where
  "route_order gw clock r observed d =
     bind_st (on_gateway (gw_find gw (or_client_id r))) (\<lambda>existing.
     bind_st (case existing of Some b \<Rightarrow> return_st b | None \<Rightarrow> on_gateway (gw_submit gw r)) (\<lambda>b.
     bind_st (record_order_state clock b observed (or_decision r)) (\<lambda>_.
     return_st \<lparr>sb_risk = d, sb_order = Some b, sb_recovered = (existing \<noteq> None)\<rparr>)))"

definition submit_order ::
  "'g gateway \<Rightarrow> (string \<Rightarrow> bool) option \<Rightarrow> (int \<Rightarrow> instant) \<Rightarrow> order_request \<Rightarrow> market_bar \<Rightarrow> account_snapshot \<Rightarrow> instant
     \<Rightarrow> ('g oms, oms_submission) routine" where
  "submit_order gw gate clock r bar a observed =
     bind_st sync_kill_switch (\<lambda>_.
     bind_st (on_oms_risk (evaluate r bar a observed True)) (\<lambda>d0.
     (let d = qualify gate a r d0 in
      bind_st (oms_log clock ''risk_decision'' (OmsDecision d) observed (or_decision r)) (\<lambda>_.
      if \<not> rd_approved d
      then return_st \<lparr>sb_risk = d, sb_order = None, sb_recovered = False\<rparr>
      else route_order gw clock r observed d))))"

subsection \<open>Reconciliation\<close>

text \<open>\<open>setdefault\<close> over the newest 10000 rows, newest first.\<close>

definition setdefault :: "'k \<Rightarrow> 'v \<Rightarrow> ('k, 'v) dict \<Rightarrow> ('k, 'v) dict" where
  "setdefault k v d = (case map_of d k of None \<Rightarrow> AList.update k v d | Some _ \<Rightarrow> d)"

definition order_states :: "oms_payload ledger_event list \<Rightarrow> alpaca_order list" where
  "order_states es = List.map_filter (\<lambda>e. case ev_payload e of Payload (OmsOrderState b) \<Rightarrow> Some b | _ \<Rightarrow> None) es"

definition latest_local_order_states :: "oms_payload ledger \<Rightarrow> (string, alpaca_order) dict" where
  "latest_local_order_states l =
     fold (\<lambda>b d. setdefault (ao_client b) b d) (order_states (events 10000 l)) []"

text \<open>The broker's open orders: a duplicate id is a mismatch, each is recorded, the last of an id wins.\<close>

fun record_open_orders ::
  "(int \<Rightarrow> instant) \<Rightarrow> instant \<Rightarrow> alpaca_order list \<Rightarrow> (string, alpaca_order) dict \<Rightarrow> string list
     \<Rightarrow> ('g oms, (string, alpaca_order) dict \<times> string list) routine" where
  "record_open_orders clock observed [] seen ms = return_st (seen, ms)"
| "record_open_orders clock observed (b # bs) seen ms =
     (let ms' = ms @ (if map_of seen (ao_client b) \<noteq> None
                      then [''DUPLICATE_BROKER_CLIENT_ORDER_ID:'' @ ao_client b] else [])
      in bind_st (record_order_state clock b observed (''reconcile:'' @ ao_client b)) (\<lambda>_.
         record_open_orders clock observed bs (AList.update (ao_client b) b seen) ms'))"

text \<open>The local orders still open: each is looked up among the open orders, then by its id.\<close>

fun check_local_orders ::
  "'g gateway \<Rightarrow> (int \<Rightarrow> instant) \<Rightarrow> instant \<Rightarrow> (string, alpaca_order) dict \<Rightarrow> (string \<times> alpaca_order) list \<Rightarrow> string list
     \<Rightarrow> ('g oms, string list) routine" where
  "check_local_orders gw clock observed seen [] ms = return_st ms"
| "check_local_orders gw clock observed seen ((cid, local) # rest) ms =
     (if ao_status local \<in> terminal_order_statuses then check_local_orders gw clock observed seen rest ms
      else bind_st (case map_of seen cid of Some b \<Rightarrow> return_st (Some b) | None \<Rightarrow> on_gateway (gw_find gw cid)) (\<lambda>found.
           case found of
             None \<Rightarrow> check_local_orders gw clock observed seen rest (ms @ [''LOCAL_ORDER_MISSING_AT_BROKER:'' @ cid])
           | Some b \<Rightarrow>
             bind_st (record_order_state clock b observed (''reconcile:'' @ cid)) (\<lambda>_.
             check_local_orders gw clock observed seen rest ms)))"

definition trip_kill_switch :: "(int \<Rightarrow> instant) \<Rightarrow> instant \<Rightarrow> string list \<Rightarrow> ('g oms, unit) routine" where
  "trip_kill_switch clock observed ms s =
     (Inr (), if ms = [] then s
        else s\<lparr>om_ledger := set_control ''kill_switch'' ''active'' observed ''reconcile:kill-switch:active''
               (clock (lg_next (om_ledger s))) (om_ledger s)\<rparr>)"

definition conclude ::
  "(instant \<Rightarrow> string) \<Rightarrow> (int \<Rightarrow> instant) \<Rightarrow> instant \<Rightarrow> alpaca_account \<Rightarrow> alpaca_position list \<Rightarrow> alpaca_order list \<Rightarrow> string list
     \<Rightarrow> ('g oms, reconciliation) routine" where
  "conclude isofmt clock observed acct ps os ms =
     (let result = \<lparr>rc_healthy = (ms = []), rc_account = acct, rc_positions = ps, rc_open_orders = os, rc_mismatches = ms\<rparr>
      in bind_st (oms_log clock ''broker_reconciliation'' (OmsReconciliation result) observed (''reconcile:'' @ isofmt observed)) (\<lambda>_.
         bind_st (trip_kill_switch clock observed ms) (\<lambda>_.
         return_st result)))"

definition reconcile :: "'g gateway \<Rightarrow> (instant \<Rightarrow> string) \<Rightarrow> (int \<Rightarrow> instant) \<Rightarrow> instant \<Rightarrow> ('g oms, reconciliation) routine" where
  "reconcile gw isofmt clock observed =
     bind_st (on_gateway (gw_account gw)) (\<lambda>acct.
     bind_st (on_gateway (gw_positions gw)) (\<lambda>ps.
     bind_st (on_gateway (gw_open_orders gw)) (\<lambda>os.
     bind_st (record_open_orders clock observed os []
       (if aa_account_blocked acct \<or> aa_trading_blocked acct then [''BROKER_TRADING_BLOCKED''] else [])) (\<lambda>(seen, ms).
     bind_st (\<lambda>s. check_local_orders gw clock observed seen (latest_local_order_states (om_ledger s)) ms s) (\<lambda>ms'.
     conclude isofmt clock observed acct ps os ms')))))"

end
