(* ===== verification/OmsLaws.thy ===== *)
theory OmsLaws
  imports Oms RiskLaws
begin

text \<open>
  The order manager's properties: the broker is reached only through an approved and qualified order,
  an order the broker knows is not sent again, and a mismatch found by reconciliation closes the gate.
\<close>

subsection \<open>The calls, as outcomes\<close>

lemma outcome_on_gateway [simp]:
  "outcome (on_gateway m) Q E s = outcome m (\<lambda>x g. Q x (s\<lparr>om_broker := g\<rparr>)) (\<lambda>g. E (s\<lparr>om_broker := g\<rparr>)) (om_broker s)"
  by (auto simp: outcome_def on_gateway_def split: prod.splits sum.splits)

lemma outcome_on_oms_risk [simp]:
  "outcome (on_oms_risk m) Q E s = outcome m (\<lambda>x k. Q x (s\<lparr>om_risk := k\<rparr>)) (\<lambda>k. E (s\<lparr>om_risk := k\<rparr>)) (om_risk s)"
  by (auto simp: outcome_def on_oms_risk_def split: prod.splits sum.splits)

definition oms_logged :: "(int \<Rightarrow> instant) \<Rightarrow> string \<Rightarrow> oms_payload \<Rightarrow> instant \<Rightarrow> string \<Rightarrow> 'g oms \<Rightarrow> 'g oms" where
  "oms_logged clock ty p observed trace s = snd (oms_log clock ty p observed trace s)"

lemma outcome_oms_log [simp]: "outcome (oms_log clock ty p observed trace) Q E s = Q () (oms_logged clock ty p observed trace s)"
  by (simp add: outcome_def oms_logged_def oms_log_def)

lemma oms_logged_simps [simp]:
  "om_broker (oms_logged clock ty p observed trace s) = om_broker s"
  "om_risk (oms_logged clock ty p observed trace s) = om_risk s"
  "get_control key d (om_ledger (oms_logged clock ty p observed trace s)) = get_control key d (om_ledger s)"
  by (simp_all add: oms_logged_def oms_log_def append_event_def)

lemma outcome_record [simp]:
  "outcome (record_order_state clock b observed trace) Q E s =
     Q () (oms_logged clock ''broker_order_state'' (OmsOrderState b) observed trace s)"
  by (simp add: record_order_state_def)

definition switched :: "'g oms \<Rightarrow> risk_engine" where
  "switched s = (if get_control ''kill_switch'' (Some ''inactive'') (om_ledger s) = Some ''active''
     then activate_kill_switch (om_risk s) else reset_kill_switch (om_risk s))"

lemma outcome_sync [simp]: "outcome sync_kill_switch Q E s = Q () (s\<lparr>om_risk := switched s\<rparr>)"
  by (simp add: outcome_def sync_kill_switch_def switched_def)

definition qualified_by :: "(string \<Rightarrow> bool) option \<Rightarrow> order_request \<Rightarrow> bool" where
  "qualified_by gate r \<longleftrightarrow> (\<exists>q. gate = Some q \<and> q (or_strategy r))"

lemma qualify_approved:
  "rd_approved (qualify gate a r d) \<longleftrightarrow> rd_approved d \<and> (qualified_by gate r \<or> risk_reducing a r)"
  by (auto simp: qualify_def qualified_by_def split: option.splits)

text \<open>Submission reduces to its evaluation and, when approved, to the route to the broker.\<close>

lemma submit_outcome_iff:
  "outcome (submit_order gw gate clock r bar a t) Q E s =
     outcome (evaluate r bar a t True) (\<lambda>d0 k.
       let d = qualify gate a r d0;
           s1 = oms_logged clock ''risk_decision'' (OmsDecision d) t (or_decision r) (s\<lparr>om_risk := k\<rparr>)
       in if \<not> rd_approved d then Q \<lparr>sb_risk = d, sb_order = None, sb_recovered = False\<rparr> s1
          else outcome (route_order gw clock r t d) Q E s1)
     (\<lambda>k. E (s\<lparr>om_risk := k\<rparr>)) (switched s)"
  unfolding submit_order_def outcome_bind outcome_sync outcome_on_oms_risk
  by (simp add: Let_def cong: if_cong)

text \<open>C21 The broker is reached only through the gate: if submitting an order does anything at the broker, then,
  under the kill switch the ledger holds, the risk gate's whole condition held for it, and its strategy was
  qualified or the order shrinks its position. This holds even when a call raises halfway.\<close>

theorem broker_only_through_gate:
  assumes "snapshot_ok a" and "om_broker (snd (submit_order gw gate clock r bar a t s)) \<noteq> om_broker s"
  shows "acceptable (switched s) r bar a t True \<and> (qualified_by gate r \<or> risk_reducing a r)"
proof (rule ccontr)
  assume no: "\<not> ?thesis"
  have "outcome (submit_order gw gate clock r bar a t) (\<lambda>_ s'. om_broker s' = om_broker s) (\<lambda>s'. om_broker s' = om_broker s) s"
    unfolding submit_outcome_iff
  proof (rule outcomeI)
    fix d k assume "evaluate r bar a t True (switched s) = (Inr d, k)"
    then have "\<not> rd_approved (qualify gate a r d)"
      using no evaluate_approved_iff [OF assms(1), of r bar t True "switched s"] by (auto simp: qualify_approved)
    then show "let d = qualify gate a r d;
           s1 = oms_logged clock ''risk_decision'' (OmsDecision d) t (or_decision r) (s\<lparr>om_risk := k\<rparr>)
       in if \<not> rd_approved d then om_broker s1 = om_broker s
          else outcome (route_order gw clock r t d) (\<lambda>_ s'. om_broker s' = om_broker s) (\<lambda>s'. om_broker s' = om_broker s) s1"
      by simp
  qed simp
  with assms(2) show False by (simp add: outcome_always)
qed

text \<open>A broker whose state is the orders it was sent: it finds an order by its client id.\<close>

definition demo_alpaca :: "order_request \<Rightarrow> alpaca_order" where
  "demo_alpaca r = \<lparr>ao_id = or_client_id r, ao_client = or_client_id r, ao_status = AL_NEW, ao_symbol = or_symbol r,
     ao_side = or_side r, ao_quantity = Some (or_quantity r), ao_notional = None, ao_filled = 0,
     ao_filled_price = None, ao_created_at = or_submitted_at r\<rparr>"

definition demo_gateway :: "bool \<Rightarrow> alpaca_order list gateway" where
  "demo_gateway blocked = \<lparr>gw_account = \<lambda>g. (Inr \<lparr>aa_id = ''paper'', aa_cash = 1000, aa_trading_blocked = blocked,
        aa_account_blocked = False\<rparr>, g),
     gw_positions = \<lambda>g. (Inr [], g),
     gw_submit = \<lambda>r g. (Inr (demo_alpaca r), g @ [demo_alpaca r]),
     gw_find = \<lambda>cid g. (Inr (find (\<lambda>b. ao_client b = cid) g), g),
     gw_open_orders = \<lambda>g. (Inr g, g)\<rparr>"

definition demo_oms :: "alpaca_order list oms" where
  "demo_oms = \<lparr>om_risk = demo_gate, om_ledger = new_ledger, om_broker = []\<rparr>"

lemma demo_switched: "switched demo_oms = demo_gate"
  by (simp add: switched_def demo_oms_def get_control_def new_ledger_def demo_gate_def new_risk_engine_def reset_kill_switch_def)

lemma demo_routes:
  "om_broker (snd (submit_order (demo_gateway b) (Some (\<lambda>q. True)) (\<lambda>n. n) (demo_order ''b'' BUY 4) demo_bar demo_snapshot 0 demo_oms))
     = [demo_alpaca (demo_order ''b'' BUY 4)]"
proof -
  have outcome_read: "outcome (\<lambda>g. (Inr (f g), g)) Q E g = Q (f g) g" for f g and Q :: "'x \<Rightarrow> 'y \<Rightarrow> bool" and E
    by (simp add: outcome_def)
  have outcome_write: "outcome (\<lambda>g. (Inr x, f g)) Q E g = Q x (f g)" for f g x and Q :: "'x \<Rightarrow> 'y \<Rightarrow> bool" and E
    by (simp add: outcome_def)
  let ?Q = "\<lambda>s :: alpaca_order list oms. om_broker s = [demo_alpaca (demo_order ''b'' BUY 4)]"
  obtain d k where d: "evaluate (demo_order ''b'' BUY 4) demo_bar demo_snapshot 0 True demo_gate = (Inr d, k)" "rd_approved d"
    using evaluate_approved_iff [OF demo_snapshot_ok, of "demo_order ''b'' BUY 4" demo_bar 0 True demo_gate] demo_buy_acceptable
    by (cases "evaluate (demo_order ''b'' BUY 4) demo_bar demo_snapshot 0 True demo_gate") auto
  have d_at: "outcome (evaluate (demo_order ''b'' BUY 4) demo_bar demo_snapshot 0 True) Q E demo_gate = Q d k" for Q E
    by (simp add: outcome_def d)
  have "rd_approved (qualify (Some (\<lambda>q. True)) demo_snapshot (demo_order ''b'' BUY 4) d)"
    using d(2) by (simp add: qualify_approved qualified_by_def)
  then have "outcome (submit_order (demo_gateway b) (Some (\<lambda>q. True)) (\<lambda>n. n) (demo_order ''b'' BUY 4) demo_bar demo_snapshot 0)
      (\<lambda>_. ?Q) ?Q demo_oms"
    unfolding submit_outcome_iff demo_switched d_at Let_def
    by (simp add: route_order_def demo_gateway_def outcome_read outcome_write) (simp add: demo_oms_def outcome_write)
  then show ?thesis by (simp add: outcome_always)
qed

theorem broker_only_through_gate_witness:
  "acceptable demo_gate (demo_order ''b'' BUY 4) demo_bar demo_snapshot 0 True"
  using broker_only_through_gate [OF demo_snapshot_ok, of "demo_gateway False" "Some (\<lambda>q. True)" "\<lambda>n. n"
      "demo_order ''b'' BUY 4" demo_bar 0 demo_oms] demo_routes [of False]
  by (simp add: demo_switched) (simp add: demo_oms_def)

lemma outcome_ok: "(\<And>x t. Q x t) \<Longrightarrow> outcome m Q (\<lambda>_. True) s"
  by (rule outcomeI) simp_all

lemma evaluate_outcome':
  "snapshot_ok a \<Longrightarrow> (\<And>d k'. Q d k') \<Longrightarrow> outcome (evaluate r bar a t en) Q E k"
  using evaluate_total [of a r bar t en k] by (cases "evaluate r bar a t en k"; cases "fst (evaluate r bar a t en k)") (auto simp: outcome_def)

text \<open>An order the broker knows is never sent twice: when the broker finds the client order id, the submission
  sends nothing, the broker is moved by that lookup at most, and an approved submission returns the order
  found, marked as recovered.\<close>

theorem known_order_recovered:
  assumes "gw_find gw (or_client_id r) (om_broker s) = (Inr (Some b), g)"
    and "submit_order gw gate clock r bar a t s = (Inr res, s')"
  shows "om_broker s' \<in> {om_broker s, g} \<and> (rd_approved (sb_risk res) \<longrightarrow> sb_order res = Some b \<and> sb_recovered res)"
proof -
  have found: "outcome (gw_find gw (or_client_id r)) Q E (om_broker s) = Q (Some b) g" for Q E
    by (simp add: outcome_def assms(1))
  let ?Q = "\<lambda>res s'. om_broker s' \<in> {om_broker s, g} \<and> (rd_approved (sb_risk res) \<longrightarrow> sb_order res = Some b \<and> sb_recovered res)"
  have "outcome (submit_order gw gate clock r bar a t) ?Q (\<lambda>_. True) s"
    unfolding submit_outcome_iff by (rule outcomeI) (simp_all add: Let_def route_order_def found)
  from outcome_Inr [OF this assms(2)] show ?thesis .
qed

theorem known_order_recovered_witness:
  "\<exists>res s'. submit_order (demo_gateway False) None (\<lambda>n. n) (demo_order ''b'' BUY 4) demo_bar demo_snapshot 0
      (demo_oms\<lparr>om_broker := [demo_alpaca (demo_order ''b'' BUY 4)]\<rparr>) = (Inr res, s')
    \<and> om_broker s' = [demo_alpaca (demo_order ''b'' BUY 4)]"
proof -
  let ?s = "demo_oms\<lparr>om_broker := [demo_alpaca (demo_order ''b'' BUY 4)]\<rparr>"
  let ?run = "submit_order (demo_gateway False) None (\<lambda>n. n) (demo_order ''b'' BUY 4) demo_bar demo_snapshot 0 ?s"
  have find: "gw_find (demo_gateway False) (or_client_id (demo_order ''b'' BUY 4)) (om_broker ?s)
      = (Inr (Some (demo_alpaca (demo_order ''b'' BUY 4))), om_broker ?s)"
    by (simp add: demo_gateway_def demo_alpaca_def)
  have "outcome (submit_order (demo_gateway False) None (\<lambda>n. n) (demo_order ''b'' BUY 4) demo_bar demo_snapshot 0)
      (\<lambda>_ _. True) (\<lambda>_. False) ?s"
    unfolding submit_outcome_iff
    by (rule evaluate_outcome') (simp_all add: demo_snapshot_ok Let_def qualify_approved qualified_by_def demo_reducing)
  then obtain res s' where run: "?run = (Inr res, s')" by (cases ?run; cases "fst ?run") (auto simp: outcome_def)
  from known_order_recovered [OF find run] run show ?thesis by simp
qed

subsection \<open>Reconciliation\<close>

text \<open>What reconciliation's loops leave alone: the controls, the risk engine.\<close>

definition control_kept :: "'g oms \<Rightarrow> 'g oms \<Rightarrow> bool" where
  "control_kept s s' \<longleftrightarrow> (\<forall>key d. get_control key d (om_ledger s') = get_control key d (om_ledger s)) \<and> om_risk s' = om_risk s"

lemma control_kept_simps [simp]:
  "control_kept s s"
  "control_kept s (s'\<lparr>om_broker := g\<rparr>) \<longleftrightarrow> control_kept s s'"
  "control_kept s (oms_logged clock ty p observed trace s') \<longleftrightarrow> control_kept s s'"
  by (simp_all add: control_kept_def)

text \<open>The ledger once the broker's open orders are recorded.\<close>

definition after_open :: "(int \<Rightarrow> instant) \<Rightarrow> instant \<Rightarrow> alpaca_order list \<Rightarrow> oms_payload ledger \<Rightarrow> oms_payload ledger" where
  "after_open clock observed bs l =
     fold (\<lambda>b l. snd (append_event ''broker_order_state'' (OmsOrderState b) observed (''reconcile:'' @ ao_client b)
        (clock (lg_next l)) l)) bs l"

lemma om_ledger_logged:
  "om_ledger (oms_logged clock ty p observed trace s) =
     snd (append_event ty p observed trace (clock (lg_next (om_ledger s))) (om_ledger s))"
  by (simp add: oms_logged_def oms_log_def)

lemma open_orders_outcome:
  "control_kept s0 s \<Longrightarrow>
     outcome (record_open_orders clock observed bs seen ms)
       (\<lambda>(seen', ms') s'. control_kept s0 s' \<and> om_ledger s' = after_open clock observed bs (om_ledger s) \<and> (ms' = [] \<longrightarrow> ms = [] \<and> distinct (map ao_client bs)
          \<and> set (map ao_client bs) \<inter> dom (map_of seen) = {})
        \<and> dom (map_of seen') = dom (map_of seen) \<union> set (map ao_client bs)) E s"
proof (induction bs arbitrary: seen ms s)
  case (Cons b bs)
  let ?ms = "ms @ (if map_of seen (ao_client b) \<noteq> None then [''DUPLICATE_BROKER_CLIENT_ORDER_ID:'' @ ao_client b] else [])"
  let ?s = "oms_logged clock ''broker_order_state'' (OmsOrderState b) observed (''reconcile:'' @ ao_client b) s"
  have dom: "dom (map_of (AList.update (ao_client b) b seen)) = insert (ao_client b) (dom (map_of seen))"
    by (auto simp: map_of_update split: if_splits)
  have "control_kept s0 ?s" using Cons.prems by simp
  from Cons.IH [OF this, of "AList.update (ao_client b) b seen" ?ms]
  have "outcome (record_open_orders clock observed bs (AList.update (ao_client b) b seen) ?ms)
       (\<lambda>(seen', ms') s'. control_kept s0 s' \<and> om_ledger s' = after_open clock observed bs (om_ledger ?s)
          \<and> (ms' = [] \<longrightarrow> ms = [] \<and> distinct (map ao_client (b # bs))
          \<and> set (map ao_client (b # bs)) \<inter> dom (map_of seen) = {})
        \<and> dom (map_of seen') = dom (map_of seen) \<union> set (map ao_client (b # bs))) E ?s"
    by (rule outcome_mono) (auto simp: dom split: if_splits)
  then show ?case by (simp add: Let_def after_open_def om_ledger_logged)
qed (simp add: after_open_def)

text \<open>The local orders: those still open are all found, or a mismatch is left.\<close>

definition known :: "'g gateway \<Rightarrow> (string, alpaca_order) dict \<Rightarrow> string \<Rightarrow> bool" where
  "known gw seen cid \<longleftrightarrow> cid \<in> dom (map_of seen) \<or> (\<exists>g b g'. gw_find gw cid g = (Inr (Some b), g'))"

lemma local_orders_outcome:
  "control_kept s0 s \<Longrightarrow>
     outcome (check_local_orders gw clock observed seen locals ms)
       (\<lambda>ms' s'. control_kept s0 s' \<and> (ms' = [] \<longrightarrow> ms = []
          \<and> (\<forall>(cid, b) \<in> set locals. ao_status b \<notin> terminal_order_statuses \<longrightarrow> known gw seen cid))) (\<lambda>_. True) s"
proof (induction locals arbitrary: ms s)
  case (Cons kb rest)
  obtain cid b where kb: "kb = (cid, b)" by (cases kb)
  let ?Q = "\<lambda>ms' s'. control_kept s0 s' \<and> (ms' = [] \<longrightarrow> ms = []
          \<and> (\<forall>(cid, b) \<in> set (kb # rest). ao_status b \<notin> terminal_order_statuses \<longrightarrow> known gw seen cid))"
  have skip: "outcome (check_local_orders gw clock observed seen rest ms) ?Q (\<lambda>_. True) t"
    if "control_kept s0 t" "ao_status b \<in> terminal_order_statuses \<or> known gw seen cid" for t
    by (rule outcome_mono [OF Cons.IH [OF that(1)]]) (use that(2) in \<open>auto simp: kb\<close>)
  have miss: "outcome (check_local_orders gw clock observed seen rest (ms @ [m])) ?Q (\<lambda>_. True) t"
    if "control_kept s0 t" for t m
    by (rule outcome_mono [OF Cons.IH [OF that]]) auto
  show ?case
  proof (cases "ao_status b \<in> terminal_order_statuses")
    case True
    with skip [OF Cons.prems] show ?thesis by (simp add: kb)
  next
    case False
    show ?thesis
    proof (cases "map_of seen cid")
      case (Some x)
      then have "known gw seen cid" by (auto simp: known_def)
      with False Some Cons.prems show ?thesis by (simp add: kb) (rule outcome_mono [OF Cons.IH], simp_all)
    next
      case None
      have "outcome (gw_find gw cid) (\<lambda>found g. outcome (case found of
             None \<Rightarrow> check_local_orders gw clock observed seen rest (ms @ [''LOCAL_ORDER_MISSING_AT_BROKER:'' @ cid])
           | Some b \<Rightarrow>
             bind_st (record_order_state clock b observed (''reconcile:'' @ cid)) (\<lambda>_.
             check_local_orders gw clock observed seen rest ms)) ?Q (\<lambda>_. True) (s\<lparr>om_broker := g\<rparr>)) (\<lambda>_. True) (om_broker s)"
      proof (rule outcomeI)
        fix found g assume run: "gw_find gw cid (om_broker s) = (Inr found, g)"
        show "outcome (case found of
             None \<Rightarrow> check_local_orders gw clock observed seen rest (ms @ [''LOCAL_ORDER_MISSING_AT_BROKER:'' @ cid])
           | Some b \<Rightarrow>
             bind_st (record_order_state clock b observed (''reconcile:'' @ cid)) (\<lambda>_.
             check_local_orders gw clock observed seen rest ms)) ?Q (\<lambda>_. True) (s\<lparr>om_broker := g\<rparr>)"
        proof (cases found)
          case None
          show ?thesis unfolding None option.case by (rule miss) (use Cons.prems in simp)
        next
          case (Some x)
          then have "known gw seen cid" using run by (auto simp: known_def)
          then show ?thesis
            unfolding Some option.case outcome_bind outcome_record by (intro skip) (use Cons.prems in simp_all)
        qed
      qed simp
      with False None show ?thesis by (simp add: kb del: append_Cons)
    qed
  qed
qed simp

text \<open>The whole of reconciliation up to its conclusion, and the conclusion.\<close>

definition found_at_broker :: "'g gateway \<Rightarrow> alpaca_order list \<Rightarrow> string \<Rightarrow> bool" where
  "found_at_broker gw bs cid \<longleftrightarrow> cid \<in> ao_client ` set bs \<or> (\<exists>g b g'. gw_find gw cid g = (Inr (Some b), g'))"

definition clean :: "'g gateway \<Rightarrow> oms_payload ledger \<Rightarrow> alpaca_account \<Rightarrow> alpaca_order list \<Rightarrow> bool" where
  "clean gw l acct bs \<longleftrightarrow> \<not> aa_account_blocked acct \<and> \<not> aa_trading_blocked acct \<and> distinct (map ao_client bs)
     \<and> (\<forall>(cid, b) \<in> set (latest_local_order_states l).
          ao_status b \<notin> terminal_order_statuses \<longrightarrow> found_at_broker gw bs cid)"

definition concluded :: "'g gateway \<Rightarrow> (alpaca_order list \<Rightarrow> oms_payload ledger) \<Rightarrow> 'g oms \<Rightarrow> reconciliation \<Rightarrow> 'g oms \<Rightarrow> bool" where
  "concluded gw view s res s' \<longleftrightarrow> om_risk s' = om_risk s \<and> (rc_healthy res \<longleftrightarrow> rc_mismatches res = [])
     \<and> (\<forall>key. get_control key None (om_ledger s') =
          (if \<not> rc_healthy res \<and> key = ''kill_switch'' then Some ''active'' else get_control key None (om_ledger s)))
     \<and> (rc_healthy res \<longrightarrow> clean gw (view (rc_open_orders res)) (rc_account res) (rc_open_orders res))"

lemma conclude_outcome:
  assumes "control_kept s0 s" "ms = [] \<Longrightarrow> clean gw (view bs) acct bs"
  shows "outcome (conclude isofmt clock observed acct ps bs ms) (concluded gw view s0) E s"
proof -
  have written: "get_control key None (set_control k v oc tr now l) = (if key = k then Some v else get_control key None l)"
    for key k v oc tr now and l :: "oms_payload ledger"
    using fun_cong [OF ledger_controls.get_put [of "(oc, tr, now)" k v l], of key] by simp
  have trip: "outcome (trip_kill_switch clock observed ms') Q E' t = Q () (snd (trip_kill_switch clock observed ms' t))" for ms' Q E' and t :: "'a oms"
    by (simp add: outcome_def trip_kill_switch_def)
  show ?thesis
    using assms
    by (cases "ms = []") (simp_all add: conclude_def Let_def trip trip_kill_switch_def concluded_def control_kept_def written)
qed

lemma reconcile_outcome:
  "outcome (reconcile gw isofmt clock observed)
     (concluded gw (\<lambda>bs. after_open clock observed bs (om_ledger s)) s) (\<lambda>_. True) s"
proof -
  let ?Q = "concluded gw (\<lambda>bs. after_open clock observed bs (om_ledger s)) s"
  have rest: "outcome (bind_st (record_open_orders clock observed bs []
       (if aa_account_blocked acct \<or> aa_trading_blocked acct then [''BROKER_TRADING_BLOCKED''] else [])) (\<lambda>(seen, ms).
     bind_st (\<lambda>s. check_local_orders gw clock observed seen (latest_local_order_states (om_ledger s)) ms s) (\<lambda>ms'.
     conclude isofmt clock observed acct ps bs ms'))) ?Q (\<lambda>_. True) t" if kept: "control_kept s t" "om_ledger t = om_ledger s" for bs acct ps and t :: "'a oms"
    unfolding outcome_bind
  proof (rule outcome_mono [OF open_orders_outcome [OF kept(1)]], goal_cases)
    case (1 sm u)
    note post = 1
    obtain seen ms where sm: "sm = (seen, ms)" by (cases sm)
    have known: "known gw seen cid \<longleftrightarrow> found_at_broker gw bs cid" for cid
      using post by (simp add: sm known_def found_at_broker_def)
    have cl: "clean gw (after_open clock observed bs (om_ledger s)) acct bs"
      if "ms = []" "\<forall>(cid, b) \<in> set (latest_local_order_states (om_ledger u)). ao_status b \<notin> terminal_order_statuses \<longrightarrow> known gw seen cid"
      using post that kept(2) by (simp add: sm clean_def known split: if_splits)
    have checked: "outcome (\<lambda>s. check_local_orders gw clock observed seen (latest_local_order_states (om_ledger s)) ms s) Q E u
        = outcome (check_local_orders gw clock observed seen (latest_local_order_states (om_ledger u)) ms) Q E u" for Q E
      by (simp add: outcome_def)
    have "control_kept s u" using post by (simp add: sm)
    from local_orders_outcome [OF this, of gw clock observed seen "latest_local_order_states (om_ledger u)" ms]
    show ?case
      unfolding sm prod.case outcome_bind checked
      by (rule outcome_mono) (auto intro!: conclude_outcome cl)
  qed simp
  show ?thesis
    unfolding reconcile_def outcome_bind outcome_on_gateway
    by (rule outcome_ok, rule outcome_ok, rule outcome_ok, rule rest [unfolded outcome_bind]) simp_all
qed

text \<open>A reconciliation against a blocked account.\<close>

lemma demo_mismatch:
  "\<exists>res s'. reconcile (demo_gateway True) (\<lambda>t. ''now'') (\<lambda>n. n) 7 demo_oms = (Inr res, s') \<and> \<not> rc_healthy res"
proof -
  have read: "outcome (\<lambda>g. (Inr (f g), g)) Q E g = Q (f g) g" for f g and Q :: "'x \<Rightarrow> 'y \<Rightarrow> bool" and E
    by (simp add: outcome_def)
  have none: "latest_local_order_states new_ledger = []"
    by (simp add: latest_local_order_states_def events_def new_ledger_def by_sequence_desc_def sql_limit_def order_states_def
        List.map_filter_def)
  have checked: "outcome (\<lambda>s. check_local_orders gw clock t seen (latest_local_order_states (om_ledger s)) ms s) Q E s
      = outcome (check_local_orders gw clock t seen (latest_local_order_states (om_ledger s)) ms) Q E s" for gw :: "'g gateway" and clock t seen ms Q E s
    by (simp add: outcome_def)
  have trip: "outcome (trip_kill_switch clock t ms) Q E s = Q () (snd (trip_kill_switch clock t ms s))" for clock t ms Q E and s :: "'g oms"
    by (simp add: outcome_def trip_kill_switch_def)
  have "outcome (reconcile (demo_gateway True) (\<lambda>t. ''now'') (\<lambda>n. n) 7) (\<lambda>res _. \<not> rc_healthy res) (\<lambda>_. False) demo_oms"
    by (simp add: reconcile_def demo_gateway_def read checked none demo_oms_def conclude_def Let_def trip)
  then show ?thesis
    by (cases "reconcile (demo_gateway True) (\<lambda>t. ''now'') (\<lambda>n. n) 7 demo_oms") (auto simp: outcome_def split: sum.splits)
qed



text \<open>A mismatch stops trading: after a reconciliation that found one, no order that does not shrink a position
  reaches the broker, whatever the order, its strategy's qualification and the time.\<close>

theorem mismatch_stops_trading:
  assumes "reconcile gw isofmt clock observed s = (Inr res, s1)" and "\<not> rc_healthy res"
    and "snapshot_ok a" and "\<not> risk_reducing a r"
  shows "om_broker (snd (submit_order gw gate clock' r bar a t s1)) = om_broker s1"
proof (rule ccontr)
  assume "\<not> ?thesis"
  then have "acceptable (switched s1) r bar a t True"
    using broker_only_through_gate [OF assms(3)] by blast
  moreover have "get_control ''kill_switch'' None (om_ledger s1) = Some ''active''"
    using outcome_Inr [OF reconcile_outcome assms(1)] assms(2) by (simp add: concluded_def)
  then have "rk_kill_switch (switched s1)"
    by (simp add: switched_def get_control_default activate_kill_switch_def)
  ultimately show False using assms(4) by (simp add: acceptable_def market_acceptable_def)
qed

theorem mismatch_stops_trading_witness:
  "\<exists>res s1. reconcile (demo_gateway True) (\<lambda>t. ''now'') (\<lambda>n. n) 7 demo_oms = (Inr res, s1)
    \<and> om_broker (snd (submit_order (demo_gateway True) (Some (\<lambda>q. True)) (\<lambda>n. n) (demo_order ''b'' BUY 4) demo_bar demo_snapshot 0 s1))
        = om_broker s1"
proof -
  obtain res s1 where run: "reconcile (demo_gateway True) (\<lambda>t. ''now'') (\<lambda>n. n) 7 demo_oms = (Inr res, s1)" "\<not> rc_healthy res"
    using demo_mismatch by blast
  from mismatch_stops_trading [OF run demo_snapshot_ok demo_reducing(2)] run(1) show ?thesis by blast
qed

text \<open>An order refused as unqualified still uses up the hourly rate: when the risk gate approves an opening
  order of an unqualified strategy, the manager rejects it, yet the gate keeps its time among the approved
  ones, so such orders count against the rate of the strategies that are qualified.\<close>

theorem unqualified_spends_rate:
  assumes "snapshot_ok a" "acceptable (switched s) r bar a t True" "\<not> qualified_by gate r" "\<not> risk_reducing a r"
    and "submit_order gw gate clock r bar a t s = (Inr res, s')"
  shows "sb_order res = None \<and> \<not> rd_approved (sb_risk res)
    \<and> rk_order_times (om_risk s') = recent t (rk_order_times (om_risk s)) @ [t]"
proof -
  obtain d k where d: "evaluate r bar a t True (switched s) = (Inr d, k)" "rd_approved d"
    using evaluate_approved_iff [OF assms(1), of r bar t True "switched s"] assms(2)
    by (cases "evaluate r bar a t True (switched s)") auto
  have k: "rk_order_times k = recent t (rk_order_times (om_risk s)) @ [t]"
    using evaluate_approved_state [of r bar a t True "switched s" d] d
    by (simp add: switched_def activate_kill_switch_def reset_kill_switch_def split: if_splits)
  have "outcome (submit_order gw gate clock r bar a t) (\<lambda>res s'. sb_order res = None \<and> \<not> rd_approved (sb_risk res)
      \<and> rk_order_times (om_risk s') = recent t (rk_order_times (om_risk s)) @ [t]) (\<lambda>_. False) s"
    unfolding submit_outcome_iff by (rule outcomeI) (use d assms(3,4) k in \<open>simp_all add: Let_def qualify_approved\<close>)
  from outcome_Inr [OF this assms(5)] show ?thesis .
qed

theorem unqualified_spends_rate_witness:
  "\<exists>res s'. submit_order (demo_gateway False) None (\<lambda>n. n) (demo_order ''b'' BUY 4) demo_bar demo_snapshot 0 demo_oms = (Inr res, s')
    \<and> sb_order res = None \<and> rk_order_times (om_risk s') = [0]"
proof -
  let ?run = "submit_order (demo_gateway False) None (\<lambda>n. n) (demo_order ''b'' BUY 4) demo_bar demo_snapshot 0"
  have "outcome ?run (\<lambda>_ _. True) (\<lambda>_. False) demo_oms"
    unfolding submit_outcome_iff
    by (rule evaluate_outcome') (simp_all add: demo_snapshot_ok Let_def qualify_approved qualified_by_def demo_reducing)
  then obtain res s' where run: "?run demo_oms = (Inr res, s')"
    by (cases "?run demo_oms"; cases "fst (?run demo_oms)") (auto simp: outcome_def)
  have "acceptable (switched demo_oms) (demo_order ''b'' BUY 4) demo_bar demo_snapshot 0 True"
    by (simp add: demo_switched demo_buy_acceptable)
  from unqualified_spends_rate [OF demo_snapshot_ok this _ demo_reducing(2) run] run show ?thesis
    by (simp add: qualified_by_def) (simp add: demo_oms_def recent_def)
qed

end
