(* ===== verification/Persistence.thy ===== *)
theory Persistence
  imports Decimal28
begin

text \<open>
  \<^verbatim>\<open>persistence.py\<close>, the production repository: events, controls, heartbeats, market data and worker
  locks. Each table is a list of its rows or a dict by its key; every operation is one transaction. A
  time read back naive is UTC, so times are instants throughout. The UUIDs and the wall clock are
  arguments; an event's payload is a value and its reporting projection a parameter.
\<close>

record ('p, 'm) repo_event =
  re_id :: string
  re_occurred_at :: instant
  re_recorded_at :: instant
  re_type :: string
  re_trace :: string
  re_payload :: 'p

record heartbeat =
  hb_instance :: string
  hb_observed_at :: instant
  hb_details :: string

record bar_row =
  br_id :: string
  br_symbol :: string
  br_timeframe :: string
  br_feed :: string
  br_event_at :: instant
  br_received_at :: instant
  br_processed_at :: instant
  br_open :: dec
  br_high :: dec
  br_low :: dec
  br_close :: dec
  br_volume :: dec

record quote_row =
  qr_id :: string
  qr_symbol :: string
  qr_feed :: string
  qr_event_at :: instant
  qr_received_at :: instant
  qr_processed_at :: instant
  qr_bid :: dec
  qr_bid_exchange :: string
  qr_ask :: dec
  qr_ask_exchange :: string
  qr_bid_size :: dec
  qr_ask_size :: dec

record trade_row =
  td_id :: string
  td_provider_id :: string
  td_symbol :: string
  td_feed :: string
  td_exchange :: string
  td_event_at :: instant
  td_received_at :: instant
  td_processed_at :: instant
  td_price :: dec
  td_size :: dec
  td_conditions :: "string list"
  td_tape :: "string option"

record worker_lock =
  wl_owner :: string
  wl_acquired_at :: instant

record ('p, 'm) repository =
  rp_events :: "('p, 'm) repo_event list"
  rp_metadata :: "(string, 'm) dict"
  rp_controls :: "(string, string \<times> instant) dict"
  rp_heartbeats :: "(string, heartbeat) dict"
  rp_bars :: "bar_row list"
  rp_quotes :: "quote_row list"
  rp_trades :: "trade_row list"
  rp_locks :: "(string, worker_lock) dict"

definition new_repository :: "('p, 'm) repository" where
  "new_repository = \<lparr>rp_events = [], rp_metadata = [], rp_controls = [], rp_heartbeats = [], rp_bars = [],
     rp_quotes = [], rp_trades = [], rp_locks = []\<rparr>"

subsection \<open>Events, controls, heartbeats\<close>

definition append_repo_event ::
  "(string \<Rightarrow> 'p \<Rightarrow> 'm) \<Rightarrow> string \<Rightarrow> instant \<Rightarrow> string \<Rightarrow> 'p \<Rightarrow> instant \<Rightarrow> string \<Rightarrow> (('p, 'm) repository, string) routine" where
  "append_repo_event project uid now ty p occurred trace r =
     (if uid \<in> re_id ` set (rp_events r) then (Inl IntegrityError, r)
      else (Inr uid, r\<lparr>rp_events := rp_events r @ [\<lparr>re_id = uid, re_occurred_at = occurred, re_recorded_at = now,
              re_type = ty, re_trace = trace, re_payload = p\<rparr>],
            rp_metadata := (case map_of (rp_metadata r) uid of None \<Rightarrow> AList.update uid (project ty p) (rp_metadata r)
              | Some _ \<Rightarrow> rp_metadata r)\<rparr>))"

definition repo_event_count :: "('p, 'm) repository \<Rightarrow> nat" where
  "repo_event_count r = length (rp_events r)"

text \<open>Which payloads \<^verbatim>\<open>latest_event_payload\<close> may return: ties of \<^verbatim>\<open>occurred_at\<close> are the database's choice.\<close>

definition latest_payload_is :: "string \<Rightarrow> ('p, 'm) repository \<Rightarrow> 'p option \<Rightarrow> bool" where
  "latest_payload_is ty r out \<longleftrightarrow>
     (case out of
        None \<Rightarrow> ty \<notin> re_type ` set (rp_events r)
      | Some p \<Rightarrow> \<exists>e \<in> set (rp_events r). re_type e = ty \<and> re_payload e = p
          \<and> (\<forall>e' \<in> set (rp_events r). re_type e' = ty \<longrightarrow> re_occurred_at e' \<le> re_occurred_at e))"

definition set_repo_control :: "instant \<Rightarrow> string \<Rightarrow> string \<Rightarrow> ('p, 'm) repository \<Rightarrow> ('p, 'm) repository" where
  "set_repo_control now key v r = r\<lparr>rp_controls := AList.update key (v, now) (rp_controls r)\<rparr>"

definition get_repo_control :: "string \<Rightarrow> ('p, 'm) repository \<Rightarrow> string option" where
  "get_repo_control key r = map_option fst (map_of (rp_controls r) key)"

definition record_heartbeat :: "string \<Rightarrow> string \<Rightarrow> string \<Rightarrow> instant \<Rightarrow> ('p, 'm) repository \<Rightarrow> ('p, 'm) repository" where
  "record_heartbeat service inst details t r =
     r\<lparr>rp_heartbeats := AList.update service \<lparr>hb_instance = inst, hb_observed_at = t, hb_details = details\<rparr> (rp_heartbeats r)\<rparr>"

definition latest_heartbeat :: "string \<Rightarrow> ('p, 'm) repository \<Rightarrow> (string \<times> instant \<times> string) option" where
  "latest_heartbeat service r =
     map_option (\<lambda>h. (hb_instance h, hb_observed_at h, hb_details h)) (map_of (rp_heartbeats r) service)"

interpretation repo_controls: control_store "\<lambda>r k. get_repo_control k r" set_repo_control
  by unfold_locales (auto simp: get_repo_control_def set_repo_control_def)

subsection \<open>Market data\<close>

definition bar_key :: "bar_row \<Rightarrow> string \<times> string \<times> instant" where
  "bar_key b = (br_symbol b, br_timeframe b, br_event_at b)"

definition store_market_bar :: "bar_row \<Rightarrow> ('p, 'm) repository \<Rightarrow> bool \<times> ('p, 'm) repository" where
  "store_market_bar b r =
     (if bar_key b \<in> bar_key ` set (rp_bars r) then (False, r) else (True, r\<lparr>rp_bars := rp_bars r @ [b]\<rparr>))"

definition quote_key :: "quote_row \<Rightarrow> string \<times> instant \<times> dec \<times> dec \<times> dec \<times> dec" where
  "quote_key q = (qr_symbol q, qr_event_at q, qr_bid q, qr_ask q, qr_bid_size q, qr_ask_size q)"

definition store_market_quote :: "quote_row \<Rightarrow> ('p, 'm) repository \<Rightarrow> bool \<times> ('p, 'm) repository" where
  "store_market_quote q r =
     (if quote_key q \<in> quote_key ` set (rp_quotes r) then (False, r) else (True, r\<lparr>rp_quotes := rp_quotes r @ [q]\<rparr>))"

definition trade_key :: "trade_row \<Rightarrow> string \<times> string \<times> string \<times> string \<times> instant" where
  "trade_key t = (td_symbol t, td_feed t, td_provider_id t, td_exchange t, td_event_at t)"

definition store_market_trade :: "trade_row \<Rightarrow> ('p, 'm) repository \<Rightarrow> bool \<times> ('p, 'm) repository" where
  "store_market_trade t r =
     (if trade_key t \<in> trade_key ` set (rp_trades r) then (False, r) else (True, r\<lparr>rp_trades := rp_trades r @ [t]\<rparr>))"

definition market_data_counts :: "('p, 'm) repository \<Rightarrow> nat \<times> nat \<times> nat" where
  "market_data_counts r = (length (rp_bars r), length (rp_quotes r), length (rp_trades r))"

text \<open>
  The three tables share a contract: a row whose identity is new is added at the end and reported as
  stored, any other call reports nothing stored and changes nothing.
\<close>

locale keyed_table =
  fixes rows :: "'s \<Rightarrow> 'r list"
    and key :: "'r \<Rightarrow> 'k"
    and store :: "'r \<Rightarrow> 's \<Rightarrow> bool \<times> 's"
  assumes store_new: "key x \<notin> key ` set (rows s) \<Longrightarrow> fst (store x s) \<and> rows (snd (store x s)) = rows s @ [x]"
    and store_seen: "key x \<in> key ` set (rows s) \<Longrightarrow> store x s = (False, s)"
begin

lemma stored_iff: "fst (store x s) \<longleftrightarrow> key x \<notin> key ` set (rows s)"
  using store_new [of x s] store_seen [of x s] by auto

lemma store_distinct: "distinct (map key (rows s)) \<Longrightarrow> distinct (map key (rows (snd (store x s))))"
  using store_new [of x s] store_seen [of x s] by (cases "key x \<in> key ` set (rows s)") auto

lemma stores_distinct: "distinct (map key (rows s)) \<Longrightarrow> distinct (map key (rows (fold (\<lambda>x s. snd (store x s)) xs s)))"
  by (induction xs arbitrary: s) (auto simp: store_distinct)

lemma stores_extend: "\<exists>ys. rows (fold (\<lambda>x s. snd (store x s)) xs s) = rows s @ ys \<and> set ys \<subseteq> set xs"
proof (induction xs arbitrary: s)
  case (Cons x xs)
  obtain ys where "rows (fold (\<lambda>x s. snd (store x s)) xs (snd (store x s))) = rows (snd (store x s)) @ ys" "set ys \<subseteq> set xs"
    using Cons.IH by blast
  then show ?case
    using store_new [of x s] store_seen [of x s] by (cases "key x \<in> key ` set (rows s)") auto
qed simp

text \<open>After a batch, each identity is held once, by the row that had it first.\<close>

lemma first_wins:
  assumes "distinct (map key (rows s))"
  shows "find (\<lambda>y. key y = k) (rows (fold (\<lambda>x s. snd (store x s)) xs s)) = find (\<lambda>y. key y = k) (rows s @ xs)"
proof -
  have find_app: "find P (as @ bs) = (case find P as of None \<Rightarrow> find P bs | Some a \<Rightarrow> Some a)" for P :: "'r \<Rightarrow> bool" and as bs
    by (induction as) auto
  have seen: "find (\<lambda>y. key y = k) as \<noteq> None" if "k \<in> key ` set as" for as
    using that by (auto simp: find_None_iff)
  show ?thesis
    using assms
  proof (induction xs arbitrary: s)
    case (Cons x xs)
    have "find (\<lambda>y. key y = k) (rows (snd (store x s)) @ xs) = find (\<lambda>y. key y = k) (rows s @ x # xs)"
    proof (cases "key x \<in> key ` set (rows s)")
      case True
      then show ?thesis
        using seen [of "rows s"] by (cases "key x = k") (auto simp: store_seen find_app split: option.splits)
    next
      case False
      then show ?thesis using store_new by simp
    qed
    with Cons.IH [OF store_distinct [OF Cons.prems]] show ?case by simp
  qed simp
qed

end

interpretation bars: keyed_table rp_bars bar_key store_market_bar
  by unfold_locales (simp_all add: store_market_bar_def)

interpretation quotes: keyed_table rp_quotes quote_key store_market_quote
  by unfold_locales (simp_all add: store_market_quote_def)

interpretation trades: keyed_table rp_trades trade_key store_market_trade
  by unfold_locales (simp_all add: store_market_trade_def)

subsection \<open>Worker locks\<close>

text \<open>Ages are compared in seconds, which whole microseconds make exact.\<close>

definition acquire_worker_lock :: "string \<Rightarrow> string \<Rightarrow> int \<Rightarrow> instant \<Rightarrow> ('p, 'm) repository \<Rightarrow> bool \<times> ('p, 'm) repository" where
  "acquire_worker_lock name owner stale_after now r =
     (case map_of (rp_locks r) name of
        Some l \<Rightarrow>
          if now - wl_acquired_at l \<le> seconds stale_after then (False, r)
          else (True, r\<lparr>rp_locks := AList.update name \<lparr>wl_owner = owner, wl_acquired_at = now\<rparr> (AList.delete name (rp_locks r))\<rparr>)
      | None \<Rightarrow> (True, r\<lparr>rp_locks := AList.update name \<lparr>wl_owner = owner, wl_acquired_at = now\<rparr> (rp_locks r)\<rparr>))"

definition refresh_worker_lock :: "string \<Rightarrow> string \<Rightarrow> instant \<Rightarrow> ('p, 'm) repository \<Rightarrow> bool \<times> ('p, 'm) repository" where
  "refresh_worker_lock name owner now r =
     (case map_of (rp_locks r) name of
        Some l \<Rightarrow> if wl_owner l = owner
          then (True, r\<lparr>rp_locks := AList.update name (l\<lparr>wl_acquired_at := now\<rparr>) (rp_locks r)\<rparr>) else (False, r)
      | None \<Rightarrow> (False, r))"

definition release_worker_lock :: "string \<Rightarrow> string \<Rightarrow> ('p, 'm) repository \<Rightarrow> bool \<times> ('p, 'm) repository" where
  "release_worker_lock name owner r =
     (case map_of (rp_locks r) name of
        Some l \<Rightarrow> if wl_owner l = owner then (True, r\<lparr>rp_locks := AList.delete name (rp_locks r)\<rparr>) else (False, r)
      | None \<Rightarrow> (False, r))"

text \<open>The worker's calls on one lock, each with the time it is made.\<close>

datatype lock_call = Acquire string int instant | Refresh string instant | Release string

fun lock_step :: "string \<Rightarrow> lock_call \<Rightarrow> ('p, 'm) repository \<Rightarrow> bool \<times> ('p, 'm) repository" where
  "lock_step name (Acquire owner stale now) r = acquire_worker_lock name owner stale now r"
| "lock_step name (Refresh owner now) r = refresh_worker_lock name owner now r"
| "lock_step name (Release owner) r = release_worker_lock name owner r"

definition lock_of :: "string \<Rightarrow> ('p, 'm) repository \<Rightarrow> worker_lock option" where
  "lock_of name r = map_of (rp_locks r) name"

lemma lock_of_acquire:
  "lock_of name (snd (acquire_worker_lock name owner stale now r)) =
     (if fst (acquire_worker_lock name owner stale now r) then Some \<lparr>wl_owner = owner, wl_acquired_at = now\<rparr> else lock_of name r)"
  by (simp add: lock_of_def acquire_worker_lock_def split: option.splits)

lemma acquired_iff:
  "fst (acquire_worker_lock name owner stale now r) \<longleftrightarrow>
     (case lock_of name r of None \<Rightarrow> True | Some l \<Rightarrow> seconds stale < now - wl_acquired_at l)"
  by (auto simp: lock_of_def acquire_worker_lock_def split: option.splits)

lemma lock_of_refresh:
  "lock_of name (snd (refresh_worker_lock name owner now r)) =
     (case lock_of name r of None \<Rightarrow> None | Some l \<Rightarrow> Some (if wl_owner l = owner then l\<lparr>wl_acquired_at := now\<rparr> else l))"
  by (auto simp: lock_of_def refresh_worker_lock_def split: option.splits)

lemma lock_of_release:
  "lock_of name (snd (release_worker_lock name owner r)) =
     (case lock_of name r of None \<Rightarrow> None | Some l \<Rightarrow> if wl_owner l = owner then None else Some l)"
  by (auto simp: lock_of_def release_worker_lock_def delete_conv split: option.splits)

text \<open>Whether a call takes place within a holder's tenure: no release of its own, and others' acquisitions only early.\<close>

fun within_tenure :: "string \<Rightarrow> instant \<Rightarrow> lock_call \<Rightarrow> bool" where
  "within_tenure owner t (Acquire o' stale now) \<longleftrightarrow> now - t \<le> seconds stale"
| "within_tenure owner t (Refresh o' now) \<longleftrightarrow> o' = owner \<longrightarrow> t \<le> now"
| "within_tenure owner t (Release o') \<longleftrightarrow> o' \<noteq> owner"

definition held_since :: "string \<Rightarrow> string \<Rightarrow> instant \<Rightarrow> ('p, 'm) repository \<Rightarrow> bool" where
  "held_since name owner t r \<longleftrightarrow> (\<exists>l. lock_of name r = Some l \<and> wl_owner l = owner \<and> t \<le> wl_acquired_at l)"

lemma held_step:
  assumes "held_since name owner t r" "within_tenure owner t c"
  shows "held_since name owner t (snd (lock_step name c r))"
proof (cases c)
  case (Acquire o' stale now)
  with assms have "\<not> fst (acquire_worker_lock name o' stale now r)"
    by (auto simp: acquired_iff held_since_def)
  with assms(1) Acquire show ?thesis by (simp add: held_since_def lock_of_acquire)
next
  case (Refresh o' now)
  with assms show ?thesis by (auto simp: held_since_def lock_of_refresh)
next
  case (Release o')
  with assms show ?thesis by (auto simp: held_since_def lock_of_release)
qed

lemma held_run:
  "held_since name owner t r \<Longrightarrow> \<forall>c \<in> set cs. within_tenure owner t c \<Longrightarrow>
     held_since name owner t (fold (\<lambda>c r. snd (lock_step name c r)) cs r)"
  by (induction cs arbitrary: r) (auto intro: held_step)



text \<open>Recorded bars are stored once and never replaced: after any batch of bars, retries included, each
  (symbol, timeframe, time) is held by exactly one row, and it is the row that brought it first.\<close>

theorem bars_first_wins:
  fixes r :: "('p, 'm) repository"
  assumes "distinct (map bar_key (rp_bars r))"
  shows "distinct (map bar_key (rp_bars (fold (\<lambda>b r. snd (store_market_bar b r)) bs r)))
    \<and> find (\<lambda>b. bar_key b = k) (rp_bars (fold (\<lambda>b r. snd (store_market_bar b r)) bs r)) = find (\<lambda>b. bar_key b = k) (rp_bars r @ bs)"
  by (intro conjI bars.stores_distinct bars.first_wins assms)

definition demo_bar_row :: "string \<Rightarrow> dec \<Rightarrow> bar_row" where
  "demo_bar_row uid c = \<lparr>br_id = uid, br_symbol = ''SPY'', br_timeframe = ''1Min'', br_feed = ''iex'', br_event_at = 0,
     br_received_at = 1, br_processed_at = 2, br_open = c, br_high = c, br_low = c, br_close = c, br_volume = 100\<rparr>"

theorem bars_first_wins_witness:
  "find (\<lambda>b. bar_key b = (''SPY'', ''1Min'', 0)) (rp_bars (fold (\<lambda>b r. snd (store_market_bar b r))
      [demo_bar_row ''u1'' 10, demo_bar_row ''u2'' 11] (new_repository :: (string, string) repository))) = Some (demo_bar_row ''u1'' 10)"
proof -
  have "distinct (map bar_key (rp_bars (new_repository :: (string, string) repository)))" by (simp add: new_repository_def)
  from bars_first_wins [OF this, of "[demo_bar_row ''u1'' 10, demo_bar_row ''u2'' 11]" "(''SPY'', ''1Min'', 0)"]
  show ?thesis by (simp add: new_repository_def) (simp add: bar_key_def demo_bar_row_def)
qed

end
