(* ===== verification/Scheduler.thy ===== *)
theory Scheduler
  imports Persistence
begin

text \<open>
  \<^verbatim>\<open>scheduler.py\<close>: the reconciliation scheduler and the heartbeat watchdog, both of which set the kill
  switch in the production repository when they find something wrong. The reconciler is a parameter, as
  it is in the code (its state is \<open>'g\<close>, and it may raise); the event payload is the health it reports.
  The asynchronous loop is the list of its iterations' clock readings, ended by the first that raises.
\<close>

record 'g scheduler =
  sd_repository :: "(bool, bool) repository"
  sd_world :: 'g

definition mk_scheduler :: "int \<Rightarrow> unit res" where
  "mk_scheduler interval = check (\<not> interval \<le> 0) (ValueError ''reconciliation interval must be positive'')"

definition record_health :: "string \<Rightarrow> string \<Rightarrow> instant \<Rightarrow> instant \<Rightarrow> string \<Rightarrow> bool \<Rightarrow> ('g scheduler, unit) routine" where
  "record_health uid inst observed now trace healthy s =
     (case append_repo_event (\<lambda>ty p. p) uid now ''scheduled_reconciliation'' healthy observed trace (sd_repository s) of
        (Inl e, r) \<Rightarrow> (Inl e, s\<lparr>sd_repository := r\<rparr>)
      | (Inr _, r) \<Rightarrow> (Inr (), s\<lparr>sd_repository := record_heartbeat ''tradeagent-reconciler'' inst
            (if healthy then ''true'' else ''false'') observed r\<rparr>))"

definition trip_repo_switch :: "instant \<Rightarrow> ('g scheduler, 'a) routine" where
  "trip_repo_switch now s =
     (Inl ReconciliationFailureError, s\<lparr>sd_repository := set_repo_control now ''kill_switch'' ''active'' (sd_repository s)\<rparr>)"

definition run_once ::
  "(instant \<Rightarrow> ('g, bool) routine) \<Rightarrow> (instant \<Rightarrow> string) \<Rightarrow> string \<Rightarrow> string \<Rightarrow> instant \<Rightarrow> instant \<Rightarrow> ('g scheduler, bool) routine" where
  "run_once reconciler isofmt inst uid observed now =
     bind_st (\<lambda>s. case reconciler observed (sd_world s) of (r, g) \<Rightarrow> (r, s\<lparr>sd_world := g\<rparr>)) (\<lambda>healthy.
     bind_st (record_health uid inst observed now (''scheduled-reconcile:'' @ isofmt observed) healthy) (\<lambda>_.
     if \<not> healthy then trip_repo_switch now else return_st healthy))"

text \<open>One iteration per entry: its event id, the scheduler's clock and the wall clock.\<close>

fun run_loop ::
  "(instant \<Rightarrow> ('g, bool) routine) \<Rightarrow> (instant \<Rightarrow> string) \<Rightarrow> string \<Rightarrow> (string \<times> instant \<times> instant) list \<Rightarrow> ('g scheduler, unit) routine" where
  "run_loop reconciler isofmt inst [] = return_st ()"
| "run_loop reconciler isofmt inst ((uid, observed, now) # its) =
     bind_st (run_once reconciler isofmt inst uid observed now) (\<lambda>_. run_loop reconciler isofmt inst its)"

subsection \<open>The watchdog\<close>

definition mk_watchdog :: "int \<Rightarrow> int res" where
  "mk_watchdog maximum_age =
     bind_res (check (\<not> maximum_age \<le> 0) (ValueError ''maximum heartbeat age must be positive'')) (\<lambda>_. Inr (seconds maximum_age))"

definition watchdog_check :: "string \<Rightarrow> int \<Rightarrow> instant \<Rightarrow> instant \<Rightarrow> (('p, 'm) repository, unit) routine" where
  "watchdog_check service maximum_age clock now r =
     (case latest_heartbeat service r of
        None \<Rightarrow> (Inl HeartbeatStaleError, set_repo_control clock ''kill_switch'' ''active'' r)
      | Some (_, beat, _) \<Rightarrow>
        if beat > now \<or> now - beat > maximum_age
        then (Inl HeartbeatStaleError, set_repo_control clock ''kill_switch'' ''active'' r)
        else (Inr (), r))"

subsection \<open>Fail closed\<close>

lemma append_controls:
  "get_repo_control key (snd (append_repo_event project uid now ty p occurred trace r)) = get_repo_control key r"
  by (simp add: append_repo_event_def get_repo_control_def)

lemma heartbeat_controls: "get_repo_control key (record_heartbeat service inst details t r) = get_repo_control key r"
  by (simp add: record_heartbeat_def get_repo_control_def)

lemma record_health_controls:
  "get_repo_control key (sd_repository (snd (record_health uid inst observed now trace healthy s))) = get_repo_control key (sd_repository s)"
  using append_controls [of key "\<lambda>ty p. p" uid now "''scheduled_reconciliation''" healthy observed trace "sd_repository s"]
  by (auto simp: record_health_def heartbeat_controls split: prod.splits sum.splits)

definition switch_on :: "'g scheduler \<Rightarrow> bool" where
  "switch_on s \<longleftrightarrow> get_repo_control ''kill_switch'' (sd_repository s) = Some ''active''"

lemma record_health_outcome:
  "(\<And>s'. switch_on s' = switch_on s \<Longrightarrow> sd_world s' = sd_world s \<Longrightarrow> Q () s') \<Longrightarrow> (\<And>s'. switch_on s' = switch_on s \<Longrightarrow> E s') \<Longrightarrow>
     outcome (record_health uid inst observed now trace healthy) Q E s"
proof (rule outcomeI)
  note same = record_health_controls [of "''kill_switch''" uid inst observed now trace healthy s]
  fix e s'
  assume "\<And>s'. switch_on s' = switch_on s \<Longrightarrow> E s'" "record_health uid inst observed now trace healthy s = (Inl e, s')"
  then show "E s'" using same by (simp add: switch_on_def)
next
  note same = record_health_controls [of "''kill_switch''" uid inst observed now trace healthy s]
  fix x :: unit and s'
  assume Q: "\<And>s'. switch_on s' = switch_on s \<Longrightarrow> sd_world s' = sd_world s \<Longrightarrow> Q () s'"
    and run: "record_health uid inst observed now trace healthy s = (Inr x, s')"
  have "sd_world s' = sd_world s" using run by (auto simp: record_health_def split: prod.splits sum.splits)
  then show "Q x s'" using Q run same by (cases x) (simp add: switch_on_def)
qed

text \<open>The scheduler fails closed: when the reconciler returns its report and the event it is recorded as is new,
  an unhealthy report makes the iteration raise with the kill switch active, and a healthy one makes it
  return.\<close>

theorem scheduler_fails_closed:
  assumes "reconciler observed (sd_world s) = (Inr healthy, g)"
    and "uid \<notin> re_id ` set (rp_events (sd_repository s))"
  shows "(if healthy then fst (run_once reconciler isofmt inst uid observed now s) = Inr True
    else fst (run_once reconciler isofmt inst uid observed now s) = Inl ReconciliationFailureError
      \<and> switch_on (snd (run_once reconciler isofmt inst uid observed now s)))"
  using assms
  by (simp add: run_once_def bind_st_def record_health_def append_repo_event_def trip_repo_switch_def return_st_def
      switch_on_def set_repo_control_def get_repo_control_def)

theorem scheduler_fails_closed_witness:
  "switch_on (snd (run_once (\<lambda>t g. (Inr False, g)) (\<lambda>t. ''now'') ''host'' ''u1'' 5 6 \<lparr>sd_repository = new_repository, sd_world = ()\<rparr>))"
  using scheduler_fails_closed [where reconciler = "\<lambda>t g. (Inr False, g)" and observed = 5 and s = "\<lparr>sd_repository = new_repository, sd_world = ()\<rparr>"
      and healthy = False and g = "()" and uid = "''u1''" and isofmt = "\<lambda>t. ''now''" and inst = "''host''" and now = 6]
  by (simp add: new_repository_def)

text \<open>A loop that stopped on a mismatch leaves the switch set: if the scheduler's loop ends by raising its
  reconciliation failure, the kill switch is active in the repository.\<close>

theorem loop_failure_sets_switch:
  assumes "\<And>t g. fst (reconciler t g) \<noteq> Inl ReconciliationFailureError"
    and "run_loop reconciler isofmt inst its s = (Inl ReconciliationFailureError, s')"
  shows "switch_on s'"
  using assms(2)
proof (induction its arbitrary: s)
  case Nil
  then show ?case by (simp add: return_st_def)
next
  case (Cons it its)
  obtain uid observed now where it: "it = (uid, observed, now)" by (cases it)
  show ?case
  proof (cases "fst (run_once reconciler isofmt inst uid observed now s)")
    case (Inr x)
    then obtain t where "run_once reconciler isofmt inst uid observed now s = (Inr x, t)"
      by (cases "run_once reconciler isofmt inst uid observed now s") auto
    with Cons show ?thesis by (simp add: it)
  next
    case (Inl e)
    then have "run_once reconciler isofmt inst uid observed now s = (Inl ReconciliationFailureError, s')"
      using Cons.prems by (cases "run_once reconciler isofmt inst uid observed now s") (simp add: it)
    then show ?thesis
      using assms(1) [of observed "sd_world s"]
      by (auto simp: run_once_def bind_st_def record_health_def append_repo_event_def trip_repo_switch_def return_st_def
          switch_on_def set_repo_control_def get_repo_control_def split: prod.splits sum.splits if_splits)
  qed
qed

theorem loop_failure_sets_switch_witness:
  "switch_on (snd (run_loop (\<lambda>t g. (Inr (t < 6), g)) (\<lambda>t. ''now'') ''host'' [(''u1'', 5, 5), (''u2'', 7, 7)]
     \<lparr>sd_repository = new_repository, sd_world = ()\<rparr>))"
proof -
  have "fst (run_loop (\<lambda>t g. (Inr (t < 6), g)) (\<lambda>t. ''now'') ''host'' [(''u1'', 5, 5), (''u2'', 7, 7)]
     \<lparr>sd_repository = new_repository, sd_world = ()\<rparr>) = Inl ReconciliationFailureError"
    by (simp add: run_once_def bind_st_def record_health_def append_repo_event_def trip_repo_switch_def return_st_def new_repository_def
        record_heartbeat_def)
  then obtain s' where "run_loop (\<lambda>t g. (Inr (t < 6), g)) (\<lambda>t. ''now'') ''host'' [(''u1'', 5, 5), (''u2'', 7, 7)]
     \<lparr>sd_repository = new_repository, sd_world = ()\<rparr> = (Inl ReconciliationFailureError, s')"
    by (cases "run_loop (\<lambda>t g. (Inr (t < 6), g)) (\<lambda>t. ''now'') ''host'' [(''u1'', 5, 5), (''u2'', 7, 7)]
     \<lparr>sd_repository = new_repository, sd_world = ()\<rparr>") auto
  from loop_failure_sets_switch [OF _ this] this show ?thesis by simp
qed

lemma healthy_once:
  assumes "fst (reconciler observed (sd_world s)) = Inr True" "uid \<notin> re_id ` set (rp_events (sd_repository s))"
  shows "\<exists>s'. run_once reconciler isofmt inst uid observed now s = (Inr True, s')
    \<and> re_id ` set (rp_events (sd_repository s')) = insert uid (re_id ` set (rp_events (sd_repository s)))"
proof -
  obtain g where "reconciler observed (sd_world s) = (Inr True, g)"
    using assms(1) by (cases "reconciler observed (sd_world s)") simp
  with assms(2) show ?thesis
    by (simp add: run_once_def bind_st_def record_health_def append_repo_event_def return_st_def record_heartbeat_def)
qed

lemma unhealthy_once:
  assumes "fst (reconciler observed (sd_world s)) = Inr False" "uid \<notin> re_id ` set (rp_events (sd_repository s))"
  shows "\<exists>s'. run_once reconciler isofmt inst uid observed now s = (Inl ReconciliationFailureError, s') \<and> switch_on s'"
proof -
  obtain g where "reconciler observed (sd_world s) = (Inr False, g)"
    using assms(1) by (cases "reconciler observed (sd_world s)") simp
  with scheduler_fails_closed [where reconciler = reconciler and observed = observed and s = s and healthy = False
      and g = g and uid = uid and isofmt = isofmt and inst = inst and now = now] assms(2)
  show ?thesis by (cases "run_once reconciler isofmt inst uid observed now s") auto
qed



text \<open>The watchdog accepts only a recent heartbeat: a check passes exactly when the service has a heartbeat that
  is not in the future and not older than the limit; otherwise it raises and the kill switch is active.\<close>

theorem watchdog_passes_iff:
  "(if \<exists>inst beat details. latest_heartbeat service r = Some (inst, beat, details) \<and> beat \<le> now \<and> now - beat \<le> maximum_age
    then watchdog_check service maximum_age clock now r = (Inr (), r)
    else fst (watchdog_check service maximum_age clock now r) = Inl HeartbeatStaleError
      \<and> get_repo_control ''kill_switch'' (snd (watchdog_check service maximum_age clock now r)) = Some ''active'')"
  by (auto simp: watchdog_check_def repo_controls.get_put_same split: option.splits)

end
