(* ===== verification/Holdout.thy ===== *)
theory Holdout
  imports Universe Decimal28 "HOL-Library.Log_Nat"
begin

text \<open>
  \<^verbatim>\<open>holdout.py\<close>: sealing a dataset into development and holdout parts, and opening the holdout once.
  The two files are the state: the manifest, and the audit record of the opening. The digest of frames
  and the clock are arguments. The fraction is the exact rational the float denotes, and its product
  with the number of frames is rounded to the 53 bits of a double.
\<close>

record holdout_manifest =
  hm_dataset_hash :: string
  hm_development_hash :: string
  hm_holdout_hash :: string
  hm_symbols :: "string list"
  hm_total :: nat
  hm_development :: nat
  hm_holdout :: nat
  hm_started_at :: instant
  hm_sealed_at :: instant

record holdout_audit =
  hu_dataset_hash :: string
  hu_holdout_hash :: string
  hu_opened_at :: instant
  hu_authorization :: string

record holdout_files =
  hf_manifest :: "holdout_manifest option"
  hf_audit :: "holdout_audit option"

definition holdout_authorization :: string where
  "holdout_authorization = ''I acknowledge this is the one-time terminal holdout evaluation''"

definition mk_holdout_manifest :: "holdout_manifest \<Rightarrow> holdout_manifest res" where
  "mk_holdout_manifest m =
     bind_res (require_length ''dataset_hash'' 64 64 (hm_dataset_hash m)) (\<lambda>_.
     bind_res (require_length ''development_hash'' 64 64 (hm_development_hash m)) (\<lambda>_.
     bind_res (require_length ''holdout_hash'' 64 64 (hm_holdout_hash m)) (\<lambda>_.
     bind_res (check (1 < hm_total m) (ValidationError ''total_frames'')) (\<lambda>_.
     bind_res (check (0 < hm_development m) (ValidationError ''development_frames'')) (\<lambda>_.
     bind_res (check (0 < hm_holdout m) (ValidationError ''holdout_frames'')) (\<lambda>_. Inr m))))))"

definition bars_of :: "universe_frame list \<Rightarrow> market_bar list" where
  "bars_of frames = concat (map uf_bars frames)"

definition frame_hash :: "(market_bar list \<Rightarrow> string) \<Rightarrow> universe_frame list \<Rightarrow> string" where
  "frame_hash digest frames = digest (bars_of frames)"

definition frame_symbols :: "universe_frame \<Rightarrow> string list" where
  "frame_symbols f = sort (map bar_symbol (uf_bars f))"

text \<open>The product of an integer and a double, for products of at least one.\<close>

definition double_product :: "nat \<Rightarrow> rat \<Rightarrow> rat" where
  "double_product n x =
     (let p = of_nat n * x; scale = 2 powi (53 - bitlen \<lfloor>p\<rfloor>) in of_int (round_half_even (p * scale)) / scale)"

definition holdout_count :: "rat \<Rightarrow> universe_frame list \<Rightarrow> nat" where
  "holdout_count fraction frames = max 1 (nat \<lfloor>double_product (length frames) fraction\<rfloor>)"

definition new_manifest :: "(market_bar list \<Rightarrow> string) \<Rightarrow> rat \<Rightarrow> instant \<Rightarrow> universe_frame list \<Rightarrow> holdout_manifest" where
  "new_manifest digest fraction now frames =
     (let h = holdout_count fraction frames; d = length frames - h in
      \<lparr>hm_dataset_hash = frame_hash digest frames, hm_development_hash = frame_hash digest (take d frames),
       hm_holdout_hash = frame_hash digest (drop d frames), hm_symbols = frame_symbols (hd frames), hm_total = length frames,
       hm_development = d, hm_holdout = h, hm_started_at = uf_time (frames ! d), hm_sealed_at = now\<rparr>)"

definition seal_holdout ::
  "(market_bar list \<Rightarrow> string) \<Rightarrow> rat \<Rightarrow> instant \<Rightarrow> universe_frame list \<Rightarrow> (holdout_files, holdout_manifest) routine" where
  "seal_holdout digest fraction now frames fs =
     (if \<not> (1 / 10 \<le> fraction \<and> fraction \<le> 1 / 2) then (Inl (ValueError ''holdout_fraction must be between 0.10 and 0.50''), fs)
      else if length frames < 20 then (Inl (ValueError ''holdout sealing requires at least 20 frames''), fs)
      else case hf_manifest fs of
        Some m \<Rightarrow>
          if hm_dataset_hash m \<noteq> frame_hash digest frames then (Inl (ValueError ''sealed holdout dataset hash does not match current data''), fs)
          else (Inr m, fs)
      | None \<Rightarrow>
        if list_ex (\<lambda>f. frame_symbols f \<noteq> frame_symbols (hd frames)) frames
        then (Inl (ValueError ''holdout frames must use one stable universe''), fs)
        else (case mk_holdout_manifest (new_manifest digest fraction now frames) of
                Inl e \<Rightarrow> (Inl e, fs)
              | Inr m \<Rightarrow> (Inr m, fs\<lparr>hf_manifest := Some m\<rparr>)))"

definition verify_frames :: "(market_bar list \<Rightarrow> string) \<Rightarrow> universe_frame list \<Rightarrow> holdout_manifest \<Rightarrow> unit res" where
  "verify_frames digest frames m =
     bind_res (check (length frames = hm_total m) (ValueError ''sealed holdout frame count mismatch'')) (\<lambda>_.
     check (frame_hash digest frames = hm_dataset_hash m) (ValueError ''sealed holdout dataset hash mismatch''))"

definition development_frames :: "(market_bar list \<Rightarrow> string) \<Rightarrow> universe_frame list \<Rightarrow> holdout_manifest \<Rightarrow> universe_frame list res" where
  "development_frames digest frames m =
     bind_res (verify_frames digest frames m) (\<lambda>_.
     (let dev = take (hm_development m) frames in
      bind_res (check (frame_hash digest dev = hm_development_hash m) (ValueError ''development dataset hash mismatch'')) (\<lambda>_. Inr dev)))"

definition open_holdout_once ::
  "(market_bar list \<Rightarrow> string) \<Rightarrow> instant \<Rightarrow> string \<Rightarrow> universe_frame list \<Rightarrow> holdout_manifest \<Rightarrow> (holdout_files, universe_frame list) routine" where
  "open_holdout_once digest now authorization frames m fs =
     (if authorization \<noteq> holdout_authorization then (Inl (ValueError ''exact one-time holdout authorization is required''), fs)
      else if hf_audit fs \<noteq> None then (Inl (ValueError ''terminal holdout has already been opened''), fs)
      else case verify_frames digest frames m of
        Inl e \<Rightarrow> (Inl e, fs)
      | Inr _ \<Rightarrow>
        (let hold = drop (hm_development m) frames in
         if frame_hash digest hold \<noteq> hm_holdout_hash m then (Inl (ValueError ''terminal holdout dataset hash mismatch''), fs)
         else (Inr hold, fs\<lparr>hf_audit := Some \<lparr>hu_dataset_hash = hm_dataset_hash m, hu_holdout_hash = hm_holdout_hash m,
                 hu_opened_at = now, hu_authorization = authorization\<rparr>\<rparr>)))"

subsection \<open>Once, and of what was sealed\<close>

inductive holdout_step :: "(market_bar list \<Rightarrow> string) \<Rightarrow> holdout_files \<Rightarrow> holdout_files \<Rightarrow> bool" for digest where
  hs_seal: "holdout_step digest fs (snd (seal_holdout digest fraction now frames fs))"
| hs_open: "holdout_step digest fs (snd (open_holdout_once digest now authorization frames m fs))"

definition files_kept :: "holdout_files \<Rightarrow> holdout_files \<Rightarrow> bool" where
  "files_kept fs fs' \<longleftrightarrow> (\<forall>m. hf_manifest fs = Some m \<longrightarrow> hf_manifest fs' = Some m)
     \<and> (\<forall>u. hf_audit fs = Some u \<longrightarrow> hf_audit fs' = Some u)"

definition sealed_ok :: "(market_bar list \<Rightarrow> string) \<Rightarrow> holdout_files \<Rightarrow> bool" where
  "sealed_ok digest fs \<longleftrightarrow> (\<forall>m. hf_manifest fs = Some m \<longrightarrow> (\<exists>frames. hm_dataset_hash m = frame_hash digest frames
     \<and> hm_development_hash m = frame_hash digest (take (hm_development m) frames) \<and> hm_holdout_hash m = frame_hash digest (drop (hm_development m) frames)
     \<and> hm_total m = length frames \<and> 0 < hm_development m \<and> 0 < hm_holdout m \<and> hm_development m + hm_holdout m = length frames))"

lemma mk_holdout_manifest_Inr: "mk_holdout_manifest m = Inr m' \<Longrightarrow> m' = m \<and> 0 < hm_development m \<and> 0 < hm_holdout m"
  by (auto simp: mk_holdout_manifest_def)

lemma double_product_le:
  assumes "1 \<le> of_nat n * x"
  shows "double_product n x \<le> 2 * (of_nat n * x)"
proof -
  define p where "p = of_nat n * x"
  define k where "k = bitlen \<lfloor>p\<rfloor>"
  define s where "s = (2::rat) powi (53 - k)"
  have floor: "0 < \<lfloor>p\<rfloor>" using assms by (simp add: p_def)
  have "2 ^ nat (k - 1) \<le> \<lfloor>p\<rfloor>" and k: "1 \<le> k"
    using bitlen_bounds [OF floor] bitlen_nonneg [of "\<lfloor>p\<rfloor>"] floor bitlen_eq_zero_iff [of "\<lfloor>p\<rfloor>"] by (auto simp: k_def)
  then have "(2::rat) ^ nat (k - 1) \<le> p" by (simp add: le_floor_iff)
  then have "2 powi (k - 1) \<le> p" using k by (simp add: power_int_def)
  moreover have s: "0 < s" by (simp add: s_def)
  ultimately have "2 powi (k - 1) * s \<le> p * s" by (simp add: mult_right_mono)
  moreover have "2 powi (k - 1) * s = (2::rat) powi (k - 1 + (53 - k))"
    unfolding s_def by (rule power_int_add [symmetric]) simp
  ultimately have "1 / 2 \<le> p * s" by simp
  then have "of_int (round_half_even (p * s)) \<le> 2 * (p * s)"
    using round_half_even_error [of "p * s"] by linarith
  then have "of_int (round_half_even (p * s)) / s \<le> 2 * p" using s by (simp add: divide_le_eq mult.assoc)
  then show ?thesis by (simp only: double_product_def Let_def p_def k_def s_def)
qed

lemma holdout_count_le:
  assumes "1 / 10 \<le> fraction" "fraction \<le> 1 / 2" "20 \<le> length frames"
  shows "holdout_count fraction frames \<le> length frames"
proof -
  have "of_nat 20 * (1 / 10) \<le> of_nat (length frames) * fraction"
    using assms by (intro mult_mono) (simp_all del: of_nat_numeral)
  then have "double_product (length frames) fraction \<le> 2 * (of_nat (length frames) * fraction)"
    by (intro double_product_le) simp
  also have "\<dots> \<le> of_nat (length frames)"
    using assms(2) mult_left_mono [of fraction "1 / 2" "of_nat (length frames)"] by simp
  finally have "\<lfloor>double_product (length frames) fraction\<rfloor> \<le> int (length frames)" by (simp add: floor_le_iff)
  then show ?thesis using assms(3) by (simp add: holdout_count_def)
qed

lemma seal_cases:
  obtains (same) "snd (seal_holdout digest fraction now frames fs) = fs"
  | (sealed) "hf_manifest fs = None" "1 / 10 \<le> fraction" "fraction \<le> 1 / 2" "20 \<le> length frames"
      "mk_holdout_manifest (new_manifest digest fraction now frames) = Inr (new_manifest digest fraction now frames)"
      "seal_holdout digest fraction now frames fs =
         (Inr (new_manifest digest fraction now frames), fs\<lparr>hf_manifest := Some (new_manifest digest fraction now frames)\<rparr>)"
proof (cases "snd (seal_holdout digest fraction now frames fs) = fs")
  case False
  then obtain m where "hf_manifest fs = None" "1 / 10 \<le> fraction" "fraction \<le> 1 / 2" "20 \<le> length frames"
    "mk_holdout_manifest (new_manifest digest fraction now frames) = Inr m"
    "seal_holdout digest fraction now frames fs = (Inr m, fs\<lparr>hf_manifest := Some m\<rparr>)"
    unfolding seal_holdout_def by (auto split: if_splits option.splits sum.splits)
  then show ?thesis using sealed mk_holdout_manifest_Inr by metis
qed (rule same)

lemma open_cases:
  obtains (same) e where "open_holdout_once digest now authorization frames m fs = (Inl e, fs)"
  | (opened) "authorization = holdout_authorization" "hf_audit fs = None" "verify_frames digest frames m = Inr ()"
      "frame_hash digest (drop (hm_development m) frames) = hm_holdout_hash m"
      "open_holdout_once digest now authorization frames m fs = (Inr (drop (hm_development m) frames),
         fs\<lparr>hf_audit := Some \<lparr>hu_dataset_hash = hm_dataset_hash m, hu_holdout_hash = hm_holdout_hash m,
            hu_opened_at = now, hu_authorization = authorization\<rparr>\<rparr>)"
proof (cases "fst (open_holdout_once digest now authorization frames m fs)")
  case (Inl e)
  then show ?thesis
    by (intro same [of e]) (auto simp: open_holdout_once_def Let_def split: if_splits sum.splits)
next
  case (Inr hold)
  then show ?thesis
    by (intro opened) (auto simp: open_holdout_once_def Let_def split: if_splits sum.splits)
qed

interpretation holdout: growing_machine
  "\<lambda>fs. fs = \<lparr>hf_manifest = None, hf_audit = None\<rparr>" "holdout_step digest" "sealed_ok digest" files_kept for digest
proof
  have kept: "sealed_ok digest fs' \<and> files_kept fs fs'" if "sealed_ok digest fs" "holdout_step digest fs fs'" for fs fs'
    using that(2)
  proof cases
    case (hs_seal fraction now frames)
    show ?thesis
    proof (cases rule: seal_cases [of digest fraction now frames fs])
      case same
      with that(1) hs_seal show ?thesis by (simp add: files_kept_def)
    next
      case sealed
      have "holdout_count fraction frames \<le> length frames" by (rule holdout_count_le [OF sealed(2-4)])
      then have "sealed_ok digest (fs\<lparr>hf_manifest := Some (new_manifest digest fraction now frames)\<rparr>)"
        using mk_holdout_manifest_Inr [OF sealed(5)]
        by (auto simp: sealed_ok_def new_manifest_def Let_def intro!: exI [of _ frames])
      with sealed hs_seal show ?thesis by (simp add: files_kept_def)
    qed
  next
    case (hs_open now authorization frames m)
    then show ?thesis
      using that(1) by (cases rule: open_cases [of digest now authorization frames m fs]) (auto simp: files_kept_def sealed_ok_def)
  qed
  show "sealed_ok digest fs \<Longrightarrow> holdout_step digest fs fs' \<Longrightarrow> sealed_ok digest fs'"
    "sealed_ok digest fs \<Longrightarrow> holdout_step digest fs fs' \<Longrightarrow> files_kept fs fs'" for fs fs' using kept by blast+
qed (auto simp: sealed_ok_def files_kept_def)


text \<open>C26 Development never sees the holdout: where the dataset and its two parts are the only bars with their
  digests, the frames development receives and the frames the one opening returns against the sealed manifest
  hold, in order, exactly the bars of the sealed dataset, each bar in one of the two, and neither is empty.\<close>

theorem holdout_disjoint:
  assumes "\<forall>part \<in> {frames, dev, hold}. \<forall>bars. digest bars = frame_hash digest part \<longrightarrow> bars = bars_of part"
    and "(holdout_step digest)\<^sup>*\<^sup>* \<lparr>hf_manifest = None, hf_audit = None\<rparr> fs" and "hf_manifest fs = Some m"
    and "development_frames digest frames m = Inr dev"
    and "open_holdout_once digest now authorization frames' m fs = (Inr hold, fs1)"
  shows "bars_of dev @ bars_of hold = bars_of frames \<and> dev \<noteq> [] \<and> hold \<noteq> []"
proof -
  have ok: "sealed_ok digest fs" by (rule holdout.inv_reachable [OF refl assms(2)])
  obtain sealed where s: "hm_dataset_hash m = frame_hash digest sealed" "hm_total m = length sealed" "0 < hm_development m"
    "0 < hm_holdout m" "hm_development m + hm_holdout m = length sealed"
    "hm_development_hash m = frame_hash digest (take (hm_development m) sealed)"
    "hm_holdout_hash m = frame_hash digest (drop (hm_development m) sealed)"
    using ok assms(3) by (auto simp: sealed_ok_def)
  have dev: "frame_hash digest frames = hm_dataset_hash m" "dev = take (hm_development m) frames" "length frames = hm_total m"
    "frame_hash digest dev = hm_development_hash m"
    using assms(4) by (auto simp: development_frames_def verify_frames_def Let_def)
  have "hold = drop (hm_development m) frames' \<and> length frames' = hm_total m \<and> frame_hash digest hold = hm_holdout_hash m"
    by (cases rule: open_cases [of digest now authorization frames' m fs]) (use assms(5) in \<open>auto simp: verify_frames_def\<close>)
  then have hold: "hold = drop (hm_development m) frames'" "length frames' = hm_total m"
    "frame_hash digest hold = hm_holdout_hash m" by blast+
  have same: "bars_of part' = bars_of part"
    if "part \<in> {frames, dev, hold}" "frame_hash digest part' = frame_hash digest part" for part part'
    using bspec [OF assms(1) that(1)] that(2) unfolding frame_hash_def by blast
  have "bars_of sealed = bars_of frames" by (rule same) (simp_all add: s(1) [symmetric] dev(1))
  moreover have "bars_of (take (hm_development m) sealed) = bars_of dev" by (rule same) (simp_all add: s(6) [symmetric] dev(4))
  moreover have "bars_of (drop (hm_development m) sealed) = bars_of hold" by (rule same) (simp_all add: s(7) [symmetric] hold(3))
  moreover have "bars_of (take (hm_development m) sealed) @ bars_of (drop (hm_development m) sealed) = bars_of sealed"
    by (simp add: bars_of_def flip: concat_append map_append)
  moreover have "dev \<noteq> []" "hold \<noteq> []" using s(2-5) dev(2,3) hold(1,2) by auto
  ultimately show ?thesis by simp
qed

subsection \<open>Concrete openings\<close>

text \<open>Frames of one bar each, and a digest with four values.\<close>

definition sample_frame :: "nat \<Rightarrow> universe_frame" where
  "sample_frame n = \<lparr>uf_time = int n, uf_bars = [\<lparr>bar_symbol = ''SPY'', bar_time = int n, bar_open = 1, bar_high = 1,
     bar_low = 1, bar_close = 1, bar_volume = 1\<rparr>]\<rparr>"

definition sample_frames :: "universe_frame list" where
  "sample_frames = map sample_frame [0..<20]"

definition sample_digest :: "market_bar list \<Rightarrow> string" where
  "sample_digest bars = replicate 64
     (if bars = bars_of sample_frames then CHR ''a'' else if bars = bars_of (take 10 sample_frames) then CHR ''b''
      else if bars = bars_of (drop 10 sample_frames) then CHR ''c'' else CHR ''d'')"

definition sample_manifest :: holdout_manifest where
  "sample_manifest = \<lparr>hm_dataset_hash = replicate 64 CHR ''a'', hm_development_hash = replicate 64 CHR ''b'',
     hm_holdout_hash = replicate 64 CHR ''c'', hm_symbols = [''SPY''], hm_total = 20, hm_development = 10, hm_holdout = 10,
     hm_started_at = 10, hm_sealed_at = 99\<rparr>"

definition no_files :: holdout_files where
  "no_files = \<lparr>hf_manifest = None, hf_audit = None\<rparr>"

lemma sample_length [simp]: "length sample_frames = 20"
  by (simp add: sample_frames_def)

lemma sample_parts: "bars_of (take 10 sample_frames) \<noteq> bars_of sample_frames"
  "bars_of (drop 10 sample_frames) \<noteq> bars_of sample_frames" "bars_of (drop 10 sample_frames) \<noteq> bars_of (take 10 sample_frames)"
proof -
  let ?d = "drop 10 sample_frames" and ?t = "take 10 sample_frames"
  have "length (bars_of ?t) = 10" "length (bars_of ?d) = 10" "length (bars_of sample_frames) = 20"
    by code_simp+
  then show "bars_of ?t \<noteq> bars_of sample_frames" "bars_of ?d \<noteq> bars_of sample_frames" by auto
  have "bar_time (hd (bars_of ?d)) = 10" "bar_time (hd (bars_of ?t)) = 0"
    by code_simp+
  then show "bars_of ?d \<noteq> bars_of ?t" by auto
qed

lemma sample_hash [simp]: "frame_hash sample_digest sample_frames = replicate 64 CHR ''a''"
  "frame_hash sample_digest (take 10 sample_frames) = replicate 64 CHR ''b''"
  "frame_hash sample_digest (drop 10 sample_frames) = replicate 64 CHR ''c''"
  using sample_parts by (simp_all add: frame_hash_def sample_digest_def)

lemma sample_preimages: "sample_digest bars = replicate 64 CHR ''a'' \<longleftrightarrow> bars = bars_of sample_frames"
  "sample_digest bars = replicate 64 CHR ''b'' \<longleftrightarrow> bars = bars_of (take 10 sample_frames)"
  "sample_digest bars = replicate 64 CHR ''c'' \<longleftrightarrow> bars = bars_of (drop 10 sample_frames)"
  using sample_parts by (auto simp: sample_digest_def replicate_eq_replicate)

lemma sample_symbols: "f \<in> set sample_frames \<Longrightarrow> frame_symbols f = [''SPY'']"
  by (auto simp: sample_frames_def sample_frame_def frame_symbols_def)

lemma sample_product: "double_product 20 (1 / 2) = 10"
proof -
  have "bitlen 10 = 4" by (simp add: compute_bitlen [of 10] compute_bitlen [of 5] compute_bitlen [of 2] compute_bitlen [of 1])
  then show ?thesis by (simp add: double_product_def Let_def power_int_def round_half_even_def)
qed

lemma sample_new_manifest: "new_manifest sample_digest (1 / 2) 99 sample_frames = sample_manifest"
proof -
  have "holdout_count (1 / 2) sample_frames = 10" by (simp add: holdout_count_def sample_product)
  moreover have "uf_time (sample_frames ! 10) = 10" by (simp add: sample_frames_def sample_frame_def)
  moreover have "hd sample_frames \<in> set sample_frames" by (rule hd_in_set) (simp add: sample_frames_def)
  ultimately show ?thesis
    by (simp add: new_manifest_def sample_manifest_def sample_symbols)
qed

lemma sample_seal: "seal_holdout sample_digest (1 / 2) 99 sample_frames no_files
    = (Inr sample_manifest, no_files\<lparr>hf_manifest := Some sample_manifest\<rparr>)"
proof -
  have "hd sample_frames \<in> set sample_frames" by (rule hd_in_set) (simp add: sample_frames_def)
  moreover have "mk_holdout_manifest sample_manifest = Inr sample_manifest"
    by (simp add: mk_holdout_manifest_def sample_manifest_def require_length_def)
  ultimately show ?thesis
    by (simp add: seal_holdout_def no_files_def sample_new_manifest list_ex_iff sample_symbols)
qed

lemma sample_verify: "verify_frames sample_digest sample_frames sample_manifest = Inr ()"
  by (simp add: verify_frames_def sample_manifest_def)

lemma sample_open: "open_holdout_once sample_digest 100 holdout_authorization sample_frames sample_manifest
     (no_files\<lparr>hf_manifest := Some sample_manifest\<rparr>)
   = (Inr (drop 10 sample_frames), \<lparr>hf_manifest = Some sample_manifest, hf_audit = Some \<lparr>hu_dataset_hash = replicate 64 CHR ''a'',
        hu_holdout_hash = replicate 64 CHR ''c'', hu_opened_at = 100, hu_authorization = holdout_authorization\<rparr>\<rparr>)"
  by (simp add: open_holdout_once_def sample_verify no_files_def) (simp add: sample_manifest_def)

lemma sample_sealed: "(holdout_step sample_digest)\<^sup>*\<^sup>* no_files (no_files\<lparr>hf_manifest := Some sample_manifest\<rparr>)"
  using holdout_step.hs_seal [of sample_digest no_files "1 / 2" 99 sample_frames] by (simp add: sample_seal r_into_rtranclp)

lemma sample_sealed_ok: "sealed_ok sample_digest (no_files\<lparr>hf_manifest := Some sample_manifest\<rparr>)"
  by (rule holdout.inv_reachable [OF _ sample_sealed]) (simp add: no_files_def)


lemma holdout_disjoint_witness:
  "development_frames sample_digest sample_frames sample_manifest = Inr (take 10 sample_frames)
     \<and> bars_of (take 10 sample_frames) @ bars_of (drop 10 sample_frames) = bars_of sample_frames \<and> take 10 sample_frames \<noteq> []"
proof -
  have dev: "development_frames sample_digest sample_frames sample_manifest = Inr (take 10 sample_frames)"
    by (simp add: development_frames_def sample_verify) (simp add: sample_manifest_def)
  have "bars_of (take 10 sample_frames) @ bars_of (drop 10 sample_frames) = bars_of sample_frames
      \<and> take 10 sample_frames \<noteq> [] \<and> drop 10 sample_frames \<noteq> []"
    by (rule holdout_disjoint [where fs = "no_files\<lparr>hf_manifest := Some sample_manifest\<rparr>" and digest = sample_digest,
          OF _ _ _ dev sample_open])
      (use sample_sealed in \<open>auto simp: sample_preimages no_files_def\<close>)
  with dev show ?thesis by simp
qed

end
