(* ===== verification/DecimalText.thy ===== *)
theory DecimalText
  imports Decimal28
begin

text \<open>
  \<^verbatim>\<open>Decimal(text)\<close>: the numerals the constructor accepts, with the coefficient and the exponent they
  denote. Several modules read decimals from text: the order book, whose checksum prints them again, and the
  accounting of broker records kept as JSON.
\<close>

subsection \<open>Decimals with their exponent\<close>

record pdec =
  coef :: int
  expo :: int

definition pvalue :: "pdec \<Rightarrow> rat" where
  "pvalue d = of_int (coef d) * 10 powi expo d"

datatype number = Finite pdec | NonFinite

definition digit :: "char \<Rightarrow> bool" where
  "digit c \<longleftrightarrow> (let n = of_char c :: nat in 48 \<le> n \<and> n \<le> 57)"

definition digits_value :: "string \<Rightarrow> int" where
  "digits_value s = foldl (\<lambda>n c. 10 * n + (of_char c - 48)) 0 s"

definition lower_char :: "char \<Rightarrow> char" where
  "lower_char c = (let n = of_char c :: nat in if 65 \<le> n \<and> n \<le> 90 then char_of (n + 32) else c)"

definition take_sign :: "string \<Rightarrow> bool \<times> string" where
  "take_sign s = (case s of [] \<Rightarrow> (False, []) | c # r \<Rightarrow> if c = CHR ''-'' then (True, r) else if c = CHR ''+'' then (False, r) else (False, s))"

text \<open>The exponent part of a numeral: absent, or \<open>e\<close> with a signed, non-empty run of digits to the end.\<close>

definition exponent_part :: "string \<Rightarrow> int option" where
  "exponent_part s = (case s of [] \<Rightarrow> Some 0
     | c # r \<Rightarrow> (case take_sign r of (neg, ds) \<Rightarrow>
         if lower_char c = CHR ''e'' \<and> ds \<noteq> [] \<and> list_all digit ds
         then Some (if neg then - digits_value ds else digits_value ds) else None))"

definition unsigned_number :: "string \<Rightarrow> number option" where
  "unsigned_number s =
     (let whole = takeWhile digit s; r = dropWhile digit s;
          frac = (case r of CHR ''.'' # r' \<Rightarrow> takeWhile digit r' | _ \<Rightarrow> []);
          r2 = (case r of CHR ''.'' # r' \<Rightarrow> dropWhile digit r' | _ \<Rightarrow> r);
          low = map lower_char s in
      if low = ''inf'' \<or> low = ''infinity'' then Some NonFinite
      else if take 3 low = ''nan'' \<and> list_all digit (drop 3 low) \<or> take 4 low = ''snan'' \<and> list_all digit (drop 4 low)
      then Some NonFinite
      else if whole @ frac = [] then None
      else map_option (\<lambda>e. Finite \<lparr>coef = digits_value (whole @ frac), expo = e - int (length frac)\<rparr>) (exponent_part r2))"

definition negate_number :: "number \<Rightarrow> number" where
  "negate_number n = (case n of Finite d \<Rightarrow> Finite (d\<lparr>coef := - coef d\<rparr>) | NonFinite \<Rightarrow> NonFinite)"

text \<open>\<^verbatim>\<open>Decimal(text)\<close>: surrounding blanks and underscores are dropped.\<close>

definition decimal_of_string :: "string \<Rightarrow> number option" where
  "decimal_of_string s =
     (case take_sign (filter (\<lambda>c. c \<noteq> CHR ''_'') (py_strip s)) of (neg, r) \<Rightarrow>
        map_option (\<lambda>n. if neg then negate_number n else n) (unsigned_number r))"

end
