(* ===== verification/KrakenBook.thy ===== *)
theory KrakenBook
  imports DecimalText "HOL-Library.Word"
begin

text \<open>
  \<^verbatim>\<open>kraken_confirmation_book.py\<close>: the depth-ten order book rebuilt from a provider's snapshots and updates,
  each proved by the provider's CRC-32 of the top ten levels. A decoded message is a JSON value. A Decimal keeps
  its coefficient and exponent here, because the checksum prints it; dictionary keys are compared by value, and a
  stored key keeps the text it was first inserted with. The sign of a zero and the exponent limits of the decimal
  context are not represented.
\<close>

subsection \<open>Decoded messages\<close>

datatype json = JNull | JBool bool | JInt int | JFloat | JStr string | JDec number
  | JArr "json list" | JObj "(string \<times> json) list"

definition finite_number :: "number \<Rightarrow> pdec res" where
  "finite_number n = (case n of Finite d \<Rightarrow> Inr d | NonFinite \<Rightarrow> Inl (ValueError ''non-finite book decimal''))"

fun book_decimal :: "json \<Rightarrow> pdec res" where
  "book_decimal (JInt i) = Inr \<lparr>coef = i, expo = 0\<rparr>"
| "book_decimal (JStr s) = (case decimal_of_string s of None \<Rightarrow> Inl (ValueError ''invalid book decimal'') | Some n \<Rightarrow> finite_number n)"
| "book_decimal (JDec n) = finite_number n"
| "book_decimal _ = Inl (ValueError ''decode book numbers as Decimal, never binary floats'')"

subsection \<open>Levels and their checksum\<close>

type_synonym levels = "(pdec \<times> pdec) list"

fun store_level :: "pdec \<Rightarrow> pdec \<Rightarrow> levels \<Rightarrow> levels" where
  "store_level p q [] = [(p, q)]"
| "store_level p q ((p', q') # ls) = (if pvalue p' = pvalue p then (p', q) # ls else (p', q') # store_level p q ls)"

definition drop_level :: "pdec \<Rightarrow> levels \<Rightarrow> levels" where
  "drop_level p ls = filter (\<lambda>(p', q'). pvalue p' \<noteq> pvalue p) ls"

definition price :: "pdec \<times> pdec \<Rightarrow> rat" where
  "price l = pvalue (fst l)"

definition best_bids :: "levels \<Rightarrow> levels" where
  "best_bids ls = take 10 (sort_key (\<lambda>l. - price l) ls)"

definition best_asks :: "levels \<Rightarrow> levels" where
  "best_asks ls = take 10 (sort_key price ls)"

text \<open>\<^verbatim>\<open>format(value, "f")\<close>: no exponent, at least one digit before the point.\<close>

definition fixed_point :: "pdec \<Rightarrow> string" where
  "fixed_point d =
     (let ds = show_nat (nat \<bar>coef d\<bar>); sign = (if coef d < 0 then ''-'' else []); n = nat (- expo d) in
      if 0 \<le> expo d then sign @ ds @ replicate (nat (expo d)) CHR ''0''
      else (let ps = replicate (n + 1 - length ds) CHR ''0'' @ ds in
            sign @ take (length ps - n) ps @ CHR ''.'' # drop (length ps - n) ps))"

definition level_text :: "pdec \<Rightarrow> string" where
  "level_text d = dropWhile (\<lambda>c. c = CHR ''0'') (filter (\<lambda>c. c \<noteq> CHR ''.'') (fixed_point d))"

unbundle bit_operations_syntax

definition crc_bit :: "32 word \<Rightarrow> 32 word" where
  "crc_bit r = (if bit r 0 then drop_bit 1 r XOR 0xEDB88320 else drop_bit 1 r)"

definition crc_byte :: "char \<Rightarrow> 32 word \<Rightarrow> 32 word" where
  "crc_byte c r = (crc_bit ^^ 8) (r XOR of_char c)"

definition crc32 :: "string \<Rightarrow> 32 word" where
  "crc32 s = NOT (fold crc_byte s (NOT 0))"

definition checksum_text :: "levels \<Rightarrow> levels \<Rightarrow> string" where
  "checksum_text bids asks = concat (map (\<lambda>(p, q). level_text p @ level_text q) (best_asks asks @ best_bids bids))"

definition checksum :: "levels \<Rightarrow> levels \<Rightarrow> int" where
  "checksum bids asks = uint (crc32 (checksum_text bids asks) AND 0xFFFFFFFF)"

lemma crc_bits: "(crc_bit ^^ 8) r = crc_bit (crc_bit (crc_bit (crc_bit (crc_bit (crc_bit (crc_bit (crc_bit r)))))))"
  by (simp add: eval_nat_numeral)

lemmas crc_eval = crc32_def crc_byte_def crc_bits crc_bit_def

lemma crc32_check: "crc32 ''123456789'' = 0xCBF43926"
  by (simp add: crc_eval)

subsection \<open>Quotes and the book\<close>

record book_quote =
  bq_bid :: pdec
  bq_ask :: pdec
  bq_bid_size :: pdec
  bq_ask_size :: pdec
  bq_update_ns :: int
  bq_bid_price_ns :: int
  bq_ask_price_ns :: int
  bq_bid_size_ns :: int
  bq_ask_size_ns :: int
  bq_expected :: int
  bq_computed :: int

definition mk_book_quote :: "book_quote \<Rightarrow> book_quote res" where
  "mk_book_quote q =
     bind_res (check (0 < pvalue (bq_bid q)) (ValidationError ''bid'')) (\<lambda>_.
     bind_res (check (0 < pvalue (bq_ask q)) (ValidationError ''ask'')) (\<lambda>_.
     bind_res (check (0 < pvalue (bq_bid_size q)) (ValidationError ''bid_size'')) (\<lambda>_.
     bind_res (check (0 < pvalue (bq_ask_size q)) (ValidationError ''ask_size'')) (\<lambda>_. Inr q))))"

record bbo =
  bo_bid :: pdec
  bo_bid_size :: pdec
  bo_ask :: pdec
  bo_ask_size :: pdec

record side_times =
  st_bid :: int
  st_ask :: int

record book =
  bk_bids :: levels
  bk_asks :: levels
  bk_valid :: bool
  bk_last_ns :: "int option"
  bk_bbo :: "bbo option"
  bk_price_ns :: side_times
  bk_size_ns :: side_times
  bk_checks :: nat
  bk_failures :: nat
  bk_reason :: string

definition new_book :: book where
  "new_book = \<lparr>bk_bids = [], bk_asks = [], bk_valid = False, bk_last_ns = None, bk_bbo = None,
     bk_price_ns = \<lparr>st_bid = 0, st_ask = 0\<rparr>, bk_size_ns = \<lparr>st_bid = 0, st_ask = 0\<rparr>, bk_checks = 0, bk_failures = 0,
     bk_reason = ''snapshot_required''\<rparr>"

definition invalidate :: "string \<Rightarrow> book \<Rightarrow> book" where
  "invalidate why b = b\<lparr>bk_bids := [], bk_asks := [], bk_valid := False, bk_last_ns := None, bk_bbo := None,
     bk_price_ns := \<lparr>st_bid = 0, st_ask = 0\<rparr>, bk_size_ns := \<lparr>st_bid = 0, st_ask = 0\<rparr>, bk_reason := why\<rparr>"

definition book_field :: "(string, json) dict \<Rightarrow> string \<Rightarrow> json res" where
  "book_field row k = (case map_of row k of None \<Rightarrow> Inl (KeyError k) | Some v \<Rightarrow> Inr v)"

definition read_level :: "json \<Rightarrow> (pdec \<times> pdec) res" where
  "read_level l = (case l of
       JObj kvs \<Rightarrow> bind_res (bind_res (book_field kvs ''price'') book_decimal) (\<lambda>p.
         bind_res (bind_res (book_field kvs ''qty'') book_decimal) (\<lambda>q. Inr (p, q)))
     | _ \<Rightarrow> Inl (ValueError ''book level must be an object''))"

definition set_level :: "pdec \<times> pdec \<Rightarrow> levels \<Rightarrow> levels" where
  "set_level l side = (if pvalue (snd l) = 0 then drop_level (fst l) side else store_level (fst l) (snd l) side)"

fun take_levels :: "json list \<Rightarrow> levels \<Rightarrow> (book, levels) routine" where
  "take_levels [] side b = (Inr side, b)"
| "take_levels (l # ls) side b = (case read_level l of
      Inl e \<Rightarrow> (Inl e, b)
    | Inr (p, q) \<Rightarrow>
        if pvalue p \<le> 0 \<or> pvalue q < 0
        then (Inl (ValueError ''invalid book price or quantity''), invalidate ''invalid_book_level'' b)
        else take_levels ls (set_level (p, q) side) b)"

definition take_updates :: "json option \<Rightarrow> levels \<Rightarrow> (book, levels) routine" where
  "take_updates us side b = (case us of
      None \<Rightarrow> (Inr side, b)
    | Some (JArr ls) \<Rightarrow> take_levels ls side b
    | Some _ \<Rightarrow> (Inl (ValueError ''book levels must be an ordered array''), b))"

definition read_checksum :: "(string, json) dict \<Rightarrow> int res" where
  "read_checksum row = bind_res (book_field row ''checksum'') (\<lambda>v. case v of
       JInt n \<Rightarrow> Inr n | _ \<Rightarrow> Inl (ValueError ''checksum must be an unsigned integer''))"

text \<open>The best of each side: the first of the ten sorted levels.\<close>

definition best :: "levels \<Rightarrow> levels \<Rightarrow> bbo" where
  "best bids asks = \<lparr>bo_bid = fst (hd bids), bo_bid_size = snd (hd bids), bo_ask = fst (hd asks), bo_ask_size = snd (hd asks)\<rparr>"

definition changed :: "(bbo \<Rightarrow> pdec) \<Rightarrow> bbo option \<Rightarrow> bbo \<Rightarrow> bool" where
  "changed part old new = (case old of None \<Rightarrow> True | Some o' \<Rightarrow> pvalue (part new) \<noteq> pvalue (part o'))"

definition stamp :: "(bbo \<Rightarrow> pdec) \<Rightarrow> (bbo \<Rightarrow> pdec) \<Rightarrow> bbo option \<Rightarrow> bbo \<Rightarrow> int \<Rightarrow> side_times \<Rightarrow> side_times" where
  "stamp bid ask old new ns t =
     \<lparr>st_bid = (if changed bid old new then ns else st_bid t), st_ask = (if changed ask old new then ns else st_ask t)\<rparr>"

definition install :: "levels \<Rightarrow> levels \<Rightarrow> int \<Rightarrow> book \<Rightarrow> book" where
  "install bids asks ns b =
     (let new = best bids asks in
      b\<lparr>bk_bids := bids, bk_asks := asks, bk_bbo := Some new, bk_last_ns := Some ns, bk_valid := True,
        bk_price_ns := stamp bo_bid bo_ask (bk_bbo b) new ns (bk_price_ns b),
        bk_size_ns := stamp bo_bid_size bo_ask_size (bk_bbo b) new ns (bk_size_ns b),
        bk_reason := ''checksum_validated''\<rparr>)"

definition quote_of :: "book \<Rightarrow> bbo \<Rightarrow> int \<Rightarrow> int \<Rightarrow> int \<Rightarrow> book_quote" where
  "quote_of b o' ns expected actual =
     \<lparr>bq_bid = bo_bid o', bq_ask = bo_ask o', bq_bid_size = bo_bid_size o', bq_ask_size = bo_ask_size o', bq_update_ns = ns,
      bq_bid_price_ns = st_bid (bk_price_ns b), bq_ask_price_ns = st_ask (bk_price_ns b),
      bq_bid_size_ns = st_bid (bk_size_ns b), bq_ask_size_ns = st_ask (bk_size_ns b),
      bq_expected = expected, bq_computed = actual\<rparr>"

definition crossed :: "levels \<Rightarrow> levels \<Rightarrow> bool" where
  "crossed bids asks \<longleftrightarrow> bids = [] \<or> asks = [] \<or> price (hd asks) \<le> price (hd bids)"

definition settle_book :: "int \<Rightarrow> int \<Rightarrow> levels \<Rightarrow> levels \<Rightarrow> (book, book_quote option) routine" where
  "settle_book expected ns bids asks b0 =
     (let b = b0\<lparr>bk_checks := bk_checks b0 + 1\<rparr>; actual = checksum bids asks in
      if actual \<noteq> expected then (Inr None, invalidate ''checksum_mismatch'' (b\<lparr>bk_failures := bk_failures b + 1\<rparr>))
      else if crossed bids asks then (Inr None, invalidate ''empty_locked_or_crossed_book'' b)
      else if (case bk_last_ns b of None \<Rightarrow> False | Some prior \<Rightarrow> ns < prior)
      then (Inr None, invalidate ''provider_book_timestamp_regression'' (b\<lparr>bk_failures := bk_failures b + 1\<rparr>))
      else (let b' = install bids asks ns b in
            (map_sum id Some (mk_book_quote (quote_of b' (best bids asks) ns expected actual)), b')))"

definition apply_book :: "(string, json) dict \<Rightarrow> string \<Rightarrow> int \<Rightarrow> (book, book_quote option) routine" where
  "apply_book row kind ns b =
     (if kind \<noteq> ''snapshot'' \<and> kind \<noteq> ''update'' then (Inl (ValueError ''unsupported book message type''), b)
      else if kind = ''update'' \<and> \<not> bk_valid b then (Inr None, b\<lparr>bk_reason := ''update_before_valid_snapshot''\<rparr>)
      else bind_st (take_updates (map_of row ''bids'') (if kind = ''snapshot'' then [] else bk_bids b)) (\<lambda>bids.
           bind_st (take_updates (map_of row ''asks'') (if kind = ''snapshot'' then [] else bk_asks b)) (\<lambda>asks.
           bind_st (lift_st (read_checksum row)) (\<lambda>expected.
           settle_book expected ns (best_bids bids) (best_asks asks)))) b)"

end
