(* ===== verification/KrakenBookLaws.thy ===== *)
theory KrakenBookLaws
  imports KrakenBook
begin

text \<open>
  What a confirmed book is: the invariant every message keeps, the quote a message may return, the maps from
  price to quantity the update refines, and the fail-closed rule after a refused message.
\<close>

subsection \<open>Sides as maps\<close>

definition side_map :: "levels \<Rightarrow> rat \<Rightarrow> rat option" where
  "side_map ls = map_of (map (\<lambda>l. (price l, pvalue (snd l))) ls)"

definition positive :: "levels \<Rightarrow> bool" where
  "positive ls \<longleftrightarrow> (\<forall>l \<in> set ls. 0 < price l \<and> 0 < pvalue (snd l))"

definition level_set :: "pdec \<times> pdec \<Rightarrow> (rat \<Rightarrow> rat option) \<Rightarrow> rat \<Rightarrow> rat option" where
  "level_set l m = m(price l := if pvalue (snd l) = 0 then None else Some (pvalue (snd l)))"

text \<open>The prices fewer than \<open>n\<close> others beat.\<close>

definition top :: "nat \<Rightarrow> (rat \<Rightarrow> rat \<Rightarrow> bool) \<Rightarrow> (rat \<Rightarrow> rat option) \<Rightarrow> rat \<Rightarrow> rat option" where
  "top n beats m p = (if card {p' \<in> dom m. beats p' p} < n then m p else None)"

lemma side_map_Nil [simp]: "side_map [] = Map.empty"
  by (simp add: side_map_def)

lemma dom_side_map: "dom (side_map ls) = price ` set ls"
  by (force simp: side_map_def dom_map_of_conv_image_fst)

lemma store_level_prices:
  "map price (store_level p q ls) = map price ls @ (if pvalue p \<in> price ` set ls then [] else [pvalue p])"
  by (induction p q ls rule: store_level.induct) (auto simp: price_def)

lemma store_level_set: "l \<in> set (store_level p q ls) \<Longrightarrow> l \<in> set ls \<or> price l = pvalue p \<and> snd l = q"
  by (induction p q ls rule: store_level.induct) (auto simp: price_def split: if_splits)

lemma side_map_store: "side_map (store_level p q ls) = (side_map ls)(pvalue p \<mapsto> pvalue q)"
  by (induction p q ls rule: store_level.induct) (auto simp: side_map_def price_def)

lemma side_map_drop: "side_map (drop_level p ls) = (side_map ls)(pvalue p := None)"
  by (induction ls) (auto simp: side_map_def drop_level_def price_def fun_eq_iff)

lemma side_map_set_level: "side_map (set_level l ls) = level_set l (side_map ls)"
  by (auto simp: set_level_def level_set_def side_map_store side_map_drop price_def)

lemma side_map_updates: "side_map (fold set_level us ls) = fold level_set us (side_map ls)"
  by (induction us arbitrary: ls) (simp_all add: side_map_set_level)

lemma set_level_distinct: "distinct (map price ls) \<Longrightarrow> distinct (map price (set_level l ls))"
  by (auto simp: set_level_def store_level_prices drop_level_def distinct_map_filter)

lemma set_level_positive:
  "positive ls \<Longrightarrow> 0 < price l \<Longrightarrow> 0 \<le> pvalue (snd l) \<Longrightarrow> positive (set_level l ls)"
  by (auto simp: positive_def set_level_def drop_level_def price_def dest!: store_level_set)

definition updates_ok :: "(pdec \<times> pdec) list \<Rightarrow> bool" where
  "updates_ok us \<longleftrightarrow> (\<forall>l \<in> set us. 0 < price l \<and> 0 \<le> pvalue (snd l))"

lemma updates_keep:
  "updates_ok us \<Longrightarrow> positive ls \<Longrightarrow> positive (fold set_level us ls)"
  "distinct (map price ls) \<Longrightarrow> distinct (map price (fold set_level us ls))"
  by (induction us arbitrary: ls) (simp_all add: updates_ok_def set_level_positive set_level_distinct)

subsection \<open>The best ten\<close>

lemma rank_in_sorted:
  assumes "sorted_wrt R ps" "\<And>x y. R x y \<Longrightarrow> \<not> R y x" "i < length ps"
  shows "card {p \<in> set ps. R p (ps ! i)} = i"
proof -
  have irrefl: "\<not> R x x" for x using assms(2) by blast
  have "distinct ps"
    using assms(1) irrefl by (metis distinct_conv_nth linorder_neqE_nat sorted_wrt_nth_less)
  moreover have "{p \<in> set ps. R p (ps ! i)} = set (take i ps)"
  proof (intro equalityI subsetI)
    fix p
    assume "p \<in> {p \<in> set ps. R p (ps ! i)}"
    then obtain j where j: "j < length ps" "p = ps ! j" "R (ps ! j) (ps ! i)" by (auto simp: in_set_conv_nth)
    have "j < i"
    proof (rule ccontr)
      assume "\<not> j < i"
      then have "j = i \<or> R (ps ! i) (ps ! j)" using sorted_wrt_nth_less [OF assms(1), of i j] j(1) by (auto simp: not_less le_less)
      with j(3) show False using assms(2) irrefl by metis
    qed
    with j show "p \<in> set (take i ps)" by (auto simp: in_set_conv_nth)
  next
    fix p
    assume "p \<in> set (take i ps)"
    then obtain j where "j < i" "p = ps ! j" using assms(3) by (auto simp: in_set_conv_nth)
    then show "p \<in> {p \<in> set ps. R p (ps ! i)}" using assms(3) sorted_wrt_nth_less [OF assms(1), of j i] by auto
  qed
  ultimately show ?thesis using assms(3) by (simp add: distinct_card)
qed

lemma side_map_take:
  assumes "sorted_wrt R (map price ls)" "\<And>x y. R x y \<Longrightarrow> \<not> R y x"
  shows "side_map (take n ls) = top n R (side_map ls)"
proof
  fix p
  have "\<not> R x x" for x using assms(2) by blast
  then have d: "distinct (map price ls)"
    using assms(1) by (metis distinct_conv_nth linorder_neqE_nat sorted_wrt_nth_less)
  show "side_map (take n ls) p = top n R (side_map ls) p"
  proof (cases "p \<in> price ` set ls")
    case False
    then have "p \<notin> dom (side_map (take n ls))" "p \<notin> dom (side_map ls)"
      using set_take_subset [of n ls] by (auto simp: dom_side_map)
    then show ?thesis by (simp add: top_def domIff)
  next
    case True
    then obtain i where i: "i < length ls" "p = map price ls ! i" by (auto simp: in_set_conv_nth image_iff)
    then have rank: "card {p' \<in> dom (side_map ls). R p' p} = i"
      using rank_in_sorted [OF assms(1,2), of i] by (simp add: dom_side_map)
    have whole: "side_map ls p = Some (pvalue (snd (ls ! i)))"
      using i d by (auto simp: side_map_def comp_def intro!: map_of_is_SomeI image_eqI [of _ _ "ls ! i"])
    show ?thesis
    proof (cases "i < n")
      case True
      have "distinct (map price (take n ls))" using d by (simp add: take_map [symmetric])
      then have "side_map (take n ls) p = Some (pvalue (snd (ls ! i)))"
        using i True by (auto simp: side_map_def comp_def in_set_conv_nth intro!: map_of_is_SomeI image_eqI [of _ _ "ls ! i"] exI [of _ i])
      then show ?thesis using rank whole True by (simp add: top_def)
    next
      case False
      have "p \<notin> price ` set (take n ls)"
      proof
        assume "p \<in> price ` set (take n ls)"
        then obtain j where "j < n" "j < length ls" "p = map price ls ! j" by (auto simp: in_set_conv_nth)
        then show False using i d False by (metis distinct_conv_nth length_map)
      qed
      then have "p \<notin> dom (side_map (take n ls))" by (simp only: dom_side_map not_False_eq_True)
      then show ?thesis using rank False by (simp add: top_def domIff)
    qed
  qed
qed

lemma side_map_sort: "distinct (map price ls) \<Longrightarrow> side_map (sort_key f ls) = side_map ls"
proof -
  assume d: "distinct (map price ls)"
  have "mset (map price (sort_key f ls)) = mset (map price ls)" by simp
  then have "distinct (map price (sort_key f ls))" using d mset_eq_imp_distinct_iff by blast
  with d show ?thesis
    unfolding side_map_def by (subst map_of_inject_set) (simp_all add: comp_def)
qed

lemma sort_key_strict: "distinct (map f ls) \<Longrightarrow> sorted_wrt (<) (map f (sort_key f ls))" for f :: "'a \<Rightarrow> rat"
proof -
  assume "distinct (map f ls)"
  moreover have "mset (map f (sort_key f ls)) = mset (map f ls)" by simp
  ultimately have "distinct (map f (sort_key f ls))" using mset_eq_imp_distinct_iff by blast
  then show ?thesis by (simp add: strict_sorted_iff)
qed

definition side_ok :: "(rat \<Rightarrow> rat \<Rightarrow> bool) \<Rightarrow> levels \<Rightarrow> bool" where
  "side_ok R ls \<longleftrightarrow> sorted_wrt R (map price ls) \<and> length ls \<le> 10 \<and> positive ls"

lemma sorted_sides:
  assumes "distinct (map price ls)"
  shows "sorted_wrt (<) (map price (sort_key price ls))" "sorted_wrt (>) (map price (sort_key (\<lambda>l. - price l) ls))"
proof -
  show "sorted_wrt (<) (map price (sort_key price ls))" by (rule sort_key_strict [OF assms])
  have "inj (uminus :: rat \<Rightarrow> rat)" by (simp add: inj_def)
  then have "distinct (map (\<lambda>l. - price l) ls)" using assms
    by (metis (no_types, lifting) comp_apply distinct_map inj_on_subset list.map_comp map_eq_conv subset_UNIV)
  from sort_key_strict [OF this] show "sorted_wrt (>) (map price (sort_key (\<lambda>l. - price l) ls))"
    by (simp add: sorted_wrt_map)
qed

lemma best_sides:
  assumes "distinct (map price ls)" "positive ls"
  shows "side_ok (<) (best_asks ls)" "side_ok (>) (best_bids ls)"
    "side_map (best_asks ls) = top 10 (<) (side_map ls)" "side_map (best_bids ls) = top 10 (>) (side_map ls)"
proof -
  note s = sorted_sides [OF assms(1)]
  show "side_ok (<) (best_asks ls)" "side_ok (>) (best_bids ls)"
    using s assms(2) by (auto simp: side_ok_def best_asks_def best_bids_def positive_def take_map [symmetric] sorted_wrt_take dest!: in_set_takeD)
  show "side_map (best_asks ls) = top 10 (<) (side_map ls)" "side_map (best_bids ls) = top 10 (>) (side_map ls)"
    using side_map_take [OF s(1), of 10] side_map_take [OF s(2), of 10] side_map_sort [OF assms(1), of price]
      side_map_sort [OF assms(1), of "\<lambda>l. - price l"]
    by (simp_all add: best_asks_def best_bids_def)
qed

subsection \<open>What a message may do\<close>

definition read_levels :: "json option \<Rightarrow> (pdec \<times> pdec) list res" where
  "read_levels us = (case us of None \<Rightarrow> Inr [] | Some (JArr ls) \<Rightarrow> map_res read_level ls
     | Some _ \<Rightarrow> Inl (ValueError ''book levels must be an ordered array''))"

lemma take_levels_outcome:
  "outcome (take_levels ls side) (\<lambda>side' b'. b' = b \<and> (\<exists>us. map_res read_level ls = Inr us \<and> updates_ok us \<and> side' = fold set_level us side))
     (\<lambda>b'. b' = b \<or> b' = invalidate ''invalid_book_level'' b) b"
proof (induction ls arbitrary: side)
  case Nil
  show ?case by (simp add: outcome_def updates_ok_def)
next
  case (Cons l ls)
  show ?case
  proof (cases "read_level l")
    case (Inl e)
    then show ?thesis by (simp add: outcome_def)
  next
    case (Inr u)
    obtain p q where u: "u = (p, q)" by (cases u)
    show ?thesis
    proof (cases "pvalue p \<le> 0 \<or> pvalue q < 0")
      case True
      then show ?thesis using Inr u by (simp add: outcome_def)
    next
      case False
      have "outcome (take_levels (l # ls) side) Q E b = outcome (take_levels ls (set_level (p, q) side)) Q E b" for Q E
        using Inr u False by (simp add: outcome_def)
      then show ?thesis
        using Cons.IH [of "set_level (p, q) side"] Inr u False
        by (auto elim!: outcome_mono simp: updates_ok_def price_def not_le not_less)
    qed
  qed
qed

lemma take_updates_outcome:
  "outcome (take_updates us side) (\<lambda>side' b'. b' = b \<and> (\<exists>ls. read_levels us = Inr ls \<and> updates_ok ls \<and> side' = fold set_level ls side))
     (\<lambda>b'. b' = b \<or> b' = invalidate ''invalid_book_level'' b) b"
proof (cases us)
  case None
  then show ?thesis by (simp add: take_updates_def read_levels_def outcome_def updates_ok_def)
next
  case (Some v)
  then show ?thesis
    using take_levels_outcome [of _ side b]
    by (cases v) (simp_all add: outcome_def take_updates_def read_levels_def)
qed

lemma mk_book_quote_Inr: "mk_book_quote q = Inr q' \<longleftrightarrow> q' = q \<and> 0 < pvalue (bq_bid q) \<and> 0 < pvalue (bq_ask q)
    \<and> 0 < pvalue (bq_bid_size q) \<and> 0 < pvalue (bq_ask_size q)"
  by (auto simp: mk_book_quote_def)

text \<open>A message accepted: what it read, and the state and quote it leads to.\<close>

definition accepts :: "(string, json) dict \<Rightarrow> string \<Rightarrow> int \<Rightarrow> book \<Rightarrow> (pdec \<times> pdec) list \<Rightarrow> (pdec \<times> pdec) list \<Rightarrow> bool" where
  "accepts row kind ns b ub ua \<longleftrightarrow> (kind = ''snapshot'' \<or> kind = ''update'' \<and> bk_valid b)
     \<and> read_levels (map_of row ''bids'') = Inr ub \<and> updates_ok ub \<and> read_levels (map_of row ''asks'') = Inr ua \<and> updates_ok ua"

definition new_bids :: "string \<Rightarrow> book \<Rightarrow> (pdec \<times> pdec) list \<Rightarrow> levels" where
  "new_bids kind b us = best_bids (fold set_level us (if kind = ''snapshot'' then [] else bk_bids b))"

definition new_asks :: "string \<Rightarrow> book \<Rightarrow> (pdec \<times> pdec) list \<Rightarrow> levels" where
  "new_asks kind b us = best_asks (fold set_level us (if kind = ''snapshot'' then [] else bk_asks b))"

definition accepted :: "(string, json) dict \<Rightarrow> string \<Rightarrow> int \<Rightarrow> book \<Rightarrow> book_quote option res \<Rightarrow> book \<Rightarrow> bool" where
  "accepted row kind ns b r b' \<longleftrightarrow> (\<exists>ub ua expected. accepts row kind ns b ub ua
     \<and> map_of row ''checksum'' = Some (JInt expected) \<and> checksum (new_bids kind b ub) (new_asks kind b ua) = expected
     \<and> \<not> crossed (new_bids kind b ub) (new_asks kind b ua) \<and> (\<forall>n. bk_last_ns b = Some n \<longrightarrow> n \<le> ns)
     \<and> b' = install (new_bids kind b ub) (new_asks kind b ua) ns (b\<lparr>bk_checks := bk_checks b + 1\<rparr>)
     \<and> r = map_sum id Some (mk_book_quote (quote_of b' (best (new_bids kind b ub) (new_asks kind b ua)) ns expected expected)))"

definition refused :: "book \<Rightarrow> book_quote option res \<Rightarrow> book \<Rightarrow> bool" where
  "refused b r b' \<longleftrightarrow> r = Inr None \<and> \<not> bk_valid b \<and> b' = b\<lparr>bk_reason := ''update_before_valid_snapshot''\<rparr>
     \<or> (\<exists>why b0. (r = Inr None \<or> (\<exists>e. r = Inl e)) \<and> b' = invalidate why b0)
     \<or> (\<exists>e. r = Inl e \<and> b' = b)"

lemma settle_book_cases:
  obtains (invalid) why b0 where "settle_book expected ns bids asks b = (Inr None, invalidate why b0)"
  | (ok) "checksum bids asks = expected" "\<not> crossed bids asks" "\<forall>n. bk_last_ns b = Some n \<longrightarrow> n \<le> ns"
      "settle_book expected ns bids asks b = (let b' = install bids asks ns (b\<lparr>bk_checks := bk_checks b + 1\<rparr>) in
         (map_sum id Some (mk_book_quote (quote_of b' (best bids asks) ns expected expected)), b'))"
proof (cases "checksum bids asks = expected \<and> \<not> crossed bids asks \<and> (\<forall>n. bk_last_ns b = Some n \<longrightarrow> n \<le> ns)")
  case True
  then show ?thesis by (intro ok) (auto simp: settle_book_def Let_def split: option.splits)
next
  case False
  show ?thesis
  proof (rule invalid)
    show "settle_book expected ns bids asks b = (Inr None, invalidate
        (if checksum bids asks \<noteq> expected then ''checksum_mismatch''
         else if crossed bids asks then ''empty_locked_or_crossed_book'' else ''provider_book_timestamp_regression'')
        (if checksum bids asks \<noteq> expected \<or> \<not> crossed bids asks
         then b\<lparr>bk_checks := bk_checks b + 1, bk_failures := bk_failures b + 1\<rparr> else b\<lparr>bk_checks := bk_checks b + 1\<rparr>))"
      using False by (auto simp: settle_book_def Let_def not_le split: option.splits)
  qed
qed

lemma apply_book_cases:
  assumes "apply_book row kind ns b = (r, b')"
  obtains (refused) "refused b r b'" | (accepted) "accepted row kind ns b r b'"
proof (cases "(kind = ''snapshot'' \<or> kind = ''update'') \<and> (kind = ''update'' \<longrightarrow> bk_valid b)")
  case False
  then have "refused b r b'"
    using assms by (auto simp: apply_book_def refused_def split: if_splits)
  then show ?thesis by (rule refused)
next
  case True
  let ?B = "if kind = ''snapshot'' then [] else bk_bids b"
  let ?A = "if kind = ''snapshot'' then [] else bk_asks b"
  have run: "bind_st (take_updates (map_of row ''bids'') ?B) (\<lambda>bids.
      bind_st (take_updates (map_of row ''asks'') ?A) (\<lambda>asks.
      bind_st (lift_st (read_checksum row)) (\<lambda>expected. settle_book expected ns (best_bids bids) (best_asks asks)))) b = (r, b')"
    using assms True by (auto simp: apply_book_def)
  obtain r1 b1 where one: "take_updates (map_of row ''bids'') ?B b = (r1, b1)" by (cases "take_updates (map_of row ''bids'') ?B b")
  show ?thesis
  proof (cases r1)
    case (Inl e)
    then have "(r, b') = (Inl e, b1)" "b1 = b \<or> b1 = invalidate ''invalid_book_level'' b"
      using run one take_updates_outcome [of "map_of row ''bids''" ?B b] by (auto simp: outcome_def)
    then have "refused b r b'" by (auto simp: refused_def)
    then show ?thesis by (rule refused)
  next
    case (Inr bids)
    then obtain ub where b1: "b1 = b" and ub: "read_levels (map_of row ''bids'') = Inr ub" "updates_ok ub" "bids = fold set_level ub ?B"
      using one take_updates_outcome [of "map_of row ''bids''" ?B b] by (auto simp: outcome_def)
    obtain r2 b2 where two: "take_updates (map_of row ''asks'') ?A b = (r2, b2)" by (cases "take_updates (map_of row ''asks'') ?A b")
    show ?thesis
    proof (cases r2)
      case (Inl e)
      then have "(r, b') = (Inl e, b2)" "b2 = b \<or> b2 = invalidate ''invalid_book_level'' b"
        using run one two Inr b1 take_updates_outcome [of "map_of row ''asks''" ?A b] by (auto simp: outcome_def)
      then have "refused b r b'" by (auto simp: refused_def)
      then show ?thesis by (rule refused)
    next
      case (Inr asks)
      then obtain ua where b2: "b2 = b" and ua: "read_levels (map_of row ''asks'') = Inr ua" "updates_ok ua" "asks = fold set_level ua ?A"
        using two take_updates_outcome [of "map_of row ''asks''" ?A b] by (auto simp: outcome_def)
      show ?thesis
      proof (cases "read_checksum row")
        case (Inl e)
        then have "refused b r b'" using run one two \<open>r1 = Inr bids\<close> Inr b1 b2 by (auto simp: refused_def lift_st_def)
        then show ?thesis by (rule refused)
      next
        case (Inr expected)
        then have row: "map_of row ''checksum'' = Some (JInt expected)"
          by (auto simp: read_checksum_def book_field_def split: option.splits json.splits)
        have "settle_book expected ns (new_bids kind b ub) (new_asks kind b ua) b = (r, b')"
          using run one two \<open>r1 = Inr bids\<close> \<open>r2 = Inr asks\<close> Inr b1 b2 ub(3) ua(3)
          by (simp add: lift_st_def new_bids_def new_asks_def)
        then show ?thesis
        proof (cases rule: settle_book_cases [of expected ns "new_bids kind b ub" "new_asks kind b ua" b])
          case invalid
          then have "refused b r b'" using \<open>settle_book _ _ _ _ b = (r, b')\<close> by (auto simp: refused_def)
          then show ?thesis by (rule refused)
        next
          case ok
          have "accepts row kind ns b ub ua" using True ub ua by (auto simp: accepts_def)
          then have "accepted row kind ns b r b'"
            using ok row \<open>settle_book _ _ _ _ b = (r, b')\<close> unfolding accepted_def Let_def by auto
          then show ?thesis by (rule accepted)
        qed
      qed
    qed
  qed
qed

subsection \<open>The invariant\<close>

definition book_ok :: "book \<Rightarrow> bool" where
  "book_ok b \<longleftrightarrow>
     (if bk_valid b
      then side_ok (>) (bk_bids b) \<and> side_ok (<) (bk_asks b) \<and> \<not> crossed (bk_bids b) (bk_asks b)
        \<and> bk_bbo b = Some (best (bk_bids b) (bk_asks b))
        \<and> (\<exists>n. bk_last_ns b = Some n \<and> st_bid (bk_price_ns b) \<le> n \<and> st_ask (bk_price_ns b) \<le> n
              \<and> st_bid (bk_size_ns b) \<le> n \<and> st_ask (bk_size_ns b) \<le> n)
      else bk_bids b = [] \<and> bk_asks b = [] \<and> bk_last_ns b = None \<and> bk_bbo b = None)"

definition book_step :: "book \<Rightarrow> book \<Rightarrow> bool" where
  "book_step b b' \<longleftrightarrow> (\<exists>row kind ns. b' = snd (apply_book row kind ns b)) \<or> (\<exists>why. b' = invalidate why b)"

lemma book_ok_invalidate [simp]: "book_ok (invalidate why b)" "\<not> bk_valid (invalidate why b)"
  by (simp_all add: book_ok_def invalidate_def)

lemma sorted_wrt_distinct: "sorted_wrt R xs \<Longrightarrow> (\<And>x. \<not> R x x) \<Longrightarrow> distinct xs"
  by (metis distinct_conv_nth linorder_neqE_nat sorted_wrt_nth_less)

lemma book_ok_sides:
  assumes "book_ok b"
  shows "distinct (map price (bk_bids b))" "positive (bk_bids b)" "distinct (map price (bk_asks b))" "positive (bk_asks b)"
  using assms sorted_wrt_distinct [of "(>)" "map price (bk_bids b)"] sorted_wrt_distinct [of "(<)" "map price (bk_asks b)"]
  by (cases "bk_valid b"; simp add: book_ok_def side_ok_def positive_def)+

lemma new_sides:
  assumes "book_ok b" "updates_ok us"
  shows "side_ok (>) (new_bids kind b us)" "side_ok (<) (new_asks kind b us)"
    "side_map (new_bids kind b us) = top 10 (>) (fold level_set us (if kind = ''snapshot'' then Map.empty else side_map (bk_bids b)))"
    "side_map (new_asks kind b us) = top 10 (<) (fold level_set us (if kind = ''snapshot'' then Map.empty else side_map (bk_asks b)))"
proof -
  note s = book_ok_sides [OF assms(1)]
  let ?B = "if kind = ''snapshot'' then [] else bk_bids b"
  let ?A = "if kind = ''snapshot'' then [] else bk_asks b"
  have "distinct (map price ?B)" "positive ?B" "distinct (map price ?A)" "positive ?A"
    using s by (simp_all add: positive_def)
  then have B: "distinct (map price (fold set_level us ?B))" "positive (fold set_level us ?B)"
    and A: "distinct (map price (fold set_level us ?A))" "positive (fold set_level us ?A)"
    by (blast intro: updates_keep(2) updates_keep(1) [OF assms(2)])+
  show "side_ok (>) (new_bids kind b us)" "side_ok (<) (new_asks kind b us)"
    unfolding new_bids_def new_asks_def by (rule best_sides(2) [OF B] best_sides(1) [OF A])+
  show "side_map (new_bids kind b us) = top 10 (>) (fold level_set us (if kind = ''snapshot'' then Map.empty else side_map (bk_bids b)))"
    "side_map (new_asks kind b us) = top 10 (<) (fold level_set us (if kind = ''snapshot'' then Map.empty else side_map (bk_asks b)))"
    unfolding new_bids_def new_asks_def best_sides(4) [OF B] best_sides(3) [OF A] side_map_updates by simp_all
qed

lemma stamp_le:
  "(\<forall>n. old_last = Some n \<longrightarrow> n \<le> ns) \<Longrightarrow> (old = None \<or> (\<exists>n. old_last = Some n \<and> st_bid t \<le> n \<and> st_ask t \<le> n))
     \<Longrightarrow> st_bid (stamp bid ask old new ns t) \<le> ns \<and> st_ask (stamp bid ask old new ns t) \<le> ns"
  by (auto simp: stamp_def changed_def)

lemma install_ok:
  assumes "book_ok b" "side_ok (>) bids" "side_ok (<) asks" "\<not> crossed bids asks" "\<forall>n. bk_last_ns b = Some n \<longrightarrow> n \<le> ns"
  shows "book_ok (install bids asks ns (b\<lparr>bk_checks := c\<rparr>))"
proof -
  have "bk_bbo b = None \<or> (\<exists>n. bk_last_ns b = Some n \<and> st_bid (bk_price_ns b) \<le> n \<and> st_ask (bk_price_ns b) \<le> n)"
    "bk_bbo b = None \<or> (\<exists>n. bk_last_ns b = Some n \<and> st_bid (bk_size_ns b) \<le> n \<and> st_ask (bk_size_ns b) \<le> n)"
    using assms(1) by (auto simp: book_ok_def split: if_splits)
  note t = stamp_le [OF assms(5) this(1)] stamp_le [OF assms(5) this(2)]
  show ?thesis using assms(2-4) t by (simp add: install_def book_ok_def Let_def)
qed

lemma apply_book_ok: "book_ok b \<Longrightarrow> apply_book row kind ns b = (r, b') \<Longrightarrow> book_ok b'"
  by (erule apply_book_cases)
    (auto simp: refused_def accepted_def accepts_def new_sides intro!: install_ok, auto simp: book_ok_def)

interpretation book: machine "\<lambda>b. b = new_book" book_step book_ok
proof
  fix b b'
  assume "book_ok b" "book_step b b'"
  then show "book_ok b'" by (auto simp: book_step_def) (metis apply_book_ok prod.collapse)
qed (simp add: book_ok_def new_book_def)

lemma map_sum_Some: "Inr (Some q) = map_sum id Some x \<longleftrightarrow> x = Inr q"
  by (cases x) auto

lemma accepted_quote:
  assumes "book_ok b" "accepted row kind ns b r b'"
  shows "\<exists>q. r = Inr (Some q) \<and> mk_book_quote q = Inr q"
proof -
  obtain ub ua expected where a: "accepts row kind ns b ub ua" "\<not> crossed (new_bids kind b ub) (new_asks kind b ua)"
    and r: "r = map_sum id Some (mk_book_quote (quote_of b' (best (new_bids kind b ub) (new_asks kind b ua)) ns expected expected))"
    using assms(2) by (auto simp: accepted_def)
  have "side_ok (>) (new_bids kind b ub)" "side_ok (<) (new_asks kind b ua)"
    using a(1) new_sides [OF assms(1)] by (auto simp: accepts_def)
  then have "0 < price (hd (new_bids kind b ub)) \<and> 0 < pvalue (snd (hd (new_bids kind b ub)))
      \<and> 0 < price (hd (new_asks kind b ua)) \<and> 0 < pvalue (snd (hd (new_asks kind b ua)))"
    using a(2) by (auto simp: side_ok_def positive_def crossed_def)
  then have "mk_book_quote (quote_of b' (best (new_bids kind b ub) (new_asks kind b ua)) ns expected expected)
      = Inr (quote_of b' (best (new_bids kind b ub) (new_asks kind b ua)) ns expected expected)"
    by (simp add: mk_book_quote_Inr quote_of_def best_def price_def)
  then show ?thesis using r by auto
qed

subsection \<open>A snapshot\<close>

definition demo_level :: "string \<Rightarrow> string \<Rightarrow> json" where
  "demo_level p q = JObj [(''price'', JStr p), (''qty'', JStr q)]"

definition demo_snapshot :: "(string, json) dict" where
  "demo_snapshot = [(''bids'', JArr [demo_level ''99.5'' ''2'']), (''asks'', JArr [demo_level ''100.0'' ''1'']),
     (''checksum'', JInt 2796116617)]"

definition demo_bid :: "pdec \<times> pdec" where
  "demo_bid = (\<lparr>coef = 995, expo = - 1\<rparr>, \<lparr>coef = 2, expo = 0\<rparr>)"

definition demo_ask :: "pdec \<times> pdec" where
  "demo_ask = (\<lparr>coef = 1000, expo = - 1\<rparr>, \<lparr>coef = 1, expo = 0\<rparr>)"

lemma demo_levels: "read_level (demo_level ''99.5'' ''2'') = Inr demo_bid" "read_level (demo_level ''100.0'' ''1'') = Inr demo_ask"
  by code_simp+

lemma demo_values: "pvalue (fst demo_bid) = 995 / 10" "pvalue (snd demo_bid) = 2" "pvalue (fst demo_ask) = 100" "pvalue (snd demo_ask) = 1"
  by (simp_all add: demo_bid_def demo_ask_def pvalue_def power_int_def)

lemma demo_checksum: "checksum [demo_bid] [demo_ask] = 2796116617"
proof -
  have "level_text (fst demo_bid) = ''995''" "level_text (snd demo_bid) = ''2''"
    "level_text (fst demo_ask) = ''1000''" "level_text (snd demo_ask) = ''1''" by code_simp+
  then have "checksum_text [demo_bid] [demo_ask] = ''100019952''"
    by (simp add: checksum_text_def best_asks_def best_bids_def case_prod_unfold)
  then show ?thesis by (simp add: checksum_def crc_eval)
qed

lemma demo_sides: "best_bids [demo_bid] = [demo_bid]" "best_asks [demo_ask] = [demo_ask]" "\<not> crossed [demo_bid] [demo_ask]"
  "set_level demo_bid [] = [demo_bid]" "set_level demo_ask [] = [demo_ask]"
  using demo_values by (simp_all add: best_bids_def best_asks_def crossed_def price_def set_level_def)

lemma take_one_level: "read_level l = Inr u \<Longrightarrow> 0 < price u \<Longrightarrow> 0 \<le> pvalue (snd u) \<Longrightarrow> take_levels [l] side b = (Inr (set_level u side), b)"
  by (cases u) (simp add: price_def)

lemma demo_accepted: "\<exists>q. apply_book demo_snapshot ''snapshot'' 7 new_book = (Inr (Some q), install [demo_bid] [demo_ask] 7 (new_book\<lparr>bk_checks := 1\<rparr>))
   \<and> bq_bid q = fst demo_bid \<and> bq_ask q = fst demo_ask"
proof -
  have "take_levels [demo_level ''99.5'' ''2''] [] new_book = (Inr [demo_bid], new_book)"
    "take_levels [demo_level ''100.0'' ''1''] [] new_book = (Inr [demo_ask], new_book)"
    using demo_values take_one_level [OF demo_levels(1)] take_one_level [OF demo_levels(2)]
    by (simp_all add: demo_sides price_def del: take_levels.simps)
  moreover have "read_checksum demo_snapshot = Inr 2796116617" by code_simp
  ultimately show ?thesis
    using demo_values by (simp add: apply_book_def demo_snapshot_def take_updates_def lift_st_def demo_sides settle_book_def Let_def
        demo_checksum mk_book_quote_def quote_of_def best_def new_book_def)
qed

subsection \<open>Properties\<close>

text \<open>C28 Whatever messages and invalidations a book has seen, it is either invalid and empty, or holds one to ten
  levels a side with positive prices and sizes, bids strictly falling, asks strictly rising, the best bid below the
  best ask, its remembered best prices those of the two sides, and no change time after its last provider time.\<close>

theorem book_always_ok:
  assumes "book_step\<^sup>*\<^sup>* new_book b"
  shows "book_ok b"
  by (rule book.inv_reachable [OF refl assms])

theorem book_always_ok_witness:
  "\<exists>b. bk_valid b \<and> book_ok b \<and> bk_bids b = [demo_bid]"
proof -
  obtain q where "apply_book demo_snapshot ''snapshot'' 7 new_book = (Inr (Some q), install [demo_bid] [demo_ask] 7 (new_book\<lparr>bk_checks := 1\<rparr>))"
    using demo_accepted by blast
  then have "book_step new_book (install [demo_bid] [demo_ask] 7 (new_book\<lparr>bk_checks := 1\<rparr>))"
    unfolding book_step_def by (metis snd_conv)
  then have "book_ok (install [demo_bid] [demo_ask] 7 (new_book\<lparr>bk_checks := 1\<rparr>))"
    by (intro book_always_ok r_into_rtranclp)
  then show ?thesis by (auto simp: install_def Let_def intro: exI [of _ "install [demo_bid] [demo_ask] 7 (new_book\<lparr>bk_checks := 1\<rparr>)"])
qed

text \<open>C29 A quote is the proved top of the book: when a message to a sound book returns a quote, the message's own
  checksum is the checksum of the levels now stored, the quote's prices and sizes are positive and belong to the first
  level of each side, every other stored bid is lower and every other stored ask higher, and the change times it
  reports are not after the message's provider time.\<close>

theorem quote_is_proved_top:
  assumes "book_ok b" and "apply_book row kind ns b = (Inr (Some q), b')"
  shows "map_of row ''checksum'' = Some (JInt (bq_expected q)) \<and> bq_expected q = bq_computed q
    \<and> bq_computed q = checksum (bk_bids b') (bk_asks b') \<and> bk_valid b'
    \<and> bk_bids b' = (bq_bid q, bq_bid_size q) # tl (bk_bids b') \<and> bk_asks b' = (bq_ask q, bq_ask_size q) # tl (bk_asks b')
    \<and> list_all (\<lambda>l. price l < pvalue (bq_bid q)) (tl (bk_bids b')) \<and> list_all (\<lambda>l. pvalue (bq_ask q) < price l) (tl (bk_asks b'))
    \<and> pvalue (bq_bid q) < pvalue (bq_ask q) \<and> 0 < pvalue (bq_bid q) \<and> 0 < pvalue (bq_bid_size q) \<and> 0 < pvalue (bq_ask_size q)
    \<and> bq_update_ns q = ns \<and> bq_bid_price_ns q \<le> ns \<and> bq_ask_price_ns q \<le> ns \<and> bq_bid_size_ns q \<le> ns \<and> bq_ask_size_ns q \<le> ns"
  using assms(2)
proof (cases rule: apply_book_cases)
  case accepted
  have ok: "book_ok b'" by (rule apply_book_ok [OF assms])
  obtain bids asks b0 expected where b': "b' = install bids asks ns b0" and nc: "\<not> crossed bids asks"
    and cs: "map_of row ''checksum'' = Some (JInt expected)" "checksum bids asks = expected"
    and q: "mk_book_quote (quote_of b' (best bids asks) ns expected expected) = Inr q"
    using accepted unfolding accepted_def map_sum_Some by metis
  have st: "bk_bids b' = bids" "bk_asks b' = asks" "bk_valid b'" "bk_last_ns b' = Some ns"
    by (simp_all add: b' install_def Let_def)
  obtain l ls m ms where s: "bids = l # ls" "asks = m # ms" using nc by (auto simp: crossed_def neq_Nil_conv)
  have "q = quote_of b' (best bids asks) ns expected expected" using q by (simp add: mk_book_quote_Inr)
  then show ?thesis using ok cs st s nc q
    by (auto simp: book_ok_def side_ok_def positive_def quote_of_def best_def price_def crossed_def mk_book_quote_Inr list_all_iff)
qed (simp add: refused_def)

theorem quote_is_proved_top_witness:
  "\<exists>q. fst (apply_book demo_snapshot ''snapshot'' 7 new_book) = Inr (Some q) \<and> bq_computed q = 2796116617
     \<and> pvalue (bq_bid q) < pvalue (bq_ask q)"
proof -
  obtain q b' where a: "apply_book demo_snapshot ''snapshot'' 7 new_book = (Inr (Some q), b')" using demo_accepted by blast
  have "book_ok new_book" by (simp add: book_ok_def new_book_def)
  from quote_is_proved_top [OF this a] show ?thesis
    using a by (auto simp: demo_snapshot_def)
qed

text \<open>C30 The stored sides refine a full-depth map from price to quantity: a message that returns a quote leaves, on
  each side, exactly the ten best prices of the previous map (the empty one for a snapshot) after its levels are
  written in order, a zero quantity removing a price.\<close>

theorem update_refines_map:
  assumes "book_ok b" and "apply_book row kind ns b = (Inr (Some q), b')"
  shows "\<exists>ub ua. read_levels (map_of row ''bids'') = Inr ub \<and> read_levels (map_of row ''asks'') = Inr ua
    \<and> side_map (bk_bids b') = top 10 (>) (fold level_set ub (if kind = ''snapshot'' then Map.empty else side_map (bk_bids b)))
    \<and> side_map (bk_asks b') = top 10 (<) (fold level_set ua (if kind = ''snapshot'' then Map.empty else side_map (bk_asks b)))"
  using assms(2)
proof (cases rule: apply_book_cases)
  case accepted
  then obtain ub ua where a: "accepts row kind ns b ub ua"
    and b': "bk_bids b' = new_bids kind b ub" "bk_asks b' = new_asks kind b ua"
    by (auto simp: accepted_def install_def Let_def)
  then show ?thesis
    using new_sides(3) [OF assms(1), of ub kind] new_sides(4) [OF assms(1), of ua kind] by (auto simp: accepts_def)
qed (simp add: refused_def)

theorem update_refines_map_witness:
  "\<exists>b'. (\<exists>q. apply_book demo_snapshot ''snapshot'' 7 new_book = (Inr (Some q), b'))
     \<and> side_map (bk_bids b') = top 10 (>) (level_set demo_bid Map.empty)"
proof -
  obtain q b' where a: "apply_book demo_snapshot ''snapshot'' 7 new_book = (Inr (Some q), b')" using demo_accepted by blast
  have "book_ok new_book" by (simp add: book_ok_def new_book_def)
  from update_refines_map [OF this a] show ?thesis
    using a by (auto simp: demo_snapshot_def read_levels_def demo_levels intro!: exI [of _ b'])
qed

text \<open>The book fails closed: a message to a sound book that returns no quote leaves it empty and invalid, and from
  there updates return nothing, whatever they hold, until a snapshot is accepted.\<close>

theorem refusal_needs_snapshot:
  assumes "apply_book row kind ns b = (Inr None, b')" and "book_ok b"
  shows "\<not> bk_valid b' \<and> bk_bids b' = [] \<and> bk_asks b' = [] \<and> fst (apply_book row' ''update'' ns' b') = Inr None
    \<and> \<not> bk_valid (snd (apply_book row' ''update'' ns' b'))"
proof -
  have "\<not> bk_valid b'"
    using assms(1)
  proof (cases rule: apply_book_cases)
    case accepted
    from accepted_quote [OF assms(2) accepted] show ?thesis by auto
  qed (auto simp: refused_def)
  moreover have "book_ok b'" by (rule apply_book_ok [OF assms(2,1)])
  ultimately show ?thesis by (auto simp: book_ok_def apply_book_def)
qed

theorem refusal_needs_snapshot_witness:
  "apply_book [] ''update'' 5 new_book = (Inr None, new_book\<lparr>bk_reason := ''update_before_valid_snapshot''\<rparr>)
    \<and> fst (apply_book demo_snapshot ''update'' 9 (new_book\<lparr>bk_reason := ''update_before_valid_snapshot''\<rparr>)) = Inr None"
proof -
  have a: "apply_book [] ''update'' 5 new_book = (Inr None, new_book\<lparr>bk_reason := ''update_before_valid_snapshot''\<rparr>)"
    by (simp add: apply_book_def new_book_def)
  have "book_ok new_book" by (simp add: book_ok_def new_book_def)
  from refusal_needs_snapshot [OF a this] a show ?thesis by blast
qed

end
