(* ===== verification/Portfolio.thy ===== *)
theory Portfolio
  imports Engine Universe
begin

text \<open>
  \<^verbatim>\<open>portfolio.py\<close>: the synchronized multi-asset engine. Its object has the fields of the single-asset
  engine, so it is the same state here, with the same calls on broker, risk gate and ledger; every ledger
  write, broker call, early continue and raise is a step in the code's order. The digests that name decisions
  and traces are parameters: of the strategy, the symbol, the intent's time and the weight, and of the frame's
  time and symbols. The volatility ratios of the report go through binary floats and are not modelled.
\<close>

record portfolio_naming =
  pn_base :: naming
  pn_digest :: "string \<Rightarrow> string \<Rightarrow> instant \<Rightarrow> dec \<Rightarrow> string"
  pn_frame :: "instant \<Rightarrow> string list \<Rightarrow> string"

definition decision_id :: "portfolio_naming \<Rightarrow> portfolio_intent \<Rightarrow> string \<Rightarrow> string" where
  "decision_id nm i sy = pn_digest nm (pi_strategy i) sy (pi_time i) (weight_of i sy)"

definition frame_trace_id :: "portfolio_naming \<Rightarrow> universe_frame \<Rightarrow> string" where
  "frame_trace_id nm f = pn_frame nm (uf_time f) (map bar_symbol (uf_bars f))"

definition order_id :: "portfolio_naming \<Rightarrow> portfolio_intent \<Rightarrow> string \<Rightarrow> string" where
  "order_id nm i sy = ''ta-'' @ nm_strategy (pn_base nm) (pi_strategy i) @ '':'' @ decision_id nm i sy @ '':1''"

subsection \<open>One bar of a frame\<close>

definition target_quantity :: "intraday_config \<Rightarrow> dec \<Rightarrow> dec \<Rightarrow> dec \<Rightarrow> dec res" where
  "target_quantity c equity weight close =
     (let notional = dmul equity weight in
      if intraday_enabled c \<and> weight > 0
      then (let capped = min notional (maximum_order_notional c);
                floored = (if capped < minimum_order_notional c then 0 else capped) in
            bind_res (ddiv floored close) (quantize round_down 6))
      else bind_res (ddiv notional close) (\<lambda>x. Inr (to_integral round_down x)))"

definition too_small :: "intraday_config \<Rightarrow> dec \<Rightarrow> dec \<Rightarrow> dec \<Rightarrow> bool" where
  "too_small c target difference close \<longleftrightarrow>
     intraday_enabled c \<and> target > 0 \<and> dmul (dabs difference) close < minimum_order_notional c"

definition target_order :: "portfolio_naming \<Rightarrow> portfolio_intent \<Rightarrow> universe_frame \<Rightarrow> market_bar \<Rightarrow> dec \<Rightarrow> order_request res" where
  "target_order nm i f bar difference =
     mk_order_request (order_id nm i (bar_symbol bar)) (decision_id nm i (bar_symbol bar)) (pi_strategy i) (bar_symbol bar)
       (if difference > 0 then BUY else SELL) (dabs difference) MARKET (uf_time f)"

definition place_order ::
  "portfolio_naming \<Rightarrow> universe_frame \<Rightarrow> market_bar \<Rightarrow> string \<Rightarrow> order_request \<Rightarrow> account_snapshot \<Rightarrow> ('s engine, unit) routine" where
  "place_order nm f bar trace r a =
     bind_st count_order (\<lambda>_.
     bind_st (\<lambda>e. on_risk (evaluate r bar a (uf_time f) (trading_enabled (en_config e))) e) (\<lambda>d.
     bind_st (log_at (pn_base nm) ''risk_decision'' (DecisionPayload d) (uf_time f) trace) (\<lambda>_.
     if \<not> rd_approved d then count_rejection
     else bind_st (log_at (pn_base nm) ''order_submitted'' (OrderPayload r) (uf_time f) trace) (\<lambda>_.
          bind_st (on_broker (submit (nm_fill (pn_base nm)) r bar)) (\<lambda>fl.
          log_at (pn_base nm) ''order_filled'' (FillPayload fl) (uf_time f) trace)))))"

definition rebalance ::
  "portfolio_naming \<Rightarrow> universe_frame \<Rightarrow> portfolio_intent \<Rightarrow> market_bar \<Rightarrow> ('s engine, unit) routine" where
  "rebalance nm f i bar =
     bind_st (on_broker (account (uf_time f))) (\<lambda>a.
     bind_st (\<lambda>e. lift_st (target_quantity (cfg_intraday (en_config e)) (ac_equity a) (weight_of i (bar_symbol bar)) (bar_close bar)) e) (\<lambda>target.
     (let difference = dsub target (quantity_for a (bar_symbol bar)) in
      if difference = 0 then return_st ()
      else (\<lambda>e. if too_small (cfg_intraday (en_config e)) target difference (bar_close bar) then return_st () e
           else bind_st (lift_st (target_order nm i f bar difference)) (\<lambda>r.
                place_order nm f bar (decision_id nm i (bar_symbol bar)) r a) e))))"

fun rebalance_all ::
  "portfolio_naming \<Rightarrow> universe_frame \<Rightarrow> portfolio_intent \<Rightarrow> market_bar list \<Rightarrow> ('s engine, unit) routine" where
  "rebalance_all nm f i [] = return_st ()"
| "rebalance_all nm f i (b # bs) = bind_st (rebalance nm f i b) (\<lambda>_. rebalance_all nm f i bs)"

definition execute_targets :: "portfolio_naming \<Rightarrow> universe_frame \<Rightarrow> portfolio_intent \<Rightarrow> ('s engine, unit) routine" where
  "execute_targets nm f i =
     bind_st (log_at (pn_base nm) ''portfolio_intent'' (TargetsPayload i) (uf_time f) (frame_trace_id nm f)) (\<lambda>_.
     rebalance_all nm f i (sort_key bar_symbol (uf_bars f)))"

subsection \<open>The run\<close>

type_synonym 's on_frame = "universe_frame \<Rightarrow> ('s, portfolio_intent option) routine"

definition run_symbols :: "universe_frame \<Rightarrow> string list" where
  "run_symbols f = sort (map bar_symbol (uf_bars f))"

definition exposure_ratio :: "account_snapshot \<Rightarrow> dec res" where
  "exposure_ratio a = (if ac_equity a > 0 then ddiv (gross_exposure a) (ac_equity a) else Inr 0)"

definition act_on_frame ::
  "portfolio_naming \<Rightarrow> string list \<Rightarrow> universe_frame \<Rightarrow> portfolio_intent option \<Rightarrow> ('s engine, unit) routine" where
  "act_on_frame nm symbols f intent =
     (case intent of
        None \<Rightarrow> return_st ()
      | Some i \<Rightarrow>
          if list_ex (\<lambda>(sy, w). sy \<notin> set symbols) (pi_weights i)
          then raise_st (ValueError ''intent contains symbols outside the universe'')
          else execute_targets nm f i)"

definition process_frame ::
  "portfolio_naming \<Rightarrow> string \<Rightarrow> 's on_frame \<Rightarrow> string list \<Rightarrow> universe_frame \<Rightarrow> ('s engine, dec \<times> dec) routine" where
  "process_frame nm sid strategy symbols f =
     bind_st (on_broker (\<lambda>b. (Inr (), fold mark (uf_bars f) b))) (\<lambda>_.
     bind_st (on_strategy (strategy f)) (\<lambda>intent.
     bind_st (act_on_frame nm symbols f intent) (\<lambda>_.
     bind_st (\<lambda>e. log_at (pn_base nm) ''portfolio_progress'' (PortfolioProgressPayload (uf_time f) sid (en_fingerprint e))
       (uf_time f) (frame_trace_id nm f) e) (\<lambda>_.
     bind_st (on_broker (account (uf_time f))) (\<lambda>a.
     bind_st (lift_st (exposure_ratio a)) (\<lambda>g.
     return_st (ac_equity a, g)))))))"

fun run_frames ::
  "portfolio_naming \<Rightarrow> string \<Rightarrow> 's on_frame \<Rightarrow> string list \<Rightarrow> universe_frame list \<Rightarrow> ('s engine, (dec \<times> dec) list) routine" where
  "run_frames nm sid strategy symbols [] = return_st []"
| "run_frames nm sid strategy symbols (f # fs) =
     (if run_symbols f \<noteq> symbols then raise_st (ValueError ''portfolio frame symbols changed during the run'')
      else bind_st (process_frame nm sid strategy symbols f) (\<lambda>o1.
           bind_st (run_frames nm sid strategy symbols fs) (\<lambda>os. return_st (o1 # os))))"

definition liquidation_intent :: "string \<Rightarrow> universe_frame \<Rightarrow> portfolio_intent res" where
  "liquidation_intent sid f =
     mk_portfolio_intent sid (uf_time f) (map (\<lambda>b. (bar_symbol b, 0)) (uf_bars f)) ''forced end-of-run liquidation''"

text \<open>The forced liquidation, with the last equity and exposure it reports.\<close>

definition liquidate ::
  "portfolio_naming \<Rightarrow> string \<Rightarrow> universe_frame \<Rightarrow> (dec \<times> dec) list \<Rightarrow> ('s engine, (dec \<times> dec) list) routine" where
  "liquidate nm sid f obs =
     bind_st (on_broker (account (uf_time f))) (\<lambda>a.
     if ac_positions a = [] then return_st obs
     else bind_st (lift_st (liquidation_intent sid f)) (\<lambda>i.
          bind_st (execute_targets nm f i) (\<lambda>_.
          bind_st (on_broker (account (uf_time f))) (\<lambda>a'.
          return_st (butlast obs @ [(ac_equity a', 0)])))))"

record portfolio_report =
  pr_strategy :: string
  pr_symbols :: "string list"
  pr_started_at :: instant
  pr_ended_at :: instant
  pr_starting_equity :: dec
  pr_ending_equity :: dec
  pr_metrics :: decimal_metrics
  pr_average_gross :: dec
  pr_period_returns :: "dec list"
  pr_orders :: nat
  pr_fills :: int
  pr_rejected :: nat
  pr_final_positions :: "position list"

definition periods_per_year :: "intraday_config \<Rightarrow> int" where
  "periods_per_year c = (if intraday_enabled c then 252 * (390 div primary_bar_minutes c) else 252)"

fun period_returns :: "dec list \<Rightarrow> dec list res" where
  "period_returns (x # y # ys) =
     bind_res (ddiv y x) (\<lambda>r. bind_res (period_returns (y # ys)) (\<lambda>rs. Inr (dsub r 1 # rs)))"
| "period_returns _ = Inr []"

definition portfolio_run_report ::
  "string \<Rightarrow> universe_frame \<Rightarrow> universe_frame \<Rightarrow> account_snapshot \<Rightarrow> (dec \<times> dec) list \<Rightarrow> nat \<Rightarrow> dec \<Rightarrow> account_snapshot
     \<Rightarrow> ('s engine, portfolio_report) routine" where
  "portfolio_run_report sid first final a0 obs fills0 traded0 a e =
     (let eqs = ac_equity a0 # map fst obs in
      bind_res (performance_metrics eqs (dsub (traded_notional (en_broker e)) traded0)) (\<lambda>m.
      bind_res (ddiv (dsum (map snd obs)) (of_nat (length obs))) (\<lambda>gross.
      bind_res (period_returns eqs) (\<lambda>rets.
      Inr \<lparr>pr_strategy = sid, pr_symbols = run_symbols first, pr_started_at = uf_time first, pr_ended_at = uf_time final,
        pr_starting_equity = ac_equity a0, pr_ending_equity = ac_equity a, pr_metrics = m, pr_average_gross = gross,
        pr_period_returns = rets, pr_orders = en_orders e, pr_fills = int (fill_count (en_broker e)) - int fills0,
        pr_rejected = en_rejections e, pr_final_positions = ac_positions a\<rparr>))), e)"

definition run_portfolio ::
  "portfolio_naming \<Rightarrow> string \<Rightarrow> 's on_frame \<Rightarrow> universe_frame list \<Rightarrow> ('s engine, portfolio_report) routine" where
  "run_portfolio nm sid strategy frames e0 =
     (if frames = [] then raise_st (ValueError ''at least one universe frame is required'') e0
      else bind_st (on_broker (account (uf_time (hd frames)))) (\<lambda>a0.
           bind_st (run_frames nm sid strategy (run_symbols (hd frames)) frames) (\<lambda>obs0.
           bind_st (liquidate nm sid (last frames) obs0) (\<lambda>obs.
           bind_st (on_broker (account (uf_time (last frames)))) (\<lambda>a.
           bind_st (on_broker (\<lambda>b. (export_state b, b))) (\<lambda>st.
           bind_st (log_at (pn_base nm) ''broker_checkpoint'' (CheckpointPayload st) (uf_time (last frames))
             (frame_trace_id nm (last frames))) (\<lambda>_.
           portfolio_run_report sid (hd frames) (last frames) a0 obs (fill_count (en_broker e0))
             (traded_notional (en_broker e0)) a)))))) e0)"

end
