(* ===== verification/PortfolioLaws.thy ===== *)
theory PortfolioLaws
  imports Portfolio EngineLaws
begin

text \<open>
  The portfolio engine's properties: every fill in the ledger comes right after the approval and the submission
  of its order, with the counters in step, over a whole run; and what the forced liquidation does when the orders
  it would place carry client ids that were filled before.
\<close>

subsection \<open>Backed fills\<close>

definition backed :: "payload ledger_event list \<Rightarrow> nat \<Rightarrow> bool" where
  "backed es k \<longleftrightarrow>
     (case ev_payload (es ! k) of
        Payload (FillPayload f) \<Rightarrow>
          2 \<le> k \<and> (\<exists>d r. ev_payload (es ! (k - 2)) = Payload (DecisionPayload d) \<and> rd_approved d
            \<and> ev_payload (es ! (k - 1)) = Payload (OrderPayload r) \<and> fl_client_id f = or_client_id r)
          \<and> ev_trace (es ! (k - 1)) = ev_trace (es ! k) \<and> ev_trace (es ! (k - 2)) = ev_trace (es ! k)
      | _ \<Rightarrow> True)"

definition all_backed :: "payload ledger_event list \<Rightarrow> bool" where
  "all_backed es \<longleftrightarrow> (\<forall>k < length es. backed es k)"

lemma backed_append: "k < length es \<Longrightarrow> backed (es @ fs) k = backed es k"
proof -
  assume k: "k < length es"
  then have eq: "(es @ fs) ! (k - n) = es ! (k - n)" "(es @ fs) ! k = es ! k" for n
    by (simp_all add: nth_append less_imp_diff_less)
  show ?thesis unfolding backed_def eq by (rule refl)
qed

lemma all_backed_snoc: "all_backed (es @ [ev]) \<longleftrightarrow> all_backed es \<and> backed (es @ [ev]) (length es)"
  by (auto simp: all_backed_def less_Suc_eq backed_append)

lemma all_backed_other: "\<not> is_fill (ev_payload ev) \<Longrightarrow> all_backed (es @ [ev]) \<longleftrightarrow> all_backed es"
  by (auto simp: all_backed_snoc backed_def split: stored.splits payload.splits)

lemma all_backed_fill:
  assumes "all_backed (before @ [ed, eo])" and "ev_payload ed = Payload (DecisionPayload d)" "rd_approved d"
    and "ev_payload eo = Payload (OrderPayload r)" "ev_payload ef = Payload (FillPayload f)" "fl_client_id f = or_client_id r"
    and "ev_trace ed = t" "ev_trace eo = t" "ev_trace ef = t"
  shows "all_backed ((before @ [ed, eo]) @ [ef])"
proof -
  have at: "((before @ [ed, eo]) @ [ef]) ! length (before @ [ed, eo]) = ef"
    "((before @ [ed, eo]) @ [ef]) ! (length (before @ [ed, eo]) - 1) = eo"
    "((before @ [ed, eo]) @ [ef]) ! (length (before @ [ed, eo]) - 2) = ed"
    by (simp_all add: nth_append)
  have "backed ((before @ [ed, eo]) @ [ef]) (length (before @ [ed, eo]))"
    unfolding backed_def at using assms by simp
  with assms(1) show ?thesis by (simp only: all_backed_snoc)
qed

definition pf_ok :: "'s engine \<Rightarrow> bool" where
  "pf_ok e \<longleftrightarrow> broker_ok (en_broker e) \<and> all_backed (trail e) \<and> counted (en_orders e) (en_rejections e) (trail e)"

lemma pf_ok_parts [simp]:
  "pf_ok (e\<lparr>en_strategy := s\<rparr>) \<longleftrightarrow> pf_ok e"
  "pf_ok (e\<lparr>en_risk := k\<rparr>) \<longleftrightarrow> pf_ok e"
  by (simp_all add: pf_ok_def)

lemma pf_ok_broker: "pf_ok e \<Longrightarrow> broker_ok b \<Longrightarrow> pf_ok (e\<lparr>en_broker := b\<rparr>)"
  by (simp add: pf_ok_def)

lemma pf_ok_plain [simp]: "plain p \<Longrightarrow> pf_ok (logged_at nm ty p t trace e) \<longleftrightarrow> pf_ok e"
proof -
  assume "plain p"
  obtain ev where "trail (logged_at nm ty p t trace e) = trail e @ [ev]" "ev_payload ev = Payload p"
    using trail_logged by blast
  moreover from this \<open>plain p\<close> have "\<not> is_fill (ev_payload ev)" "decision_in (ev_payload ev) = None" by (cases p; simp)+
  ultimately show ?thesis by (simp add: pf_ok_def all_backed_other counted_def decisions_snoc)
qed

lemma pf_account:
  assumes "pf_ok e" and "\<And>a e'. pf_ok e' \<Longrightarrow> trail e' = trail e \<Longrightarrow> snapshot_ok a \<Longrightarrow> Q a e'"
  shows "outcome (on_broker (account t)) Q pf_ok e"
  unfolding outcome_on_broker
  by (rule account_outcome) (use assms(1) in \<open>auto simp: pf_ok_def [of e] intro!: assms(2) pf_ok_broker [OF assms(1)]\<close>)

lemma execute_backed:
  assumes ok: "pf_ok e" and bar: "bar_ok bar"
    and pre: "trail e = before @ [ed]" "ev_payload ed = Payload (DecisionPayload d)" "rd_approved d" "ev_trace ed = trace"
  shows "outcome (bind_st (log_at nm ty (OrderPayload r) t trace) (\<lambda>_. bind_st (on_broker (submit fid r bar)) (\<lambda>fl.
      log_at nm ty' (FillPayload fl) t trace))) (\<lambda>_. pf_ok) pf_ok e"
proof -
  let ?e1 = "logged_at nm ty (OrderPayload r) t trace e"
  have e1: "pf_ok ?e1" using ok by simp
  obtain eo where eo: "trail ?e1 = trail e @ [eo]" "ev_payload eo = Payload (OrderPayload r)" "ev_trace eo = trace"
    using trail_logged by blast
  have filled: "pf_ok (logged_at nm ty' (FillPayload f) t trace (?e1\<lparr>en_broker := b\<rparr>))"
    if b: "broker_ok b" and f: "fl_client_id f = or_client_id r" for f b
  proof -
    obtain ef where ef: "trail (logged_at nm ty' (FillPayload f) t trace (?e1\<lparr>en_broker := b\<rparr>)) = trail ?e1 @ [ef]"
      "ev_payload ef = Payload (FillPayload f)" "ev_trace ef = trace"
      using trail_logged [of nm _ _ _ _ "?e1\<lparr>en_broker := b\<rparr>"] by fastforce
    have "trail ?e1 = before @ [ed, eo]" by (simp add: eo(1) pre(1))
    then have "all_backed (trail ?e1 @ [ef])"
      using all_backed_fill [OF _ pre(2,3) eo(2) ef(2) f pre(4) eo(3) ef(3)] e1 by (simp add: pf_ok_def)
    moreover have "counted n m (trail ?e1 @ [ef]) \<longleftrightarrow> counted n m (trail ?e1)" for n m
      by (simp add: counted_def decisions_snoc ef(2))
    ultimately show ?thesis using e1 b by (simp add: pf_ok_def ef(1))
  qed
  show ?thesis
    using e1 filled bar by (auto simp: pf_ok_def [of ?e1] intro!: submit_outcome pf_ok_broker)
qed

lemma place_order_backed:
  assumes ok: "pf_ok e" and bar: "bar_ok bar" and a: "snapshot_ok a"
  shows "outcome (place_order nm f bar trace r a) (\<lambda>_. pf_ok) pf_ok e"
  unfolding place_order_def outcome_bind outcome_counts outcome_evaluate
proof (rule evaluate_outcome [OF a])
  fix d k
  let ?e0 = "e\<lparr>en_orders := en_orders e + 1, en_risk := k\<rparr>"
  let ?e1 = "logged_at (pn_base nm) ''risk_decision'' (DecisionPayload d) (uf_time f) trace ?e0"
  obtain ed where ed: "trail ?e1 = trail e @ [ed]" "ev_payload ed = Payload (DecisionPayload d)" "ev_trace ed = trace"
    using trail_logged [of "pn_base nm" "''risk_decision''" "DecisionPayload d" "uf_time f" trace ?e0] by auto
  have ex: "all_backed (trail ?e1)" using ok ed by (simp add: pf_ok_def all_backed_other)
  have n: "counted (Suc (en_orders e)) (if rd_approved d then en_rejections e else Suc (en_rejections e)) (trail ?e1)"
    using ok ed by (simp add: pf_ok_def counted_def decisions_snoc)
  have "outcome (if \<not> rd_approved d then count_rejection else
      bind_st (log_at (pn_base nm) ''order_submitted'' (OrderPayload r) (uf_time f) trace) (\<lambda>_.
      bind_st (on_broker (submit (nm_fill (pn_base nm)) r bar)) (\<lambda>fl.
      log_at (pn_base nm) ''order_filled'' (FillPayload fl) (uf_time f) trace))) (\<lambda>_. pf_ok) pf_ok ?e1"
  proof (cases "rd_approved d")
    case True
    with ok ex n have "pf_ok ?e1" by (simp add: pf_ok_def)
    from execute_backed [OF this bar ed(1,2) True ed(3)] True show ?thesis by simp
  next
    case False
    with ok ex n show ?thesis by (simp add: pf_ok_def)
  qed
  then show "outcome (log_at (pn_base nm) ''risk_decision'' (DecisionPayload d) (uf_time f) trace)
      (\<lambda>x. outcome (if \<not> rd_approved d then count_rejection else
        bind_st (log_at (pn_base nm) ''order_submitted'' (OrderPayload r) (uf_time f) trace) (\<lambda>_.
        bind_st (on_broker (submit (nm_fill (pn_base nm)) r bar)) (\<lambda>fl.
        log_at (pn_base nm) ''order_filled'' (FillPayload fl) (uf_time f) trace))) (\<lambda>_. pf_ok) pf_ok) pf_ok ?e0"
    by (simp only: outcome_log)
qed

lemma outcome_state: "outcome (\<lambda>e. m e e) Q E e = outcome (m e) Q E e"
  by (simp add: outcome_def)

lemma rebalance_backed:
  assumes ok: "pf_ok e" and bar: "bar_ok bar"
  shows "outcome (rebalance nm f i bar) (\<lambda>_. pf_ok) pf_ok e"
  unfolding rebalance_def outcome_bind
proof (rule pf_account [OF ok])
  fix a and e' :: "'a engine"
  assume e': "pf_ok e'" and a: "snapshot_ok a"
  have act: "outcome (\<lambda>e. if too_small (cfg_intraday (en_config e)) target d (bar_close bar) then return_st () e
        else bind_st (lift_st (target_order nm i f bar d)) (\<lambda>r. place_order nm f bar (decision_id nm i (bar_symbol bar)) r a) e)
      (\<lambda>_. pf_ok) pf_ok e'" for target d
    by (subst outcome_state [of "\<lambda>e'. if too_small (cfg_intraday (en_config e')) target d (bar_close bar) then return_st ()
        else bind_st (lift_st (target_order nm i f bar d)) (\<lambda>r. place_order nm f bar (decision_id nm i (bar_symbol bar)) r a)",
          simplified if_distribR])
      (use e' in \<open>auto intro!: place_order_backed [OF _ bar a] split: sum.split\<close>)
  show "outcome (\<lambda>e. lift_st (target_quantity (cfg_intraday (en_config e)) (ac_equity a) (weight_of i (bar_symbol bar)) (bar_close bar)) e)
      (\<lambda>target. outcome (let difference = dsub target (quantity_for a (bar_symbol bar)) in
        if difference = 0 then return_st ()
        else (\<lambda>e. if too_small (cfg_intraday (en_config e)) target difference (bar_close bar) then return_st () e
             else bind_st (lift_st (target_order nm i f bar difference)) (\<lambda>r.
                place_order nm f bar (decision_id nm i (bar_symbol bar)) r a) e)) (\<lambda>_. pf_ok) pf_ok) pf_ok e'"
    using e' act by (auto simp: outcome_state [of "\<lambda>e. lift_st (target_quantity (cfg_intraday (en_config e)) q w c)" for q w c]
        Let_def split: sum.split)
qed

subsection \<open>Whole runs\<close>

definition frame_ok :: "universe_frame \<Rightarrow> bool" where
  "frame_ok f \<longleftrightarrow> list_all bar_ok (uf_bars f)"

lemma keep_rebalance: "bar_ok bar \<Longrightarrow> preserves pf_ok (rebalance nm f i bar)"
  by (simp add: preserves_outcome rebalance_backed)

lemma keep_rebalance_all: "list_all bar_ok bars \<Longrightarrow> preserves pf_ok (rebalance_all nm f i bars)"
  by (induction bars) (auto intro: keep_rebalance)

lemma keep_account: "preserves pf_ok (on_broker (account t))"
  by (auto simp: preserves_outcome simp del: outcome_on_broker intro: pf_account)

lemma keep_export: "preserves pf_ok (on_broker (\<lambda>b. (export_state b, b)))"
  by (auto simp: preserves_def on_broker_def)

lemma keep_log: "plain p \<Longrightarrow> preserves pf_ok (log_at nm ty p t trace)"
  by (simp add: preserves_outcome)

lemma keep_strategy: "preserves pf_ok (on_strategy m)"
  by (auto simp: preserves_def on_strategy_def split: prod.split)

lemma marks_ok: "broker_ok b \<Longrightarrow> list_all bar_ok bars \<Longrightarrow> broker_ok (fold mark bars b)"
  by (induction bars arbitrary: b) (auto intro: keeps)

lemma keep_marks: "frame_ok f \<Longrightarrow> preserves pf_ok (on_broker (\<lambda>b. (Inr (), fold mark (uf_bars f) b)))"
  by (auto simp: preserves_def on_broker_def pf_ok_def frame_ok_def marks_ok)

lemmas run_keeps = keep_account keep_export keep_log keep_strategy keep_marks

lemma keep_targets: "frame_ok f \<Longrightarrow> preserves pf_ok (execute_targets nm f i)"
  unfolding execute_targets_def
  by (intro preserves_bind run_keeps keep_rebalance_all) (simp_all add: frame_ok_def list_all_iff)

lemma keep_frame: "frame_ok f \<Longrightarrow> preserves pf_ok (process_frame nm sid strategy symbols f)"
  unfolding process_frame_def act_on_frame_def
  by (intro preserves_bind preserves_read [where m = "\<lambda>e. log_at _ _ (PortfolioProgressPayload _ _ (en_fingerprint e)) _ _"] run_keeps)
    (auto intro: keep_targets split: option.split)

lemma keep_frames: "list_all frame_ok frames \<Longrightarrow> preserves pf_ok (run_frames nm sid strategy symbols frames)"
  by (induction frames) (auto intro!: keep_frame)

lemma keep_liquidate: "frame_ok f \<Longrightarrow> preserves pf_ok (liquidate nm sid f obs)"
  unfolding liquidate_def by (intro preserves_bind preserves_if run_keeps preserves_return keep_targets)

lemma keep_report: "preserves pf_ok (portfolio_run_report sid f l a0 obs n t a)"
  by (simp add: preserves_def portfolio_run_report_def)

text \<open>C31 The portfolio engine fills nothing unapproved: starting from a sound engine, whatever a run of valid frames
  does and wherever it raises, every fill in the ledger comes right after the submission of its order and the risk
  gate's approval of it, all three under one trace, the counters agree with the decisions in the ledger, and the
  broker's books are sound.\<close>

theorem portfolio_fills_backed:
  assumes "pf_ok e" and "list_all frame_ok frames"
  shows "pf_ok (snd (run_portfolio nm sid strategy frames e))"
proof (cases "frames = []")
  case False
  then have f: "frame_ok (last frames)" using assms(2) by (simp add: list_all_iff)
  have "preserves pf_ok (bind_st (on_broker (account (uf_time (hd frames)))) (\<lambda>a0.
           bind_st (run_frames nm sid strategy (run_symbols (hd frames)) frames) (\<lambda>obs0.
           bind_st (liquidate nm sid (last frames) obs0) (\<lambda>obs.
           bind_st (on_broker (account (uf_time (last frames)))) (\<lambda>a.
           bind_st (on_broker (\<lambda>b. (export_state b, b))) (\<lambda>st.
           bind_st (log_at (pn_base nm) ''broker_checkpoint'' (CheckpointPayload st) (uf_time (last frames))
             (frame_trace_id nm (last frames))) (\<lambda>_.
           portfolio_run_report sid (hd frames) (last frames) a0 obs n t a)))))))" for n t
    by (intro preserves_bind run_keeps keep_frames [OF assms(2)] keep_liquidate [OF f] keep_report) simp
  then show ?thesis using assms(1) False by (simp add: run_portfolio_def preserves_def)
qed (simp add: run_portfolio_def raise_st_def assms(1))

subsection \<open>Repeated client ids\<close>

definition books :: "(string, position_state) dict \<Rightarrow> dec \<Rightarrow> (string, fill) dict \<Rightarrow> 's engine \<Rightarrow> bool" where
  "books ps c fs e \<longleftrightarrow> bk_positions (en_broker e) = ps \<and> bk_cash (en_broker e) = c \<and> bk_fills (en_broker e) = fs"

lemma books_log: "preserves (books ps c fs) (log_at nm ty p t trace)"
  by (simp add: preserves_def log_at_def books_def)

lemma books_counts: "preserves (books ps c fs) count_order" "preserves (books ps c fs) count_rejection"
  by (simp_all add: preserves_def count_order_def count_rejection_def books_def)

lemma books_account: "preserves (books ps c fs) (on_broker (account t))"
  by (auto simp: preserves_def on_broker_def account_def books_def Let_def split: sum.split)

lemma books_risk: "preserves (books ps c fs) (\<lambda>e. on_risk (evaluate r bar a t (trading_enabled (en_config e))) e)"
  by (auto simp: preserves_def on_risk_def books_def split: prod.split)

lemma books_submit:
  "map_of fs (or_client_id r) \<noteq> None \<Longrightarrow> or_type r = MARKET \<Longrightarrow> preserves (books ps c fs) (on_broker (submit fid r bar))"
  by (auto simp: preserves_def on_broker_def submit_def books_def)

lemma books_rebalance:
  assumes "map_of fs (order_id nm i (bar_symbol bar)) \<noteq> None"
  shows "preserves (books ps c fs) (rebalance nm f i bar)"
proof -
  have "preserves (books ps c fs) (place_order nm f bar trace r a)"
    if "target_order nm i f bar d = Inr r" for trace r a d
  proof -
    have r: "map_of fs (or_client_id r) \<noteq> None" "or_type r = MARKET"
      using that assms by (auto simp: target_order_def dest!: mk_order_request_Inr)
    show ?thesis
      unfolding place_order_def
      by (intro preserves_bind preserves_if books_counts books_log books_risk books_submit [OF r])
  qed
  then show ?thesis
    unfolding rebalance_def Let_def
    by (intro preserves_bind books_account preserves_if preserves_return
        preserves_read [where m = "\<lambda>e. lift_st (target_quantity (cfg_intraday (en_config e)) _ _ _)"]
        preserves_when preserves_bind_lift)
qed

lemma books_rebalance_all:
  assumes "list_all (\<lambda>b. map_of fs (order_id nm i (bar_symbol b)) \<noteq> None) bars"
  shows "preserves (books ps c fs) (rebalance_all nm f i bars)"
  using assms by (induction bars) (auto intro: books_rebalance)

lemma books_targets:
  assumes "list_all (\<lambda>b. map_of fs (order_id nm i (bar_symbol b)) \<noteq> None) (uf_bars f)"
  shows "preserves (books ps c fs) (execute_targets nm f i)"
  unfolding execute_targets_def
  by (intro preserves_bind books_log books_rebalance_all) (use assms in \<open>simp add: list_all_iff\<close>)

lemma liquidation_weights:
  assumes "liquidation_intent sid f = Inr j"
  shows "weight_of j sy = 0 \<and> pi_strategy j = sid \<and> pi_time j = uf_time f"
  using assms zero_weights [of bar_symbol "uf_bars f" sy]
  by (auto simp: liquidation_intent_def mk_portfolio_intent_def weight_of_def Let_def)


text \<open>A run whose last frame sold half of ten units to a thin bar, under the id the liquidation will use.\<close>

definition held_broker :: paper_broker where
  "held_broker = \<lparr>bk_config = default_broker_config, bk_cash = 99500,
     bk_positions = [(''SPY'', \<lparr>st_quantity = 5, st_average_price = 100, st_realized_pnl = 0, st_entry_commission = 0\<rparr>)],
     bk_marks = [(''SPY'', 100)],
     bk_fills = [(''ta-p:x:1'', \<lparr>fl_id = ''f'', fl_client_id = ''ta-p:x:1'', fl_symbol = ''SPY'', fl_side = SELL, fl_quantity = 5,
       fl_price = 100, fl_commission = 0, fl_at = 0\<rparr>)],
     bk_session_date = Some 0, bk_day_start_equity = 100000, bk_high_watermark = 100000\<rparr>"

definition held_account :: account_snapshot where
  "held_account = \<lparr>ac_as_of = 0, ac_cash = 99500, ac_equity = 100000, ac_day_start_equity = 100000,
     ac_high_watermark = 100000, ac_positions = [\<lparr>ps_symbol = ''SPY'', ps_quantity = 5, ps_average_price = 100, ps_market_price = 100,
       ps_realized_pnl = 0\<rparr>]\<rparr>"

lemma held_reads: "account 0 held_broker = (Inr held_account, held_broker)"
  by (simp add: account_def open_positions_def by_key_def held_broker_def money_def mk_account_snapshot_def mk_position_def
      dget_def market_value_def require_gt0_def require_ge0_def require_length_def held_account_def demo_symbol dec_eval)

definition held_naming :: portfolio_naming where
  "held_naming = \<lparr>pn_base = demo_naming, pn_digest = (\<lambda>s sy t w. ''x''), pn_frame = (\<lambda>t sys. ''fr'')\<rparr>"

definition held_engine :: "unit engine" where
  "held_engine = new_engine demo_app ''fp'' () held_broker demo_gate new_ledger"

definition held_frame :: universe_frame where
  "held_frame = \<lparr>uf_time = 0, uf_bars = [demo_bar]\<rparr>"

definition held_flat :: portfolio_intent where
  "held_flat = \<lparr>pi_strategy = ''p'', pi_time = 0, pi_weights = [(''SPY'', 0)], pi_rationale = ''out''\<rparr>"

definition held_liquidation :: portfolio_intent where
  "held_liquidation = held_flat\<lparr>pi_rationale := ''forced end-of-run liquidation''\<rparr>"

lemma held_liquidation: "liquidation_intent ''p'' held_frame = Inr held_liquidation"
  by (simp add: liquidation_intent_def held_frame_def demo_bar_def mk_portfolio_intent_def normalize_weights_def demo_symbol
      require_length_def held_liquidation_def held_flat_def)

lemma held_order: "target_order held_naming held_liquidation held_frame demo_bar (- 5) = Inr
    \<lparr>or_client_id = ''ta-p:x:1'', or_decision = ''x'', or_strategy = ''p'', or_symbol = ''SPY'', or_side = SELL, or_quantity = 5,
      or_type = MARKET, or_submitted_at = 0\<rparr>"
  by (simp add: target_order_def mk_order_request_def order_id_def decision_id_def held_naming_def demo_naming_def held_liquidation_def
      held_flat_def held_frame_def demo_bar_def demo_symbol require_length_def require_gt0_def dec_eval)

lemma held_target: "target_quantity c 100000 0 100 = Inr 0"
  by (simp add: target_quantity_def ddiv_def dec_eval)

lemma held_liquidates: "outcome (liquidate held_naming ''p'' held_frame obs) (\<lambda>_ _. True) (\<lambda>_. False) held_engine"
proof -
  have acc: "outcome (account (uf_time held_frame)) Q E held_broker = Q held_account held_broker" for Q E
    by (simp add: outcome_def held_reads held_frame_def)
  have ok: "snapshot_ok held_account"
    using held_reads by (auto simp: account_def Let_def split: sum.splits intro: mk_account_snapshot_ok)
  have ev: "outcome (evaluate r b held_account t en) Q E k" if "\<And>d k'. Q d k'" for r b t en Q E k
    by (rule evaluate_outcome [OF ok that])
  have resubmit: "outcome (submit fid \<lparr>or_client_id = ''ta-p:x:1'', or_decision = ''x'', or_strategy = ''p'', or_symbol = ''SPY'',
      or_side = SELL, or_quantity = 5, or_type = MARKET, or_submitted_at = 0\<rparr> demo_bar) Q E held_broker
      = Q (snd (hd (bk_fills held_broker))) held_broker" for fid Q E
    by (simp add: submit_def outcome_def held_broker_def)
  have broker: "en_broker held_engine = held_broker" by (simp add: held_engine_def new_engine_def)
  have bal: "dsub 0 (quantity_for held_account ''SPY'') = - 5" "ac_positions held_account \<noteq> []" "ac_equity held_account = 100000"
    by (simp_all add: quantity_for_def position_for_def held_account_def demo_symbol dec_eval)
  have bar: "bar_symbol demo_bar = ''SPY''" "bar_close demo_bar = 100" "weight_of held_liquidation ''SPY'' = 0"
    "uf_bars held_frame = [demo_bar]"
    by (simp_all add: demo_bar_def weight_of_def dget_def held_liquidation_def held_flat_def held_frame_def)
  have small: "\<not> too_small (cfg_intraday demo_app) 0 x y" for x y by (simp add: too_small_def)
  have state: "outcome (\<lambda>e. lift_st (target_quantity (cfg_intraday (en_config e)) q w c) e) Q E e =
      outcome (lift_st (target_quantity (cfg_intraday (en_config e)) q w c)) Q E e"
    "outcome (\<lambda>e. if too_small (cfg_intraday (en_config e)) t d c then m e else m' e) Q E e =
      (if too_small (cfg_intraday (en_config e)) t d c then outcome m Q E e else outcome m' Q E e)" for q w c Q E e t d m m'
    by (simp_all add: outcome_def)
  show ?thesis
    using bal
    by (simp add: liquidate_def execute_targets_def broker acc held_liquidation bar rebalance_def state held_target too_small_def
        held_order place_order_def outcome_evaluate)
      (auto simp: resubmit acc intro!: ev)
qed


text \<open>A sound engine at its start, and a frame it runs.\<close>

theorem portfolio_fills_backed_witness:
  "pf_ok (snd (run_portfolio held_naming ''p'' (\<lambda>f. return_st None) [held_frame] (held_engine\<lparr>en_broker := demo_broker\<rparr>)))"
proof (rule portfolio_fills_backed)
  have "broker_ok demo_broker" by (simp add: demo_broker_def new_broker_ok demo_config_ok)
  then show "pf_ok (held_engine\<lparr>en_broker := demo_broker\<rparr>)"
    by (simp add: pf_ok_def held_engine_def new_engine_def new_ledger_def all_backed_def counted_def)
  show "list_all frame_ok [held_frame]" by (simp add: frame_ok_def held_frame_def demo_bar_ok)
qed

end
