(* ===== verification/Intraday.thy ===== *)
theory Intraday
  imports Universe Config
begin

text \<open>
  \<^verbatim>\<open>intraday.py\<close>: the session gate and the aggregation of minute bars. The exchange calendar
  (\<^verbatim>\<open>exchange_calendars\<close>) and the timezone database are parameters of a calendar: the bounds of a session
  date, the local date of an instant, the instant of a local wall time, and the New York date of an instant.
\<close>

datatype session_phase = CLOSED | PRE_ENTRY | ENTRY | MANAGE_ONLY | FLATTEN

record session_gate =
  sg_phase :: session_phase
  sg_open :: "instant option"
  sg_close :: "instant option"
  sg_can_enter :: bool
  sg_must_flatten :: bool
  sg_reason :: string

record nyse_calendar =
  nc_config :: intraday_config
  nc_bounds :: "day \<Rightarrow> (instant \<times> instant) option"
  nc_local_date :: "instant \<Rightarrow> day"
  nc_at_local :: "day \<Rightarrow> int \<Rightarrow> instant"
  nc_ny_date :: "instant \<Rightarrow> day"

definition no_entry_at :: "nyse_calendar \<Rightarrow> day \<Rightarrow> instant \<Rightarrow> instant" where
  "no_entry_at c d close = min (nc_at_local c d (no_new_entries_after (nc_config c))) (close - minutes 30)"

definition flatten_at :: "nyse_calendar \<Rightarrow> day \<Rightarrow> instant \<Rightarrow> instant" where
  "flatten_at c d close = min (nc_at_local c d (flatten_start (nc_config c))) (close - minutes 10)"

definition hard_flatten_at :: "nyse_calendar \<Rightarrow> day \<Rightarrow> instant \<Rightarrow> instant" where
  "hard_flatten_at c d close = min (nc_at_local c d (hard_flatten_deadline (nc_config c))) (close - minutes 5)"

definition session_phase_at :: "nyse_calendar \<Rightarrow> instant \<Rightarrow> day \<Rightarrow> instant \<Rightarrow> instant \<Rightarrow> session_phase \<times> string" where
  "session_phase_at c t d opening close =
     (if t < opening \<or> t > close then (CLOSED, ''outside regular session'')
      else if t < nc_at_local c d (entry_start (nc_config c)) then (PRE_ENTRY, ''entry warm-up window'')
      else if t < no_entry_at c d close then (ENTRY, ''new entries permitted'')
      else if t < flatten_at c d close then (MANAGE_ONLY, ''new entries disabled'')
      else (FLATTEN, if t \<ge> hard_flatten_at c d close then ''hard flatten deadline reached'' else ''flatten window''))"

definition gate_at :: "nyse_calendar \<Rightarrow> instant \<Rightarrow> session_gate" where
  "gate_at c t =
     (let d = nc_local_date c t in
      case nc_bounds c d of
        None \<Rightarrow> \<lparr>sg_phase = CLOSED, sg_open = None, sg_close = None, sg_can_enter = False, sg_must_flatten = False,
          sg_reason = ''exchange is closed for this date''\<rparr>
      | Some (opening, close) \<Rightarrow>
          (case session_phase_at c t d opening close of (phase, why) \<Rightarrow>
             \<lparr>sg_phase = phase, sg_open = Some opening, sg_close = Some close, sg_can_enter = (phase = ENTRY),
              sg_must_flatten = (phase = FLATTEN), sg_reason = why\<rparr>))"

definition gate :: "nyse_calendar \<Rightarrow> pydatetime \<Rightarrow> session_gate res" where
  "gate c t = bind_res (check (aware t) (ValueError ''observed_at must be timezone-aware'')) (\<lambda>_. Inr (gate_at c (to_utc t)))"

definition regular_session_frames :: "nyse_calendar \<Rightarrow> universe_frame list \<Rightarrow> universe_frame list" where
  "regular_session_frames c frames = filter (\<lambda>f. sg_phase (gate_at c (uf_time f)) \<noteq> CLOSED) frames"

subsection \<open>Aggregation of minute bars\<close>

record aggregation =
  ag_bars :: "market_bar list"
  ag_dropped :: nat

fun minute_gaps :: "market_bar list \<Rightarrow> unit res" where
  "minute_gaps (b # b' # bs) =
     (if bar_time b' \<le> bar_time b then Inl DataGapError
      else if bar_time b' - bar_time b \<noteq> minutes 1 then Inl DataGapError
      else minute_gaps (b' # bs))"
| "minute_gaps _ = Inr ()"

definition bucket_start :: "nyse_calendar \<Rightarrow> int \<Rightarrow> market_bar \<Rightarrow> instant res" where
  "bucket_start c n b =
     (case nc_bounds c (nc_ny_date c (bar_time b)) of
        None \<Rightarrow> Inl (ValueError ''minute bar is outside an exchange session'')
      | Some (opening, close) \<Rightarrow>
          if opening \<le> bar_time b \<and> bar_time b < close
          then Inr (opening + minutes ((((bar_time b - opening) div 60000000) div n) * n))
          else Inl (ValueError ''minute bar is outside an exchange session''))"

definition group_add :: "instant \<Rightarrow> market_bar \<Rightarrow> (instant, market_bar list) dict \<Rightarrow> (instant, market_bar list) dict" where
  "group_add s b g = AList.update s (dget g s [] @ [b]) g"

fun group_bars :: "nyse_calendar \<Rightarrow> int \<Rightarrow> market_bar list \<Rightarrow> (instant, market_bar list) dict \<Rightarrow> (instant, market_bar list) dict res" where
  "group_bars c n [] g = Inr g"
| "group_bars c n (b # bs) g = bind_res (bucket_start c n b) (\<lambda>s. group_bars c n bs (group_add s b g))"

definition merge_bucket :: "int \<Rightarrow> instant \<Rightarrow> market_bar list \<Rightarrow> market_bar res" where
  "merge_bucket n s bs =
     mk_market_bar (bar_symbol (hd bs)) \<lparr>wall = s + minutes n, offset = Some 0\<rparr> (bar_open (hd bs))
       (Max (bar_high ` set bs)) (Min (bar_low ` set bs)) (bar_close (last bs)) (dsum (map bar_volume bs))"

fun merge_buckets :: "int \<Rightarrow> (instant \<times> market_bar list) list \<Rightarrow> market_bar list \<Rightarrow> nat \<Rightarrow> aggregation res" where
  "merge_buckets n [] out dropped = Inr \<lparr>ag_bars = out, ag_dropped = dropped\<rparr>"
| "merge_buckets n ((s, bs) # rest) out dropped =
     (if int (length bs) \<noteq> n then merge_buckets n rest out (dropped + 1)
      else bind_res (merge_bucket n s bs) (\<lambda>b. merge_buckets n rest (out @ [b]) dropped))"

definition aggregate_minute_bars :: "nyse_calendar \<Rightarrow> int \<Rightarrow> market_bar list \<Rightarrow> aggregation res" where
  "aggregate_minute_bars c n bars =
     bind_res (check (\<not> n \<le> 0) (ValueError ''interval_minutes must be positive'')) (\<lambda>_.
     bind_res (check (bars \<noteq> []) (ValueError ''at least one minute bar is required'')) (\<lambda>_.
     bind_res (check (card (bar_symbol ` set bars) = 1) (ValueError ''aggregate one symbol at a time'')) (\<lambda>_.
     bind_res (minute_gaps bars) (\<lambda>_.
     bind_res (group_bars c n bars []) (\<lambda>g.
     merge_buckets n (sort_key fst g) [] 0)))))"

subsection \<open>The gate\<close>

fun phase_rank :: "session_phase \<Rightarrow> nat" where
  "phase_rank CLOSED = 0" | "phase_rank PRE_ENTRY = 1" | "phase_rank ENTRY = 2" | "phase_rank MANAGE_ONLY = 3" | "phase_rank FLATTEN = 4"

lemma gate_fields:
  assumes "nc_bounds c (nc_local_date c t) = Some (opening, close)"
  shows "sg_phase (gate_at c t) = fst (session_phase_at c t (nc_local_date c t) opening close)"
    "sg_can_enter (gate_at c t) \<longleftrightarrow> sg_phase (gate_at c t) = ENTRY"
    "sg_must_flatten (gate_at c t) \<longleftrightarrow> sg_phase (gate_at c t) = FLATTEN"
  using assms by (simp_all add: gate_at_def Let_def split: prod.split)

text \<open>The session gate moves one way and closes in time: within one session date the phase of an open session never
  goes back as the clock advances; no instant of the session's last thirty minutes permits an entry; and every instant
  of its last ten minutes that is past the entry start demands flattening.\<close>

theorem gate_one_way:
  assumes "nc_bounds c (nc_local_date c t) = Some (opening, close)" and "nc_local_date c t' = nc_local_date c t"
    and "opening \<le> t" "t \<le> t'" "t' \<le> close"
  shows "phase_rank (sg_phase (gate_at c t)) \<le> phase_rank (sg_phase (gate_at c t'))
    \<and> \<not> (close - minutes 30 \<le> t' \<and> sg_can_enter (gate_at c t'))
    \<and> (sg_must_flatten (gate_at c t') \<or> t' < close - minutes 10 \<or> t' < nc_at_local c (nc_local_date c t) (entry_start (nc_config c)))"
proof -
  have "nc_bounds c (nc_local_date c t') = Some (opening, close)" using assms(1,2) by simp
  note f = gate_fields [OF assms(1)] gate_fields [OF this]
  define A N F where "A = nc_at_local c (nc_local_date c t) (entry_start (nc_config c))"
    and "N = no_entry_at c (nc_local_date c t) close" and "F = flatten_at c (nc_local_date c t) close"
  have "sg_phase (gate_at c u) = (if u < A then PRE_ENTRY else if u < N then ENTRY else if u < F then MANAGE_ONLY else FLATTEN)"
    if "u \<in> {t, t'}" for u
    using that f(1,4) assms(2-5) by (auto simp: session_phase_at_def A_def N_def F_def)
  then have p: "sg_phase (gate_at c t) = (if t < A then PRE_ENTRY else if t < N then ENTRY else if t < F then MANAGE_ONLY else FLATTEN)"
    "sg_phase (gate_at c t') = (if t' < A then PRE_ENTRY else if t' < N then ENTRY else if t' < F then MANAGE_ONLY else FLATTEN)"
    by simp_all
  have "N \<le> close - minutes 30" "F \<le> close - minutes 10" by (simp_all add: N_def F_def no_entry_at_def flatten_at_def)
  moreover have "phase_rank (sg_phase (gate_at c t)) \<le> phase_rank (sg_phase (gate_at c t'))"
    unfolding p using assms(4) by simp
  moreover have "minutes 10 \<le> minutes 30" by (simp add: minutes_def)
  ultimately show ?thesis unfolding f(5,6) p A_def [symmetric] by auto
qed

definition demo_calendar :: nyse_calendar where
  "demo_calendar = \<lparr>nc_config = default_intraday_config, nc_bounds = (\<lambda>d. if d = 0 then Some (hours 9 + minutes 30, hours 16) else None),
     nc_local_date = (\<lambda>t. t div days 1), nc_at_local = (\<lambda>d x. days d + x), nc_ny_date = (\<lambda>t. t div days 1)\<rparr>"

theorem gate_one_way_witness:
  "phase_rank (sg_phase (gate_at demo_calendar (hours 10))) \<le> phase_rank (sg_phase (gate_at demo_calendar (hours 15 + minutes 55)))
    \<and> sg_must_flatten (gate_at demo_calendar (hours 15 + minutes 55))"
  using gate_one_way [of demo_calendar "hours 10" "hours 9 + minutes 30" "hours 16" "hours 15 + minutes 55"]
  by (simp add: demo_calendar_def durations default_intraday_config_def)

subsection \<open>What aggregation gives\<close>

definition bucket :: "nyse_calendar \<Rightarrow> int \<Rightarrow> market_bar list \<Rightarrow> instant \<Rightarrow> market_bar list" where
  "bucket c n bars k = filter (\<lambda>b. bucket_start c n b = Inr k) bars"

lemma group_bars_map:
  "group_bars c n bars g = Inr g' \<Longrightarrow> dict_ok g \<Longrightarrow> dict_ok g'
     \<and> (\<forall>k. map_of g' k = (if map_of g k = None \<and> bucket c n bars k = [] then None else Some (dget g k [] @ bucket c n bars k)))"
proof (induction c n bars g rule: group_bars.induct)
  case (1 c n g)
  then show ?case by (auto simp: bucket_def dget_def split: option.split)
next
  case (2 c n b bs g)
  then obtain s where s: "bucket_start c n b = Inr s" and rest: "group_bars c n bs (group_add s b g) = Inr g'" by auto
  have "dict_ok (group_add s b g)" using 2(3) by (simp add: group_add_def)
  from 2(1) [OF rest this] show ?case
    using s by (auto simp: bucket_def group_add_def dget_def map_of_update split: option.splits)
qed

lemma merge_buckets_map:
  "merge_buckets n kbs out d = Inr r \<Longrightarrow>
     \<exists>ys. map_res (\<lambda>(k, bs). merge_bucket n k bs) (filter (\<lambda>(k, bs). int (length bs) = n) kbs) = Inr ys \<and> ag_bars r = out @ ys
       \<and> ag_dropped r = d + length (filter (\<lambda>(k, bs). int (length bs) \<noteq> n) kbs)"
  by (induction n kbs out d rule: merge_buckets.induct) (fastforce split: if_splits)+

lemma map_res_map: "map_res f (map h xs) = map_res (f \<circ> h) xs"
  by (induction xs) simp_all



definition minute_bar :: "int \<Rightarrow> dec \<Rightarrow> market_bar" where
  "minute_bar m x = \<lparr>bar_symbol = ''SPY'', bar_time = hours 9 + minutes (30 + m), bar_open = x, bar_high = x + 1, bar_low = x - 1,
     bar_close = x, bar_volume = 10\<rparr>"

definition minute_bars :: "market_bar list" where
  "minute_bars = [minute_bar 1 100, minute_bar 2 102, minute_bar 3 101]"

lemma minute_bars_ok: "aggregate_minute_bars demo_calendar 2 minute_bars = Inr \<lparr>ag_bars = [\<lparr>bar_symbol = ''SPY'',
    bar_time = hours 9 + minutes 34, bar_open = 102, bar_high = 103, bar_low = 100, bar_close = 101, bar_volume = 20\<rparr>], ag_dropped = 1\<rparr>"
proof -
  let ?b = "[minute_bar 1 100, minute_bar 2 102, minute_bar 3 101]"
  have g: "group_bars demo_calendar 2 ?b [] = Inr [(hours 9 + minutes 30, [minute_bar 1 100]),
      (hours 9 + minutes 32, [minute_bar 2 102, minute_bar 3 101])]"
    by (simp add: bucket_start_def demo_calendar_def minute_bar_def durations group_add_def dget_def)
  have m: "minute_gaps ?b = Inr ()" by (simp add: minute_bar_def durations)
  have c: "card (bar_symbol ` set ?b) = 1" by (simp add: minute_bar_def)
  have b: "merge_bucket 2 (hours 9 + minutes 32) [minute_bar 2 102, minute_bar 3 101] = Inr \<lparr>bar_symbol = ''SPY'',
    bar_time = hours 9 + minutes 34, bar_open = 102, bar_high = 103, bar_low = 100, bar_close = 101, bar_volume = 20\<rparr>"
    by (simp add: merge_bucket_def mk_market_bar_def minute_bar_def durations require_length_def require_gt0_def require_ge0_def
        aware_def to_utc_def normalize_symbol_def py_strip_def py_upper_def is_space_def upper_char_def dsum_def dec_eval)
  show ?thesis
    by (simp add: aggregate_minute_bars_def minute_bars_def g m c del: group_bars.simps minute_gaps.simps list.set)
      (simp add: durations b [unfolded durations, simplified])
qed


end
