(* ===== verification/PortfolioStrategy.thy ===== *)
theory PortfolioStrategy
  imports Intraday Strategy Targets "HOL-Library.Product_Lexorder"
begin

text \<open>
  \<^verbatim>\<open>portfolio_strategy.py\<close>: ranking by trailing return, equal weights, and the delay with its session
  gate. A strategy is its state and \<^verbatim>\<open>on_frame\<close>, a method that may raise. The text a Decimal prints as is a
  parameter.
\<close>

record portfolio_strategy_config =
  psc_lookback :: int
  psc_top_n :: int
  psc_gross :: dec
  psc_positive_only :: bool

definition mk_portfolio_strategy_config :: "portfolio_strategy_config \<Rightarrow> portfolio_strategy_config res" where
  "mk_portfolio_strategy_config c =
     bind_res (in_range ''lookback_frames'' (2 \<le> psc_lookback c)) (\<lambda>_.
     bind_res (in_range ''top_n'' (1 \<le> psc_top_n c)) (\<lambda>_.
     bind_res (in_range ''gross_target'' (0 < psc_gross c \<and> psc_gross c \<le> 1)) (\<lambda>_.
     bind_res (ddiv (psc_gross c) (of_int (psc_top_n c))) (\<lambda>w.
     bind_res (check (\<not> w > 2 / 100) (ValidationError ''per-position target cannot exceed two percent'')) (\<lambda>_. Inr c)))))"

subsection \<open>Cross-sectional momentum\<close>

definition remember_frame :: "portfolio_strategy_config \<Rightarrow> universe_frame \<Rightarrow> history \<Rightarrow> history" where
  "remember_frame c f h = fold (remember (nat (psc_lookback c + 1))) (uf_bars f) h"

definition trailing_return :: "dec list \<Rightarrow> dec res" where
  "trailing_return prices = bind_res (ddiv (last prices) (hd prices)) (\<lambda>r. Inr (dsub r 1))"

definition momentum_of :: "history \<Rightarrow> universe_frame \<Rightarrow> (string, dec) dict res" where
  "momentum_of h f =
     bind_res (map_res (\<lambda>b. bind_res (trailing_return (dget h (bar_symbol b) [])) (\<lambda>m. Inr (bar_symbol b, m))) (uf_bars f)) (\<lambda>ms.
     Inr (fold (\<lambda>(sy, m). AList.update sy m) ms []))"

definition ranked :: "(string, dec) dict \<Rightarrow> string list" where
  "ranked ms = map fst (sort_key (\<lambda>(sy, m). (dneg m, sy)) ms)"

definition eligible :: "portfolio_strategy_config \<Rightarrow> (string, dec) dict \<Rightarrow> string list" where
  "eligible c ms = (if psc_positive_only c then filter (\<lambda>sy. dget ms sy 0 > 0) (ranked ms) else ranked ms)"

definition selected :: "portfolio_strategy_config \<Rightarrow> (string, dec) dict \<Rightarrow> string list" where
  "selected c ms = take (nat (psc_top_n c)) (eligible c ms)"

fun join_with :: "string \<Rightarrow> string list \<Rightarrow> string" where
  "join_with sep [] = []"
| "join_with sep [x] = x"
| "join_with sep (x # y # ys) = x @ sep @ join_with sep (y # ys)"

definition selection_text :: "portfolio_strategy_config \<Rightarrow> string list \<Rightarrow> string" where
  "selection_text c sel =
     (let names = join_with '','' (sort sel) in
      ''selected '' @ (if names = [] then ''cash'' else names) @ '' by '' @ show_nat (nat (psc_lookback c)) @ ''-frame momentum'')"

definition momentum_on_frame ::
  "portfolio_strategy_config \<Rightarrow> universe_frame \<Rightarrow> (history, portfolio_intent option) routine" where
  "momentum_on_frame c f h =
     (let h' = remember_frame c f h in
      if list_ex (\<lambda>b. int (length (dget h' (bar_symbol b) [])) < psc_lookback c + 1) (uf_bars f) then (Inr None, h')
      else (bind_res (momentum_of h' f) (\<lambda>ms.
            bind_res (ddiv (psc_gross c) (of_int (psc_top_n c))) (\<lambda>w.
            (let sel = selected c ms in
             bind_res (mk_portfolio_intent ''cross-sectional-momentum-v1'' (uf_time f)
               (fold (\<lambda>b. AList.update (bar_symbol b) (if bar_symbol b \<in> set sel then w else 0)) (uf_bars f) [])
               (selection_text c sel)) (\<lambda>i. Inr (Some i))))), h'))"

subsection \<open>Equal weights\<close>

definition mk_equal_weight :: "dec \<Rightarrow> dec res" where
  "mk_equal_weight g =
     bind_res (check (0 < g \<and> g \<le> 1) (ValueError ''gross_target must be between zero and one'')) (\<lambda>_. Inr g)"

definition equal_weight_on_frame :: "(dec \<Rightarrow> string) \<Rightarrow> universe_frame \<Rightarrow> (dec, portfolio_intent option) routine" where
  "equal_weight_on_frame show_dec f g =
     (bind_res (ddiv g (of_nat (length (uf_bars f)))) (\<lambda>w.
      bind_res (mk_portfolio_intent ''equal-weight-portfolio-v1'' (uf_time f)
        (fold (\<lambda>b. AList.update (bar_symbol b) w) (uf_bars f) [])
        (''equal-weight '' @ show_dec g @ '' gross benchmark'')) (\<lambda>i. Inr (Some i))), g)"

subsection \<open>The delay\<close>

record 's delayed_portfolio =
  dp_inner :: 's
  dp_frames :: nat
  dp_pending :: "portfolio_intent option list"
  dp_calendar :: "nyse_calendar option"

definition mk_delayed_portfolio :: "'s \<Rightarrow> int \<Rightarrow> nyse_calendar option \<Rightarrow> 's delayed_portfolio res" where
  "mk_delayed_portfolio s d cal =
     bind_res (check (\<not> d < 0) (ValueError ''delay_frames cannot be negative'')) (\<lambda>_.
     Inr \<lparr>dp_inner = s, dp_frames = nat d, dp_pending = [], dp_calendar = cal\<rparr>)"

definition flatten_intent :: "string \<Rightarrow> universe_frame \<Rightarrow> portfolio_intent res" where
  "flatten_intent sid f = mk_portfolio_intent sid (uf_time f) (map (\<lambda>b. (bar_symbol b, 0)) (uf_bars f)) ''immediate session flatten''"

definition re_dated_intent :: "nat \<Rightarrow> universe_frame \<Rightarrow> portfolio_intent \<Rightarrow> portfolio_intent" where
  "re_dated_intent d f i = i\<lparr>pi_time := uf_time f,
     pi_rationale := pi_rationale i @ ''; executed after '' @ show_nat d @ ''-frame delay''\<rparr>"

definition release_pending ::
  "universe_frame \<Rightarrow> portfolio_intent option \<Rightarrow> ('s delayed_portfolio, portfolio_intent option) routine" where
  "release_pending f current s =
     (if dp_frames s = 0 then (Inr current, s)
      else (let q = dp_pending s @ [current] in
            if length q \<le> dp_frames s then (Inr None, s\<lparr>dp_pending := q\<rparr>)
            else (Inr (map_option (re_dated_intent (dp_frames s) f) (hd q)), s\<lparr>dp_pending := tl q\<rparr>)))"

definition delayed_on_frame ::
  "string \<Rightarrow> (universe_frame \<Rightarrow> ('s, portfolio_intent option) routine) \<Rightarrow> universe_frame
     \<Rightarrow> ('s delayed_portfolio, portfolio_intent option) routine" where
  "delayed_on_frame sid inner f s0 =
     (case inner f (dp_inner s0) of
        (Inl e, s1) \<Rightarrow> (Inl e, s0\<lparr>dp_inner := s1\<rparr>)
      | (Inr current, s1) \<Rightarrow>
        (let s = s0\<lparr>dp_inner := s1\<rparr> in
         case dp_calendar s of
           None \<Rightarrow> release_pending f current s
         | Some cal \<Rightarrow>
             (let phase = sg_phase (gate_at cal (uf_time f)) in
              if phase = FLATTEN then (bind_res (flatten_intent sid f) (\<lambda>i. Inr (Some i)), s\<lparr>dp_pending := []\<rparr>)
              else if phase = CLOSED \<or> phase = PRE_ENTRY \<or> phase = MANAGE_ONLY then (Inr None, s)
              else release_pending f current s)))"

subsection \<open>Dictionaries the strategies build\<close>

lemma keyed_fold:
  "map_of (fold (\<lambda>b. AList.update (k b) (g (k b))) bs d) x = (if x \<in> k ` set bs then Some (g x) else map_of d x)"
  by (induction bs arbitrary: d) auto

lemma keyed_fold_ok: "dict_ok d \<Longrightarrow> dict_ok (fold (\<lambda>b. AList.update (k b) (v b)) bs d)"
  by (induction bs arbitrary: d) simp_all

lemma normalize_weights_map:
  assumes "dict_ok ws" "list_all (\<lambda>(sy, w). normalize_symbol sy = sy) ws"
  shows "map_of (normalize_weights ws) = map_of ws"
proof -
  have "fold (\<lambda>(sy, w). AList.update (normalize_symbol sy) w) ws d = fold (\<lambda>(sy, w). AList.update sy w) ws d" for d
    using assms(2) by (induction ws arbitrary: d) auto
  moreover have "map_of (fold (\<lambda>(sy, w). AList.update sy w) ws d) = map_of d ++ map_of ws" if "dict_ok ws" for ws and d :: "(string, dec) dict"
    using that by (induction ws arbitrary: d)
      (auto simp: dict_ok_def map_of_update map_add_def fun_eq_iff dom_map_of_conv_image_fst [symmetric] image_iff split: option.splits)
  ultimately show ?thesis using assms(1) by (simp add: normalize_weights_def)
qed

lemma intent_weights:
  assumes "mk_portfolio_intent sid t (fold (\<lambda>b. AList.update (bar_symbol b) (g (bar_symbol b))) bs []) why = Inr i"
    and "list_all (\<lambda>b. normalize_symbol (bar_symbol b) = bar_symbol b) bs"
  shows "weight_of i sy = (if sy \<in> bar_symbol ` set bs then g sy else 0)"
proof -
  let ?ws = "fold (\<lambda>b. AList.update (bar_symbol b) (g (bar_symbol b))) bs []"
  have ok: "dict_ok ?ws" by (rule keyed_fold_ok) simp
  have "map_of ?ws x \<noteq> None \<longrightarrow> normalize_symbol x = x" for x
    using assms(2) by (auto simp: keyed_fold list_all_iff)
  then have "list_all (\<lambda>(x, w). normalize_symbol x = x) ?ws"
    using dict_ok_map_of [OF ok] by (fastforce simp: list_all_iff)
  then have "map_of (pi_weights i) = map_of ?ws"
    using assms(1) normalize_weights_map [OF ok] by (auto simp: mk_portfolio_intent_def Let_def)
  then show ?thesis by (simp add: weight_of_def dget_def keyed_fold)
qed

subsection \<open>The ranking\<close>

lemma sorted_ranked:
  assumes "dict_ok ms" and "list_all (\<lambda>(sy, m). fits28 m) ms"
  shows "sorted_wrt (\<lambda>x y. dget ms y 0 \<le> dget ms x 0) (ranked ms)" "distinct (ranked ms)" "set (ranked ms) = fst ` set ms"
proof -
  let ?k = "\<lambda>(sy, m :: dec). (dneg m, sy)"
  have at: "dget ms (fst x) 0 = snd x \<and> dneg (snd x) = - snd x" if "x \<in> set (sort_key ?k ms)" for x
    using that dict_ok_map_of [OF assms(1), of "fst x" "snd x"] assms(2)
    by (auto simp: dget_def list_all_iff dneg_def dround_fits)
  have "sorted_wrt (\<lambda>x y. ?k x \<le> ?k y) (sort_key ?k ms)" using sorted_sort_key [of ?k ms] by (simp add: sorted_map)
  then have "sorted_wrt (\<lambda>x y. snd y \<le> snd x) (sort_key ?k ms)"
    by (rule sorted_wrt_mono_rel [rotated]) (use at in \<open>fastforce simp: less_eq_prod_def split: prod.splits\<close>)
  then show "sorted_wrt (\<lambda>x y. dget ms y 0 \<le> dget ms x 0) (ranked ms)"
    unfolding ranked_def sorted_wrt_map by (rule sorted_wrt_mono_rel [rotated]) (use at in simp)
  have "mset (map fst (sort_key ?k ms)) = mset (map fst ms)" by simp
  then show "distinct (ranked ms)" using assms(1) mset_eq_imp_distinct_iff unfolding ranked_def dict_ok_def by blast
  show "set (ranked ms) = fst ` set ms" by (simp add: ranked_def)
qed

text \<open>A prefix of a ranking: nothing left out beats what was taken.\<close>

lemma take_of_sorted:
  "sorted_wrt R xs \<Longrightarrow> x \<in> set (take n xs) \<Longrightarrow> y \<in> set xs \<Longrightarrow> y \<notin> set (take n xs) \<Longrightarrow> R x y"
proof -
  assume R: "sorted_wrt R xs" and x: "x \<in> set (take n xs)" and y: "y \<in> set xs" "y \<notin> set (take n xs)"
  have "set xs = set (take n xs) \<union> set (drop n xs)" by (metis append_take_drop_id set_append)
  then have "y \<in> set (drop n xs)" using y by blast
  moreover have "sorted_wrt R (take n xs @ drop n xs)" using R by simp
  ultimately show ?thesis using x unfolding sorted_wrt_append by blast
qed

lemma selected_best:
  assumes "dict_ok ms" "list_all (\<lambda>(sy, m). fits28 m) ms"
  shows "length (selected c ms) \<le> nat (psc_top_n c)" "set (selected c ms) \<subseteq> fst ` set ms"
    and "x \<in> set (selected c ms) \<Longrightarrow> y \<in> fst ` set ms \<Longrightarrow> y \<notin> set (selected c ms)
      \<Longrightarrow> dget ms y 0 \<le> dget ms x 0 \<or> psc_positive_only c \<and> dget ms y 0 \<le> 0"
    and "x \<in> set (selected c ms) \<Longrightarrow> psc_positive_only c \<Longrightarrow> 0 < dget ms x 0"
proof -
  note r = sorted_ranked [OF assms]
  show "length (selected c ms) \<le> nat (psc_top_n c)" by (simp add: selected_def)
  show "set (selected c ms) \<subseteq> fst ` set ms"
    using r(3) by (auto simp: selected_def eligible_def dest!: in_set_takeD split: if_splits)
  show "0 < dget ms x 0" if "x \<in> set (selected c ms)" "psc_positive_only c"
    using that by (auto simp: selected_def eligible_def dest!: in_set_takeD)
  show "dget ms y 0 \<le> dget ms x 0 \<or> psc_positive_only c \<and> dget ms y 0 \<le> 0"
    if "x \<in> set (selected c ms)" "y \<in> fst ` set ms" "y \<notin> set (selected c ms)"
  proof (cases "y \<in> set (eligible c ms)")
    case True
    have "sorted_wrt (\<lambda>x y. dget ms y 0 \<le> dget ms x 0) (eligible c ms)"
      using r(1) by (simp add: eligible_def sorted_wrt_filter)
    from take_of_sorted [OF this _ True] that show ?thesis by (simp add: selected_def)
  next
    case False
    then show ?thesis using that(2) r(3) by (auto simp: eligible_def not_less split: if_splits)
  qed
qed

subsection \<open>Properties\<close>

definition frame_valid :: "universe_frame \<Rightarrow> bool" where
  "frame_valid f \<longleftrightarrow> uf_bars f \<noteq> [] \<and> distinct (map bar_symbol (uf_bars f))
     \<and> list_all (\<lambda>b. normalize_symbol (bar_symbol b) = bar_symbol b) (uf_bars f)"

lemma momentum_of_Inr:
  assumes "momentum_of h f = Inr ms" and "distinct (map bar_symbol (uf_bars f))"
  shows "dict_ok ms" "fst ` set ms = bar_symbol ` set (uf_bars f)" "list_all (\<lambda>(sy, m). fits28 m) ms"
    and "b \<in> set (uf_bars f) \<Longrightarrow> trailing_return (dget h (bar_symbol b) []) = Inr (dget ms (bar_symbol b) 0)"
proof -
  let ?m = "\<lambda>b. bind_res (trailing_return (dget h (bar_symbol b) [])) (\<lambda>m. Inr (bar_symbol b, m))"
  obtain rs where rs: "map_res ?m (uf_bars f) = Inr rs" and ms: "ms = fold (\<lambda>(sy, m). AList.update sy m) rs []"
    using assms(1) by (auto simp: momentum_of_def)
  define val where "val sy = (case trailing_return (dget h sy []) of Inl e \<Rightarrow> 0 | Inr m \<Rightarrow> m)" for sy
  have each: "trailing_return (dget h (bar_symbol b) []) = Inr (val (bar_symbol b))" if "b \<in> set (uf_bars f)" for b
    using map_res_Inr_nth [OF rs] that by (auto simp: val_def in_set_conv_nth)
  then have "rs = map (\<lambda>b. (bar_symbol b, val (bar_symbol b))) (uf_bars f)"
    using rs map_res_total [of "uf_bars f" ?m "\<lambda>b. (bar_symbol b, val (bar_symbol b))"] by simp
  then have ms': "ms = fold (\<lambda>b. AList.update (bar_symbol b) (val (bar_symbol b))) (uf_bars f) []"
    by (simp add: ms fold_map comp_def)
  show ok: "dict_ok ms" unfolding ms' by (rule keyed_fold_ok) simp
  have at: "map_of ms x = (if x \<in> bar_symbol ` set (uf_bars f) then Some (val x) else None)" for x
    by (simp add: ms' keyed_fold)
  have "dom (map_of ms) = bar_symbol ` set (uf_bars f)" by (auto simp: at dom_def)
  then show "fst ` set ms = bar_symbol ` set (uf_bars f)" by (simp add: dom_map_of_conv_image_fst)
  show "trailing_return (dget h (bar_symbol b) []) = Inr (dget ms (bar_symbol b) 0)" if "b \<in> set (uf_bars f)"
    using each [OF that] that by (simp add: dget_def at)
  have "fits28 (val x)" for x by (auto simp: val_def trailing_return_def dsub_def fits28_dround split: sum.split)
  then show "list_all (\<lambda>(sy, m). fits28 m) ms"
    using dict_ok_map_of [OF ok] at by (fastforce simp: list_all_iff split: if_splits)
qed

text \<open>The momentum portfolio holds the strongest: when the strategy answers a valid frame with an intent, every symbol
  of the frame gets weight zero or the same share of the gross target, no more symbols get the share, a symbol
  that gets it has a trailing return no smaller than that of any symbol that does not (unless only positive returns
  count and the other's is not positive), and when only positive returns count its own is positive.\<close>

theorem momentum_holds_strongest:
  assumes "momentum_on_frame c f h = (Inr (Some i), h')" and "frame_valid f" and "0 < psc_gross c" and "1 \<le> psc_top_n c"
  shows "\<exists>held share ret. 0 < share \<and> int (length held) \<le> psc_top_n c
    \<and> list_all (\<lambda>b. trailing_return (dget h' (bar_symbol b) []) = Inr (ret (bar_symbol b))
         \<and> weight_of i (bar_symbol b) = (if bar_symbol b \<in> set held then share else 0)
         \<and> (bar_symbol b \<in> set held \<longrightarrow> (psc_positive_only c \<longrightarrow> 0 < ret (bar_symbol b))
              \<and> list_all (\<lambda>b'. bar_symbol b' \<in> set held \<or> ret (bar_symbol b') \<le> ret (bar_symbol b)
                     \<or> psc_positive_only c \<and> ret (bar_symbol b') \<le> 0) (uf_bars f))) (uf_bars f)"
proof -
  obtain ms w where h': "h' = remember_frame c f h" and ms: "momentum_of h' f = Inr ms"
    and w: "w = dround (psc_gross c / of_int (psc_top_n c))"
    and i: "mk_portfolio_intent ''cross-sectional-momentum-v1'' (uf_time f)
      (fold (\<lambda>b. AList.update (bar_symbol b) (if bar_symbol b \<in> set (selected c ms) then w else 0)) (uf_bars f) [])
      (selection_text c (selected c ms)) = Inr i"
    using assms(1) by (auto simp: momentum_on_frame_def Let_def ddiv_Inr_iff split: if_splits)
  have d: "distinct (map bar_symbol (uf_bars f))" and sy: "list_all (\<lambda>b. normalize_symbol (bar_symbol b) = bar_symbol b) (uf_bars f)"
    using assms(2) by (simp_all add: frame_valid_def)
  note m = momentum_of_Inr [OF ms d]
  note best = selected_best [OF m(1,3), where c = c]
  have weights: "weight_of i s = (if s \<in> bar_symbol ` set (uf_bars f) then if s \<in> set (selected c ms) then w else 0 else 0)" for s
    by (rule intent_weights [OF i sy])
  have beaten: "dget ms (bar_symbol b') 0 \<le> dget ms (bar_symbol b) 0 \<or> psc_positive_only c \<and> dget ms (bar_symbol b') 0 \<le> 0"
    if "bar_symbol b \<in> set (selected c ms)" "b' \<in> set (uf_bars f)" "bar_symbol b' \<notin> set (selected c ms)" for b b'
    using best(3) [OF that(1) _ that(3)] that(2) m(2) by blast
  show ?thesis
  proof (intro exI conjI)
    show "0 < w" using assms(3,4) by (simp add: w dround_pos)
    show "int (length (selected c ms)) \<le> psc_top_n c" using best(1) assms(4) by linarith
    show "list_all (\<lambda>b. trailing_return (dget h' (bar_symbol b) []) = Inr (dget ms (bar_symbol b) 0)
         \<and> weight_of i (bar_symbol b) = (if bar_symbol b \<in> set (selected c ms) then w else 0)
         \<and> (bar_symbol b \<in> set (selected c ms) \<longrightarrow> (psc_positive_only c \<longrightarrow> 0 < dget ms (bar_symbol b) 0)
              \<and> list_all (\<lambda>b'. bar_symbol b' \<in> set (selected c ms) \<or> dget ms (bar_symbol b') 0 \<le> dget ms (bar_symbol b) 0
                     \<or> psc_positive_only c \<and> dget ms (bar_symbol b') 0 \<le> 0) (uf_bars f))) (uf_bars f)"
      using m(4) best(4) beaten by (auto simp: list_all_iff weights)
  qed
qed

text \<open>A delayed portfolio strategy with a calendar opens positions in the entry phase only: outside it an answered
  frame is one of the flatten phase, the answer asks for weight zero in every symbol, and no intent decided before
  stays pending.\<close>

theorem delayed_enters_only_in_entry:
  assumes "delayed_on_frame sid inner f s = (Inr (Some i), s')" and "dp_calendar s = Some cal"
    and "sg_phase (gate_at cal (uf_time f)) \<noteq> ENTRY" and "frame_valid f"
  shows "sg_phase (gate_at cal (uf_time f)) = FLATTEN \<and> weight_of i sy = 0 \<and> dp_pending s' = [] \<and> pi_time i = uf_time f"
proof -
  have "sg_phase (gate_at cal (uf_time f)) = FLATTEN \<and> flatten_intent sid f = Inr i \<and> dp_pending s' = []"
    using assms(1-3) by (cases "sg_phase (gate_at cal (uf_time f))") (auto simp: delayed_on_frame_def Let_def split: prod.splits sum.splits)
  then show ?thesis
    using zero_weights [of bar_symbol "uf_bars f" sy] by (auto simp: flatten_intent_def mk_portfolio_intent_def weight_of_def Let_def)
qed

definition rank_config :: portfolio_strategy_config where
  "rank_config = \<lparr>psc_lookback = 2, psc_top_n = 1, psc_gross = 1 / 50, psc_positive_only = True\<rparr>"

definition rank_history :: history where
  "rank_history = [(''A'', [100, 105]), (''B'', [100, 95])]"

definition rank_frame :: universe_frame where
  "rank_frame = \<lparr>uf_time = 9, uf_bars = [demo_uni_bar ''A'' 9, demo_uni_bar ''B'' 9]\<rparr>"

definition rank_bars :: universe_frame where
  "rank_bars = rank_frame\<lparr>uf_bars := [(demo_uni_bar ''A'' 9)\<lparr>bar_close := 110\<rparr>, (demo_uni_bar ''B'' 9)\<lparr>bar_close := 90\<rparr>]\<rparr>"

lemma rank_eval:
  "remember_frame rank_config rank_bars rank_history = [(''A'', [100, 105, 110]), (''B'', [100, 95, 90])]"
  "momentum_of [(''A'', [100, 105, 110]), (''B'', [100, 95, 90])] rank_bars = Inr [(''A'', 1 / 10), (''B'', - (1 / 10))]"
  "selected rank_config [(''A'', 1 / 10), (''B'', - (1 / 10))] = [''A'']"
  by (simp_all add: remember_frame_def remember_def rank_config_def rank_bars_def rank_frame_def rank_history_def demo_uni_bar_def push_def
      dget_def momentum_of_def trailing_return_def selected_def eligible_def ranked_def dec_eval)

lemma rank_fields [simp]: "psc_lookback rank_config = 2" "psc_top_n rank_config = 1" "psc_gross rank_config = 1 / 50"
  by (simp_all add: rank_config_def)

lemma rank_runs: "\<exists>i h'. momentum_on_frame rank_config rank_bars rank_history = (Inr (Some i), h')"
proof -
  have names: "normalize_symbol ''A'' = ''A''" "normalize_symbol ''B'' = ''B''"
    "selection_text rank_config [''A''] = ''selected A by 2-frame momentum''" by code_simp+
  have bars: "uf_bars rank_bars = [(demo_uni_bar ''A'' 9)\<lparr>bar_close := 110\<rparr>, (demo_uni_bar ''B'' 9)\<lparr>bar_close := 90\<rparr>]"
    "bar_symbol (demo_uni_bar ''A'' 9) = ''A''" "bar_symbol (demo_uni_bar ''B'' 9) = ''B''"
    by (simp_all add: rank_bars_def demo_uni_bar_def)
  have "mk_portfolio_intent ''cross-sectional-momentum-v1'' (uf_time rank_bars) [(''A'', 1 / 50), (''B'', 0)] ''selected A by 2-frame momentum''
      = Inr \<lparr>pi_strategy = ''cross-sectional-momentum-v1'', pi_time = uf_time rank_bars, pi_weights = [(''A'', 1 / 50), (''B'', 0)],
          pi_rationale = ''selected A by 2-frame momentum''\<rparr>"
    by (simp add: mk_portfolio_intent_def normalize_weights_def require_length_def dsum_def names dec_eval)
  moreover have "ddiv (psc_gross rank_config) (of_int (psc_top_n rank_config)) = Inr (1 / 50)" by (simp add: dec_eval)
  moreover have "fold (\<lambda>b. AList.update (bar_symbol b) (if bar_symbol b \<in> set [''A''] then 1 / 50 else 0)) (uf_bars rank_bars) []
      = [(''A'', 1 / 50), (''B'', 0 :: dec)]"
    by (simp add: bars)
  moreover have "\<not> list_ex (\<lambda>b. int (length (dget [(''A'', [100, 105, 110]), (''B'', [100, 95, 90 :: dec])] (bar_symbol b) []))
      < psc_lookback rank_config + 1) (uf_bars rank_bars)"
    by (simp add: bars dget_def)
  ultimately show ?thesis
    unfolding momentum_on_frame_def rank_eval Let_def by (simp only: bind_res_simps if_False rank_eval(2,3) names(3)) blast
qed

theorem momentum_holds_strongest_witness:
  "\<exists>i h' held share. momentum_on_frame rank_config rank_bars rank_history = (Inr (Some i), h') \<and> 0 < share \<and> length held \<le> (1 :: nat)
     \<and> list_all (\<lambda>b. weight_of i (bar_symbol b) = (if bar_symbol b \<in> set held then share else 0)) (uf_bars rank_bars)"
proof -
  obtain i h' where r: "momentum_on_frame rank_config rank_bars rank_history = (Inr (Some i), h')" using rank_runs by blast
  have "normalize_symbol ''A'' = ''A''" "normalize_symbol ''B'' = ''B''" by code_simp+
  then have "frame_valid rank_bars" by (simp add: frame_valid_def rank_bars_def rank_frame_def demo_uni_bar_def)
  have gross: "0 < psc_gross rank_config" "1 \<le> psc_top_n rank_config" by simp_all
  from momentum_holds_strongest [OF r \<open>frame_valid rank_bars\<close> gross] obtain held share ret where h: "0 < share"
    "int (length held) \<le> psc_top_n rank_config"
    "list_all (\<lambda>b. trailing_return (dget h' (bar_symbol b) []) = Inr (ret (bar_symbol b))
         \<and> weight_of i (bar_symbol b) = (if bar_symbol b \<in> set held then share else 0)
         \<and> (bar_symbol b \<in> set held \<longrightarrow> (psc_positive_only rank_config \<longrightarrow> 0 < ret (bar_symbol b))
              \<and> list_all (\<lambda>b'. bar_symbol b' \<in> set held \<or> ret (bar_symbol b') \<le> ret (bar_symbol b)
                     \<or> psc_positive_only rank_config \<and> ret (bar_symbol b') \<le> 0) (uf_bars rank_bars))) (uf_bars rank_bars)"
    by (elim exE conjE)
  have "list_all (\<lambda>b. weight_of i (bar_symbol b) = (if bar_symbol b \<in> set held then share else 0)) (uf_bars rank_bars)"
    using h(3) by (rule list.pred_mono_strong) (elim conjE)
  moreover have "length held \<le> 1" using h(2) by simp
  ultimately show ?thesis using r h(1) by (intro exI conjI)
qed

definition late_bars :: universe_frame where
  "late_bars = rank_bars\<lparr>uf_time := hours 15 + minutes 55\<rparr>"

theorem delayed_enters_only_in_entry_witness:
  "\<exists>i s'. delayed_on_frame ''p'' (\<lambda>f. return_st None) late_bars
       \<lparr>dp_inner = (), dp_frames = 1, dp_pending = [None], dp_calendar = Some demo_calendar\<rparr> = (Inr (Some i), s')
     \<and> weight_of i ''A'' = 0 \<and> dp_pending s' = []"
proof -
  let ?s = "\<lparr>dp_inner = (), dp_frames = 1, dp_pending = [None], dp_calendar = Some demo_calendar\<rparr>"
  have names: "normalize_symbol ''A'' = ''A''" "normalize_symbol ''B'' = ''B''" by code_simp+
  have ok: "frame_valid late_bars"
    by (simp add: frame_valid_def late_bars_def rank_bars_def rank_frame_def demo_uni_bar_def names)
  have phase: "sg_phase (gate_at demo_calendar (uf_time late_bars)) = FLATTEN"
    by (simp add: late_bars_def gate_at_def session_phase_at_def no_entry_at_def flatten_at_def demo_calendar_def durations default_intraday_config_def)
  have "\<exists>i. flatten_intent ''p'' late_bars = Inr i"
    by (simp add: flatten_intent_def mk_portfolio_intent_def late_bars_def rank_bars_def demo_uni_bar_def normalize_weights_def names
        require_length_def dsum_def dec_eval)
  then obtain i s' where r: "delayed_on_frame ''p'' (\<lambda>f. return_st None) late_bars ?s = (Inr (Some i), s')"
    by (auto simp: delayed_on_frame_def return_st_def phase)
  have "weight_of i ''A'' = 0 \<and> dp_pending s' = []"
    using delayed_enters_only_in_entry [OF r _ _ ok, of demo_calendar "''A''"] phase by simp
  with r show ?thesis by blast
qed

end
