(* ===== verification/ExperimentalPolicy.thy ===== *)
theory ExperimentalPolicy
  imports Config
begin

text \<open>
  \<^verbatim>\<open>experimental_policy.py\<close>: the settings of an experimental paper cohort with every bound and every rule of
  their validator, the notional a single entry may use, and the operational certificate. The account digests are
  kept as text; whether one is 64 hexadecimal digits is checked as the field's pattern does.
\<close>

datatype experiment_mode = Shadow | ExperimentalPaper | OfflineReplay
datatype purpose = Research | IexPractice
datatype entry_policy = EventStrategy | EquipmentOnlyDemo | NewsPaper | OperatorCalibration | ScheduledOperator

record experimental_settings =
  es_mode :: experiment_mode
  es_purpose :: purpose
  es_policy :: entry_policy
  es_demo_digest :: "string option"
  es_news_digest :: "string option"
  es_practice_start :: "day option"
  es_cohort :: string
  es_equity :: dec
  es_entry_notional :: dec
  es_entries :: int
  es_daily_loss :: dec
  es_drawdown :: dec
  es_weekly_loss :: dec
  es_holding_minutes :: int
  es_poll_seconds :: int
  es_lookback_minutes :: int
  es_symbols :: string

definition default_settings :: experimental_settings where
  "default_settings = \<lparr>es_mode = Shadow, es_purpose = Research, es_policy = EventStrategy, es_demo_digest = None,
     es_news_digest = None, es_practice_start = None, es_cohort = ''v20-event-cohort-001'', es_equity = 10000,
     es_entry_notional = 25, es_entries = 2, es_daily_loss = 5 / 1000, es_drawdown = 15 / 1000,
     es_weekly_loss = 5 / 1000, es_holding_minutes = 60, es_poll_seconds = 30, es_lookback_minutes = 60,
     es_symbols = ''AAPL,MSFT,NVDA''\<rparr>"

definition hex_char :: "char \<Rightarrow> bool" where
  "hex_char c \<longleftrightarrow> (let n = of_char c :: nat in (48 \<le> n \<and> n \<le> 57) \<or> (97 \<le> n \<and> n \<le> 102))"

definition digest_ok :: "string option \<Rightarrow> bool" where
  "digest_ok d = (case d of None \<Rightarrow> True | Some s \<Rightarrow> length s = 64 \<and> list_all hex_char s)"

text \<open>\<^verbatim>\<open>str.split\<close> on one character.\<close>

fun split_on :: "char \<Rightarrow> string \<Rightarrow> string list" where
  "split_on c [] = [[]]"
| "split_on c (x # xs) = (if x = c then [] # split_on c xs
     else (case split_on c xs of [] \<Rightarrow> [[x]] | w # ws \<Rightarrow> (x # w) # ws))"

definition settings_symbols :: "experimental_settings \<Rightarrow> string list" where
  "settings_symbols s = split_on CHR '','' (es_symbols s)"

definition settings_fields :: "experimental_settings \<Rightarrow> bool" where
  "settings_fields s \<longleftrightarrow> digest_ok (es_demo_digest s) \<and> digest_ok (es_news_digest s)
     \<and> 1 \<le> length (es_cohort s) \<and> length (es_cohort s) \<le> 51
     \<and> 0 < es_equity s \<and> es_equity s \<le> 10000 \<and> 0 < es_entry_notional s \<and> es_entry_notional s \<le> 25
     \<and> 1 \<le> es_entries s \<and> es_entries s \<le> 2
     \<and> 0 < es_daily_loss s \<and> es_daily_loss s \<le> 5 / 1000 \<and> 0 < es_drawdown s \<and> es_drawdown s \<le> 15 / 1000
     \<and> 0 < es_weekly_loss s \<and> es_weekly_loss s \<le> 5 / 1000
     \<and> 1 \<le> es_holding_minutes s \<and> es_holding_minutes s \<le> 60 \<and> 10 \<le> es_poll_seconds s \<and> es_poll_seconds s \<le> 60
     \<and> 15 \<le> es_lookback_minutes s \<and> es_lookback_minutes s \<le> 1440"

definition protected_policy :: "entry_policy \<Rightarrow> bool" where
  "protected_policy p \<longleftrightarrow> p = NewsPaper \<or> p = OperatorCalibration \<or> p = ScheduledOperator"

definition validate_practice :: "experimental_settings \<Rightarrow> unit res" where
  "validate_practice s =
     (let symbols = settings_symbols s; practice = (es_purpose s = IexPractice) in
     bind_res (check (symbols \<noteq> [] \<and> list_all (\<lambda>x. x = ''AAPL'' \<or> x = ''MSFT'' \<or> x = ''NVDA'') symbols)
       (ValidationError ''v20 supports only AAPL, MSFT and NVDA'')) (\<lambda>_.
     bind_res (if practice
       then bind_res (check (es_practice_start s \<noteq> None) (ValidationError ''IEX practice requires an explicit start date'')) (\<lambda>_.
         check (''AAPL'' \<in> set symbols) (ValidationError ''IEX practice requires AAPL for its declared calibration''))
       else check (es_practice_start s = None) (ValidationError ''a practice start date cannot alter a research cohort'')) (\<lambda>_.
     bind_res (if es_policy s = EquipmentOnlyDemo
       then check (practice \<and> es_symbols s = ''AAPL'' \<and> es_entries s = 1 \<and> es_demo_digest s \<noteq> None)
         (ValidationError ''equipment-only demo requires IEX, AAPL, one entry and account pin'')
       else check (es_demo_digest s = None) (ValidationError ''demo account pin requires the equipment-only policy'')) (\<lambda>_.
     bind_res (if protected_policy (es_policy s)
       then check (practice \<and> es_entries s = 2 \<and> es_news_digest s \<noteq> None)
         (ValidationError ''protected paper requires IEX, two bounded entries and account pin'')
       else check (es_news_digest s = None) (ValidationError ''news account pin requires the news-paper policy'')) (\<lambda>_.
     check (\<not> (es_policy s = ScheduledOperator \<and> (es_mode s \<noteq> ExperimentalPaper \<or> es_symbols s \<noteq> ''AAPL'')))
       (ValidationError ''scheduled operator host requires actual AAPL experimental-paper''))))))"

definition mk_experimental_settings :: "experimental_settings \<Rightarrow> experimental_settings res" where
  "mk_experimental_settings s =
     bind_res (in_range ''settings'' (settings_fields s)) (\<lambda>_. bind_res (validate_practice s) (\<lambda>_. Inr s))"

definition settings_ok :: "experimental_settings \<Rightarrow> bool" where
  "settings_ok s \<longleftrightarrow> mk_experimental_settings s = Inr s"

definition execution_feed :: "experimental_settings \<Rightarrow> string" where
  "execution_feed s = (if es_purpose s = IexPractice then ''iex'' else ''sip'')"

definition calibration_window_minutes :: "experimental_settings \<Rightarrow> int \<times> int" where
  "calibration_window_minutes s = (if es_policy s = EquipmentOnlyDemo \<or> es_policy s = NewsPaper then (40, 60) else (0, 30))"

definition effective_notional :: "experimental_settings \<Rightarrow> intraday_config \<Rightarrow> risk_limits \<Rightarrow> dec" where
  "effective_notional s ic rl =
     min (es_entry_notional s) (min (maximum_order_notional ic)
       (min (dmul (es_equity s) (maximum_position_exposure ic))
       (min (dmul (es_equity s) (maximum_gross_exposure ic)) (dmul (es_equity s) (max_order_exposure rl)))))"

record operational_certificate =
  oc_cohort :: string
  oc_config_hash :: string
  oc_code_sha :: string
  oc_account :: string
  oc_issued_at :: instant
  oc_expires_at :: instant
  oc_checks :: "(string, bool) dict"
  oc_permits_paper :: bool

text \<open>\<open>digest\<close> is the hexadecimal SHA-256 of a text.\<close>

definition certificate ::
  "(string \<Rightarrow> string) \<Rightarrow> experimental_settings \<Rightarrow> string \<Rightarrow> string \<Rightarrow> string \<Rightarrow> (string, bool) dict \<Rightarrow> instant \<Rightarrow> operational_certificate" where
  "certificate digest s config_hash code_sha account_id checks now =
     \<lparr>oc_cohort = es_cohort s, oc_config_hash = config_hash, oc_code_sha = code_sha, oc_account = digest account_id,
      oc_issued_at = now, oc_expires_at = now + hours 24, oc_checks = checks,
      oc_permits_paper = (checks \<noteq> [] \<and> list_all snd checks)\<rparr>"

lemma settings_okD:
  "settings_ok s \<Longrightarrow> settings_fields s \<and> validate_practice s = Inr ()"
  by (simp add: settings_ok_def mk_experimental_settings_def in_range_def check_def split: sum.splits if_splits)

lemma effective_notional_le: "settings_ok s \<Longrightarrow> effective_notional s ic rl \<le> 25"
  by (drule settings_okD) (simp add: effective_notional_def settings_fields_def min_le_iff_disj)

end
