(* ===== verification/EventPerformance.thy ===== *)
theory EventPerformance
  imports OrderState DecimalText ExperimentalPolicy
begin

text \<open>
  \<^verbatim>\<open>event_performance.py\<close> and the labels of \<^verbatim>\<open>event_reporting.py\<close>: what the broker-paper fills of a set of orders
  earned, with the reserves for costs the paper broker does not charge, the round trips they form and the report
  over them. A Decimal that the report carries as text is the value the text denotes; entries of the report that
  are constant text, and timestamps that are only copied, are left out. A broker record is the stored form of
  \<^verbatim>\<open>AlpacaPaperOrder\<close>, so its filled quantity is always present; its average price is text or absent.
\<close>

subsection \<open>Rows\<close>

record broker_record =
  bk_id :: string
  bk_quantity :: "dec option"
  bk_filled :: dec
  bk_price :: "string option"
  bk_status :: alpaca_status
  bk_filled_at :: "pydatetime option"
  bk_updated_at :: "instant option"

record thesis =
  th_invalidated :: "bool option"
  th_evidence :: "string option"
  th_observed_at :: "string option"

text \<open>The durable link of an order, by the keys the accounting reads.\<close>

record order_link =
  lk_broker :: "broker_record option"
  lk_entry_kind :: "string option"
  lk_classification :: "string option"
  lk_calibration :: bool
  lk_purpose :: "string option"
  lk_settings_purpose :: "string option"
  lk_thesis :: "thesis option"
  lk_account :: string
  lk_cohort :: string
  lk_session :: "string option"
  lk_planned :: "day option"
  lk_protection :: "dec option"
  lk_attempted :: "instant option"
  lk_released :: "instant option"
  lk_unsent :: "instant option"

record order_row =
  ow_id :: string
  ow_client :: "string option"
  ow_broker_id :: "string option"
  ow_symbol :: string
  ow_side :: side
  ow_quantity :: "dec option"
  ow_filled :: dec
  ow_status :: lifecycle_state
  ow_created :: instant
  ow_updated :: "instant option"
  ow_link :: order_link

subsection \<open>Labels\<close>

datatype trade_class = EQUIPMENT_TEST | NEWS_STRATEGY | UNCLASSIFIED

definition purpose_name :: "purpose \<Rightarrow> string" where
  "purpose_name p = (case p of Research \<Rightarrow> ''research'' | IexPractice \<Rightarrow> ''iex-practice'')"

text \<open>A source of \<^verbatim>\<open>reporting_purpose\<close>: its own purpose and the one in its settings.\<close>

type_synonym purpose_source = "string option \<times> string option"

fun reporting_purpose :: "purpose_source list \<Rightarrow> purpose" where
  "reporting_purpose [] = Research"
| "reporting_purpose ((p, sp) # ss) =
     (if p = Some ''iex-practice'' \<or> sp = Some ''iex-practice'' then IexPractice else reporting_purpose ss)"

definition link_source :: "order_link \<Rightarrow> purpose_source" where
  "link_source l = (lk_purpose l, lk_settings_purpose l)"

definition is_calibration :: "order_link \<Rightarrow> bool" where
  "is_calibration l \<longleftrightarrow> lk_entry_kind l = Some ''calibration''
     \<or> lk_classification l = Some ''calibration'' \<or> lk_classification l = Some ''EQUIPMENT_TEST''
     \<or> lk_calibration l"

definition trade_classification :: "order_link \<Rightarrow> trade_class" where
  "trade_classification l =
     (if is_calibration l then EQUIPMENT_TEST
      else if lk_classification l = Some ''NEWS_STRATEGY'' \<or> lk_entry_kind l = Some ''strategy'' then NEWS_STRATEGY
      else UNCLASSIFIED)"

record labels =
  lb_purpose :: purpose
  lb_eligible :: bool
  lb_evidence_use :: string
  lb_qualification :: string
  lb_qualifying :: nat

definition evidence_labels :: "purpose \<Rightarrow> bool \<times> string" where
  "evidence_labels p = (p \<noteq> IexPractice, if p = IexPractice then ''operational_practice_only'' else ''research'')"

text \<open>The payload's own count of qualifying round trips is kept unless the purpose is practice.\<close>

definition performance_labels :: "nat \<Rightarrow> purpose \<Rightarrow> labels" where
  "performance_labels counted p =
     (let practice = (p = IexPractice) in
      \<lparr>lb_purpose = p, lb_eligible = fst (evidence_labels p), lb_evidence_use = snd (evidence_labels p),
       lb_qualification = (if practice then ''excluded_operational_practice'' else ''unproven''),
       lb_qualifying = (if practice then 0 else counted)\<rparr>)"

subsection \<open>Confirmed fills\<close>

definition residual_rate :: dec where
  "residual_rate = 5 / 100000"

definition sell_value_rate :: dec where
  "sell_value_rate = 2060 / 100000000"

definition sell_share_rate :: dec where
  "sell_share_rate = 195 / 1000000"

definition sell_minimum :: dec where
  "sell_minimum = 1 / 100"

definition stress_multipliers :: "(string \<times> dec) list" where
  "stress_multipliers = [(''1.5x'', 3 / 2), (''2x'', 2), (''3x'', 3)]"

lemmas cost_rates = residual_rate_def sell_value_rate_def sell_share_rate_def sell_minimum_def

definition ratio :: "dec option \<Rightarrow> dec option \<Rightarrow> dec option" where
  "ratio v d = (case (v, d) of (Some x, Some y) \<Rightarrow> if y \<noteq> 0 then Some (dquo x y) else None | _ \<Rightarrow> None)"

definition fill_price :: "string option \<Rightarrow> dec option" where
  "fill_price v =
     (case v of None \<Rightarrow> None
      | Some s \<Rightarrow>
          if map lower_char (py_strip s) \<in> {[], ''none'', ''null''} then None
          else (case decimal_of_string s of
                  Some (Finite d) \<Rightarrow> (if pvalue d > 0 then Some (pvalue d) else None)
                | _ \<Rightarrow> None))"

definition identity :: "nat \<Rightarrow> order_row \<Rightarrow> string" where
  "identity i r = (case ow_client r of None \<Rightarrow> ''unidentified:'' @ show_nat i | Some c \<Rightarrow> c)"

definition filled_of :: "order_row \<Rightarrow> dec" where
  "filled_of r = (case lk_broker (ow_link r) of None \<Rightarrow> 0 | Some b \<Rightarrow> bk_filled b)"

fun confirm_loop :: "nat \<Rightarrow> order_row list \<Rightarrow> (string, order_row) dict \<Rightarrow> (string, order_row) dict" where
  "confirm_loop i [] d = d"
| "confirm_loop i (r # rs) d =
     (let k = identity i r;
          old = (case map_of d k of None \<Rightarrow> - 1 | Some o' \<Rightarrow> filled_of o')
      in confirm_loop (Suc i) rs (if filled_of r \<ge> old then AList.update k r d else d))"

definition confirmed_rows :: "order_row list \<Rightarrow> order_row list" where
  "confirmed_rows rs = map snd (confirm_loop 0 rs [])"

definition signed_fill :: "order_row \<Rightarrow> dec" where
  "signed_fill r = (if ow_side r = BUY then filled_of r else dneg (filled_of r))"

subsection \<open>What the fills earned\<close>

record execution_cost =
  ex_client :: "string option"
  ex_broker_order :: string
  ex_side :: side
  ex_filled :: dec
  ex_price :: "dec option"
  ex_status :: alpaca_status
  ex_notional :: "dec option"
  ex_partial :: "bool option"
  ex_residual :: "dec option"
  ex_fee :: "dec option"
  ex_total :: "dec option"

record tally =
  ta_cash :: dec
  ta_entry :: dec
  ta_exit :: dec
  ta_fees :: dec
  ta_omissions :: dec
  ta_quantities :: "(string, dec) dict"
  ta_costs :: "execution_cost list"
  ta_unvalued :: "order_row list"
  ta_entry_missing :: bool
  ta_exit_missing :: bool

definition empty_tally :: tally where
  "empty_tally = \<lparr>ta_cash = 0, ta_entry = 0, ta_exit = 0, ta_fees = 0, ta_omissions = 0, ta_quantities = [],
     ta_costs = [], ta_unvalued = [], ta_entry_missing = False, ta_exit_missing = False\<rparr>"

definition sale_fee :: "dec \<Rightarrow> dec \<Rightarrow> dec" where
  "sale_fee notional quantity =
     max sell_minimum (dadd (dmul notional sell_value_rate) (dmul quantity sell_share_rate))"

definition cost_of :: "order_row \<Rightarrow> broker_record \<Rightarrow> dec option \<Rightarrow> execution_cost" where
  "cost_of r b price =
     (let q = bk_filled b; n = map_option (dmul q) price;
          res = map_option (\<lambda>n. dmul n residual_rate) n;
          fee = (if ow_side r = BUY then Some 0 else map_option (\<lambda>n. sale_fee n q) n);
          requested = (case ow_quantity r of None \<Rightarrow> bk_quantity b | Some x \<Rightarrow> Some x)
      in \<lparr>ex_client = ow_client r, ex_broker_order = bk_id b, ex_side = ow_side r, ex_filled = q, ex_price = price,
          ex_status = bk_status b, ex_notional = n, ex_partial = map_option (\<lambda>x. q < x) requested,
          ex_residual = res, ex_fee = fee,
          ex_total = (case (res, fee) of (Some x, Some y) \<Rightarrow> Some (dadd x y) | _ \<Rightarrow> None)\<rparr>)"

definition tally_row :: "order_row \<Rightarrow> tally \<Rightarrow> tally" where
  "tally_row r t =
     (case lk_broker (ow_link r) of None \<Rightarrow> t
      | Some b \<Rightarrow>
          if bk_filled b = 0 then t
          else (let q = bk_filled b; price = fill_price (bk_price b); entry = (ow_side r = BUY);
                    t' = t\<lparr>ta_quantities := AList.update (ow_symbol r)
                              (dadd (dget (ta_quantities t) (ow_symbol r) 0) (signed_fill r)) (ta_quantities t),
                            ta_costs := ta_costs t @ [cost_of r b price]\<rparr>
                in case price of
                     None \<Rightarrow> t'\<lparr>ta_entry_missing := ta_entry_missing t \<or> entry,
                                ta_exit_missing := ta_exit_missing t \<or> \<not> entry,
                                ta_unvalued := ta_unvalued t @ [r]\<rparr>
                   | Some p \<Rightarrow>
                       let n = dmul q p; fee = (if entry then 0 else sale_fee n q) in
                       t'\<lparr>ta_cash := dsub (ta_cash t) (dmul (signed_fill r) p),
                          ta_omissions := dadd (ta_omissions t) (dmul n residual_rate),
                          ta_fees := dadd (ta_fees t) fee,
                          ta_entry := (if entry then dadd (ta_entry t) n else ta_entry t),
                          ta_exit := (if entry then ta_exit t else dadd (ta_exit t) n)\<rparr>))"

definition tally_rows :: "order_row list \<Rightarrow> tally" where
  "tally_rows rs = fold tally_row rs empty_tally"

record stress =
  st_multiplier :: dec
  st_cost :: "dec option"
  st_fees :: "dec option"
  st_net :: "dec option"
  st_on_deployed :: "dec option"
  st_on_capital :: "dec option"

record economics =
  ec_valued :: bool
  ec_missing :: "string list"
  ec_unvalued :: "order_row list"
  ec_positions :: "(string, dec) dict"
  ec_pnl :: "dec option"
  ec_economic :: "dec option"
  ec_deployed :: "dec option"
  ec_exit :: "dec option"
  ec_broker_on_deployed :: "dec option"
  ec_economic_on_deployed :: "dec option"
  ec_broker_on_capital :: "dec option"
  ec_economic_on_capital :: "dec option"
  ec_omissions :: "dec option"
  ec_fees :: "dec option"
  ec_costs :: "execution_cost list"
  ec_stress :: "(string \<times> stress) list"

definition held :: "tally \<Rightarrow> (string, dec) dict" where
  "held t = filter (\<lambda>(s, q). q \<noteq> 0) (ta_quantities t)"

definition missing_marks :: "tally \<Rightarrow> (string, dec) dict \<Rightarrow> string list" where
  "missing_marks t marks = filter (\<lambda>s. map_of marks s = None) (map fst (held t))"

definition broker_pnl :: "tally \<Rightarrow> (string, dec) dict \<Rightarrow> dec option" where
  "broker_pnl t marks =
     (if missing_marks t marks \<noteq> [] \<or> ta_unvalued t \<noteq> [] then None
      else Some (dadd (ta_cash t) (dsum (map (\<lambda>(s, q). dmul q (dget marks s 0)) (held t)))))"

definition stressed_pnl :: "tally \<Rightarrow> dec \<Rightarrow> dec \<Rightarrow> dec" where
  "stressed_pnl t m pnl = dsub (dsub pnl (ta_fees t)) (dmul (ta_omissions t) m)"

definition stress_of :: "tally \<Rightarrow> dec option \<Rightarrow> dec option \<Rightarrow> dec option \<Rightarrow> dec option \<Rightarrow> dec \<Rightarrow> stress" where
  "stress_of t pnl fees deployed capital m =
     (let net = map_option (stressed_pnl t m) pnl in
      \<lparr>st_multiplier = m,
       st_cost = (if ta_unvalued t \<noteq> [] then None else Some (dmul (ta_omissions t) m)),
       st_fees = fees, st_net = net, st_on_deployed = ratio net deployed, st_on_capital = ratio net capital\<rparr>)"

definition economics_of :: "order_row list \<Rightarrow> (string, dec) dict \<Rightarrow> dec option \<Rightarrow> economics" where
  "economics_of rs marks capital =
     (let t = tally_rows rs; missing = missing_marks t marks; pnl = broker_pnl t marks;
          economic = map_option (\<lambda>x. dsub (dsub x (ta_fees t)) (ta_omissions t)) pnl;
          deployed = (if ta_entry_missing t then None else Some (ta_entry t));
          exits = (if ta_exit_missing t then None else Some (ta_exit t));
          fees = (if ta_exit_missing t then None else Some (ta_fees t))
      in \<lparr>ec_valued = (missing = [] \<and> ta_unvalued t = []), ec_missing = missing, ec_unvalued = ta_unvalued t,
          ec_positions = held t, ec_pnl = pnl, ec_economic = economic, ec_deployed = deployed, ec_exit = exits,
          ec_broker_on_deployed = ratio pnl deployed, ec_economic_on_deployed = ratio economic deployed,
          ec_broker_on_capital = ratio pnl capital, ec_economic_on_capital = ratio economic capital,
          ec_omissions = (if ta_unvalued t \<noteq> [] then None else Some (ta_omissions t)), ec_fees = fees,
          ec_costs = ta_costs t,
          ec_stress = map (\<lambda>(n, m). (n, stress_of t pnl fees deployed capital m)) stress_multipliers\<rparr>)"

subsection \<open>Round trips\<close>

type_synonym round_key = "string \<times> trade_class"

definition round_key :: "order_row \<Rightarrow> round_key" where
  "round_key r = (ow_symbol r, trade_classification (ow_link r))"

definition has_fill :: "order_row \<Rightarrow> bool" where
  "has_fill r \<longleftrightarrow> lk_broker (ow_link r) \<noteq> None \<and> filled_of r \<noteq> 0"

text \<open>
  The groups so far, and for each symbol and classification with an open round the position of its group and
  its running quantity: the code's \<^verbatim>\<open>active\<close> holds the very list it put into \<^verbatim>\<open>rounds\<close>.
\<close>

type_synonym rounds_state = "order_row list list \<times> (round_key, nat \<times> dec) dict"

definition add_to_round :: "order_row \<Rightarrow> rounds_state \<Rightarrow> rounds_state" where
  "add_to_round r st =
     (case st of (rounds, active) \<Rightarrow>
        if \<not> has_fill r then st
        else (let k = round_key r;
                  (rounds, active) = (if map_of active k = None
                     then (rounds @ [[]], AList.update k (length rounds, 0) active) else (rounds, active));
                  (i, q) = the (map_of active k);
                  rounds = rounds[i := rounds ! i @ [r]];
                  q = dadd q (signed_fill r)
              in (rounds, if q = 0 then AList.delete k active else AList.update k (i, q) active)))"

definition rounds_of :: "order_row list \<Rightarrow> order_row list list" where
  "rounds_of rs = fst (fold add_to_round rs ([], []))"

record trade =
  td_id :: string
  td_class :: trade_class
  td_symbol :: string
  td_closed :: bool
  td_valued :: bool
  td_closed_trips :: nat
  td_qualifying :: nat
  td_eligible :: bool
  td_evidence_use :: string
  td_orders :: "string option list"
  td_entry_at :: instant
  td_exit_at :: "instant option"
  td_thesis :: "thesis option"
  td_economics :: economics

definition usable_thesis :: "thesis \<Rightarrow> bool" where
  "usable_thesis t \<longleftrightarrow> th_invalidated t \<noteq> None \<and> th_evidence t \<notin> {None, Some []} \<and> th_observed_at t \<notin> {None, Some []}"

definition thesis_of :: "order_row list \<Rightarrow> thesis option" where
  "thesis_of g = find usable_thesis (List.map_filter (\<lambda>r. lk_thesis (ow_link r)) (rev g))"

definition trade_of :: "(string, dec) dict \<Rightarrow> dec option \<Rightarrow> purpose \<Rightarrow> nat \<Rightarrow> order_row list \<Rightarrow> trade" where
  "trade_of marks capital p i g =
     (let c = trade_classification (ow_link (hd g)); e = economics_of g marks capital;
          closed = (ec_positions e = [] \<and> ow_side (hd g) = BUY)
      in \<lparr>td_id = (case ow_client (hd g) of None \<Rightarrow> ''unidentified-round:'' @ show_nat i | Some x \<Rightarrow> x),
          td_class = c, td_symbol = ow_symbol (hd g), td_closed = closed, td_valued = ec_valued e,
          td_closed_trips = (if closed then 1 else 0),
          td_qualifying = (if p = Research \<and> c = NEWS_STRATEGY \<and> ec_valued e then (if closed then 1 else 0) else 0),
          td_eligible = (p = Research \<and> c = NEWS_STRATEGY),
          td_evidence_use = (if c = EQUIPMENT_TEST then ''operational_equipment_test_only''
             else if p = IexPractice then ''operational_practice_only'' else ''experimental_research''),
          td_orders = map ow_client g, td_entry_at = ow_created (hd g),
          td_exit_at = (if closed then ow_updated (last g) else None),
          td_thesis = thesis_of g, td_economics = e\<rparr>)"

definition trade_economics ::
  "order_row list \<Rightarrow> (string, dec) dict \<Rightarrow> dec option \<Rightarrow> purpose \<Rightarrow> trade list" where
  "trade_economics rs marks capital p =
     (let rounds = rounds_of (confirmed_rows rs) in
      map (\<lambda>(i, g). trade_of marks capital p i g) (zip [0..<length rounds] rounds))"

subsection \<open>The report\<close>

record class_ledger =
  cl_class :: trade_class
  cl_economics :: economics
  cl_eligible :: bool
  cl_evidence_use :: string
  cl_closed :: nat
  cl_qualifying :: nat
  cl_trades :: "trade list"

record performance_report =
  pr_purpose :: purpose
  pr_eligible :: bool
  pr_aggregate :: economics
  pr_day :: day
  pr_anchor :: "dec option"
  pr_broker_equity :: "dec option"
  pr_economic_equity :: "dec option"
  pr_ledgers :: "class_ledger list"
  pr_closed :: nat
  pr_calibration :: nat
  pr_qualifying :: nat
  pr_turnover :: "dec option"

definition class_ledger_of ::
  "order_row list \<Rightarrow> (string, dec) dict \<Rightarrow> dec option \<Rightarrow> purpose \<Rightarrow> trade list \<Rightarrow> trade_class \<Rightarrow> class_ledger" where
  "class_ledger_of rs marks equity p rounds c =
     (let trades = filter (\<lambda>t. td_class t = c) rounds in
      \<lparr>cl_class = c,
       cl_economics = economics_of (filter (\<lambda>r. trade_classification (ow_link r) = c) rs) marks equity,
       cl_eligible = (p = Research \<and> c = NEWS_STRATEGY),
       cl_evidence_use = (if c = EQUIPMENT_TEST then ''operational_equipment_test_only'' else snd (evidence_labels p)),
       cl_closed = sum_list (map td_closed_trips trades), cl_qualifying = sum_list (map td_qualifying trades),
       cl_trades = trades\<rparr>)"

definition plus_anchor :: "dec option \<Rightarrow> dec option \<Rightarrow> dec option" where
  "plus_anchor equity pnl = (case (equity, pnl) of (Some e, Some x) \<Rightarrow> Some (dadd e x) | _ \<Rightarrow> None)"

definition report_purpose :: "purpose \<Rightarrow> order_row list \<Rightarrow> purpose" where
  "report_purpose p0 rs = reporting_purpose ((Some (purpose_name p0), None) # map (link_source \<circ> ow_link) rs)"

definition allocation_ledgers ::
  "order_row list \<Rightarrow> (string, dec) dict \<Rightarrow> dec option \<Rightarrow> day \<Rightarrow> purpose \<Rightarrow> performance_report" where
  "allocation_ledgers rs0 marks equity session p0 =
     (let p = report_purpose p0 rs0;
          rs = confirmed_rows rs0;
          aggregate = economics_of rs marks equity;
          rounds = trade_economics rs marks equity p;
          ledger = class_ledger_of rs marks equity p rounds
      in \<lparr>pr_purpose = p, pr_eligible = fst (evidence_labels p), pr_aggregate = aggregate, pr_day = session,
          pr_anchor = equity,
          pr_broker_equity = plus_anchor equity (ec_pnl aggregate),
          pr_economic_equity = plus_anchor equity (ec_economic aggregate),
          pr_ledgers = map ledger [EQUIPMENT_TEST, NEWS_STRATEGY, UNCLASSIFIED],
          pr_closed = sum_list (map td_closed_trips rounds),
          pr_calibration = cl_closed (ledger EQUIPMENT_TEST),
          pr_qualifying = lb_qualifying (performance_labels (cl_qualifying (ledger NEWS_STRATEGY)) p),
          pr_turnover = ratio (case (ec_deployed aggregate, ec_exit aggregate) of
             (Some x, Some y) \<Rightarrow> Some (dadd x y) | _ \<Rightarrow> None) equity\<rparr>)"

end
