(* ===== verification/EventPerformanceLaws.thy ===== *)
theory EventPerformanceLaws
  imports EventPerformance "HOL-Library.Multiset"
begin

text \<open>
  What the accounting of broker-paper fills guarantees: each order counts once, with its largest confirmed fill;
  the round trips of a symbol and classification are its filled orders cut where the running quantity returns to
  zero, so no losing or unresolved round is dropped; reserves and stress only lower a result; practice and
  equipment orders never count as qualifying.
\<close>

subsection \<open>Confirmed rows\<close>

text \<open>An order's confirmed row, by its identity: the last of its rows with the largest filled quantity.\<close>

fun latest_largest :: "order_row option \<Rightarrow> order_row list \<Rightarrow> order_row option" where
  "latest_largest best [] = best"
| "latest_largest best (r # rs) =
     latest_largest (if filled_of r \<ge> (case best of None \<Rightarrow> - 1 | Some b \<Rightarrow> filled_of b) then Some r else best) rs"

definition identified :: "order_row list \<Rightarrow> bool" where
  "identified rs = list_all (\<lambda>r. ow_client r \<noteq> None) rs"

definition client_of :: "order_row \<Rightarrow> string" where
  "client_of r = the (ow_client r)"

lemma identity_client: "ow_client r \<noteq> None \<Longrightarrow> identity i r = client_of r"
  by (auto simp: identity_def client_of_def)

lemma confirm_loop_ok: "dict_ok d \<Longrightarrow> dict_ok (confirm_loop i rs d)"
  by (induction i rs d rule: confirm_loop.induct) (simp_all add: Let_def)

lemma confirm_loop_lookup:
  "identified rs \<Longrightarrow> map_of (confirm_loop i rs d) k = latest_largest (map_of d k) (filter (\<lambda>r. client_of r = k) rs)"
  by (induction i rs d rule: confirm_loop.induct)
    (auto simp: Let_def identified_def identity_client split: option.splits)

lemma confirm_loop_keyed:
  "identified rs \<Longrightarrow> list_all (\<lambda>(k, r). ow_client r = Some k) d \<Longrightarrow> list_all (\<lambda>(k, r). ow_client r = Some k) (confirm_loop i rs d)"
proof (induction i rs d rule: confirm_loop.induct)
  case (2 i r rs d)
  then have "ow_client r = Some (identity i r)" by (auto simp: identified_def identity_client client_of_def)
  with "2.prems"(2) have "list_all (\<lambda>(k, r). ow_client r = Some k) (AList.update (identity i r) r d)"
    by (auto simp: list_all_iff dest!: update_in_set)
  with 2 show ?case by (simp add: Let_def identified_def)
qed simp

lemma confirm_loop_rows: "r \<in> snd ` set (confirm_loop i rs d) \<Longrightarrow> r \<in> set rs \<or> r \<in> snd ` set d"
proof (induction i rs d rule: confirm_loop.induct)
  case (2 i r' rs d)
  have "snd ` set (AList.update k r' d) \<subseteq> insert r' (snd ` set d)" for k
    using update_in_set by fastforce
  then have new: "x \<in> snd ` set (AList.update k r' d) \<Longrightarrow> x = r' \<or> x \<in> snd ` set d" for x k by blast
  show ?case
  proof (cases "filled_of r' \<ge> (case map_of d (identity i r') of None \<Rightarrow> - 1 | Some o' \<Rightarrow> filled_of o')")
    case True
    with 2 have "r \<in> set rs \<or> r \<in> snd ` set (AList.update (identity i r') r' d)"
      by (simp only: confirm_loop.simps Let_def if_True)
    with new show ?thesis by auto
  next
    case False
    with 2 show ?thesis by (simp only: confirm_loop.simps Let_def if_False) auto
  qed
qed simp

lemma confirmed_rows_subset: "set (confirmed_rows rs) \<subseteq> set rs"
  using confirm_loop_rows [of _ 0 rs "[]"] by (auto simp: confirmed_rows_def)

lemma confirmed_identified: "identified rs \<Longrightarrow> identified (confirmed_rows rs)"
  using confirmed_rows_subset by (fastforce simp: identified_def list_all_iff)

lemma confirmed_clients:
  assumes "identified rs"
  shows "map client_of (confirmed_rows rs) = map fst (confirm_loop 0 rs [])"
  using confirm_loop_keyed [OF assms, of "[]" 0]
  by (auto simp: confirmed_rows_def list_all_iff client_of_def)

lemma confirmed_distinct: "identified rs \<Longrightarrow> distinct (map client_of (confirmed_rows rs))"
  using confirm_loop_ok [of "[]" 0 rs] by (simp add: confirmed_clients dict_ok_def)

lemma filter_map_of:
  "distinct (map f xs) \<Longrightarrow> filter (\<lambda>x. f x = k) xs = (case map_of (map (\<lambda>x. (f x, x)) xs) k of None \<Rightarrow> [] | Some x \<Rightarrow> [x])"
proof (induction xs)
  case (Cons x xs)
  show ?case
  proof (cases "f x = k")
    case True
    with Cons.prems have "filter (\<lambda>x. f x = k) xs = []" by (auto simp: filter_empty_conv image_iff)
    with True show ?thesis by simp
  qed (use Cons in simp)
qed simp

lemma confirmed_of_client:
  assumes "identified rs"
  shows "filter (\<lambda>r. client_of r = k) (confirmed_rows rs) =
     (case latest_largest None (filter (\<lambda>r. client_of r = k) rs) of None \<Rightarrow> [] | Some r \<Rightarrow> [r])"
proof -
  have "map (\<lambda>r. (client_of r, r)) (confirmed_rows rs) = confirm_loop 0 rs []"
    using confirm_loop_keyed [OF assms, of "[]" 0]
    by (auto simp: confirmed_rows_def client_of_def list_all_iff intro!: map_idI)
  with filter_map_of [OF confirmed_distinct [OF assms], of k] confirm_loop_lookup [OF assms, of 0 "[]" k]
  show ?thesis by simp
qed

lemma confirm_loop_distinct:
  "identified rs \<Longrightarrow> distinct (map client_of rs) \<Longrightarrow> list_all (\<lambda>r. - 1 \<le> filled_of r) rs
   \<Longrightarrow> list_all (\<lambda>r. map_of d (client_of r) = None) rs
   \<Longrightarrow> confirm_loop i rs d = d @ map (\<lambda>r. (client_of r, r)) rs"
proof (induction rs arbitrary: i d)
  case (Cons r rs)
  have fresh: "list_all (\<lambda>x. map_of (d @ [(client_of r, r)]) (client_of x) = None) rs"
    using Cons.prems by (auto simp: list_all_iff map_add_def image_iff)
  have "confirm_loop i (r # rs) d = confirm_loop (Suc i) rs (d @ [(client_of r, r)])"
    using Cons.prems by (simp add: Let_def identified_def identity_client update_append_fresh)
  also have "\<dots> = d @ map (\<lambda>r. (client_of r, r)) (r # rs)"
    using Cons.IH [OF _ _ _ fresh] Cons.prems by (simp add: identified_def)
  finally show ?case .
qed simp

lemma confirmed_again:
  assumes "identified rs" "list_all (\<lambda>r. - 1 \<le> filled_of r) rs"
  shows "confirmed_rows (confirmed_rows rs) = confirmed_rows rs"
  using confirm_loop_distinct [OF confirmed_identified confirmed_distinct, OF assms(1) assms(1), of "[]" 0] assms
    confirmed_rows_subset [of rs]
  by (simp add: confirmed_rows_def [of "confirmed_rows rs"] list_all_iff subset_iff comp_def)

subsection \<open>Rounds\<close>

text \<open>The fills of one key, cut wherever the running quantity returns to zero.\<close>

fun cut_flat :: "order_row list \<Rightarrow> dec \<Rightarrow> order_row list \<Rightarrow> order_row list list" where
  "cut_flat g q [] = (if g = [] then [] else [g])"
| "cut_flat g q (r # rs) =
     (let q' = dadd q (signed_fill r) in
      if q' = 0 then (g @ [r]) # cut_flat [] 0 rs else cut_flat (g @ [r]) q' rs)"

definition of_key :: "round_key \<Rightarrow> order_row list \<Rightarrow> bool" where
  "of_key k g \<longleftrightarrow> round_key (hd g) = k"

definition open_part :: "round_key \<Rightarrow> rounds_state \<Rightarrow> order_row list \<times> dec" where
  "open_part k st = (case map_of (snd st) k of None \<Rightarrow> ([], 0) | Some (i, q) \<Rightarrow> (fst st ! i, q))"

definition done_part :: "round_key \<Rightarrow> rounds_state \<Rightarrow> order_row list list" where
  "done_part k st = filter (of_key k) (case map_of (snd st) k of None \<Rightarrow> fst st | Some (i, q) \<Rightarrow> take i (fst st))"

definition rounds_ok :: "rounds_state \<Rightarrow> bool" where
  "rounds_ok st \<longleftrightarrow> dict_ok (snd st) \<and> (\<forall>g \<in> set (fst st). g \<noteq> [] \<and> list_all (\<lambda>r. round_key r = round_key (hd g)) g)
     \<and> (\<forall>k i q. map_of (snd st) k = Some (i, q) \<longrightarrow>
          i < length (fst st) \<and> of_key k (fst st ! i) \<and> filter (of_key k) (drop (Suc i) (fst st)) = [])"

lemma dict_ok_delete [simp]: "dict_ok d \<Longrightarrow> dict_ok (AList.delete k d)"
  by (simp add: dict_ok_def distinct_delete)

lemma of_key_grown: "g \<noteq> [] \<Longrightarrow> of_key k (g @ [r]) = of_key k g"
  by (simp add: of_key_def)

lemma filter_list_update_same:
  "i < length xs \<Longrightarrow> P y = P (xs ! i) \<Longrightarrow> \<not> P y \<Longrightarrow> filter P (xs[i := y]) = filter P xs"
  by (induction xs arbitrary: i) (auto split: nat.splits)

lemma filter_drop_update:
  "i < length xs \<Longrightarrow> \<not> P y \<Longrightarrow> \<not> P (xs ! i) \<Longrightarrow> filter P (drop n (xs[i := y])) = filter P (drop n xs)"
  by (cases "n \<le> i") (simp_all add: drop_update_swap filter_list_update_same)

lemma filter_take_update:
  "i < length xs \<Longrightarrow> \<not> P y \<Longrightarrow> \<not> P (xs ! i) \<Longrightarrow> filter P (take n (xs[i := y])) = filter P (take n xs)"
proof (cases "n \<le> i")
  case True
  then show ?thesis by (simp add: take_update_cancel)
qed (simp add: take_update_swap filter_list_update_same)

lemma filter_take_single: "k \<noteq> round_key r \<Longrightarrow> filter (of_key k) (take n [[r]]) = []"
  by (cases n) (simp_all add: of_key_def)

text \<open>What one filled row does to the state, in the two cases of the code.\<close>

lemma add_opens:
  assumes "has_fill r" "map_of A (round_key r) = None"
  shows "\<exists>A'. add_to_round r (R, A) = (R @ [[r]], A') \<and> (dict_ok A \<longrightarrow> dict_ok A') \<and>
    map_of A' = (map_of A)(round_key r := (if dround (signed_fill r) = 0 then None
       else Some (length R, dround (signed_fill r))))"
  using assms by (auto simp: add_to_round_def Let_def delete_conv' update_conv' fun_eq_iff)

lemma add_extends:
  assumes "has_fill r" "map_of A (round_key r) = Some (i, q)"
  shows "\<exists>A'. add_to_round r (R, A) = (R[i := R ! i @ [r]], A') \<and> (dict_ok A \<longrightarrow> dict_ok A') \<and>
    map_of A' = (map_of A)(round_key r := (if dadd q (signed_fill r) = 0 then None
       else Some (i, dadd q (signed_fill r))))"
  using assms by (auto simp: add_to_round_def Let_def delete_conv' update_conv' fun_eq_iff)

lemma rounds_okD:
  "rounds_ok (R, A) \<Longrightarrow> g \<in> set R \<Longrightarrow> g \<noteq> [] \<and> list_all (\<lambda>r. round_key r = round_key (hd g)) g"
  "rounds_ok (R, A) \<Longrightarrow> map_of A k = Some (i, q) \<Longrightarrow>
     i < length R \<and> of_key k (R ! i) \<and> filter (of_key k) (drop (Suc i) R) = []"
  unfolding rounds_ok_def fst_conv snd_conv by blast+

lemma open_group:
  assumes "rounds_ok (R, A)" "map_of A k = Some (i, q)"
  shows "i < length R" "R ! i \<noteq> []" "of_key k (R ! i)" "list_all (\<lambda>r. round_key r = k) (R ! i)"
    "filter (of_key k) (drop (Suc i) R) = []"
proof -
  show i: "i < length R" and k: "of_key k (R ! i)" and "filter (of_key k) (drop (Suc i) R) = []"
    using rounds_okD(2) [OF assms] by blast+
  from rounds_okD(1) [OF assms(1) nth_mem [OF i]] k
  show "R ! i \<noteq> []" "list_all (\<lambda>r. round_key r = k) (R ! i)" by (simp_all add: of_key_def)
qed

lemma step_rounds_ok:
  assumes ok: "rounds_ok (R, A)" and fill: "has_fill r"
  shows "rounds_ok (add_to_round r (R, A))"
proof (cases "map_of A (round_key r)")
  case None
  obtain A' where A': "add_to_round r (R, A) = (R @ [[r]], A')" "dict_ok A'" "map_of A' = (map_of A)(round_key r :=
      (if dround (signed_fill r) = 0 then None else Some (length R, dround (signed_fill r))))"
    using add_opens [OF fill None, of R] ok by (auto simp: rounds_ok_def)
  have "i < length (R @ [[r]]) \<and> of_key k ((R @ [[r]]) ! i) \<and> filter (of_key k) (drop (Suc i) (R @ [[r]])) = []"
    if "map_of A' k = Some (i, q)" for k i q
  proof (cases "k = round_key r")
    case True
    with that A' show ?thesis by (auto simp: of_key_def split: if_splits)
  next
    case False
    with that A' have "map_of A k = Some (i, q)" by simp
    with open_group [OF ok this] False show ?thesis by (simp add: nth_append of_key_def)
  qed
  with ok A' show ?thesis by (auto simp: rounds_ok_def)
next
  case (Some iq)
  obtain i q where iq: "map_of A (round_key r) = Some (i, q)" using Some by (cases iq) auto
  note grp = open_group [OF ok iq]
  obtain A' where A': "add_to_round r (R, A) = (R[i := R ! i @ [r]], A')" "dict_ok A'"
    "map_of A' = (map_of A)(round_key r := (if dadd q (signed_fill r) = 0 then None else Some (i, dadd q (signed_fill r))))"
    using add_extends [OF fill iq, of R] ok by (auto simp: rounds_ok_def)
  have "j < length (R[i := R ! i @ [r]]) \<and> of_key k (R[i := R ! i @ [r]] ! j)
      \<and> filter (of_key k) (drop (Suc j) (R[i := R ! i @ [r]])) = []"
    if "map_of A' k = Some (j, q')" for k j q'
  proof (cases "k = round_key r")
    case True
    with that A' have "j = i" by (auto split: if_splits)
    with True grp show ?thesis by (simp add: of_key_grown)
  next
    case False
    with that A' have "map_of A k = Some (j, q')" by simp
    note og = open_group [OF ok this]
    from grp(3) False have "\<not> of_key k (R ! i)" by (simp add: of_key_def)
    with og grp False show ?thesis
      by (auto simp: filter_drop_update of_key_grown nth_list_update)
  qed
  moreover have "g \<noteq> [] \<and> list_all (\<lambda>x. round_key x = round_key (hd g)) g" if "g \<in> set (R[i := R ! i @ [r]])" for g
  proof (cases "g \<in> set R")
    case True
    with rounds_okD(1) [OF ok] show ?thesis by blast
  next
    case False
    with that set_update_subset_insert [of R i "R ! i @ [r]"] have "g = R ! i @ [r]" by auto
    with grp show ?thesis by (simp add: of_key_def)
  qed
  ultimately show ?thesis using A' by (auto simp: rounds_ok_def)
qed

lemma step_other:
  assumes ok: "rounds_ok (R, A)" and fill: "has_fill r" and k: "k \<noteq> round_key r"
  shows "open_part k (add_to_round r (R, A)) = open_part k (R, A)"
    and "done_part k (add_to_round r (R, A)) = done_part k (R, A)"
proof -
  have "open_part k (add_to_round r (R, A)) = open_part k (R, A)
    \<and> done_part k (add_to_round r (R, A)) = done_part k (R, A)"
  proof (cases "map_of A (round_key r)")
    case None
    from add_opens [OF fill None, of R] k show ?thesis
      by (auto simp: open_part_def done_part_def of_key_def filter_take_single nth_append dest: open_group [OF ok]
          split: option.splits)
  next
    case (Some iq)
    obtain i q where iq: "map_of A (round_key r) = Some (i, q)" using Some by (cases iq) auto
    note grp = open_group [OF ok iq]
    have away: "\<not> of_key k (R ! i)" "\<not> of_key k (R ! i @ [r])" using grp k by (auto simp: of_key_def)
    from add_extends [OF fill iq, of R] k grp away show ?thesis
      by (auto simp: open_part_def done_part_def filter_take_update filter_list_update_same nth_list_update
          dest: open_group [OF ok] split: option.splits)
  qed
  then show "open_part k (add_to_round r (R, A)) = open_part k (R, A)"
    and "done_part k (add_to_round r (R, A)) = done_part k (R, A)" by blast+
qed

lemma step_same:
  assumes ok: "rounds_ok (R, A)" and fill: "has_fill r" and op: "open_part (round_key r) (R, A) = (g, q)"
  shows "dadd q (signed_fill r) = 0 \<Longrightarrow> open_part (round_key r) (add_to_round r (R, A)) = ([], 0) \<and>
      done_part (round_key r) (add_to_round r (R, A)) = done_part (round_key r) (R, A) @ [g @ [r]]"
    and "dadd q (signed_fill r) \<noteq> 0 \<Longrightarrow> open_part (round_key r) (add_to_round r (R, A)) = (g @ [r], dadd q (signed_fill r)) \<and>
      done_part (round_key r) (add_to_round r (R, A)) = done_part (round_key r) (R, A)"
proof -
  let ?k = "round_key r"
  have "if dadd q (signed_fill r) = 0
    then open_part ?k (add_to_round r (R, A)) = ([], 0) \<and> done_part ?k (add_to_round r (R, A)) = done_part ?k (R, A) @ [g @ [r]]
    else open_part ?k (add_to_round r (R, A)) = (g @ [r], dadd q (signed_fill r)) \<and>
      done_part ?k (add_to_round r (R, A)) = done_part ?k (R, A)"
  proof (cases "map_of A ?k")
    case None
    with op have "g = []" "q = 0" by (simp_all add: open_part_def)
    with add_opens [OF fill None, of R] None show ?thesis
      by (auto simp: open_part_def done_part_def of_key_def)
  next
    case (Some iq)
    obtain i q' where iq: "map_of A ?k = Some (i, q')" using Some by (cases iq) auto
    note grp = open_group [OF ok iq]
    from op iq have gq: "g = R ! i" "q' = q" by (simp_all add: open_part_def)
    have "R[i := R ! i @ [r]] = take i R @ (R ! i @ [r]) # drop (Suc i) R"
      using grp(1) by (rule upd_conv_take_nth_drop)
    then have whole: "filter (of_key ?k) (R[i := R ! i @ [r]]) = filter (of_key ?k) (take i R) @ [R ! i @ [r]]"
      using grp by (simp add: of_key_grown)
    from add_extends [OF fill iq, of R] gq iq grp whole show ?thesis
      by (auto simp: open_part_def done_part_def)
  qed
  then show "dadd q (signed_fill r) = 0 \<Longrightarrow> open_part ?k (add_to_round r (R, A)) = ([], 0) \<and>
      done_part ?k (add_to_round r (R, A)) = done_part ?k (R, A) @ [g @ [r]]"
    and "dadd q (signed_fill r) \<noteq> 0 \<Longrightarrow> open_part ?k (add_to_round r (R, A)) = (g @ [r], dadd q (signed_fill r)) \<and>
      done_part ?k (add_to_round r (R, A)) = done_part ?k (R, A)" by simp_all
qed


text \<open>The filled rows of one symbol and classification, in the order of the rows.\<close>

definition fills_of_key :: "round_key \<Rightarrow> order_row list \<Rightarrow> order_row list" where
  "fills_of_key k rs = filter (\<lambda>r. has_fill r \<and> round_key r = k) rs"

lemma add_unfilled: "\<not> has_fill r \<Longrightarrow> add_to_round r st = st"
  by (simp add: add_to_round_def split: prod.splits)

lemma rounds_now:
  assumes "rounds_ok (R, A)"
  shows "filter (of_key k) R = done_part k (R, A) @ cut_flat (fst (open_part k (R, A))) q []"
proof (cases "map_of A k")
  case None
  then show ?thesis by (simp add: done_part_def open_part_def)
next
  case (Some iq)
  obtain i q where iq: "map_of A k = Some (i, q)" using Some by (cases iq) auto
  note grp = open_group [OF assms iq]
  have "R = take i R @ R ! i # drop (Suc i) R" using grp(1) by (rule id_take_nth_drop)
  then have "filter (of_key k) R = filter (of_key k) (take i R) @ filter (of_key k) (R ! i # drop (Suc i) R)"
    by (metis filter_append)
  with grp iq show ?thesis by (simp add: done_part_def open_part_def)
qed

lemma fold_rounds:
  "rounds_ok st \<Longrightarrow> filter (of_key k) (fst (fold add_to_round rs st)) =
     done_part k st @ cut_flat (fst (open_part k st)) (snd (open_part k st)) (fills_of_key k rs)"
proof (induction rs arbitrary: st)
  case Nil
  obtain R A where "st = (R, A)" by (cases st)
  with Nil rounds_now [of R A] show ?case by (simp add: fills_of_key_def)
next
  case (Cons r rs)
  obtain R A where st: "st = (R, A)" by (cases st)
  show ?case
  proof (cases "has_fill r")
    case False
    with Cons show ?thesis by (simp add: add_unfilled fills_of_key_def)
  next
    case fill: True
    from Cons.prems have ok: "rounds_ok (R, A)" by (simp add: st)
    have IH: "filter (of_key k) (fst (fold add_to_round rs (add_to_round r (R, A)))) =
       done_part k (add_to_round r (R, A)) @ cut_flat (fst (open_part k (add_to_round r (R, A))))
         (snd (open_part k (add_to_round r (R, A)))) (fills_of_key k rs)"
      by (rule Cons.IH [OF step_rounds_ok [OF ok fill]])
    show ?thesis
    proof (cases "k = round_key r")
      case True
      obtain g q where op: "open_part (round_key r) (R, A) = (g, q)" by force
      have "fills_of_key k (r # rs) = r # fills_of_key k rs" using fill True by (simp add: fills_of_key_def)
      with IH True op step_same [OF ok fill op] show ?thesis
        by (cases "dadd q (signed_fill r) = 0") (simp_all add: st Let_def)
    next
      case False
      with IH step_other [OF ok fill False] show ?thesis by (simp add: st fills_of_key_def)
    qed
  qed
qed

lemma concat_cut_flat: "concat (cut_flat g q rs) = g @ rs"
  by (induction g q rs rule: cut_flat.induct) (simp_all add: Let_def)

text \<open>C35 The round trips that the report reconstructs for a symbol and a classification are exactly its filled orders,
  in the order of the rows, cut where the running signed quantity returns to zero: no losing or unresolved round
  is dropped, none is split and no order is counted in two of them.
\<close>

theorem rounds_cut_where_flat:
  "filter (of_key k) (rounds_of rs) = cut_flat [] 0 (fills_of_key k rs) \<and>
   concat (filter (of_key k) (rounds_of rs)) = fills_of_key k rs"
proof -
  have "rounds_ok ([], [])" by (simp add: rounds_ok_def)
  from fold_rounds [OF this, of k rs]
  have "filter (of_key k) (rounds_of rs) = cut_flat [] 0 (fills_of_key k rs)"
    by (simp add: rounds_of_def done_part_def open_part_def)
  then show ?thesis by (simp add: concat_cut_flat)
qed

text \<open>C36 Each client order counts once in the accounting, with the last of its rows whose confirmed filled quantity is
  the largest, and confirming the confirmed rows again changes nothing.
\<close>

theorem each_order_counts_once:
  assumes "identified rs" "list_all (\<lambda>r. - 1 \<le> filled_of r) rs"
  shows "filter (\<lambda>r. client_of r = c) (confirmed_rows rs) =
      (case latest_largest None (filter (\<lambda>r. client_of r = c) rs) of None \<Rightarrow> [] | Some r \<Rightarrow> [r])
    \<and> confirmed_rows (confirmed_rows rs) = confirmed_rows rs"
  using confirmed_of_client [OF assms(1)] confirmed_again [OF assms] by blast

subsection \<open>Reserves and stress\<close>

definition reserves_ok :: "tally \<Rightarrow> bool" where
  "reserves_ok t \<longleftrightarrow> 0 \<le> ta_fees t \<and> 0 \<le> ta_omissions t \<and> dround (ta_omissions t) = ta_omissions t"

lemma fill_price_pos: "fill_price v = Some p \<Longrightarrow> 0 < p"
  by (auto simp: fill_price_def split: option.splits number.splits if_splits)

lemma sale_fee_pos: "0 < sale_fee n q"
  by (simp add: sale_fee_def sell_minimum_def less_max_iff_disj)

lemma tally_row_reserves:
  assumes "reserves_ok t" "0 \<le> filled_of r"
  shows "reserves_ok (tally_row r t)"
proof (cases "lk_broker (ow_link r)")
  case None
  with assms show ?thesis by (simp add: tally_row_def)
next
  case (Some b)
  with assms have b: "0 \<le> bk_filled b" by (simp add: filled_of_def)
  show ?thesis
  proof (cases "fill_price (bk_price b)")
    case None
    with assms Some show ?thesis by (simp add: tally_row_def Let_def reserves_ok_def)
  next
    case (Some p)
    from fill_price_pos [OF Some] have p: "0 \<le> p" by simp
    have res: "0 \<le> dmul (dmul (bk_filled b) p) residual_rate"
      using b p by (simp add: dmul_nonneg residual_rate_def)
    have fee: "0 \<le> sale_fee (dmul (bk_filled b) p) (bk_filled b)"
      by (rule less_imp_le [OF sale_fee_pos])
    from assms(1) res fee \<open>lk_broker (ow_link r) = Some b\<close> Some show ?thesis
      by (auto simp: tally_row_def Let_def reserves_ok_def dadd_nonneg) (simp_all add: dadd_def dround_nonneg)
  qed
qed

lemma tally_reserves: "list_all (\<lambda>r. 0 \<le> filled_of r) rs \<Longrightarrow> reserves_ok (tally_rows rs)"
proof -
  have "reserves_ok t \<Longrightarrow> list_all (\<lambda>r. 0 \<le> filled_of r) rs \<Longrightarrow> reserves_ok (fold tally_row rs t)" for t
    by (induction rs arbitrary: t) (simp_all add: tally_row_reserves)
  moreover have "reserves_ok empty_tally" by (simp add: reserves_ok_def empty_tally_def)
  ultimately show "list_all (\<lambda>r. 0 \<le> filled_of r) rs \<Longrightarrow> reserves_ok (tally_rows rs)" by (simp add: tally_rows_def)
qed

lemma dsub_le_self: "0 \<le> y \<Longrightarrow> dround x = x \<Longrightarrow> dsub x y \<le> x"
  unfolding dsub_def using dround_mono [of "x - y" x] by simp

lemma dmul_scale_mono: "0 \<le> x \<Longrightarrow> a \<le> b \<Longrightarrow> dmul x a \<le> dmul x b"
  unfolding dmul_def by (intro dround_mono mult_left_mono)

lemma stressed_antimono:
  "reserves_ok t \<Longrightarrow> a \<le> b \<Longrightarrow> stressed_pnl t b x \<le> stressed_pnl t a x"
  unfolding stressed_pnl_def dsub_def by (intro dround_mono diff_left_mono dmul_scale_mono) (simp_all add: reserves_ok_def)

lemma stressed_below_estimate:
  assumes "reserves_ok t" "1 \<le> m"
  shows "stressed_pnl t m x \<le> dsub (dsub x (ta_fees t)) (ta_omissions t)"
proof -
  have "dmul (ta_omissions t) 1 \<le> dmul (ta_omissions t) m"
    using assms by (intro dmul_scale_mono) (simp_all add: reserves_ok_def)
  then have "ta_omissions t \<le> dmul (ta_omissions t) m"
    using assms by (simp add: reserves_ok_def dmul_def)
  then show ?thesis unfolding stressed_pnl_def dsub_def by (intro dround_mono) simp
qed

definition stress_net :: "economics \<Rightarrow> string \<Rightarrow> dec option" where
  "stress_net e n = (case map_of (ec_stress e) n of None \<Rightarrow> None | Some s \<Rightarrow> st_net s)"

lemma broker_pnl_rounded: "broker_pnl t marks = Some x \<Longrightarrow> dround x = x"
  by (auto simp: broker_pnl_def dadd_def split: if_splits)


text \<open>C37 When every fill and every open position has a price, the estimate after reserves is at most the broker's own
  result, and the three stress scenarios only lower it, each at least as far as the one before.
\<close>

theorem stress_never_flatters:
  assumes "list_all (\<lambda>r. 0 \<le> filled_of r) rs" "ec_valued (economics_of rs marks capital)"
  shows "\<exists>x e a b c. ec_pnl (economics_of rs marks capital) = Some x \<and> ec_economic (economics_of rs marks capital) = Some e
    \<and> stress_net (economics_of rs marks capital) ''1.5x'' = Some a
    \<and> stress_net (economics_of rs marks capital) ''2x'' = Some b
    \<and> stress_net (economics_of rs marks capital) ''3x'' = Some c
    \<and> c \<le> b \<and> b \<le> a \<and> a \<le> e \<and> e \<le> x"
proof -
  define t where "t = tally_rows rs"
  have t: "reserves_ok t" unfolding t_def by (rule tally_reserves [OF assms(1)])
  from assms(2) have "missing_marks t marks = []" "ta_unvalued t = []"
    by (simp_all add: economics_of_def Let_def t_def)
  then obtain x where x: "broker_pnl t marks = Some x" by (simp add: broker_pnl_def)
  let ?e = "dsub (dsub x (ta_fees t)) (ta_omissions t)"
  have "dround x = x" using x by (rule broker_pnl_rounded)
  then have "dsub x (ta_fees t) \<le> x" using t by (simp add: dsub_le_self reserves_ok_def)
  moreover have "?e \<le> dsub x (ta_fees t)" using t by (intro dsub_le_self) (simp_all add: reserves_ok_def dsub_def)
  ultimately have "?e \<le> x" by (rule order_trans [rotated])
  moreover have "stressed_pnl t 3 x \<le> stressed_pnl t 2 x" "stressed_pnl t 2 x \<le> stressed_pnl t (3 / 2) x"
    "stressed_pnl t (3 / 2) x \<le> ?e"
    using t by (simp_all add: stressed_antimono stressed_below_estimate)
  ultimately show ?thesis
    using x by (simp add: economics_of_def Let_def stress_net_def stress_of_def stress_multipliers_def flip: t_def)
qed

definition sample_link :: "string \<Rightarrow> dec \<Rightarrow> string \<Rightarrow> order_link" where
  "sample_link kind q price = \<lparr>lk_broker = Some \<lparr>bk_id = ''b'', bk_quantity = Some q, bk_filled = q,
       bk_price = Some price, bk_status = AL_FILLED, bk_filled_at = None, bk_updated_at = None\<rparr>,
     lk_entry_kind = Some kind, lk_classification = None, lk_calibration = False, lk_purpose = None,
     lk_settings_purpose = None, lk_thesis = None, lk_account = ''a'', lk_cohort = ''c'', lk_session = None, lk_planned = None, lk_protection = None,
     lk_attempted = None, lk_released = None, lk_unsent = None\<rparr>"

definition sample_row :: "string \<Rightarrow> side \<Rightarrow> dec \<Rightarrow> string \<Rightarrow> order_row" where
  "sample_row c sd q price = \<lparr>ow_id = c, ow_client = Some c, ow_broker_id = Some c, ow_symbol = ''AAPL'', ow_side = sd,
     ow_quantity = Some q, ow_filled = q, ow_status = OS_FILLED, ow_created = 0, ow_updated = None,
     ow_link = sample_link ''strategy'' q price\<rparr>"

lemmas sample_simps = sample_row_def sample_link_def

lemma sample_price: "fill_price (Some ''100'') = Some 100" "fill_price (Some ''0'') = None"
  by (simp_all add: fill_price_def decimal_of_string_def take_sign_def py_strip_def is_space_def unsigned_number_def
      exponent_part_def digits_value_def digit_def lower_char_def pvalue_def Let_def)

theorem stress_never_flatters_witness:
  "list_all (\<lambda>r. 0 \<le> filled_of r) [sample_row ''c'' BUY 2 ''100''] \<and>
   ec_pnl (economics_of [sample_row ''c'' BUY 2 ''100''] [(''AAPL'', 101)] None) \<noteq> None"
proof -
  have "list_all (\<lambda>r. 0 \<le> filled_of r) [sample_row ''c'' BUY 2 ''100'']"
    by (simp add: filled_of_def sample_simps)
  moreover have "ec_valued (economics_of [sample_row ''c'' BUY 2 ''100''] [(''AAPL'', 101)] None)"
    by (simp add: economics_of_def Let_def tally_rows_def tally_row_def sample_simps sample_price empty_tally_def
        missing_marks_def held_def)
  ultimately show ?thesis using stress_never_flatters by blast
qed

theorem each_order_counts_once_witness:
  "filter (\<lambda>r. client_of r = ''c'') (confirmed_rows [sample_row ''c'' BUY 1 ''100'', sample_row ''d'' BUY 5 ''100'', sample_row ''c'' BUY 2 ''100''])
     = [sample_row ''c'' BUY 2 ''100'']"
proof -
  let ?rs = "[sample_row ''c'' BUY 1 ''100'', sample_row ''d'' BUY 5 ''100'', sample_row ''c'' BUY 2 ''100'']"
  have "identified ?rs" "list_all (\<lambda>r. - 1 \<le> filled_of r) ?rs"
    by (simp_all add: identified_def filled_of_def sample_simps)
  from each_order_counts_once [OF this, of "''c''"] show ?thesis
    by (simp add: client_of_def filled_of_def sample_simps)
qed

subsection \<open>The ledgers\<close>

lemma trade_fields:
  "td_closed_trips (trade_of marks capital p i g) = (if td_closed (trade_of marks capital p i g) then 1 else 0)"
  "td_qualifying (trade_of marks capital p i g) =
     (if p = Research \<and> td_class (trade_of marks capital p i g) = NEWS_STRATEGY \<and> td_valued (trade_of marks capital p i g)
        \<and> td_closed (trade_of marks capital p i g) then 1 else 0)"
  by (simp_all add: trade_of_def Let_def)

lemma sum_indicator: "list_all (\<lambda>x. f x = (if P x then 1 else 0)) xs \<Longrightarrow> sum_list (map f xs) = length (filter P xs)"
  by (induction xs) auto

lemma sum_by_class:
  "sum_list (map f (filter (\<lambda>t. td_class t = EQUIPMENT_TEST) ts)) + sum_list (map f (filter (\<lambda>t. td_class t = NEWS_STRATEGY) ts))
     + sum_list (map f (filter (\<lambda>t. td_class t = UNCLASSIFIED) ts)) = (sum_list (map f ts) :: nat)"
proof (induction ts)
  case (Cons t ts)
  then show ?case by (cases "td_class t") simp_all
qed simp

lemma trades_are_trades:
  "t \<in> set (trade_economics rs marks capital p) \<Longrightarrow> \<exists>i g. t = trade_of marks capital p i g"
  by (auto simp: trade_economics_def Let_def)

definition counted_trades :: "order_row list \<Rightarrow> (string, dec) dict \<Rightarrow> dec option \<Rightarrow> purpose \<Rightarrow> trade list" where
  "counted_trades rs marks equity p =
     filter (\<lambda>t. td_class t = NEWS_STRATEGY \<and> td_closed t \<and> td_valued t) (trade_economics (confirmed_rows rs) marks equity p)"

text \<open>
  A report counts as qualifying round trips exactly the closed and fully valued news round trips, and none when
  the orders, or any one of them, were practice; its three ledgers share the closed round trips without overlap.
\<close>

theorem qualifying_trips_are_news:
  "pr_qualifying (allocation_ledgers rs marks equity session p0) =
     (if pr_purpose (allocation_ledgers rs marks equity session p0) = IexPractice then 0
      else length (counted_trades rs marks equity Research))
   \<and> pr_closed (allocation_ledgers rs marks equity session p0) =
     sum_list (map cl_closed (pr_ledgers (allocation_ledgers rs marks equity session p0)))
   \<and> (pr_purpose (allocation_ledgers rs marks equity session p0) = IexPractice \<longleftrightarrow>
      p0 = IexPractice \<or> list_ex (\<lambda>r. lk_purpose (ow_link r) = Some ''iex-practice''
        \<or> lk_settings_purpose (ow_link r) = Some ''iex-practice'') rs)"
proof -
  let ?p = "report_purpose p0 rs"
  let ?ts = "trade_economics (confirmed_rows rs) marks equity ?p"
  have "list_all (\<lambda>t. td_qualifying t = (if td_class t = NEWS_STRATEGY \<and> td_closed t \<and> td_valued t then 1 else 0))
      (filter (\<lambda>t. td_class t = NEWS_STRATEGY) ?ts)" if "?p = Research"
    using that by (auto simp: list_all_iff trade_fields dest!: trades_are_trades)
  from sum_indicator [OF this]
  have q: "sum_list (map td_qualifying (filter (\<lambda>t. td_class t = NEWS_STRATEGY) ?ts)) =
      length (counted_trades rs marks equity Research)" if "?p = Research"
    using that by (simp add: counted_trades_def conj_ac)
  have "reporting_purpose ss = IexPractice \<longleftrightarrow>
      list_ex (\<lambda>(a, b). a = Some ''iex-practice'' \<or> b = Some ''iex-practice'') ss" for ss
    by (induction ss rule: reporting_purpose.induct) auto
  then have pr: "?p = IexPractice \<longleftrightarrow> p0 = IexPractice \<or> list_ex (\<lambda>r. lk_purpose (ow_link r) = Some ''iex-practice''
        \<or> lk_settings_purpose (ow_link r) = Some ''iex-practice'') rs"
    by (cases p0) (auto simp: report_purpose_def purpose_name_def list_ex_iff link_source_def)
  have "?p \<noteq> IexPractice \<Longrightarrow> ?p = Research" by (cases ?p) auto
  with q pr sum_by_class [of td_closed_trips ?ts] show ?thesis
    by (simp add: allocation_ledgers_def Let_def class_ledger_of_def performance_labels_def)
qed

end
