(* ===== verification/AccountHistory.thy ===== *)
theory AccountHistory
  imports EventPerformance "HOL-Library.Product_Lexorder"
begin

text \<open>
  \<^verbatim>\<open>paper_account_history.py\<close>: valuing the complete history of a paper account, order by order and activity by
  activity, into a flat baseline with its cash and economic result. Amounts arrive as text and are read by
  \<open>number\<close>; a timestamp arrives as a wall clock with or without an offset, or is absent. An ISO timestamp in UTC
  sorts as its instant does, so instants stand for them. \<open>ny\<close> is the date in the exchange's time zone; the
  identity digest of the history is left out.
\<close>

definition crypto_taker_fee_reserve :: dec where
  "crypto_taker_fee_reserve = 25 / 10000"

definition stamp :: "pydatetime option \<Rightarrow> instant res" where
  "stamp v = (case v of None \<Rightarrow> Inl (ValueError ''isoformat'')
     | Some t \<Rightarrow> if aware t then Inr (to_utc t) else Inl (ValueError ''history timestamp must identify its timezone''))"

definition number :: "string option \<Rightarrow> dec res" where
  "number v = (case v of None \<Rightarrow> Inl (ValueError ''invalid history amount'')
     | Some s \<Rightarrow> (case decimal_of_string s of None \<Rightarrow> Inl (ValueError ''invalid history amount'')
        | Some NonFinite \<Rightarrow> Inl (ValueError ''history amounts must be finite'')
        | Some (Finite d) \<Rightarrow> Inr (pvalue d)))"

definition number_or_zero :: "string option \<Rightarrow> dec res" where
  "number_or_zero v = (if v = None then Inr 0 else number v)"

definition required :: "string \<Rightarrow> 'a option \<Rightarrow> 'a res" where
  "required k v = (case v of None \<Rightarrow> Inl (KeyError k) | Some x \<Rightarrow> Inr x)"

subsection \<open>The history\<close>

record history_order =
  ho_id :: string
  ho_client :: string
  ho_symbol :: string
  ho_side :: string
  ho_status :: string
  ho_filled :: "string option"
  ho_average :: "string option"
  ho_created :: "pydatetime option"

record activity =
  ac_id :: string
  ac_type :: string
  ac_at :: "pydatetime option"
  ac_order :: "string option"
  ac_symbol :: "string option"
  ac_side :: "string option"
  ac_qty :: "string option"
  ac_price :: "string option"
  ac_net :: "string option"
  ac_status :: "string option"
  ac_currency :: "string option"
  ac_date :: "day option option"

record account_history =
  ah_complete :: bool
  ah_host :: string
  ah_observed :: "pydatetime option"
  ah_account :: string
  ah_orders :: "history_order list"
  ah_activities :: "activity list"
  ah_cash :: "string option"

record history_entry =
  he_at :: instant
  he_id :: string
  he_symbol :: string
  he_quantity :: dec
  he_cash :: dec
  he_reserve :: dec
  he_external :: dec

record crypto_group =
  cg_quantity :: dec
  cg_value :: dec
  cg_max_price :: dec
  cg_at :: instant

record valuation_state =
  vs_totals :: "(string, dec) dict"
  vs_values :: "(string, dec) dict"
  vs_timeline :: "history_entry list"
  vs_seen :: "string list"
  vs_funding :: dec
  vs_funding_ids :: "string list"
  vs_crypto :: "(day \<times> string, crypto_group) dict"
  vs_coin_fees :: "(day, dec) dict"
  vs_dollar_fees :: "(day, dec) dict"

definition new_valuation :: valuation_state where
  "new_valuation = \<lparr>vs_totals = [], vs_values = [], vs_timeline = [], vs_seen = [], vs_funding = 0, vs_funding_ids = [],
     vs_crypto = [], vs_coin_fees = [], vs_dollar_fees = []\<rparr>"

definition plain_symbol :: "string \<Rightarrow> string" where
  "plain_symbol s = filter (\<lambda>c. c \<noteq> CHR ''/'') s"

definition add_at :: "'k \<Rightarrow> dec \<Rightarrow> ('k, dec) dict \<Rightarrow> ('k, dec) dict" where
  "add_at k x d = AList.update k (dadd (dget d k 0) x) d"

definition find_order :: "history_order list \<Rightarrow> string option \<Rightarrow> history_order option" where
  "find_order os k = find (\<lambda>x. Some (ho_id x) = k) os"

subsection \<open>Activities\<close>

text \<open>A fill: it must belong to an order of the history and agree with its symbol and side.\<close>

definition crypto_fill :: "day \<Rightarrow> string \<Rightarrow> instant \<Rightarrow> dec \<Rightarrow> dec \<Rightarrow> (day \<times> string, crypto_group) dict \<Rightarrow> (day \<times> string, crypto_group) dict" where
  "crypto_fill d sd t q p groups =
     (let g = dget groups (d, sd) \<lparr>cg_quantity = 0, cg_value = 0, cg_max_price = 0, cg_at = t\<rparr> in
      AList.update (d, sd) \<lparr>cg_quantity = dadd (cg_quantity g) q, cg_value = dadd (cg_value g) (dmul q p),
        cg_max_price = max (cg_max_price g) p, cg_at = max (cg_at g) t\<rparr> groups)"

definition fill_activity ::
  "history_order list \<Rightarrow> day \<Rightarrow> instant \<Rightarrow> activity \<Rightarrow> valuation_state \<Rightarrow> valuation_state res" where
  "fill_activity orders d t a v =
     bind_res (required ''order_id'' (ac_order a)) (\<lambda>oid.
     bind_res (case find_order orders (Some oid) of
         None \<Rightarrow> Inl (ValueError ''fill ownership/side mismatch'')
       | Some x \<Rightarrow> bind_res (required ''symbol'' (ac_symbol a)) (\<lambda>s. bind_res (required ''side'' (ac_side a)) (\<lambda>sd.
                    if s = ho_symbol x \<and> sd = ho_side x then Inr x
                    else Inl (ValueError ''fill ownership/side mismatch'')))) (\<lambda>x.
     bind_res (bind_res (required ''qty'' (ac_qty a)) (\<lambda>s. number (Some s))) (\<lambda>q.
     bind_res (bind_res (required ''price'' (ac_price a)) (\<lambda>s. number (Some s))) (\<lambda>p.
     bind_res (check (0 < q \<and> 0 < p \<and> (ho_side x = ''buy'' \<or> ho_side x = ''sell'')) (ValueError ''invalid fill'')) (\<lambda>_.
     let signed = (if ho_side x = ''buy'' then q else dneg q);
         base = dmul (dmul q p) residual_rate;
         reserve = (if ho_side x = ''sell'' \<and> ho_symbol x \<noteq> ''BTC/USD'' then dadd base (sale_fee (dmul q p) q) else base)
     in Inr (v\<lparr>vs_totals := add_at (ho_id x) q (vs_totals v),
          vs_values := add_at (ho_id x) (dmul q p) (vs_values v),
          vs_crypto := (if ho_symbol x = ''BTC/USD'' then crypto_fill d (ho_side x) t q p (vs_crypto v) else vs_crypto v),
          vs_timeline := vs_timeline v @ [\<lparr>he_at = t, he_id = ac_id a, he_symbol = plain_symbol (ho_symbol x),
             he_quantity = signed, he_cash = dmul (dneg signed) p, he_reserve = reserve, he_external = 0\<rparr>]\<rparr>))))))"

text \<open>A fee: in dollars it affects cash, in an asset it affects inventory, never both.\<close>

definition fee_ok :: "string list \<Rightarrow> activity \<Rightarrow> dec \<Rightarrow> dec \<Rightarrow> string \<Rightarrow> bool" where
  "fee_ok known a cash q coin \<longleftrightarrow>
     ac_status a = Some ''executed'' \<and> ac_currency a = Some ''USD'' \<and> cash \<le> 0 \<and> q \<le> 0
     \<and> (q \<noteq> 0 \<longrightarrow> cash = 0 \<and> coin \<in> set known) \<and> (q = 0 \<longrightarrow> coin = []) \<and> \<not> (ac_type a = ''FEE'' \<and> q \<noteq> 0)"

definition fee_day :: "day \<Rightarrow> activity \<Rightarrow> day res" where
  "fee_day d a = (case ac_date a of None \<Rightarrow> Inr d | Some (Some x) \<Rightarrow> Inr x | Some None \<Rightarrow> Inl (ValueError ''isoformat''))"

definition fee_activity ::
  "string list \<Rightarrow> day \<Rightarrow> day \<Rightarrow> instant \<Rightarrow> activity \<Rightarrow> valuation_state \<Rightarrow> valuation_state res" where
  "fee_activity known today d t a v =
     bind_res (bind_res (required ''net_amount'' (ac_net a)) (\<lambda>s. number (Some s))) (\<lambda>cash.
     bind_res (number_or_zero (ac_qty a)) (\<lambda>q.
     let coin = plain_symbol (case ac_symbol a of None \<Rightarrow> [] | Some s \<Rightarrow> s) in
     bind_res (check (fee_ok known a cash q coin) (ValueError ''unsupported or ambiguous fee'')) (\<lambda>_.
     bind_res (if ac_type a = ''CFEE''
       then bind_res (fee_day d a) (\<lambda>fd.
         bind_res (check (fd \<le> today) (ValueError ''future fee effective date'')) (\<lambda>_.
         if q \<noteq> 0
         then bind_res (check (coin = ''BTCUSD'') (ValueError ''unvalued crypto fee asset'')) (\<lambda>_.
           Inr (v\<lparr>vs_coin_fees := AList.update fd (dsub (dget (vs_coin_fees v) fd 0) q) (vs_coin_fees v)\<rparr>))
         else Inr (v\<lparr>vs_dollar_fees := AList.update fd (dsub (dget (vs_dollar_fees v) fd 0) cash) (vs_dollar_fees v)\<rparr>)))
       else Inr v) (\<lambda>v.
     Inr (v\<lparr>vs_timeline := vs_timeline v @ [\<lparr>he_at = t, he_id = ac_id a, he_symbol = coin, he_quantity = q,
        he_cash = cash, he_reserve = 0, he_external = 0\<rparr>]\<rparr>)))))"

fun any_not_after :: "instant \<Rightarrow> history_order list \<Rightarrow> bool res" where
  "any_not_after t [] = Inr False"
| "any_not_after t (x # xs) = bind_res (stamp (ho_created x)) (\<lambda>c. if c \<le> t then Inr True else any_not_after t xs)"

text \<open>The one journal accepted: the initial funding, before every order.\<close>

definition journal_activity ::
  "history_order list \<Rightarrow> instant \<Rightarrow> activity \<Rightarrow> valuation_state \<Rightarrow> valuation_state res" where
  "journal_activity orders t a v =
     bind_res (bind_res (required ''net_amount'' (ac_net a)) (\<lambda>s. number (Some s))) (\<lambda>amount.
     bind_res (if vs_funding_ids v \<noteq> [] \<or> amount \<le> 0 \<or> ac_currency a \<noteq> Some ''USD'' \<or> ac_status a \<noteq> Some ''executed''
         \<or> ac_symbol a \<notin> {None, Some []} \<or> ac_qty a \<notin> {None, Some []}
       then Inr True else any_not_after t orders) (\<lambda>bad.
     bind_res (check (\<not> bad) (ValueError ''only an identified initial funding journal is supported'')) (\<lambda>_.
     Inr (v\<lparr>vs_funding := dadd (vs_funding v) amount, vs_funding_ids := vs_funding_ids v @ [ac_id a],
        vs_timeline := vs_timeline v @ [\<lparr>he_at = t, he_id = ac_id a, he_symbol = [], he_quantity = 0, he_cash = 0,
          he_reserve = 0, he_external = amount\<rparr>]\<rparr>))))"

definition value_activity ::
  "(instant \<Rightarrow> day) \<Rightarrow> history_order list \<Rightarrow> instant \<Rightarrow> activity \<Rightarrow> valuation_state \<Rightarrow> valuation_state res" where
  "value_activity ny orders observed a v =
     bind_res (check (ac_id a \<notin> set (vs_seen v)) (ValueError ''duplicate broker activity'')) (\<lambda>_.
     let v = v\<lparr>vs_seen := vs_seen v @ [ac_id a]\<rparr> in
     bind_res (stamp (ac_at a)) (\<lambda>t.
     bind_res (check (t \<le> observed) (ValueError ''future broker activity'')) (\<lambda>_.
     if ac_type a = ''FILL'' then fill_activity orders (ny t) t a v
     else if ac_type a = ''CFEE'' \<or> ac_type a = ''FEE''
     then fee_activity (map (\<lambda>x. plain_symbol (ho_symbol x)) orders) (ny observed) (ny t) t a v
     else if ac_type a = ''JNLC'' then journal_activity orders t a v
     else Inl (ValueError ''unvalued broker activity type''))))"

fun value_activities ::
  "(instant \<Rightarrow> day) \<Rightarrow> history_order list \<Rightarrow> instant \<Rightarrow> activity list \<Rightarrow> valuation_state \<Rightarrow> valuation_state res" where
  "value_activities ny orders observed [] v = Inr v"
| "value_activities ny orders observed (a # as) v =
     bind_res (value_activity ny orders observed a v) (value_activities ny orders observed as)"


subsection \<open>Orders, reserves and cash\<close>

definition final_statuses :: "string list" where
  "final_statuses = [''filled'', ''canceled'', ''expired'', ''rejected'']"

definition order_valued :: "instant \<Rightarrow> valuation_state \<Rightarrow> history_order \<Rightarrow> unit res" where
  "order_valued observed v x =
     bind_res (number (ho_filled x)) (\<lambda>q.
     bind_res (stamp (ho_created x)) (\<lambda>c.
     bind_res (check (ho_status x \<in> set final_statuses \<and> c \<le> observed \<and> (ho_side x = ''buy'' \<or> ho_side x = ''sell'')
         \<and> 0 \<le> q \<and> dget (vs_totals v) (ho_id x) 0 = q)
       (ValueError ''unresolved or incompletely valued broker order'')) (\<lambda>_.
     if q = 0 then Inr ()
     else bind_res (check (ho_average x \<noteq> None) (ValueError ''unresolved or incompletely valued broker order'')) (\<lambda>_.
       bind_res (number (ho_average x)) (\<lambda>avg.
       check (dabs (dsub (dget (vs_values v) (ho_id x) 0) (dmul q avg)) \<le> 1 / 100000000)
         (ValueError ''unresolved or incompletely valued broker order''))))))"

fun orders_valued :: "instant \<Rightarrow> valuation_state \<Rightarrow> history_order list \<Rightarrow> unit res" where
  "orders_valued observed v [] = Inr ()"
| "orders_valued observed v (x # xs) = bind_res (order_valued observed v x) (\<lambda>_. orders_valued observed v xs)"

definition buy_clients :: "(instant \<Rightarrow> day) \<Rightarrow> history_order list \<Rightarrow> (day, string list) dict" where
  "buy_clients ny orders = fold (\<lambda>x d. if ho_side x = ''buy''
      then (let k = (case ho_created x of None \<Rightarrow> 0 | Some t \<Rightarrow> ny (to_utc t)) in
            AList.update k (dget d k [] @ [ho_client x]) d)
      else d) orders []"

text \<open>\<^verbatim>\<open>quantize(0.01, ROUND_UP)\<close> of an amount that is not negative.\<close>

definition crypto_reserve ::
  "valuation_state \<Rightarrow> (day \<times> string) \<times> crypto_group \<Rightarrow> history_entry list res" where
  "crypto_reserve v e =
     (case e of ((d, sd), g) \<Rightarrow>
       bind_res (quantize round_ceiling 2
         (if sd = ''buy''
          then dmul (max 0 (dsub (dmul (cg_quantity g) crypto_taker_fee_reserve) (dget (vs_coin_fees v) d 0))) (cg_max_price g)
          else max 0 (dsub (dmul (cg_value g) crypto_taker_fee_reserve) (dget (vs_dollar_fees v) d 0)))) (\<lambda>x.
       Inr (if x = 0 then [] else [\<lparr>he_at = cg_at g, he_id = ''estimated-crypto-fee:'' @ show_nat (nat d) @ '':'' @ sd,
          he_symbol = [], he_quantity = 0, he_cash = 0, he_reserve = x, he_external = 0\<rparr>])))"

definition cash_reserve ::
  "instant \<Rightarrow> string option \<Rightarrow> valuation_state \<Rightarrow> history_entry list \<Rightarrow> (dec \<times> history_entry list) res" where
  "cash_reserve observed account_cash v fees =
     (case account_cash of None \<Rightarrow> Inr (0, fees)
      | Some s \<Rightarrow>
          bind_res (check (vs_funding_ids v \<noteq> []) (ValueError ''cash reconciliation requires the initial funding journal'')) (\<lambda>_.
          bind_res (number (Some s)) (\<lambda>cash.
          let discrepancy = dsub (dadd (vs_funding v) (dsum (map he_cash (vs_timeline v)))) cash in
          bind_res (check (\<not> discrepancy < - (1 / 100)) (ValueError ''unexplained positive account cash flow requires review'')) (\<lambda>_.
          let deficit = max 0 discrepancy;
              unexplained = max 0 (dsub deficit (dsum (map he_reserve fees)))
          in Inr (deficit, if unexplained = 0 then fees
             else fees @ [\<lparr>he_at = observed, he_id = ''unattributed-cash-deficit-reserve'', he_symbol = [], he_quantity = 0,
                he_cash = 0, he_reserve = unexplained, he_external = 0\<rparr>])))))"

subsection \<open>The replay\<close>

record replay_state =
  rp_inventory :: "(string, dec) dict"
  rp_cash :: dec
  rp_reserve :: dec
  rp_peak :: dec

definition no_inventory :: "(string, dec) dict \<Rightarrow> bool" where
  "no_inventory d \<longleftrightarrow> list_all (\<lambda>(s, q). q = 0) d"

fun replay_history :: "history_entry list \<Rightarrow> replay_state \<Rightarrow> replay_state res" where
  "replay_history [] s = Inr s"
| "replay_history (e # es) s =
     (let stock = add_at (he_symbol e) (he_quantity e) (rp_inventory s);
          cash = dadd (rp_cash s) (he_cash e); reserve = dadd (rp_reserve s) (he_reserve e)
      in bind_res (check (list_all (\<lambda>(s, q). 0 \<le> q) stock) (ValueError ''history contains short or unowned inventory'')) (\<lambda>_.
         replay_history es \<lparr>rp_inventory = stock, rp_cash = cash, rp_reserve = reserve,
           rp_peak = (if no_inventory stock then max (rp_peak s) (dsub cash reserve) else rp_peak s)\<rparr>))"

definition in_time_order :: "history_entry list \<Rightarrow> history_entry list" where
  "in_time_order es = sort_key (\<lambda>e. (he_at e, he_id e)) es"

record history_report =
  hr_account :: string
  hr_observed :: instant
  hr_orders :: "string list"
  hr_buys :: "(day, string list) dict"
  hr_timeline :: "history_entry list"
  hr_fee_reserves :: "history_entry list"
  hr_funding :: dec
  hr_deficit :: dec
  hr_cash_pnl :: dec
  hr_economic_pnl :: dec
  hr_peak_pnl :: dec

definition supported_instrument :: "string \<Rightarrow> bool" where
  "supported_instrument s \<longleftrightarrow> s = ''AAPL'' \<or> s = ''MSFT'' \<or> s = ''NVDA'' \<or> s = ''BTC/USD''"

fun instruments_supported :: "history_order list \<Rightarrow> unit res" where
  "instruments_supported [] = Inr ()"
| "instruments_supported (x # xs) =
     (if supported_instrument (ho_symbol x) then instruments_supported xs
      else bind_res (number (ho_filled x)) (\<lambda>q.
        if q \<noteq> 0 then Inl (ValueError ''unvalued historical instrument; explicit valuation review required'')
        else instruments_supported xs))"

definition value_history :: "(instant \<Rightarrow> day) \<Rightarrow> account_history \<Rightarrow> history_report res" where
  "value_history ny h =
     (let orders = ah_orders h in
     bind_res (check (ah_complete h \<and> ah_host h = ''https://paper-api.alpaca.markets'')
       (ValueError ''complete paper account history required'')) (\<lambda>_.
     bind_res (stamp (ah_observed h)) (\<lambda>observed.
     bind_res (check (distinct (map ho_id orders) \<and> distinct (map ho_client orders))
       (ValueError ''duplicate broker order history'')) (\<lambda>_.
     bind_res (instruments_supported orders) (\<lambda>_.
     bind_res (value_activities ny orders observed (ah_activities h) new_valuation) (\<lambda>v.
     bind_res (orders_valued observed v orders) (\<lambda>_.
     bind_res (map_res (crypto_reserve v) (vs_crypto v)) (\<lambda>crypto.
     bind_res (cash_reserve observed (ah_cash h) v (concat crypto)) (\<lambda>(deficit, fees).
     let timeline = in_time_order (vs_timeline v) in
     bind_res (replay_history (in_time_order (timeline @ fees)) \<lparr>rp_inventory = [], rp_cash = 0, rp_reserve = 0, rp_peak = 0\<rparr>) (\<lambda>s.
     bind_res (check (no_inventory (rp_inventory s)) (ValueError ''history does not establish a flat baseline'')) (\<lambda>_.
     Inr \<lparr>hr_account = ah_account h, hr_observed = observed, hr_orders = sort (map ho_id orders),
       hr_buys = buy_clients ny orders, hr_timeline = timeline, hr_fee_reserves = fees, hr_funding = vs_funding v,
       hr_deficit = deficit, hr_cash_pnl = rp_cash s, hr_economic_pnl = dsub (rp_cash s) (rp_reserve s),
       hr_peak_pnl = rp_peak s\<rparr>)))))))))))"

text \<open>\<^verbatim>\<open>before\<close>: what the history had earned when every entry before a boundary had happened.\<close>

fun fold_before :: "instant \<Rightarrow> history_entry list \<Rightarrow> (string, dec) dict \<Rightarrow> dec \<Rightarrow> (string, dec) dict \<times> dec" where
  "fold_before b [] stock x = (stock, x)"
| "fold_before b (e # es) stock x =
     (if he_at e \<ge> b then (stock, x)
      else fold_before b es (add_at (he_symbol e) (he_quantity e) stock) (dadd x (dsub (he_cash e) (he_reserve e))))"

definition history_before :: "history_report \<Rightarrow> instant \<Rightarrow> dec res" where
  "history_before r b =
     (case fold_before b (in_time_order (hr_timeline r @ hr_fee_reserves r)) [] 0 of (stock, x) \<Rightarrow>
        if no_inventory stock then Inr x else Inl (ValueError ''historical boundary exposure lacks a verified mark''))"


subsection \<open>What an accepted history says\<close>

definition stock_of :: "history_entry list \<Rightarrow> (string, dec) dict" where
  "stock_of es = fold (\<lambda>e. add_at (he_symbol e) (he_quantity e)) es []"

definition no_short :: "(string, dec) dict \<Rightarrow> bool" where
  "no_short d \<longleftrightarrow> list_all (\<lambda>(s, q). 0 \<le> q) d"

lemma all_upt_Suc: "list_all P [0..<Suc n] \<longleftrightarrow> P 0 \<and> list_all (\<lambda>i. P (Suc i)) [0..<n]"
  by (simp add: upt_conv_Cons list.pred_map comp_def flip: map_Suc_upt del: upt_Suc)

lemma replay_facts:
  assumes "replay_history es s = Inr s'"
  shows "rp_inventory s' = fold (\<lambda>e. add_at (he_symbol e) (he_quantity e)) es (rp_inventory s)"
    and "rp_cash s' = foldl dadd (rp_cash s) (map he_cash es)"
    and "rp_reserve s' = foldl dadd (rp_reserve s) (map he_reserve es)"
    and "rp_peak s \<le> rp_peak s'"
    and "es \<noteq> [] \<Longrightarrow> no_inventory (rp_inventory s') \<Longrightarrow> dsub (rp_cash s') (rp_reserve s') \<le> rp_peak s'"
    and "list_all (\<lambda>n. no_short (fold (\<lambda>e. add_at (he_symbol e) (he_quantity e)) (take (Suc n) es) (rp_inventory s))) [0..<length es]"
proof -
  let ?st = "\<lambda>es d. fold (\<lambda>e. add_at (he_symbol e) (he_quantity e)) es d"
  have "rp_inventory s' = ?st es (rp_inventory s) \<and> rp_cash s' = foldl dadd (rp_cash s) (map he_cash es)
    \<and> rp_reserve s' = foldl dadd (rp_reserve s) (map he_reserve es) \<and> rp_peak s \<le> rp_peak s'
    \<and> (es \<noteq> [] \<longrightarrow> no_inventory (rp_inventory s') \<longrightarrow> dsub (rp_cash s') (rp_reserve s') \<le> rp_peak s')
    \<and> list_all (\<lambda>n. no_short (?st (take (Suc n) es) (rp_inventory s))) [0..<length es]"
    using assms
  proof (induction es arbitrary: s)
    case (Cons e es)
    define s1 where "s1 = \<lparr>rp_inventory = add_at (he_symbol e) (he_quantity e) (rp_inventory s),
      rp_cash = dadd (rp_cash s) (he_cash e), rp_reserve = dadd (rp_reserve s) (he_reserve e),
      rp_peak = (if no_inventory (add_at (he_symbol e) (he_quantity e) (rp_inventory s))
        then max (rp_peak s) (dsub (dadd (rp_cash s) (he_cash e)) (dadd (rp_reserve s) (he_reserve e))) else rp_peak s)\<rparr>"
    from Cons.prems have short: "no_short (rp_inventory s1)" and run: "replay_history es s1 = Inr s'"
      by (simp_all add: Let_def s1_def no_short_def)
    from Cons.IH [OF run] short show ?case
      by (cases es) (auto simp: s1_def all_upt_Suc simp del: upt_Suc split: if_splits)
  qed simp
  then show "rp_inventory s' = ?st es (rp_inventory s)"
    and "rp_cash s' = foldl dadd (rp_cash s) (map he_cash es)"
    and "rp_reserve s' = foldl dadd (rp_reserve s) (map he_reserve es)"
    and "rp_peak s \<le> rp_peak s'"
    and "es \<noteq> [] \<Longrightarrow> no_inventory (rp_inventory s') \<Longrightarrow> dsub (rp_cash s') (rp_reserve s') \<le> rp_peak s'"
    and "list_all (\<lambda>n. no_short (?st (take (Suc n) es) (rp_inventory s))) [0..<length es]"
    by blast+
qed

definition entries_of :: "history_report \<Rightarrow> history_entry list" where
  "entries_of r = in_time_order (hr_timeline r @ hr_fee_reserves r)"

lemma fold_before_all:
  "list_all (\<lambda>e. he_at e < b) es \<Longrightarrow> fold_before b es stock x =
     (fold (\<lambda>e. add_at (he_symbol e) (he_quantity e)) es stock, foldl dadd x (map (\<lambda>e. dsub (he_cash e) (he_reserve e)) es))"
  by (induction es arbitrary: stock x) simp_all

lemma orders_valued_all: "orders_valued t v xs = Inr () \<Longrightarrow> x \<in> set xs \<Longrightarrow> order_valued t v x = Inr ()"
  by (induction xs) auto

lemma history_facts:
  assumes "value_history ny h = Inr r" "list_all (\<lambda>e. he_at e < b) (entries_of r)"
  shows "list_all (\<lambda>n. no_short (stock_of (take n (entries_of r)))) [0..<Suc (length (entries_of r))]"
    and "no_inventory (stock_of (entries_of r))"
    and "hr_economic_pnl r = dsub (dsum (map he_cash (entries_of r))) (dsum (map he_reserve (entries_of r)))"
    and "hr_economic_pnl r \<le> hr_peak_pnl r \<and> 0 \<le> hr_peak_pnl r"
    and "list_all (\<lambda>x. ho_status x \<in> set final_statuses) (ah_orders h)"
    and "history_before r b = Inr (dsum (map (\<lambda>e. dsub (he_cash e) (he_reserve e)) (entries_of r)))"
proof -
  from assms(1) obtain observed v s where
    val: "orders_valued observed v (ah_orders h) = Inr ()"
    and run: "replay_history (entries_of r) \<lparr>rp_inventory = [], rp_cash = 0, rp_reserve = 0, rp_peak = 0\<rparr> = Inr s"
    and flat: "no_inventory (rp_inventory s)"
    and pnl: "hr_economic_pnl r = dsub (rp_cash s) (rp_reserve s)" and peak: "hr_peak_pnl r = rp_peak s"
    by (auto simp: value_history_def Let_def entries_of_def)
  note facts = replay_facts [OF run, simplified]
  from facts(6) show "list_all (\<lambda>n. no_short (stock_of (take n (entries_of r)))) [0..<Suc (length (entries_of r))]"
    by (simp add: all_upt_Suc stock_of_def no_short_def del: upt_Suc)
  from facts(1) flat show st: "no_inventory (stock_of (entries_of r))" by (simp add: stock_of_def)
  from facts(2,3) pnl show "hr_economic_pnl r = dsub (dsum (map he_cash (entries_of r))) (dsum (map he_reserve (entries_of r)))"
    by (simp add: dsum_def)
  show "hr_economic_pnl r \<le> hr_peak_pnl r \<and> 0 \<le> hr_peak_pnl r"
  proof (cases "entries_of r = []")
    case True
    with facts pnl peak show ?thesis by simp
  next
    case False
    with facts(4,5) flat pnl peak show ?thesis by simp
  qed
  show "list_all (\<lambda>x. ho_status x \<in> set final_statuses) (ah_orders h)"
    using orders_valued_all [OF val] by (fastforce simp: order_valued_def list_all_iff)
  from st show "history_before r b = Inr (dsum (map (\<lambda>e. dsub (he_cash e) (he_reserve e)) (entries_of r)))"
    unfolding history_before_def entries_of_def [symmetric] fold_before_all [OF assms(2)]
    by (simp add: stock_of_def dsum_def)
qed

text \<open>C34 A broker history that is accepted as a baseline never goes short at any point of its replay and ends flat, its
  economic result is the cash it moved less the reserves and is at most the peak it reports, every order in it is
  final, and reading it at a boundary after its last entry succeeds.
\<close>

theorem accepted_history_flat:
  assumes "value_history ny h = Inr r" "list_all (\<lambda>e. he_at e < b) (entries_of r)"
  shows "list_all (\<lambda>n. no_short (stock_of (take n (entries_of r)))) [0..<Suc (length (entries_of r))]
    \<and> no_inventory (stock_of (entries_of r))
    \<and> hr_economic_pnl r = dsub (dsum (map he_cash (entries_of r))) (dsum (map he_reserve (entries_of r)))
    \<and> (hr_economic_pnl r \<le> hr_peak_pnl r \<and> 0 \<le> hr_peak_pnl r)
    \<and> list_all (\<lambda>x. ho_status x \<in> set final_statuses) (ah_orders h)
    \<and> history_before r b = Inr (dsum (map (\<lambda>e. dsub (he_cash e) (he_reserve e)) (entries_of r)))"
  by (intro conjI history_facts(1,2,3,5,6) [OF assms] conjunct1 [OF history_facts(4) [OF assms]]
      conjunct2 [OF history_facts(4) [OF assms]])


text \<open>A purchase and a sale of the same two shares.\<close>

definition utc_stamp :: "int \<Rightarrow> pydatetime option" where
  "utc_stamp t = Some \<lparr>wall = t, offset = Some 0\<rparr>"

definition demo_order :: "string \<Rightarrow> string \<Rightarrow> string \<Rightarrow> history_order" where
  "demo_order k sd p = \<lparr>ho_id = k, ho_client = k, ho_symbol = ''AAPL'', ho_side = sd, ho_status = ''filled'',
     ho_filled = Some ''2'', ho_average = Some p, ho_created = utc_stamp 1\<rparr>"

definition demo_fill :: "string \<Rightarrow> int \<Rightarrow> string \<Rightarrow> string \<Rightarrow> activity" where
  "demo_fill k t sd p = \<lparr>ac_id = k, ac_type = ''FILL'', ac_at = utc_stamp t, ac_order = Some k, ac_symbol = Some ''AAPL'',
     ac_side = Some sd, ac_qty = Some ''2'', ac_price = Some p, ac_net = None, ac_status = None, ac_currency = None,
     ac_date = None\<rparr>"

definition demo_history :: account_history where
  "demo_history = \<lparr>ah_complete = True, ah_host = ''https://paper-api.alpaca.markets'', ah_observed = utc_stamp 9,
     ah_account = ''a'', ah_orders = [demo_order ''p'' ''buy'' ''100'', demo_order ''q'' ''sell'' ''110''],
     ah_activities = [demo_fill ''p'' 2 ''buy'' ''100'', demo_fill ''q'' 3 ''sell'' ''110''], ah_cash = None\<rparr>"

lemma demo_numbers: "number (Some ''2'') = Inr 2" "number (Some ''100'') = Inr 100" "number (Some ''110'') = Inr 110"
  by (simp_all add: number_def decimal_of_string_def take_sign_def py_strip_def is_space_def unsigned_number_def
      exponent_part_def digits_value_def digit_def lower_char_def pvalue_def Let_def)

lemmas demo_simps = demo_history_def demo_order_def demo_fill_def utc_stamp_def

definition demo_entries :: "history_entry list" where
  "demo_entries =
     [\<lparr>he_at = 2, he_id = ''p'', he_symbol = ''AAPL'', he_quantity = 2, he_cash = - 200, he_reserve = 1 / 100, he_external = 0\<rparr>,
      \<lparr>he_at = 3, he_id = ''q'', he_symbol = ''AAPL'', he_quantity = - 2, he_cash = 220, he_reserve = 21 / 1000, he_external = 0\<rparr>]"

lemma demo_activities:
  "value_activities (\<lambda>_. 0) (ah_orders demo_history) 9 (ah_activities demo_history) new_valuation =
     Inr \<lparr>vs_totals = [(''p'', 2), (''q'', 2)], vs_values = [(''p'', 200), (''q'', 220)], vs_timeline = demo_entries,
       vs_seen = [''p'', ''q''], vs_funding = 0, vs_funding_ids = [], vs_crypto = [], vs_coin_fees = [], vs_dollar_fees = []\<rparr>"
  by (simp add: demo_simps value_activity_def stamp_def aware_def to_utc_def Let_def fill_activity_def find_order_def
      required_def demo_numbers new_valuation_def plain_symbol_def add_at_def dget_def demo_entries_def sale_fee_def
      cost_rates dec_eval)

lemma demo_sorted: "in_time_order demo_entries = demo_entries"
  by (simp add: in_time_order_def demo_entries_def less_eq_prod_def)

lemma demo_value:
  "\<exists>r. value_history (\<lambda>_. 0) demo_history = Inr r \<and> entries_of r = demo_entries \<and> hr_account r = ''a''
     \<and> hr_observed r = 9 \<and> hr_buys r = [(0, [''p''])]"
proof -
  have "orders_valued 9 \<lparr>vs_totals = [(''p'', 2), (''q'', 2)], vs_values = [(''p'', 200), (''q'', 220)], vs_timeline = demo_entries,
       vs_seen = [''p'', ''q''], vs_funding = 0, vs_funding_ids = [], vs_crypto = [], vs_coin_fees = [], vs_dollar_fees = []\<rparr>
     (ah_orders demo_history) = Inr ()"
    by (simp add: demo_simps order_valued_def demo_numbers stamp_def aware_def to_utc_def final_statuses_def dget_def
        dec_eval)
  moreover have "\<exists>s. replay_history demo_entries \<lparr>rp_inventory = [], rp_cash = 0, rp_reserve = 0, rp_peak = 0\<rparr> = Inr s
      \<and> no_inventory (rp_inventory s)"
    by (simp add: demo_entries_def add_at_def dget_def Let_def no_inventory_def dec_eval)
  moreover have "instruments_supported (ah_orders demo_history) = Inr ()"
    by (simp add: demo_simps supported_instrument_def)
  moreover have "ah_complete demo_history" "ah_host demo_history = ''https://paper-api.alpaca.markets''"
    "stamp (ah_observed demo_history) = Inr 9" "distinct (map ho_id (ah_orders demo_history))"
    "distinct (map ho_client (ah_orders demo_history))" "ah_cash demo_history = None" "ah_account demo_history = ''a''"
    "buy_clients (\<lambda>_. 0) (ah_orders demo_history) = [(0, [''p''])]"
    by (simp_all add: demo_simps stamp_def aware_def to_utc_def buy_clients_def dget_def)
  ultimately show ?thesis
    by (auto simp: value_history_def Let_def demo_activities cash_reserve_def demo_sorted entries_of_def)
qed

theorem accepted_history_flat_witness:
  "\<exists>r. value_history (\<lambda>_. 0) demo_history = Inr r \<and> no_inventory (stock_of (entries_of r)) \<and> hr_economic_pnl r \<le> hr_peak_pnl r"
proof -
  obtain r where r: "value_history (\<lambda>_. 0) demo_history = Inr r" "entries_of r = demo_entries" using demo_value by blast
  then have "list_all (\<lambda>e. he_at e < 10) (entries_of r)" by (simp add: demo_entries_def)
  from accepted_history_flat [OF r(1) this] r(1) show ?thesis by blast
qed

end
