(* ===== verification/EventStore.thy ===== *)
theory EventStore
  imports AccountHistory
begin

text \<open>
  The durable state of the event worker: its tables as one record, and the session budgets of
  \<^verbatim>\<open>event_session.py\<close>. Control values that the code keeps as JSON text are kept by kind: saved risk limits, account
  baselines and session budgets under their keys, the plain ones as text. A transaction that raises leaves the
  state as it was. The audit trail keeps the kind, the trace and the time of each event. SHA-256, the text of a
  date, and the exchange's time zone are parameters.
\<close>

record event_env =
  ee_sha :: "string \<Rightarrow> string"
  ee_iso :: "day \<Rightarrow> string"
  ee_ny_date :: "instant \<Rightarrow> day"
  ee_ny_midnight :: "day \<Rightarrow> instant"

record saved_risk =
  sr_capital :: dec
  sr_peak :: dec
  sr_daily :: dec
  sr_weekly :: dec
  sr_drawdown :: dec

record session_budget =
  sb_session :: string
  sb_day :: day
  sb_account :: string
  sb_total :: int
  sb_news :: int
  sb_equipment_test :: string
  sb_equipment_order :: "string option"
  sb_equipment_cohort :: "string option"
  sb_external :: "string list option"
  sb_scheduled :: bool
  sb_scheduled_request :: "string option"

record event_store =
  db_cohorts :: "(string, string) dict"
  db_orders :: "order_row list"
  db_risk :: "(string, saved_risk option) dict"
  db_baselines :: "(string, history_report) dict"
  db_budgets :: "(string, session_budget) dict"
  db_claims :: "(string, string) dict"
  db_controls :: "(string, string) dict"
  db_audit :: "(string \<times> string \<times> instant) list"

definition new_event_store :: event_store where
  "new_event_store = \<lparr>db_cohorts = [], db_orders = [], db_risk = [], db_baselines = [], db_budgets = [], db_claims = [],
     db_controls = [], db_audit = []\<rparr>"

definition transaction :: "(event_store, 'a) routine \<Rightarrow> (event_store, 'a) routine" where
  "transaction m s = (case m s of (Inl e, t) \<Rightarrow> (Inl e, s) | (Inr x, t) \<Rightarrow> (Inr x, t))"

definition audit :: "string \<Rightarrow> string \<Rightarrow> instant \<Rightarrow> event_store \<Rightarrow> event_store" where
  "audit kind trace now s = s\<lparr>db_audit := db_audit s @ [(''event_'' @ kind, trace, now)]\<rparr>"

definition update_st :: "(event_store \<Rightarrow> event_store) \<Rightarrow> (event_store, unit) routine" where
  "update_st f s = (Inr (), f s)"

definition get_control :: "string \<Rightarrow> event_store \<Rightarrow> string option" where
  "get_control k s = map_of (db_controls s) k"

definition set_control :: "string \<Rightarrow> string \<Rightarrow> event_store \<Rightarrow> event_store" where
  "set_control k v s = s\<lparr>db_controls := AList.update k v (db_controls s)\<rparr>"

text \<open>What clients rely on of a control read: the value last written under that name.\<close>

interpretation event_controls: control_store "\<lambda>s k. get_control k s" "\<lambda>(_::unit) k v s. set_control k v s"
  by unfold_locales (simp_all add: get_control_def set_control_def)

lemma transaction_Inr: "transaction m s = (Inr x, t) \<longleftrightarrow> m s = (Inr x, t)"
  by (auto simp: transaction_def split: prod.splits sum.splits)

lemma transaction_Inl: "transaction m s = (Inl e, t) \<Longrightarrow> t = s"
  by (auto simp: transaction_def split: prod.splits sum.splits)

lemma outcome_transaction: "outcome (transaction m) Q E s \<longleftrightarrow> outcome m Q (\<lambda>_. E s) s"
  by (auto simp: outcome_def transaction_def split: prod.splits sum.splits)

lemma outcome_update [simp]: "outcome (update_st f) Q E s = Q () (f s)"
  by (simp add: outcome_def update_st_def)

subsection \<open>Session plan and budget\<close>

record calendar_session =
  cs_date :: day
  cs_open :: instant
  cs_close :: instant

record session_plan =
  sp_date :: day
  sp_open :: instant
  sp_close :: instant
  sp_previous_close :: instant
  sp_verified_at :: instant

text \<open>\<open>calendar first last\<close> is the broker's calendar and \<open>bounds\<close> the exchange calendar of \<open>intraday.py\<close>.\<close>

definition verify_session_plan ::
  "(day \<Rightarrow> day \<Rightarrow> calendar_session list) \<Rightarrow> (day \<Rightarrow> (instant \<times> instant) option) \<Rightarrow> day \<Rightarrow> instant \<Rightarrow> session_plan res" where
  "verify_session_plan calendar bounds d now =
     (let sessions = calendar (d - 10) d;
          earlier = filter (\<lambda>x. cs_date x < d) sessions
      in case find (\<lambda>x. cs_date x = d) sessions of
           None \<Rightarrow> Inl (ValueError ''broker calendar lacks the planned session or preceding regular close'')
         | Some planned \<Rightarrow>
             bind_res (check (earlier \<noteq> []) (ValueError ''broker calendar lacks the planned session or preceding regular close'')) (\<lambda>_.
             bind_res (check (bounds d = Some (cs_open planned, cs_close planned))
               (ValueError ''broker calendar and independent exchange calendar disagree'')) (\<lambda>_.
             Inr \<lparr>sp_date = d, sp_open = cs_open planned, sp_close = cs_close planned,
               sp_previous_close = foldl max (cs_close (hd earlier)) (map cs_close (tl earlier)), sp_verified_at = now\<rparr>)))"

definition session_identity :: "event_env \<Rightarrow> string \<Rightarrow> day \<Rightarrow> string" where
  "session_identity e account d = ee_sha e (''tradeagent-v20-practice:'' @ ee_iso e d @ '':'' @ account)"

definition equipment_identity :: "event_env \<Rightarrow> string \<Rightarrow> day \<Rightarrow> string" where
  "equipment_identity e account d = ee_sha e (''tradeagent-v20:EQUIPMENT_TEST:'' @ ee_iso e d @ '':AAPL:'' @ account)"

definition empty_session_budget :: "event_env \<Rightarrow> string \<Rightarrow> day \<Rightarrow> session_budget" where
  "empty_session_budget e account d = \<lparr>sb_session = session_identity e account d, sb_day = d, sb_account = account,
     sb_total = 0, sb_news = 0, sb_equipment_test = equipment_identity e account d, sb_equipment_order = None,
     sb_equipment_cohort = None, sb_external = None, sb_scheduled = False, sb_scheduled_request = None\<rparr>"

definition session_control_key :: "event_env \<Rightarrow> string \<Rightarrow> day \<Rightarrow> string" where
  "session_control_key e account d = ''practice-session:'' @ session_identity e account d"

definition locked_session_budget :: "event_env \<Rightarrow> string \<Rightarrow> day \<Rightarrow> (event_store, session_budget) routine" where
  "locked_session_budget e account d s =
     (let k = session_control_key e account d;
          s' = (if map_of (db_budgets s) k = None
                then s\<lparr>db_budgets := AList.update k (empty_session_budget e account d) (db_budgets s)\<rparr> else s);
          b = the (map_of (db_budgets s') k)
      in if sb_account b \<noteq> account \<or> sb_day b \<noteq> d
         then (Inl (ValueError ''persisted practice session identity mismatch''), s') else (Inr b, s'))"

definition save_session_budget :: "event_env \<Rightarrow> session_budget \<Rightarrow> event_store \<Rightarrow> event_store" where
  "save_session_budget e b s =
     (let k = session_control_key e (sb_account b) (sb_day b) in
      if map_of (db_budgets s) k = None then s else s\<lparr>db_budgets := AList.update k b (db_budgets s)\<rparr>)"

lemma locked_budget:
  "locked_session_budget e account d s = (Inr b, t) \<Longrightarrow>
     map_of (db_budgets t) (session_control_key e account d) = Some b \<and> sb_account b = account \<and> sb_day b = d
     \<and> (map_of (db_budgets s) (session_control_key e account d) = Some b
        \<or> map_of (db_budgets s) (session_control_key e account d) = None \<and> b = empty_session_budget e account d)
     \<and> (\<forall>k. k \<noteq> session_control_key e account d \<longrightarrow> map_of (db_budgets t) k = map_of (db_budgets s) k)
     \<and> t = s\<lparr>db_budgets := db_budgets t\<rparr>"
  by (auto simp: locked_session_budget_def Let_def empty_session_budget_def split: if_splits)

text \<open>A session's budget never gives entries back.\<close>

definition external_ids :: "session_budget \<Rightarrow> string list" where
  "external_ids b = (case sb_external b of None \<Rightarrow> [] | Some xs \<Rightarrow> xs)"

definition budget_le :: "session_budget \<Rightarrow> session_budget \<Rightarrow> bool" where
  "budget_le b c \<longleftrightarrow> sb_total b \<le> sb_total c \<and> sb_news b \<le> sb_news c \<and> set (external_ids b) \<subseteq> set (external_ids c)
     \<and> (sb_equipment_order b \<noteq> None \<longrightarrow> sb_equipment_order c = sb_equipment_order b)"

definition budgets_kept :: "event_store \<Rightarrow> event_store \<Rightarrow> bool" where
  "budgets_kept s t \<longleftrightarrow> (\<forall>k b. map_of (db_budgets s) k = Some b \<longrightarrow> (\<exists>c. map_of (db_budgets t) k = Some c \<and> budget_le b c))"

lemma budget_le_refl [simp]: "budget_le b b"
  by (simp add: budget_le_def)

lemma budget_le_trans: "budget_le a b \<Longrightarrow> budget_le b c \<Longrightarrow> budget_le a c"
  by (auto simp: budget_le_def)

lemma budgets_kept_refl [simp]: "budgets_kept s s"
  by (auto simp: budgets_kept_def)

lemma budgets_kept_trans: "budgets_kept s t \<Longrightarrow> budgets_kept t u \<Longrightarrow> budgets_kept s u"
  unfolding budgets_kept_def by (meson budget_le_trans)

lemma locked_budget_kept: "locked_session_budget e account d s = (r, t) \<Longrightarrow> budgets_kept s t"
  by (auto simp: locked_session_budget_def Let_def budgets_kept_def map_of_update split: if_splits)

text \<open>Reading a budget and saving it larger keeps every budget.\<close>

lemma save_budget_kept:
  assumes "locked_session_budget e account d s = (Inr b, t)" "budget_le b c" "sb_account c = account" "sb_day c = d"
    and "db_budgets u = db_budgets t"
  shows "budgets_kept s (save_session_budget e c u)"
proof -
  have kept: "budgets_kept s t" using assms(1) by (rule locked_budget_kept)
  moreover have "budgets_kept t (save_session_budget e c u)"
    using locked_budget [OF assms(1)] assms(2-)
    by (auto simp: save_session_budget_def Let_def budgets_kept_def map_of_update split: if_splits)
  ultimately show ?thesis by (rule budgets_kept_trans)
qed

end
