(* ===== verification/AccountRisk.thy ===== *)
theory AccountRisk
  imports EventStore
begin

text \<open>
  Loss limits of the paper account: the import of a broker baseline (\<^verbatim>\<open>save_baseline\<close> of
  \<^verbatim>\<open>paper_account_history.py\<close>) and the account-wide risk report of \<^verbatim>\<open>event_account_risk.py\<close>.
\<close>

subsection \<open>Importing a baseline\<close>

definition linked_rows :: "string \<Rightarrow> event_store \<Rightarrow> order_row list" where
  "linked_rows account s = filter (\<lambda>r. lk_account (ow_link r) = account) (db_orders s)"

definition final_states :: "lifecycle_state set" where
  "final_states = {OS_FILLED, OS_CANCELED, OS_EXPIRED, OS_REJECTED}"

definition entry_named :: "history_entry list \<Rightarrow> string \<Rightarrow> history_entry option" where
  "entry_named es k = find (\<lambda>e. he_id e = k) (rev es)"

definition keeps_history :: "history_report \<Rightarrow> history_report \<Rightarrow> bool" where
  "keeps_history old new \<longleftrightarrow> list_all (\<lambda>x. x \<in> set (hr_orders new)) (hr_orders old)
     \<and> list_all (\<lambda>e. entry_named (hr_timeline new) (he_id e) = Some e) (hr_timeline old)"

definition external_buys :: "string list \<Rightarrow> string list \<Rightarrow> string list" where
  "external_buys ids local = sort (remdups (filter (\<lambda>x. x \<notin> set local) ids))"

definition count_external ::
  "event_env \<Rightarrow> string \<Rightarrow> string list \<Rightarrow> instant \<Rightarrow> day \<times> string list \<Rightarrow> (event_store, unit) routine" where
  "count_external e account local now entry =
     (case entry of (d, ids) \<Rightarrow>
       bind_st (locked_session_budget e account d) (\<lambda>b.
         let external = external_buys ids local;
             added = filter (\<lambda>x. x \<notin> set (external_ids b)) external;
             b' = b\<lparr>sb_total := sb_total b + int (length added), sb_external := Some external\<rparr>
         in bind_st (lift_st (check (set (external_ids b) \<subseteq> set external)
              (ValueError ''history cannot remove previously counted BUY attempts''))) (\<lambda>_.
            update_st (\<lambda>s. (if b = b' then id else audit ''account_history_budget_correction'' account now)
              (save_session_budget e b' s)))))"

fun count_all_external ::
  "event_env \<Rightarrow> string \<Rightarrow> string list \<Rightarrow> instant \<Rightarrow> (day \<times> string list) list \<Rightarrow> (event_store, unit) routine" where
  "count_all_external e account local now [] = return_st ()"
| "count_all_external e account local now (x # xs) =
     bind_st (count_external e account local now x) (\<lambda>_. count_all_external e account local now xs)"

definition import_over ::
  "event_env \<Rightarrow> history_report \<Rightarrow> instant \<Rightarrow> history_report option \<Rightarrow> order_row list \<Rightarrow> (event_store, unit) routine" where
  "import_over e r now old linked =
     (let account = hr_account r in
      bind_st (lift_st (check (case old of None \<Rightarrow> True | Some x \<Rightarrow> hr_observed x \<le> hr_observed r)
        (ValueError ''cannot replace a newer account baseline''))) (\<lambda>_.
      bind_st (lift_st (check (case old of None \<Rightarrow> True | Some x \<Rightarrow> keeps_history x r)
        (ValueError ''baseline cannot discard or rewrite previously valued history''))) (\<lambda>_.
      bind_st (lift_st (check (list_all (\<lambda>x. ow_status x \<in> final_states) linked)
        (ValueError ''unresolved local history blocks baseline''))) (\<lambda>_.
      bind_st (lift_st (check (list_all (\<lambda>x. case ow_broker_id x of None \<Rightarrow> True | Some k \<Rightarrow> k = [] \<or> k \<in> set (hr_orders r)) linked)
        (ValueError ''broker snapshot omits retained OMS history''))) (\<lambda>_.
      bind_st (count_all_external e account (List.map_filter ow_client linked) now (hr_buys r)) (\<lambda>_.
      update_st (\<lambda>s. audit ''account_history_baseline'' account now
        (s\<lparr>db_baselines := AList.update account r (db_baselines s)\<rparr>))))))))"

definition import_report :: "event_env \<Rightarrow> history_report \<Rightarrow> instant \<Rightarrow> (event_store, unit) routine" where
  "import_report e r now s =
     import_over e r now (map_of (db_baselines s) (hr_account r)) (linked_rows (hr_account r) s) s"

definition save_baseline :: "event_env \<Rightarrow> account_history \<Rightarrow> instant \<Rightarrow> (event_store, history_report) routine" where
  "save_baseline e h now =
     bind_st (lift_st (value_history (ee_ny_date e) h)) (\<lambda>r.
     bind_st (lift_st (check (0 \<le> now - hr_observed r \<and> now - hr_observed r \<le> seconds 60)
       (ValueError ''fresh history baseline required''))) (\<lambda>_.
     bind_st (transaction (import_report e r now)) (\<lambda>_. return_st r)))"

subsection \<open>The risk report\<close>

record risk_report =
  rr_valued :: bool
  rr_blocked :: bool
  rr_reason :: "err option"
  rr_equity :: dec
  rr_day_start :: dec
  rr_week_start :: dec
  rr_limits :: "saved_risk option"

definition unvalued_report :: "err \<Rightarrow> risk_report" where
  "unvalued_report why = \<lparr>rr_valued = False, rr_blocked = True, rr_reason = Some why, rr_equity = 0, rr_day_start = 0,
     rr_week_start = 0, rr_limits = None\<rparr>"

definition equity_of :: "dec \<Rightarrow> day \<Rightarrow> order_row list \<Rightarrow> (string, dec) dict \<Rightarrow> dec \<Rightarrow> dec res" where
  "equity_of capital d rows marks shift =
     (let r = allocation_ledgers rows marks (Some capital) d IexPractice in
      bind_res (check (ec_valued (pr_aggregate r)) (ValueError ''account risk history/position cannot be valued'')) (\<lambda>_.
      Inr (dadd (the (pr_economic_equity r)) shift)))"

text \<open>The rows filled before a boundary: each needs an exact fill time.\<close>

fun rows_before :: "instant \<Rightarrow> order_row list \<Rightarrow> order_row list res" where
  "rows_before b [] = Inr []"
| "rows_before b (r # rs) =
     (if ow_created r \<ge> b \<or> filled_of r = 0 then rows_before b rs
      else (case lk_broker (ow_link r) of None \<Rightarrow> rows_before b rs
        | Some k \<Rightarrow> (case bk_filled_at k of
            None \<Rightarrow> Inl (ValueError ''filled account history lacks an exact fill timestamp'')
          | Some t \<Rightarrow> bind_res (check (aware t) (ValueError ''naive broker fill timestamp'')) (\<lambda>_.
              bind_res (rows_before b rs) (\<lambda>ys. Inr (if to_utc t < b then r # ys else ys))))))"

definition equity_before ::
  "dec \<Rightarrow> day \<Rightarrow> history_report option \<Rightarrow> order_row list \<Rightarrow> instant \<Rightarrow> dec res" where
  "equity_before capital d baseline rows b =
     bind_res (rows_before b rows) (\<lambda>selected.
     bind_res (case baseline of None \<Rightarrow> Inr 0 | Some h \<Rightarrow> history_before h b) (\<lambda>shift.
     equity_of capital d selected [] shift))"

text \<open>
  The highest flat equity along the rows. The loop runs after the rows were valued, so every price parses; the
  code would raise where the model does.
\<close>

fun flat_peak :: "dec \<Rightarrow> order_row list \<Rightarrow> (string, dec) dict \<Rightarrow> dec \<Rightarrow> dec \<Rightarrow> dec res" where
  "flat_peak capital [] stock cash peak = Inr peak"
| "flat_peak capital (r # rs) stock cash peak =
     (if filled_of r = 0 then flat_peak capital rs stock cash peak
      else (case fill_price (bk_price (the (lk_broker (ow_link r)))) of None \<Rightarrow> Inl InvalidOperation
        | Some p \<Rightarrow>
            let q = filled_of r; stock' = add_at (ow_symbol r) (signed_fill r) stock;
                spent = dsub cash (dadd (dmul (signed_fill r) p) (dmul (dmul q p) residual_rate));
                cash' = (if ow_side r = SELL then dsub spent (sale_fee (dmul q p) q) else spent)
            in flat_peak capital rs stock' cash' (if no_inventory stock' then max peak (dadd capital cash') else peak)))"

definition monday_of :: "day \<Rightarrow> day" where
  "monday_of d = d - (d + 3) mod 7"

definition account_rows :: "string \<Rightarrow> history_report option \<Rightarrow> event_store \<Rightarrow> order_row list" where
  "account_rows account baseline s =
     (let rows = sort_key (\<lambda>r. (ow_created r, ow_id r)) (linked_rows account s) in
      case baseline of None \<Rightarrow> rows
      | Some h \<Rightarrow> filter (\<lambda>r. case ow_broker_id r of None \<Rightarrow> True | Some k \<Rightarrow> k \<notin> set (hr_orders h)) rows)"

definition loss_limit :: "dec option \<Rightarrow> dec \<Rightarrow> dec \<Rightarrow> dec \<Rightarrow> dec" where
  "loss_limit saved init equity fraction = min (case saved of None \<Rightarrow> init | Some x \<Rightarrow> x) (dmul equity fraction)"

text \<open>
  \<open>limits_after\<close> is the saved state a valued report leaves: the capital first used, limits that only tighten and the
  highest equity seen.
\<close>

definition limits_after ::
  "experimental_settings \<Rightarrow> saved_risk option \<Rightarrow> dec \<Rightarrow> dec list \<Rightarrow> saved_risk" where
  "limits_after s saved capital highs =
     \<lparr>sr_capital = capital,
      sr_peak = foldl max (case saved of None \<Rightarrow> capital | Some v \<Rightarrow> sr_peak v) highs,
      sr_daily = loss_limit (map_option sr_daily saved) 50 (es_equity s) (es_daily_loss s),
      sr_weekly = loss_limit (map_option sr_weekly saved) 50 (es_equity s) (es_weekly_loss s),
      sr_drawdown = loss_limit (map_option sr_drawdown saved) 150 (es_equity s) (es_drawdown s)\<rparr>"

definition loss_blocked :: "saved_risk \<Rightarrow> dec \<Rightarrow> dec \<Rightarrow> dec \<Rightarrow> bool" where
  "loss_blocked v eq_now day_start week_start \<longleftrightarrow>
     eq_now \<le> dsub day_start (sr_daily v) \<or> eq_now \<le> dsub week_start (sr_weekly v)
     \<or> eq_now \<le> dsub (sr_peak v) (sr_drawdown v)"

definition assess ::
  "event_env \<Rightarrow> experimental_settings \<Rightarrow> (string, dec) dict \<Rightarrow> instant \<Rightarrow> saved_risk option \<Rightarrow> history_report option
   \<Rightarrow> order_row list \<Rightarrow> (dec \<times> dec \<times> dec) res" where
  "assess e s marks now saved baseline rows =
     (let d = ee_ny_date e now;
          capital = (case saved of None \<Rightarrow> es_equity s | Some v \<Rightarrow> sr_capital v)
      in bind_res (equity_of capital d rows marks (case baseline of None \<Rightarrow> 0 | Some h \<Rightarrow> hr_economic_pnl h)) (\<lambda>eq_now.
         bind_res (equity_before capital d baseline rows (ee_ny_midnight e d)) (\<lambda>day_start.
         bind_res (equity_before capital d baseline rows (ee_ny_midnight e (monday_of d))) (\<lambda>week_start.
         Inr (eq_now, day_start, week_start)))))"

definition account_risk_steps ::
  "event_env \<Rightarrow> experimental_settings \<Rightarrow> string \<Rightarrow> (string, dec) dict \<Rightarrow> instant \<Rightarrow> (event_store, risk_report) routine" where
  "account_risk_steps e s account marks now db0 =
     (let db = (if map_of (db_risk db0) account = None
                then db0\<lparr>db_risk := AList.update account None (db_risk db0)\<rparr> else db0);
          saved = the (map_of (db_risk db) account);
          baseline = map_of (db_baselines db) account
      in if es_policy s = OperatorCalibration \<and> baseline = None
         then (Inr (unvalued_report (ValueError ''complete broker baseline required'')), db)
         else
          (let rows = account_rows account baseline db;
               capital = (case saved of None \<Rightarrow> es_equity s | Some v \<Rightarrow> sr_capital v)
           in case assess e s marks now saved baseline rows of
                Inl why \<Rightarrow> (Inr (unvalued_report why), db)
              | Inr (eq_now, day_start, week_start) \<Rightarrow>
                  (case flat_peak capital rows [] (case baseline of None \<Rightarrow> 0 | Some h \<Rightarrow> hr_economic_pnl h)
                     (case baseline of None \<Rightarrow> capital | Some h \<Rightarrow> dadd capital (hr_peak_pnl h)) of
                     Inl why \<Rightarrow> (Inl why, db)
                   | Inr high \<Rightarrow>
                       (let v = limits_after s saved capital [high, day_start, week_start, eq_now] in
                        (Inr \<lparr>rr_valued = True, rr_blocked = loss_blocked v eq_now day_start week_start,
                              rr_reason = None, rr_equity = eq_now, rr_day_start = day_start,
                              rr_week_start = week_start, rr_limits = Some v\<rparr>,
                         audit ''account_risk'' (es_cohort s) now
                           (db\<lparr>db_risk := AList.update account (Some v) (db_risk db)\<rparr>))))))"

definition account_risk ::
  "event_env \<Rightarrow> experimental_settings \<Rightarrow> (string, dec) dict \<Rightarrow> instant \<Rightarrow> (event_store, risk_report) routine" where
  "account_risk e s marks now =
     (case es_news_digest s of None \<Rightarrow> raise_st (ValueError ''pinned paper account required'')
      | Some account \<Rightarrow> transaction (account_risk_steps e s account marks now))"

end
