(* ===== verification/AccountRiskLaws.thy ===== *)
theory AccountRiskLaws
  imports AccountRisk
begin

text \<open>
  Loss budgets cannot be reset: along any run of reports, imports and other work on the store, the capital of an
  account stays what it first was, its limits only tighten and its peak only rises. An import of history never
  rewrites what was valued before and never gives a session its entries back.
\<close>

subsection \<open>Imports\<close>


definition kept_from :: "event_store \<Rightarrow> event_store \<Rightarrow> bool" where
  "kept_from s t \<longleftrightarrow> budgets_kept s t \<and> db_baselines t = db_baselines s \<and> db_risk t = db_risk s \<and> db_orders t = db_orders s"

lemma kept_from_refl [simp]: "kept_from s s"
  by (simp add: kept_from_def)

lemma kept_from_trans: "kept_from s t \<Longrightarrow> kept_from t u \<Longrightarrow> kept_from s u"
  by (auto simp: kept_from_def intro: budgets_kept_trans)

lemma set_external: "set (external_buys ids local) = set ids - set local"
  by (auto simp: external_buys_def)

lemma save_budget_fields [simp]:
  "db_baselines (save_session_budget e b s) = db_baselines s" "db_risk (save_session_budget e b s) = db_risk s"
  "db_orders (save_session_budget e b s) = db_orders s"
  by (simp_all add: save_session_budget_def Let_def)

lemma audit_fields [simp]:
  "db_baselines (audit k x n s) = db_baselines s" "db_risk (audit k x n s) = db_risk s"
  "db_orders (audit k x n s) = db_orders s" "db_budgets (audit k x n s) = db_budgets s"
  by (simp_all add: audit_def)

lemma budgets_kept_audit [simp]: "budgets_kept s (audit k x n t) = budgets_kept s t"
  by (simp add: budgets_kept_def)

lemma count_external_kept: "outcome (count_external e account local now x) (\<lambda>_. kept_from s) (\<lambda>_. True) s"
proof -
  obtain d ids where x: "x = (d, ids)" by (cases x)
  show ?thesis
  proof (cases "locked_session_budget e account d s")
    case (Pair r t)
    show ?thesis
    proof (cases r)
      case (Inl err)
      with Pair show ?thesis by (simp add: x count_external_def outcome_def bind_st_def)
    next
      case (Inr b)
      with Pair have locked: "locked_session_budget e account d s = (Inr b, t)" by simp
      from locked_budget [OF locked] have b: "sb_account b = account" "sb_day b = d" "t = s\<lparr>db_budgets := db_budgets t\<rparr>"
        by blast+
      let ?ext = "external_buys ids local"
      define b' where "b' = b\<lparr>sb_total := sb_total b + int (length (filter (\<lambda>x. x \<notin> set (external_ids b)) ?ext)), sb_external := Some ?ext\<rparr>"
      have kept: "kept_from s (save_session_budget e b' t)" if "set (external_ids b) \<subseteq> set ?ext"
      proof -
        have "budget_le b b'" using that by (simp add: budget_le_def external_ids_def b'_def)
        from save_budget_kept [OF locked this _ _ refl] b have "budgets_kept s (save_session_budget e b' t)" by (simp add: b'_def)
        moreover have "db_baselines t = db_baselines s \<and> db_risk t = db_risk s \<and> db_orders t = db_orders s"
          using arg_cong [OF b(3), of db_baselines] arg_cong [OF b(3), of db_risk] arg_cong [OF b(3), of db_orders] by simp
        ultimately show ?thesis by (simp add: kept_from_def)
      qed
      have "kept_from s ((if b = b' then id else audit k account now) (save_session_budget e b' t))"
        if "set (external_ids b) \<subseteq> set ?ext" for k
        using kept [OF that] by (auto simp: kept_from_def)
      then show ?thesis
        by (simp add: x count_external_def outcome_def bind_st_def locked Let_def lift_st_def check_def update_st_def
            flip: b'_def)
    qed
  qed
qed

lemma count_all_kept: "outcome (count_all_external e account local now xs) (\<lambda>_. kept_from s) (\<lambda>_. True) s"
proof (induction xs arbitrary: s)
  case (Cons x xs)
  have "outcome (count_all_external e account local now xs) (\<lambda>_. kept_from s) (\<lambda>_. True) t" if "kept_from s t" for t
    using Cons.IH [of t] by (rule outcome_mono) (auto intro: kept_from_trans that)
  then show ?case
    by (auto intro: outcome_mono [OF count_external_kept])
qed simp

definition baseline_after :: "string \<Rightarrow> history_report \<Rightarrow> event_store \<Rightarrow> event_store \<Rightarrow> bool" where
  "baseline_after account r s t \<longleftrightarrow> map_of (db_baselines t) account = Some r
     \<and> (\<forall>a. a \<noteq> account \<longrightarrow> map_of (db_baselines t) a = map_of (db_baselines s) a)
     \<and> budgets_kept s t \<and> db_risk t = db_risk s \<and> db_orders t = db_orders s"

definition import_allowed :: "history_report \<Rightarrow> event_store \<Rightarrow> bool" where
  "import_allowed r s \<longleftrightarrow>
     (case map_of (db_baselines s) (hr_account r) of None \<Rightarrow> True
      | Some old \<Rightarrow> hr_observed old \<le> hr_observed r \<and> keeps_history old r)
     \<and> list_all (\<lambda>x. ow_status x \<in> final_states) (linked_rows (hr_account r) s)"

lemma import_outcome:
  "outcome (import_report e r now) (\<lambda>_ t. import_allowed r s \<and> baseline_after (hr_account r) r s t) (\<lambda>_. True) s"
proof -
  have "outcome (count_all_external e (hr_account r) xs now ys)
      (\<lambda>_ t. baseline_after (hr_account r) r s (audit k (hr_account r) now (t\<lparr>db_baselines := AList.update (hr_account r) r (db_baselines t)\<rparr>)))
      (\<lambda>_. True) s" for xs ys k
    by (rule outcome_mono [OF count_all_kept])
      (auto simp: baseline_after_def kept_from_def map_of_update budgets_kept_def)
  note counted = this
  have "outcome (import_report e r now) Q E s = outcome (import_over e r now (map_of (db_baselines s) (hr_account r))
      (linked_rows (hr_account r) s)) Q E s" for Q E
    by (simp add: outcome_def import_report_def)
  then show ?thesis
    unfolding import_over_def Let_def outcome_bind outcome_lift outcome_update
    using counted by (auto simp: check_def import_allowed_def split: option.splits)
qed


lemma save_baseline_Inr:
  assumes "save_baseline e h now s = (Inr r, t)"
  shows "value_history (ee_ny_date e) h = Inr r" and "import_allowed r s" and "baseline_after (hr_account r) r s t"
proof -
  have "outcome (save_baseline e h now)
      (\<lambda>r t. value_history (ee_ny_date e) h = Inr r \<and> import_allowed r s \<and> baseline_after (hr_account r) r s t) (\<lambda>_. True) s"
    using outcome_mono [OF import_outcome]
    by (auto simp: save_baseline_def outcome_transaction split: sum.splits)
  from outcome_Inr [OF this assms]
  show "value_history (ee_ny_date e) h = Inr r" and "import_allowed r s" and "baseline_after (hr_account r) r s t" by blast+
qed

lemma save_baseline_Inl: "save_baseline e h now s = (Inl err, t) \<Longrightarrow> t = s"
  by (auto simp: save_baseline_def bind_st_def lift_st_def check_def return_st_def split: sum.splits prod.splits if_splits
      dest: transaction_Inl)

text \<open>C15 Importing a broker history either leaves the whole store as it was or keeps every entry the previous baseline of
  the account had valued, under the same id and unchanged, and every order of it; no other account's baseline and no
  saved limit changes, and no session's count of reserved entries goes down.
\<close>

theorem baseline_never_rewritten:
  assumes "save_baseline e h now s = (res, t)"
  shows "case res of Inl err \<Rightarrow> t = s
    | Inr r \<Rightarrow> baseline_after (hr_account r) r s t \<and>
        (case map_of (db_baselines s) (hr_account r) of None \<Rightarrow> True | Some old \<Rightarrow> keeps_history old r \<and> hr_observed old \<le> hr_observed r)"
  using assms save_baseline_Inl save_baseline_Inr [of e h now s]
  by (cases res) (auto simp: import_allowed_def split: option.splits)

subsection \<open>Limits only tighten\<close>

definition limits_le :: "saved_risk \<Rightarrow> saved_risk \<Rightarrow> bool" where
  "limits_le v w \<longleftrightarrow> sr_capital w = sr_capital v \<and> sr_peak v \<le> sr_peak w \<and> sr_daily w \<le> sr_daily v
     \<and> sr_weekly w \<le> sr_weekly v \<and> sr_drawdown w \<le> sr_drawdown v"

lemma limits_le_trans: "limits_le u v \<Longrightarrow> limits_le v w \<Longrightarrow> limits_le u w"
  by (auto simp: limits_le_def)

definition saved_limits :: "string \<Rightarrow> event_store \<Rightarrow> saved_risk option" where
  "saved_limits a s = (case map_of (db_risk s) a of None \<Rightarrow> None | Some x \<Rightarrow> x)"

definition risk_kept :: "event_store \<Rightarrow> event_store \<Rightarrow> bool" where
  "risk_kept s t \<longleftrightarrow> (\<forall>a v. saved_limits a s = Some v \<longrightarrow> (\<exists>w. saved_limits a t = Some w \<and> limits_le v w))"

definition limits_capped :: "event_store \<Rightarrow> bool" where
  "limits_capped s \<longleftrightarrow> (\<forall>a v. saved_limits a s = Some v \<longrightarrow> sr_daily v \<le> 50 \<and> sr_weekly v \<le> 50 \<and> sr_drawdown v \<le> 150)"

lemma max_list_le: "x \<le> foldl max x ys" "y \<in> set ys \<Longrightarrow> y \<le> foldl max x (ys :: dec list)"
proof -
  have le: "x \<le> foldl max x ys" for x and ys :: "dec list"
  proof (induction ys arbitrary: x)
    case (Cons z ys)
    from Cons.IH [of "max x z"] show ?case by simp
  qed simp
  then show "x \<le> foldl max x ys" .
  show "y \<in> set ys \<Longrightarrow> y \<le> foldl max x ys"
  proof (induction ys arbitrary: x)
    case (Cons z ys)
    then show ?case using le [of "max x z" ys] by auto
  qed simp
qed

lemma limits_after_le: "limits_le v (limits_after s (Some v) (sr_capital v) highs)"
  by (simp add: limits_le_def limits_after_def loss_limit_def max_list_le)

lemma limits_after_capped:
  "(\<And>v. saved = Some v \<Longrightarrow> sr_daily v \<le> 50 \<and> sr_weekly v \<le> 50 \<and> sr_drawdown v \<le> 150) \<Longrightarrow>
   sr_daily (limits_after s saved c highs) \<le> 50 \<and> sr_weekly (limits_after s saved c highs) \<le> 50
   \<and> sr_drawdown (limits_after s saved c highs) \<le> 150"
  by (cases saved) (auto simp: limits_after_def loss_limit_def min_le_iff_disj)

text \<open>
  What a report does: it is unvalued and blocks, or raises, and changes no limit; or it is valued, and one account's
  limits become those it reports.
\<close>

definition valued_report ::
  "experimental_settings \<Rightarrow> string \<Rightarrow> event_store \<Rightarrow> risk_report \<Rightarrow> saved_risk \<Rightarrow> dec list \<Rightarrow> bool" where
  "valued_report st a s r v highs \<longleftrightarrow> rr_valued r \<and> rr_limits r = Some v
     \<and> v = limits_after st (saved_limits a s) (case saved_limits a s of None \<Rightarrow> es_equity st | Some x \<Rightarrow> sr_capital x) highs
     \<and> set [rr_day_start r, rr_week_start r, rr_equity r] \<subseteq> set highs
     \<and> rr_blocked r = loss_blocked v (rr_equity r) (rr_day_start r) (rr_week_start r)"

lemma report_cases:
  assumes "account_risk e st marks now s = (res, t)"
  obtains (inert) "\<And>a. saved_limits a t = saved_limits a s" "\<And>r. res = Inr r \<Longrightarrow> \<not> rr_valued r \<and> rr_blocked r"
  | (valued) a r v highs where "res = Inr r" "valued_report st a s r v highs" "saved_limits a t = Some v"
      "\<And>b. b \<noteq> a \<Longrightarrow> saved_limits b t = saved_limits b s"
proof (cases "es_news_digest st")
  case None
  with assms show ?thesis by (intro inert) (auto simp: account_risk_def raise_st_def)
next
  case (Some account)
  from assms Some have run: "transaction (account_risk_steps e st account marks now) s = (res, t)"
    by (simp add: account_risk_def)
  define db where "db = (if map_of (db_risk s) account = None
                then s\<lparr>db_risk := AList.update account None (db_risk s)\<rparr> else s)"
  have db: "saved_limits x db = saved_limits x s" for x by (simp add: db_def saved_limits_def map_of_update)
  have own: "the (map_of (db_risk db) account) = saved_limits account s"
    by (auto simp: db_def saved_limits_def)
  let ?saved = "saved_limits account s"
  let ?rows = "account_rows account (map_of (db_baselines db) account) db"
  show ?thesis
  proof (cases res)
    case (Inl err)
    with run show ?thesis by (intro inert) (auto dest: transaction_Inl)
  next
    case (Inr r)
    with run have steps: "account_risk_steps e st account marks now s = (Inr r, t)" by (simp add: transaction_Inr)
    show ?thesis
    proof (cases "es_policy st = OperatorCalibration \<and> map_of (db_baselines db) account = None")
      case True
      with steps have "t = db" "\<not> rr_valued r \<and> rr_blocked r"
        by (auto simp: account_risk_steps_def unvalued_report_def Let_def simp flip: db_def)
      with db Inr show ?thesis by (intro inert) auto
    next
      case ready: False
      show ?thesis
      proof (cases "assess e st marks now ?saved (map_of (db_baselines db) account) ?rows")
        case (Inl why)
        with steps ready own have "t = db" "\<not> rr_valued r \<and> rr_blocked r"
          by (auto simp: account_risk_steps_def unvalued_report_def Let_def simp flip: db_def)
        with db Inr show ?thesis by (intro inert) auto
      next
        case assessed: (Inr cdw)
        obtain c d w where cdw: "cdw = (c, d, w)" by (cases cdw)
        let ?cap = "case ?saved of None \<Rightarrow> es_equity st | Some v \<Rightarrow> sr_capital v"
        from steps ready own assessed obtain high where
          r: "r = \<lparr>rr_valued = True, rr_blocked = loss_blocked (limits_after st ?saved ?cap [high, d, w, c]) c d w,
               rr_reason = None, rr_equity = c, rr_day_start = d, rr_week_start = w,
               rr_limits = Some (limits_after st ?saved ?cap [high, d, w, c])\<rparr>"
          and t: "t = audit ''account_risk'' (es_cohort st) now
               (db\<lparr>db_risk := AList.update account (Some (limits_after st ?saved ?cap [high, d, w, c])) (db_risk db)\<rparr>)"
          by (auto simp: account_risk_steps_def Let_def cdw simp flip: db_def split: sum.splits)
        show ?thesis
        proof (rule valued [OF Inr])
          show "valued_report st account s r (limits_after st ?saved ?cap [high, d, w, c]) [high, d, w, c]"
            by (simp add: valued_report_def r)
          show "saved_limits account t = Some (limits_after st ?saved ?cap [high, d, w, c])"
            by (simp add: t saved_limits_def)
          show "saved_limits b t = saved_limits b s" if "b \<noteq> account" for b
            using that db [of b] by (simp add: t saved_limits_def)
        qed
      qed
    qed
  qed
qed

inductive risk_step :: "event_store \<Rightarrow> event_store \<Rightarrow> bool" where
  report: "account_risk e st marks now s = (r, t) \<Longrightarrow> risk_step s t"
| import_history: "save_baseline e h now s = (r', t) \<Longrightarrow> risk_step s t"
| other_work: "db_risk t = db_risk s \<Longrightarrow> risk_step s t"

inductive_cases risk_stepE: "risk_step s t"

lemma risk_step_cases [consumes 1, case_names report import_history other_work]:
  assumes "risk_step s t"
  obtains e st marks now r where "account_risk e st marks now s = (r, t)"
  | e h now r where "save_baseline e h now s = (r, t)"
  | "db_risk t = db_risk s"
  using assms by (auto elim: risk_stepE)

lemma saved_limits_cong: "db_risk t = db_risk s \<Longrightarrow> saved_limits a t = saved_limits a s"
  by (simp add: saved_limits_def)

lemma import_keeps_limits: "save_baseline e h now s = (r, t) \<Longrightarrow> db_risk t = db_risk s"
  by (cases r) (auto simp: baseline_after_def dest: save_baseline_Inl save_baseline_Inr(3))


lemma valued_limits_le: "valued_report st a s r v highs \<Longrightarrow> saved_limits a s = Some u \<Longrightarrow> limits_le u v"
  by (simp add: valued_report_def limits_after_le)

lemma valued_limits_capped:
  "valued_report st a s r v highs \<Longrightarrow> limits_capped s \<Longrightarrow> sr_daily v \<le> 50 \<and> sr_weekly v \<le> 50 \<and> sr_drawdown v \<le> 150"
  using limits_after_capped [of "saved_limits a s"] by (auto simp: valued_report_def limits_capped_def)

lemma step_keeps:
  assumes "risk_step s t"
  shows "risk_kept s t"
  using assms
proof (cases rule: risk_step_cases)
  case (report e st marks now res)
  have refl: "limits_le v v" for v by (simp add: limits_le_def)
  from report show ?thesis
  proof (cases rule: report_cases)
    case inert
    with refl show ?thesis by (auto simp: risk_kept_def)
  next
    case (valued a r v highs)
    have "\<exists>w. saved_limits b t = Some w \<and> limits_le u w" if "saved_limits b s = Some u" for b u
      using that valued valued_limits_le [OF valued(2)] refl by (cases "b = a") auto
    then show ?thesis by (simp add: risk_kept_def)
  qed
qed (auto simp: risk_kept_def limits_le_def saved_limits_def dest!: import_keeps_limits)

lemma step_capped:
  assumes "risk_step s t" "limits_capped s"
  shows "limits_capped t"
  using assms(1)
proof (cases rule: risk_step_cases)
  case (report e st marks now res)
  then show ?thesis
  proof (cases rule: report_cases)
    case inert
    with assms(2) show ?thesis by (simp add: limits_capped_def)
  next
    case (valued a r v highs)
    with assms(2) valued_limits_capped [OF valued(2) assms(2)] show ?thesis
      unfolding limits_capped_def by (metis option.inject)
  qed
qed (use assms(2) in \<open>auto simp: limits_capped_def saved_limits_def dest!: import_keeps_limits\<close>)

lemma dsub_larger_limit: "y \<le> z \<Longrightarrow> dsub x z \<le> dsub x y"
  unfolding dsub_def by (intro dround_mono) simp

lemma unblocked_bounds:
  assumes "valued_report st a s r v highs" "limits_capped s" "\<not> rr_blocked r"
  shows "rr_equity r > dsub (rr_day_start r) 50" "rr_equity r > dsub (rr_week_start r) 50" "rr_equity r > dsub (sr_peak v) 150"
    and "rr_equity r \<le> sr_peak v" "rr_day_start r \<le> sr_peak v" "rr_week_start r \<le> sr_peak v"
  using assms(1,3) valued_limits_capped [OF assms(1,2)] max_list_le(2)
    dsub_larger_limit [of "sr_daily v" 50 "rr_day_start r"] dsub_larger_limit [of "sr_weekly v" 50 "rr_week_start r"]
    dsub_larger_limit [of "sr_drawdown v" 150 "sr_peak v"]
  by (auto simp: valued_report_def loss_blocked_def not_le limits_after_def intro: le_less_trans)

interpretation account_limits: growing_machine "\<lambda>s. db_risk s = []" risk_step limits_capped risk_kept
proof unfold_locales
  show "db_risk s = [] \<Longrightarrow> limits_capped s" for s by (simp add: limits_capped_def saved_limits_def)
  show "risk_kept s s" for s by (auto simp: risk_kept_def limits_le_def)
  show "risk_kept s t \<Longrightarrow> risk_kept t u \<Longrightarrow> risk_kept s u" for s t u
    unfolding risk_kept_def by (meson limits_le_trans)
qed (auto intro: step_keeps step_capped)

text \<open>C14 Whatever reports, imports and other work follow, under whatever settings, the capital an account was first
  measured with stays, its daily, weekly and drawdown limits never grow and its peak never falls: a new cohort
  cannot reset a loss budget.
\<close>

theorem loss_budgets_only_tighten:
  assumes "risk_step\<^sup>*\<^sup>* s t" "limits_capped s" "saved_limits a s = Some v"
  shows "\<exists>w. saved_limits a t = Some w \<and> limits_le v w"
  using account_limits.below_run [OF assms(1,2)] assms(3) by (simp add: risk_kept_def)

text \<open>C13 When a valued report does not block, the account has lost less than fifty dollars since the start of the day and
  since the start of the week, and less than a hundred and fifty from the highest equity on record, which is at
  least each of the equities the report names; an unvalued report always blocks.
\<close>

theorem unblocked_within_limits:
  assumes "db_risk s0 = []" "risk_step\<^sup>*\<^sup>* s0 s" "account_risk e st marks now s = (Inr r, t)" "\<not> rr_blocked r"
  shows "rr_valued r \<and> (\<exists>v. rr_limits r = Some v \<and> rr_equity r > dsub (rr_day_start r) 50
    \<and> rr_equity r > dsub (rr_week_start r) 50 \<and> rr_equity r > dsub (sr_peak v) 150 \<and> rr_equity r \<le> sr_peak v
    \<and> rr_day_start r \<le> sr_peak v \<and> rr_week_start r \<le> sr_peak v)"
proof -
  have capped: "limits_capped s" using account_limits.inv_reachable [OF assms(1,2)] .
  from assms(3) show ?thesis
  proof (cases rule: report_cases)
    case inert
    with assms(4) show ?thesis by simp
  next
    case (valued a r' v highs)
    with unblocked_bounds [OF valued(2) capped] assms(4) show ?thesis by (auto simp: valued_report_def)
  qed
qed


subsection \<open>Examples\<close>

definition demo_env :: event_env where
  "demo_env = \<lparr>ee_sha = (\<lambda>s. s), ee_iso = (\<lambda>d. show_nat (nat d)), ee_ny_date = (\<lambda>_. 0), ee_ny_midnight = (\<lambda>d. days d)\<rparr>"

definition demo_settings :: experimental_settings where
  "demo_settings = default_settings\<lparr>es_mode := ExperimentalPaper, es_purpose := IexPractice, es_policy := NewsPaper,
     es_news_digest := Some ''a'', es_practice_start := Some 0\<rparr>"

definition demo_store :: event_store where
  "demo_store = new_event_store\<lparr>db_risk := [(''a'', Some \<lparr>sr_capital = 9000, sr_peak = 9100, sr_daily = 20,
     sr_weekly = 30, sr_drawdown = 40\<rparr>)]\<rparr>"

theorem loss_budgets_only_tighten_witness:
  "\<exists>w. saved_limits ''a'' (snd (account_risk demo_env demo_settings [] 0 demo_store)) = Some w \<and>
     limits_le \<lparr>sr_capital = 9000, sr_peak = 9100, sr_daily = 20, sr_weekly = 30, sr_drawdown = 40\<rparr> w"
proof (rule loss_budgets_only_tighten)
  show "risk_step\<^sup>*\<^sup>* demo_store (snd (account_risk demo_env demo_settings [] 0 demo_store))"
    by (rule r_into_rtranclp) (rule report, rule prod.collapse [symmetric])
qed (simp_all add: demo_store_def saved_limits_def limits_capped_def)

lemma nothing_valued: "equity_of 10000 d [] marks 0 = Inr 10000"
  by (simp add: equity_of_def allocation_ledgers_def Let_def economics_of_def tally_rows_def empty_tally_def
      missing_marks_def held_def broker_pnl_def confirmed_rows_def plus_anchor_def dec_eval)

lemma demo_report:
  "\<exists>r t. account_risk demo_env demo_settings [] 0 new_event_store = (Inr r, t) \<and> \<not> rr_blocked r"
  by (simp add: account_risk_def demo_settings_def default_settings_def transaction_def account_risk_steps_def Let_def
      new_event_store_def account_rows_def linked_rows_def assess_def nothing_valued equity_before_def loss_blocked_def
      limits_after_def loss_limit_def dec_eval)

theorem unblocked_within_limits_witness:
  "\<exists>r t. account_risk demo_env demo_settings [] 0 new_event_store = (Inr r, t) \<and> rr_valued r"
proof -
  obtain r t where r: "account_risk demo_env demo_settings [] 0 new_event_store = (Inr r, t)" "\<not> rr_blocked r"
    using demo_report by blast
  have "db_risk new_event_store = []" by (simp add: new_event_store_def)
  from unblocked_within_limits [OF this rtranclp.rtrancl_refl r] r(1) show ?thesis by blast
qed

theorem baseline_never_rewritten_witness:
  "\<exists>r t. save_baseline demo_env demo_history 9 new_event_store = (Inr r, t) \<and> baseline_after ''a'' r new_event_store t"
proof -
  obtain r where r: "value_history (\<lambda>_. 0) demo_history = Inr r" "hr_account r = ''a''" "hr_observed r = 9"
    "hr_buys r = [(0, [''p''])]"
    using demo_value by blast
  have "\<exists>t. save_baseline demo_env demo_history 9 new_event_store = (Inr r, t)"
    using r by (simp add: save_baseline_def demo_env_def bind_st_def lift_st_def seconds_def transaction_def import_report_def
        import_over_def Let_def new_event_store_def linked_rows_def check_def count_external_def locked_session_budget_def
        empty_session_budget_def external_buys_def external_ids_def update_st_def return_st_def)
  then obtain t where t: "save_baseline demo_env demo_history 9 new_event_store = (Inr r, t)" by blast
  from baseline_never_rewritten [OF t] r(2) t show ?thesis by auto
qed

end
