(* ===== verification/EventOrders.thy ===== *)
theory EventOrders
  imports AccountRisk Oms Intraday
begin

text \<open>
  \<^verbatim>\<open>event_orders.py\<close>, the durable side of the experimental order manager: reserving one entry per event, recording
  what the broker reports of an order, releasing a reservation that was never sent, and the inventory the fills
  imply. The broker's answers are arguments of the operations that read them. The notification that a recorded
  state enqueues belongs to the notification outbox and is left out; \<open>show_dec\<close> is the text of a Decimal.
\<close>

subsection \<open>Observing the broker\<close>

record paper_order = alpaca_order +
  po_updated_at :: "instant option"
  po_filled_at :: "pydatetime option"

definition stop_fraction :: dec where "stop_fraction = 5 / 1000"
definition target_fraction :: dec where "target_fraction = 1 / 100"

text \<open>\<^verbatim>\<open>event_news_policy.protection\<close>: the stop and the target of a price.\<close>

definition protection :: "dec \<Rightarrow> (dec \<times> dec) res" where
  "protection p = bind_res (check (0 < p) (ValueError ''positive actual/planned price required'')) (\<lambda>_.
     Inr (dmul p (dsub 1 stop_fraction), dmul p (dadd 1 target_fraction)))"

definition broker_of :: "(dec \<Rightarrow> string) \<Rightarrow> paper_order \<Rightarrow> broker_record" where
  "broker_of show_dec r = \<lparr>bk_id = ao_id r, bk_quantity = ao_quantity r, bk_filled = ao_filled r,
     bk_price = map_option show_dec (ao_filled_price r), bk_status = ao_status r, bk_filled_at = po_filled_at r,
     bk_updated_at = po_updated_at r\<rparr>"

definition find_row :: "string \<Rightarrow> event_store \<Rightarrow> order_row option" where
  "find_row c s = find (\<lambda>r. ow_client r = Some c) (db_orders s)"

definition change_row :: "string \<Rightarrow> (order_row \<Rightarrow> order_row) \<Rightarrow> event_store \<Rightarrow> event_store" where
  "change_row c f s = s\<lparr>db_orders := map (\<lambda>r. if ow_client r = Some c then f r else r) (db_orders s)\<rparr>"

definition reconciles :: "string \<Rightarrow> order_row \<Rightarrow> paper_order \<Rightarrow> bool" where
  "reconciles c row r \<longleftrightarrow> ao_client r = c \<and> ao_symbol r = ow_symbol row \<and> ao_side r = ow_side row
     \<and> (case ow_broker_id row of None \<Rightarrow> True | Some k \<Rightarrow> ao_id r = k)
     \<and> 0 \<le> ao_filled r \<and> (case ow_quantity row of None \<Rightarrow> False | Some q \<Rightarrow> ao_filled r \<le> q)"

definition stale :: "order_row \<Rightarrow> paper_order \<Rightarrow> bool" where
  "stale row r \<longleftrightarrow>
     (case (lk_broker (ow_link row), po_updated_at r) of
        (Some b, Some t) \<Rightarrow> (case bk_updated_at b of None \<Rightarrow> False | Some t0 \<Rightarrow> t < t0) | _ \<Rightarrow> False)
     \<or> ow_status row \<in> terminal_states \<and> lifecycle_state_from_alpaca (ao_status r) \<notin> terminal_states
       \<and> ao_filled r \<le> ow_filled row"

definition observed_link :: "(dec \<Rightarrow> string) \<Rightarrow> experimental_settings \<Rightarrow> order_row \<Rightarrow> paper_order \<Rightarrow> order_link res" where
  "observed_link show_dec st row r =
     (let l = (ow_link row)\<lparr>lk_broker := Some (broker_of show_dec r)\<rparr> in
      if (es_policy st = NewsPaper \<or> es_policy st = OperatorCalibration) \<and> ow_side row = BUY \<and> 0 < ao_filled r
      then (case ao_filled_price r of None \<Rightarrow> Inr l
            | Some p \<Rightarrow> bind_res (protection p) (\<lambda>_. Inr (l\<lparr>lk_protection := Some p\<rparr>)))
      else Inr l)"

definition observe_row ::
  "(dec \<Rightarrow> string) \<Rightarrow> experimental_settings \<Rightarrow> string \<Rightarrow> paper_order \<Rightarrow> instant \<Rightarrow> order_row \<Rightarrow> (event_store, unit) routine" where
  "observe_row show_dec st c r now row =
     bind_st (lift_st (check (reconciles c row r) (ValueError ''broker state does not reconcile to durable intent''))) (\<lambda>_.
     if stale row r then update_st (audit ''broker_update_ignored'' (es_cohort st) now)
     else bind_st (lift_st (check (ow_filled row \<le> ao_filled r)
         (ValueError ''unexplained decrease in broker cumulative filled quantity''))) (\<lambda>_.
       bind_st (lift_st (observed_link show_dec st row r)) (\<lambda>l.
       update_st (\<lambda>s. audit ''broker_order'' (es_cohort st @ '':'' @ c) now
         (change_row c (\<lambda>x. x\<lparr>ow_broker_id := Some (ao_id r), ow_filled := ao_filled r,
            ow_status := lifecycle_state_from_alpaca (ao_status r), ow_updated := Some now, ow_link := l\<rparr>) s)))))"

definition observe ::
  "(dec \<Rightarrow> string) \<Rightarrow> experimental_settings \<Rightarrow> string \<Rightarrow> paper_order \<Rightarrow> instant \<Rightarrow> (event_store, unit) routine" where
  "observe show_dec st c r now s =
     (case find_row c s of None \<Rightarrow> (Inl (KeyError c), s)
      | Some row \<Rightarrow> transaction (observe_row show_dec st c r now row) s)"

definition inventory :: "order_row list \<Rightarrow> (string, dec) dict" where
  "inventory rows = filter (\<lambda>(k, q). q \<noteq> 0)
     (fold (\<lambda>r. add_at (ow_symbol r) (dmul (ow_filled r) (if ow_side r = BUY then 1 else - 1))) rows [])"

subsection \<open>Reserving an entry\<close>

datatype entry_kind = StrategyEntry | CalibrationEntry

record entry_request =
  en_kind :: entry_kind
  en_symbol :: string
  en_cluster :: string
  en_decision :: string
  en_quantity :: dec
  en_limit :: dec
  en_positions :: "alpaca_position list"
  en_open_orders :: "paper_order list"
  en_operator :: "string option"

datatype entry_result = EntryReserved string | EntryDuplicate string | EntryRejected string

definition claim_key :: "event_env \<Rightarrow> experimental_settings \<Rightarrow> string \<Rightarrow> day \<Rightarrow> entry_request \<Rightarrow> string" where
  "claim_key e st account d q =
     (if en_kind q = CalibrationEntry then equipment_identity e account d
      else ee_sha e (es_cohort st @ '':'' @ en_cluster q))"

definition entry_client_id :: "event_env \<Rightarrow> string \<Rightarrow> string" where
  "entry_client_id e claim = ''ta20-'' @ take 40 (ee_sha e (claim @ '':buy:1''))"

definition owns_scheduled :: "experimental_settings \<Rightarrow> entry_request \<Rightarrow> session_budget \<Rightarrow> bool" where
  "owns_scheduled st q b \<longleftrightarrow> sb_scheduled b \<and> es_policy st = OperatorCalibration \<and> en_operator q \<noteq> None
     \<and> sb_scheduled_request b = en_operator q"

text \<open>The refusals a session's budget gives before the claim is looked up.\<close>

definition budget_refusal :: "experimental_settings \<Rightarrow> entry_request \<Rightarrow> session_budget \<Rightarrow> entry_result option" where
  "budget_refusal st q b =
     (if sb_scheduled b \<and> \<not> owns_scheduled st q b then Some (EntryRejected ''SCHEDULED_ENTRY_RESERVED'')
      else if en_kind q = CalibrationEntry \<and> sb_equipment_order b \<noteq> None
      then Some (EntryDuplicate (the (sb_equipment_order b)))
      else if en_kind q = StrategyEntry \<and> sb_news b \<ge> 1 then Some (EntryRejected ''NEWS_ENTRY_LIMIT'')
      else None)"

definition exposed :: "order_row list \<Rightarrow> entry_request \<Rightarrow> bool" where
  "exposed linked q \<longleftrightarrow> list_ex (\<lambda>r. ow_status r \<notin> terminal_states) linked \<or> inventory linked \<noteq> []
     \<or> en_positions q \<noteq> [] \<or> en_open_orders q \<noteq> []"

definition entry_limit :: "experimental_settings \<Rightarrow> intraday_config \<Rightarrow> int" where
  "entry_limit st ic = min (es_entries st) (maximum_round_trips_per_day ic)"

definition entries_today :: "experimental_settings \<Rightarrow> entry_request \<Rightarrow> instant \<Rightarrow> order_row list \<Rightarrow> session_budget option \<Rightarrow> int" where
  "entries_today st q now linked b =
     (case b of Some b \<Rightarrow> sb_total b - (if owns_scheduled st q b then 1 else 0)
      | None \<Rightarrow> int (length (filter (\<lambda>r. ow_side r = BUY \<and> utc_date (ow_created r) = utc_date now) linked)))"

definition charged :: "experimental_settings \<Rightarrow> entry_request \<Rightarrow> string \<Rightarrow> session_budget \<Rightarrow> session_budget" where
  "charged st q client b =
     (let b1 = (if owns_scheduled st q b then b\<lparr>sb_scheduled := False\<rparr> else b\<lparr>sb_total := sb_total b + 1\<rparr>) in
      if en_kind q = StrategyEntry then b1\<lparr>sb_news := sb_news b1 + 1\<rparr>
      else b1\<lparr>sb_equipment_order := Some client, sb_equipment_cohort := Some (es_cohort st)\<rparr>)"

definition new_row ::
  "experimental_settings \<Rightarrow> string \<Rightarrow> day \<Rightarrow> entry_request \<Rightarrow> string \<Rightarrow> instant \<Rightarrow> string \<Rightarrow> session_budget option \<Rightarrow> order_row" where
  "new_row st account d q client now uid b =
     \<lparr>ow_id = uid, ow_client = Some client, ow_broker_id = None, ow_symbol = en_symbol q, ow_side = BUY,
      ow_quantity = Some (en_quantity q), ow_filled = 0, ow_status = OS_APPROVED, ow_created = now,
      ow_updated = Some now,
      ow_link = \<lparr>lk_broker = None,
        lk_entry_kind = Some (if en_kind q = CalibrationEntry then ''calibration'' else ''strategy''),
        lk_classification = Some (if en_kind q = CalibrationEntry then ''EQUIPMENT_TEST'' else ''NEWS_STRATEGY''),
        lk_calibration = False, lk_purpose = Some (purpose_name (es_purpose st)), lk_settings_purpose = None,
        lk_thesis = None, lk_account = account, lk_cohort = es_cohort st, lk_session = map_option sb_session b,
        lk_planned = Some d,
        lk_protection = (if es_policy st = NewsPaper \<or> es_policy st = OperatorCalibration then Some (en_limit q) else None),
        lk_attempted = None, lk_released = None, lk_unsent = None\<rparr>\<rparr>"

definition session_rows :: "experimental_settings \<Rightarrow> session_budget option \<Rightarrow> event_store \<Rightarrow> order_row list" where
  "session_rows st b s = filter (\<lambda>r. case b of Some b \<Rightarrow> lk_session (ow_link r) = Some (sb_session b)
      | None \<Rightarrow> lk_cohort (ow_link r) = es_cohort st) (db_orders s)"

definition commit_entry ::
  "event_env \<Rightarrow> experimental_settings \<Rightarrow> string \<Rightarrow> day \<Rightarrow> entry_request \<Rightarrow> string \<Rightarrow> instant \<Rightarrow> string
   \<Rightarrow> session_budget option \<Rightarrow> (event_store, entry_result) routine" where
  "commit_entry e st account d q claim now uid b =
     (let client = entry_client_id e claim in
     bind_st (update_st (\<lambda>s. s\<lparr>db_claims := AList.update claim (es_cohort st) (db_claims s)\<rparr>)) (\<lambda>_.
     bind_st (update_st (\<lambda>s. case b of None \<Rightarrow> s | Some b \<Rightarrow> save_session_budget e (charged st q client b) s)) (\<lambda>_.
     bind_st (\<lambda>s. lift_st (check (find_row client s = None) IntegrityError) s) (\<lambda>_.
     bind_st (lift_st (if es_policy st = NewsPaper \<or> es_policy st = OperatorCalibration
        then bind_res (protection (en_limit q)) (\<lambda>_. Inr ()) else Inr ())) (\<lambda>_.
     bind_st (update_st (\<lambda>s. audit ''decision_ticket'' (es_cohort st) now (audit ''intent_approved'' (es_cohort st) now
        (s\<lparr>db_orders := db_orders s @ [new_row st account d q client now uid b]\<rparr>)))) (\<lambda>_.
     return_st (EntryReserved client)))))))"

definition decide_entry ::
  "event_env \<Rightarrow> experimental_settings \<Rightarrow> intraday_config \<Rightarrow> string \<Rightarrow> day \<Rightarrow> entry_request \<Rightarrow> instant \<Rightarrow> string
   \<Rightarrow> session_budget option \<Rightarrow> (event_store, entry_result) routine" where
  "decide_entry e st ic account d q now uid b s =
     (let claim = claim_key e st account d q; linked = session_rows st b s in
      case (case b of None \<Rightarrow> None | Some b \<Rightarrow> budget_refusal st q b) of
        Some refusal \<Rightarrow> (Inr refusal, s)
      | None \<Rightarrow>
          if map_of (db_claims s) claim \<noteq> None then (Inr (EntryDuplicate (entry_client_id e claim)), s)
          else if exposed linked q then (Inr (EntryRejected ''POSITION_OR_ORDER_RESERVED''), s)
          else if entries_today st q now linked b \<ge> entry_limit st ic then (Inr (EntryRejected ''SESSION_ENTRY_LIMIT''), s)
          else commit_entry e st account d q claim now uid b s)"

definition reserve_entry ::
  "event_env \<Rightarrow> experimental_settings \<Rightarrow> intraday_config \<Rightarrow> string \<Rightarrow> string \<Rightarrow> day \<Rightarrow> entry_request \<Rightarrow> instant \<Rightarrow> string
   \<Rightarrow> (event_store, entry_result) routine" where
  "reserve_entry e st ic config_hash account d q now uid = transaction (\<lambda>s.
     (case map_of (db_cohorts s) (es_cohort st) of
        None \<Rightarrow> raise_st (KeyError (es_cohort st))
      | Some h \<Rightarrow> bind_st (lift_st (check (h = config_hash) (ValueError ''cohort configuration mismatch''))) (\<lambda>_.
          if es_purpose st = IexPractice
          then bind_st (locked_session_budget e account d) (\<lambda>b. decide_entry e st ic account d q now uid (Some b))
          else decide_entry e st ic account d q now uid None)) s)"

subsection \<open>Releasing an entry that was never sent\<close>

definition releasable :: "bool \<Rightarrow> order_row \<Rightarrow> bool" where
  "releasable claimed r \<longleftrightarrow> ow_status r = (if claimed then OS_RECONCILIATION_REQUIRED else OS_APPROVED)
     \<and> ow_broker_id r \<in> {None, Some []} \<and> ow_filled r = 0 \<and> lk_attempted (ow_link r) = None \<and> lk_released (ow_link r) = None"

definition refunded :: "order_row \<Rightarrow> session_budget \<Rightarrow> session_budget res" where
  "refunded r b =
     (let strategy = (lk_entry_kind (ow_link r) = Some ''strategy'') in
      bind_res (check (Some (sb_session b) = lk_session (ow_link r)) (ValueError ''unsent reservation session identity mismatch'')) (\<lambda>_.
      bind_res (check (1 \<le> sb_total b \<and> (strategy \<longrightarrow> 1 \<le> sb_news b)) (ValueError ''unsent reservation counter mismatch'')) (\<lambda>_.
      Inr (b\<lparr>sb_total := sb_total b - 1, sb_news := (if strategy then sb_news b - 1 else sb_news b)\<rparr>))))"

definition release_row ::
  "event_env \<Rightarrow> experimental_settings \<Rightarrow> string \<Rightarrow> instant \<Rightarrow> bool \<Rightarrow> order_row \<Rightarrow> session_budget option \<Rightarrow> (event_store, unit) routine" where
  "release_row e st c now claimed r b =
     (if \<not> releasable claimed r then return_st ()
      else bind_st (case b of None \<Rightarrow> return_st ()
           | Some b \<Rightarrow> bind_st (lift_st (refunded r b)) (\<lambda>b'. update_st (save_session_budget e b'))) (\<lambda>_.
         update_st (\<lambda>s. audit ''unsent_reservation_released'' (es_cohort st) now
           (change_row c (\<lambda>x. x\<lparr>ow_status := OS_EXPIRED, ow_updated := Some now,
              ow_link := (ow_link x)\<lparr>lk_unsent := Some now, lk_released := (if b = None then None else Some now)\<rparr>\<rparr>) s))))"

definition expire_unsent ::
  "event_env \<Rightarrow> experimental_settings \<Rightarrow> string \<Rightarrow> instant \<Rightarrow> bool \<Rightarrow> (event_store, unit) routine" where
  "expire_unsent e st c now claimed s =
     (case (map_of (db_cohorts s) (es_cohort st), find_row c s) of
        (Some h, Some r) \<Rightarrow>
          transaction (if lk_session (ow_link r) \<in> {None, Some []} then release_row e st c now claimed r None
            else (case lk_planned (ow_link r) of None \<Rightarrow> raise_st (KeyError ''planned_session_date'')
              | Some d \<Rightarrow> bind_st (locked_session_budget e (lk_account (ow_link r)) d)
                  (\<lambda>b. release_row e st c now claimed r (Some b)))) s
      | _ \<Rightarrow> (Inl (KeyError c), s))"

text \<open>The claim a dispatch takes on an approved order before it is sent: an order is claimed once.\<close>

definition claim_for_dispatch :: "string \<Rightarrow> instant \<Rightarrow> event_store \<Rightarrow> bool \<times> event_store" where
  "claim_for_dispatch c now s =
     (case find_row c s of None \<Rightarrow> (False, s)
      | Some r \<Rightarrow> if ow_status r = OS_APPROVED
          then (True, change_row c (\<lambda>x. x\<lparr>ow_status := OS_RECONCILIATION_REQUIRED, ow_updated := Some now\<rparr>) s)
          else (False, s))"

end
