(* ===== verification/EventOrdersLaws.thy ===== *)
theory EventOrdersLaws
  imports EventOrders AccountRiskLaws
begin

text \<open>
  The experimental order manager keeps one durable intent per event: rows are never deleted, an order's confirmed
  fill only grows and stays within the order, a dispatch claims an order once, and an event's claim admits one
  reservation. The operations are the steps of a machine whose order is the growth of the rows and the claims.
\<close>

subsection \<open>Rows\<close>

definition order_le :: "order_row \<Rightarrow> order_row \<Rightarrow> bool" where
  "order_le r r' \<longleftrightarrow> ow_client r' = ow_client r \<and> ow_symbol r' = ow_symbol r \<and> ow_side r' = ow_side r
     \<and> ow_quantity r' = ow_quantity r \<and> ow_filled r \<le> ow_filled r'
     \<and> (ow_broker_id r \<notin> {None, Some []} \<longrightarrow> ow_broker_id r' = ow_broker_id r)
     \<and> (ow_status r \<noteq> OS_APPROVED \<longrightarrow> ow_status r' \<noteq> OS_APPROVED)"

definition store_le :: "event_store \<Rightarrow> event_store \<Rightarrow> bool" where
  "store_le s t \<longleftrightarrow> (\<forall>c r. find_row c s = Some r \<longrightarrow> (\<exists>r'. find_row c t = Some r' \<and> order_le r r'))
     \<and> (\<forall>k. map_of (db_claims s) k \<noteq> None \<longrightarrow> map_of (db_claims t) k \<noteq> None)"

lemma order_le_refl [simp]: "order_le r r"
  by (simp add: order_le_def)

lemma order_le_trans: "order_le a b \<Longrightarrow> order_le b c \<Longrightarrow> order_le a c"
  by (auto simp: order_le_def)

lemma store_le_refl [simp]: "store_le s s"
  by (auto simp: store_le_def)

lemma store_le_trans: "store_le s t \<Longrightarrow> store_le t u \<Longrightarrow> store_le s u"
  unfolding store_le_def by (meson order_le_trans)

lemma store_le_same: "db_orders t = db_orders s \<Longrightarrow> db_claims t = db_claims s \<Longrightarrow> store_le s t"
  by (auto simp: store_le_def find_row_def)

lemma find_row_change:
  assumes "\<And>r. ow_client (f r) = ow_client r"
  shows "find_row c (change_row k f s) = (if c = k then map_option f (find_row c s) else find_row c s)"
proof -
  have "find (\<lambda>r. ow_client r = Some c) (map (\<lambda>r. if ow_client r = Some k then f r else r) rs) =
      (if c = k then map_option f (find (\<lambda>r. ow_client r = Some c) rs) else find (\<lambda>r. ow_client r = Some c) rs)" for rs
    by (induction rs) (auto simp: assms)
  then show ?thesis by (simp add: find_row_def change_row_def)
qed

lemma find_row_client: "find_row c s = Some r \<Longrightarrow> ow_client r = Some c \<and> r \<in> set (db_orders s)"
  by (auto simp: find_row_def find_Some_iff)

lemma find_row_append: "find_row c s = Some r \<Longrightarrow> find_row c (s\<lparr>db_orders := db_orders s @ rs\<rparr>) = Some r"
proof -
  have "find P xs = Some r \<Longrightarrow> find P (xs @ rs) = Some r" for P and xs :: "order_row list"
    by (induction xs) auto
  then show "find_row c s = Some r \<Longrightarrow> find_row c (s\<lparr>db_orders := db_orders s @ rs\<rparr>) = Some r" by (simp add: find_row_def)
qed

lemma find_row_cong: "db_orders t = db_orders s \<Longrightarrow> find_row c t = find_row c s"
  by (simp add: find_row_def)

lemma change_row_le:
  assumes "\<And>r. ow_client (f r) = ow_client r" "\<And>r. find_row c s = Some r \<Longrightarrow> order_le r (f r)"
  shows "store_le s (change_row c f s)"
  using assms(2) by (auto simp: store_le_def find_row_change [of f, OF assms(1)]) (simp add: change_row_def)

lemma audit_claims [simp]: "db_claims (audit k x n s) = db_claims s"
  by (simp add: audit_def)

lemma store_le_audit [simp]: "store_le s (audit k x n t) = store_le s t"
  by (simp add: store_le_def find_row_def)

lemma save_budget_claims [simp]: "db_claims (save_session_budget e b s) = db_claims s"
  by (simp add: save_session_budget_def Let_def)

lemma never_approved: "lifecycle_state_from_alpaca x \<noteq> OS_APPROVED"
  by (cases x) simp_all

subsection \<open>Each operation\<close>

lemma observe_le: "observe show_dec st c r now s = (res, t) \<Longrightarrow> store_le s t"
proof (cases "find_row c s")
  case (Some row)
  have "outcome (observe_row show_dec st c r now row) (\<lambda>_. store_le s) (\<lambda>_. True) s"
  proof (cases "reconciles c row r \<and> \<not> stale row r \<and> ow_filled row \<le> ao_filled r")
    case False
    then show ?thesis by (auto simp: observe_row_def check_def split: sum.splits)
  next
    case True
    then have "store_le s (change_row c (\<lambda>x. x\<lparr>ow_broker_id := Some (ao_id r), ow_filled := ao_filled r,
            ow_status := lifecycle_state_from_alpaca (ao_status r), ow_updated := Some now, ow_link := l\<rparr>) s)" for l
      using Some by (intro change_row_le) (auto simp: order_le_def reconciles_def never_approved split: option.splits)
    with True show ?thesis by (simp add: observe_row_def check_def split: sum.splits)
  qed
  moreover assume "observe show_dec st c r now s = (res, t)"
  ultimately show ?thesis
    using Some by (auto simp: observe_def outcome_def transaction_def split: prod.splits sum.splits)
qed (simp add: observe_def)

lemma claim_le: "claim_for_dispatch c now s = (b, t) \<Longrightarrow> store_le s t"
  by (auto simp: claim_for_dispatch_def order_le_def intro!: change_row_le split: option.splits if_splits)

lemma locked_budget_rows:
  "locked_session_budget e account d s = (res, t) \<Longrightarrow> db_orders t = db_orders s \<and> db_claims t = db_claims s \<and> db_risk t = db_risk s"
  by (auto simp: locked_session_budget_def Let_def split: if_splits)

lemma release_row_le: 
  "find_row c s0 = Some r \<Longrightarrow> db_orders s = db_orders s0 \<Longrightarrow>
   outcome (release_row e st c now claimed r b) (\<lambda>_. store_le s) (\<lambda>_. True) s"
proof -
  assume row: "find_row c s0 = Some r" and same: "db_orders s = db_orders s0"
  let ?f = "\<lambda>x. x\<lparr>ow_status := OS_EXPIRED, ow_updated := Some now,
              ow_link := (ow_link x)\<lparr>lk_unsent := Some now, lk_released := (if b = None then None else Some now)\<rparr>\<rparr>"
  have "store_le u (change_row c ?f u)" for u by (intro change_row_le) (simp_all add: order_le_def)
  then have "store_le s (change_row c ?f u)" if "db_orders u = db_orders s" "db_claims u = db_claims s" for u
    using that by (meson store_le_same store_le_trans)
  then show ?thesis by (auto simp: release_row_def split: option.splits sum.splits)
qed

lemma expire_le: "expire_unsent e st c now claimed s = (res, t) \<Longrightarrow> store_le s t"
proof -
  assume run: "expire_unsent e st c now claimed s = (res, t)"
  show ?thesis
  proof (cases "map_of (db_cohorts s) (es_cohort st) = None \<or> find_row c s = None")
    case True
    with run show ?thesis by (auto simp: expire_unsent_def split: option.splits)
  next
    case False
    then obtain h r where hr: "map_of (db_cohorts s) (es_cohort st) = Some h" "find_row c s = Some r" by auto
    have locked: "outcome (locked_session_budget e a d) (\<lambda>b. outcome (release_row e st c now claimed r (Some b)) (\<lambda>_. store_le s) (\<lambda>_. True)) (\<lambda>_. True) s" for a d
    proof (rule outcomeI)
      fix b u assume "locked_session_budget e a d s = (Inr b, u)"
      note same = locked_budget_rows [OF this]
      then have "outcome (release_row e st c now claimed r (Some b)) (\<lambda>_. store_le u) (\<lambda>_. True) u"
        using release_row_le [OF hr(2)] by blast
      then show "outcome (release_row e st c now claimed r (Some b)) (\<lambda>_. store_le s) (\<lambda>_. True) u"
        by (rule outcome_mono) (use same in \<open>auto intro: store_le_trans store_le_same\<close>)
    qed simp
    let ?m = "if lk_session (ow_link r) \<in> {None, Some []} then release_row e st c now claimed r None
            else (case lk_planned (ow_link r) of None \<Rightarrow> raise_st (KeyError ''planned_session_date'')
              | Some d \<Rightarrow> bind_st (locked_session_budget e (lk_account (ow_link r)) d)
                  (\<lambda>b. release_row e st c now claimed r (Some b)))"
    have "outcome ?m (\<lambda>_. store_le s) (\<lambda>_. True) s"
      using locked release_row_le [OF hr(2) refl] by (auto split: option.splits)
    then have "outcome (transaction ?m) (\<lambda>_. store_le s) (store_le s) s"
      by (simp add: outcome_transaction)
    with run hr show ?thesis by (auto simp: expire_unsent_def outcome_def split: sum.splits)
  qed
qed


text \<open>What a committed entry leaves: its claim, a fresh approved row and the charged budget.\<close>

definition entry_made ::
  "event_env \<Rightarrow> experimental_settings \<Rightarrow> entry_request \<Rightarrow> string \<Rightarrow> session_budget option \<Rightarrow> event_store \<Rightarrow> event_store \<Rightarrow> bool" where
  "entry_made e st q claim b s t \<longleftrightarrow> store_le s t \<and> db_risk t = db_risk s
     \<and> map_of (db_claims t) claim \<noteq> None \<and> find_row (entry_client_id e claim) s = None
     \<and> (\<exists>r. find_row (entry_client_id e claim) t = Some r \<and> ow_status r = OS_APPROVED \<and> ow_filled r = 0 \<and> ow_quantity r = Some (en_quantity q))
     \<and> (case b of None \<Rightarrow> True | Some b \<Rightarrow>
          map_of (db_budgets s) (session_control_key e (sb_account b) (sb_day b)) \<noteq> None \<longrightarrow>
          map_of (db_budgets t) (session_control_key e (sb_account b) (sb_day b)) = Some (charged st q (entry_client_id e claim) b))"

lemma charged_identity [simp]:
  "sb_account (charged st q c b) = sb_account b" "sb_day (charged st q c b) = sb_day b" "sb_session (charged st q c b) = sb_session b"
  by (simp_all add: charged_def Let_def)

lemma find_row_new: "find_row c s = None \<Longrightarrow> ow_client r = Some c \<Longrightarrow> find_row c (s\<lparr>db_orders := db_orders s @ [r]\<rparr>) = Some r"
proof -
  have "find P xs = None \<Longrightarrow> P r \<Longrightarrow> find P (xs @ [r]) = Some r" for P and xs :: "order_row list"
    by (induction xs) (auto split: if_splits)
  then show "find_row c s = None \<Longrightarrow> ow_client r = Some c \<Longrightarrow> find_row c (s\<lparr>db_orders := db_orders s @ [r]\<rparr>) = Some r"
    by (simp add: find_row_def)
qed

lemma append_row_le: "store_le s (s\<lparr>db_orders := db_orders s @ rs\<rparr>)"
  using order_le_refl find_row_append by (fastforce simp: store_le_def)

lemma new_row_fields:
  "ow_status (new_row st account d q c now uid b) = OS_APPROVED" "ow_filled (new_row st account d q c now uid b) = 0"
  "ow_quantity (new_row st account d q c now uid b) = Some (en_quantity q)"
  by (simp_all add: new_row_def)

lemma commit_outcome:
  "outcome (commit_entry e st account d q claim now uid b)
     (\<lambda>res t. res = EntryReserved (entry_client_id e claim) \<and> entry_made e st q claim b s t) (\<lambda>_. True) s"
proof -
  let ?c = "entry_client_id e claim"
  define s1 where "s1 = s\<lparr>db_claims := AList.update claim (es_cohort st) (db_claims s)\<rparr>"
  define s2 where "s2 = (case b of None \<Rightarrow> s1 | Some b \<Rightarrow> save_session_budget e (charged st q ?c b) s1)"
  define t where "t = s2\<lparr>db_orders := db_orders s2 @ [new_row st account d q ?c now uid b]\<rparr>"
  have s2: "db_orders s2 = db_orders s" "db_risk s2 = db_risk s" "db_claims s2 = db_claims s1"
    by (simp_all add: s2_def s1_def split: option.splits)
  have "store_le s s2" using s2 by (auto simp: store_le_def find_row_def s1_def map_of_update)
  then have le: "store_le s t" unfolding t_def by (rule store_le_trans) (rule append_row_le)
  have budget: "case b of None \<Rightarrow> True | Some b \<Rightarrow>
          map_of (db_budgets s) (session_control_key e (sb_account b) (sb_day b)) \<noteq> None \<longrightarrow>
          map_of (db_budgets t) (session_control_key e (sb_account b) (sb_day b)) = Some (charged st q ?c b)"
    by (auto simp: t_def s2_def s1_def save_session_budget_def Let_def split: option.splits)
  have "entry_made e st q claim b s (audit k x n (audit k' x' n' t))" if "find_row ?c s2 = None" for k x n k' x' n'
  proof -
    from that s2 have none: "find_row ?c s = None" by (simp add: find_row_def)
    have "find_row ?c t = Some (new_row st account d q ?c now uid b)"
      unfolding t_def using that by (rule find_row_new) (simp add: new_row_def)
    then have "find_row ?c (audit k x n (audit k' x' n' t)) = Some (new_row st account d q ?c now uid b)"
      by (simp add: find_row_def)
    moreover have "map_of (db_claims t) claim \<noteq> None" "db_risk t = db_risk s" by (simp_all add: t_def s2 s1_def)
    ultimately show ?thesis
      using le budget none by (cases b) (simp_all add: entry_made_def new_row_fields)
  qed
  then show ?thesis
    by (auto simp: commit_entry_def Let_def check_def outcome_def bind_st_def lift_st_def update_st_def return_st_def
        simp flip: s1_def s2_def t_def split: sum.splits)
qed


definition entry_allowed ::
  "event_env \<Rightarrow> experimental_settings \<Rightarrow> intraday_config \<Rightarrow> string \<Rightarrow> day \<Rightarrow> entry_request \<Rightarrow> instant
   \<Rightarrow> session_budget option \<Rightarrow> event_store \<Rightarrow> bool" where
  "entry_allowed e st ic account d q now b s \<longleftrightarrow>
     map_of (db_claims s) (claim_key e st account d q) = None \<and> \<not> exposed (session_rows st b s) q
     \<and> entries_today st q now (session_rows st b s) b < entry_limit st ic
     \<and> (case b of None \<Rightarrow> True | Some b \<Rightarrow> budget_refusal st q b = None)"

lemma refusals_refuse: "budget_refusal st q b = Some x \<Longrightarrow> x \<noteq> EntryReserved c"
  by (auto simp: budget_refusal_def split: if_splits)

lemma decide_outcome:
  "outcome (decide_entry e st ic account d q now uid b)
     (\<lambda>res t. store_le s t \<and> (\<forall>c. res = EntryReserved c \<longrightarrow> c = entry_client_id e (claim_key e st account d q)
        \<and> entry_allowed e st ic account d q now b s \<and> entry_made e st q (claim_key e st account d q) b s t)) (\<lambda>_. True) s"
proof (cases "entry_allowed e st ic account d q now b s")
  case True
  then have "decide_entry e st ic account d q now uid b s = commit_entry e st account d q (claim_key e st account d q) now uid b s"
    by (auto simp: decide_entry_def Let_def entry_allowed_def split: option.splits)
  with outcome_mono [OF commit_outcome [of e st account d q "claim_key e st account d q" now uid b s]] True
  show ?thesis by (auto simp: outcome_def entry_made_def split: prod.splits sum.splits)
next
  case False
  then show ?thesis
    by (auto simp: decide_entry_def Let_def entry_allowed_def outcome_def dest: refusals_refuse split: option.splits)
qed

text \<open>The budget a reservation starts from: the stored one, or the empty one of the session.\<close>

definition budget_at :: "event_env \<Rightarrow> experimental_settings \<Rightarrow> string \<Rightarrow> day \<Rightarrow> event_store \<Rightarrow> session_budget option" where
  "budget_at e st account d s =
     (if es_purpose st = IexPractice
      then Some (case map_of (db_budgets s) (session_control_key e account d) of
             None \<Rightarrow> empty_session_budget e account d | Some b \<Rightarrow> b)
      else None)"

lemma allowed_cong:
  "db_orders t = db_orders s \<Longrightarrow> db_claims t = db_claims s \<Longrightarrow>
   entry_allowed e st ic account d q now b t = entry_allowed e st ic account d q now b s"
  by (cases b) (simp_all add: entry_allowed_def session_rows_def)

definition reserved :: "event_env \<Rightarrow> experimental_settings \<Rightarrow> intraday_config \<Rightarrow> string \<Rightarrow> day \<Rightarrow> entry_request \<Rightarrow> instant
   \<Rightarrow> string \<Rightarrow> event_store \<Rightarrow> event_store \<Rightarrow> bool" where
  "reserved e st ic account d q now c s t \<longleftrightarrow> c = entry_client_id e (claim_key e st account d q)
     \<and> entry_allowed e st ic account d q now (budget_at e st account d s) s
     \<and> find_row c s = None \<and> (\<exists>r. find_row c t = Some r \<and> ow_status r = OS_APPROVED \<and> ow_filled r = 0 \<and> ow_quantity r = Some (en_quantity q))
     \<and> map_of (db_claims t) (claim_key e st account d q) \<noteq> None
     \<and> (case budget_at e st account d s of None \<Rightarrow> True | Some b \<Rightarrow>
          map_of (db_budgets t) (session_control_key e account d) = Some (charged st q c b))"

lemma reserve_outcome:
  "outcome (reserve_entry e st ic h account d q now uid)
     (\<lambda>res t. store_le s t \<and> (\<forall>c. res = EntryReserved c \<longrightarrow> reserved e st ic account d q now c s t)) (store_le s) s"
proof -
  let ?Q = "\<lambda>res t. store_le s t \<and> (\<forall>c. res = EntryReserved c \<longrightarrow> reserved e st ic account d q now c s t)"
  have plain: "outcome (decide_entry e st ic account d q now uid None) ?Q (\<lambda>_. True) s" if "es_purpose st \<noteq> IexPractice"
    by (rule outcome_mono [OF decide_outcome]) (auto simp: reserved_def budget_at_def that entry_made_def)
  have budgeted: "outcome (locked_session_budget e account d)
      (\<lambda>b. outcome (decide_entry e st ic account d q now uid (Some b)) ?Q (\<lambda>_. True)) (\<lambda>_. True) s" if "es_purpose st = IexPractice"
  proof (rule outcomeI)
    fix b u assume locked: "locked_session_budget e account d s = (Inr b, u)"
    note facts = locked_budget [OF locked]
    note same = locked_budget_rows [OF locked]
    have at: "budget_at e st account d s = Some b" using facts that by (auto simp: budget_at_def)
    show "outcome (decide_entry e st ic account d q now uid (Some b)) ?Q (\<lambda>_. True) u"
    proof (rule outcome_mono [OF decide_outcome])
      fix res t
      assume "store_le u t \<and> (\<forall>c. res = EntryReserved c \<longrightarrow> c = entry_client_id e (claim_key e st account d q)
        \<and> entry_allowed e st ic account d q now (Some b) u \<and> entry_made e st q (claim_key e st account d q) (Some b) u t)"
      moreover have "store_le s u" using same by (auto intro: store_le_same)
      ultimately show "?Q res t"
        using facts same allowed_cong [of u s e st ic account d q now "Some b"] find_row_cong [of u s]
        by (auto simp: reserved_def at entry_made_def intro: store_le_trans)
    qed simp
  qed simp
  show ?thesis
    using plain budgeted unfolding reserve_entry_def outcome_transaction
    by (auto simp: outcome_def bind_st_def lift_st_def raise_st_def check_def split: option.splits prod.splits sum.splits)
qed


subsection \<open>The machine\<close>

inductive order_step :: "event_store \<Rightarrow> event_store \<Rightarrow> bool" where
  observed: "observe show_dec st c r now s = (res, t) \<Longrightarrow> order_step s t"
| entered: "reserve_entry e st ic h account d q now uid s = (res', t) \<Longrightarrow> order_step s t"
| expired: "expire_unsent e st c now claimed s = (res, t) \<Longrightarrow> order_step s t"
| dispatched: "claim_for_dispatch c now s = (b, t) \<Longrightarrow> order_step s t"
| elsewhere: "db_orders t = db_orders s \<Longrightarrow> db_claims t = db_claims s \<Longrightarrow> order_step s t"

inductive_cases order_stepE: "order_step s t"

lemma reserve_le: "reserve_entry e st ic h account d q now uid s = (res, t) \<Longrightarrow> store_le s t"
  using reserve_outcome [of e st ic h account d q now uid s] by (cases res) (auto simp: outcome_def)

lemma reserve_reserved:
  "reserve_entry e st ic h account d q now uid s = (Inr (EntryReserved c), t) \<Longrightarrow> reserved e st ic account d q now c s t"
  using reserve_outcome [of e st ic h account d q now uid s] by (simp add: outcome_def)

lemma order_step_le: "order_step s t \<Longrightarrow> store_le s t"
  by (elim order_stepE) (auto intro: observe_le reserve_le expire_le claim_le store_le_same)

interpretation order_rows: growing_machine "\<lambda>_. True" order_step "\<lambda>_. True" store_le
  by unfold_locales (auto intro: order_step_le store_le_trans)

lemma row_kept:
  "order_step\<^sup>*\<^sup>* s t \<Longrightarrow> find_row c s = Some r \<Longrightarrow> \<exists>r'. find_row c t = Some r' \<and> order_le r r'"
  using order_rows.below_run [of s t] by (simp add: store_le_def)

lemma claim_kept: "order_step\<^sup>*\<^sup>* s t \<Longrightarrow> map_of (db_claims s) k \<noteq> None \<Longrightarrow> map_of (db_claims t) k \<noteq> None"
  using order_rows.below_run [of s t] unfolding store_le_def by blast

lemma not_refused:
  "budget_refusal st q b = None \<Longrightarrow> if en_kind q = StrategyEntry then sb_news b < 1 else sb_equipment_order b = None"
  by (cases "en_kind q") (simp_all add: budget_refusal_def split: if_splits)




lemma reservation_facts:
  assumes "reserve_entry e st ic h account d q now uid s = (Inr (EntryReserved c), t)"
  shows "en_positions q = [] \<and> en_open_orders q = []"
    and "inventory (session_rows st (budget_at e st account d s) s) = []
      \<and> list_all (\<lambda>r. ow_status r \<in> terminal_states) (session_rows st (budget_at e st account d s) s)"
    and "entries_today st q now (session_rows st (budget_at e st account d s) s) (budget_at e st account d s) < entry_limit st ic"
    and "case budget_at e st account d s of None \<Rightarrow> es_purpose st \<noteq> IexPractice
      | Some b \<Rightarrow> map_of (db_budgets t) (session_control_key e account d) = Some (charged st q c b)
          \<and> (if en_kind q = StrategyEntry then sb_news b < 1 else sb_equipment_order b = None)"
proof -
  note facts = reserve_reserved [OF assms, unfolded reserved_def entry_allowed_def]
  then show "en_positions q = [] \<and> en_open_orders q = []"
    and "inventory (session_rows st (budget_at e st account d s) s) = []
      \<and> list_all (\<lambda>r. ow_status r \<in> terminal_states) (session_rows st (budget_at e st account d s) s)"
    and "entries_today st q now (session_rows st (budget_at e st account d s) s) (budget_at e st account d s) < entry_limit st ic"
    by (simp_all add: exposed_def list_all_iff list_ex_iff)
  show "case budget_at e st account d s of None \<Rightarrow> es_purpose st \<noteq> IexPractice
      | Some b \<Rightarrow> map_of (db_budgets t) (session_control_key e account d) = Some (charged st q c b)
          \<and> (if en_kind q = StrategyEntry then sb_news b < 1 else sb_equipment_order b = None)"
  proof (cases "budget_at e st account d s")
    case None
    then show ?thesis by (simp add: budget_at_def split: if_splits)
  next
    case (Some b)
    with facts not_refused [of st q b] show ?thesis by simp
  qed
qed


subsection \<open>Examples\<close>

definition demo_entry :: "string \<Rightarrow> entry_request" where
  "demo_entry cluster = \<lparr>en_kind = StrategyEntry, en_symbol = ''AAPL'', en_cluster = cluster, en_decision = ''d'', en_quantity = 1,
     en_limit = 20, en_positions = [], en_open_orders = [], en_operator = None\<rparr>"

definition open_store :: event_store where
  "open_store = new_event_store\<lparr>db_cohorts := [(es_cohort demo_settings, ''h'')]\<rparr>"

definition demo_intraday :: intraday_config where
  "demo_intraday = default_intraday_config"

lemma demo_reserved:
  "\<exists>c t. reserve_entry demo_env demo_settings demo_intraday ''h'' ''a'' 0 (demo_entry ''k'') 5 ''u'' open_store = (Inr (EntryReserved c), t)"
  by (simp add: reserve_entry_def open_store_def transaction_def bind_st_def lift_st_def check_def demo_settings_def
      default_settings_def locked_session_budget_def decide_entry_def Let_def new_event_store_def empty_session_budget_def
      budget_refusal_def owns_scheduled_def demo_entry_def exposed_def session_rows_def inventory_def entries_today_def
      entry_limit_def demo_intraday_def default_intraday_config_def commit_entry_def update_st_def find_row_def
      protection_def return_st_def save_session_budget_def split: if_splits)





text \<open>Two research entries, the first expired unsent before the second.\<close>

definition research_store :: event_store where
  "research_store = new_event_store\<lparr>db_cohorts := [(''v20-event-cohort-001'', ''h'')]\<rparr>"

definition first_row :: order_row where
  "first_row = new_row default_settings ''a'' 0 (demo_entry ''k'') (entry_client_id demo_env ''v20-event-cohort-001:k'') 5 ''u'' None"

definition after_first :: event_store where
  "after_first = research_store\<lparr>db_claims := [(''v20-event-cohort-001:k'', ''v20-event-cohort-001'')], db_orders := [first_row],
     db_audit := [(''event_intent_approved'', ''v20-event-cohort-001'', 5), (''event_decision_ticket'', ''v20-event-cohort-001'', 5)]\<rparr>"

lemma first_reserved:
  "reserve_entry demo_env default_settings demo_intraday ''h'' ''a'' 0 (demo_entry ''k'') 5 ''u'' research_store
     = (Inr (EntryReserved (entry_client_id demo_env ''v20-event-cohort-001:k'')), after_first)"
  by (simp add: reserve_entry_def research_store_def after_first_def first_row_def transaction_def bind_st_def lift_st_def check_def
      default_settings_def decide_entry_def Let_def new_event_store_def demo_entry_def exposed_def session_rows_def
      inventory_def entries_today_def entry_limit_def demo_intraday_def default_intraday_config_def commit_entry_def
      update_st_def find_row_def return_st_def claim_key_def demo_env_def audit_def)

definition after_expiry :: event_store where
  "after_expiry = after_first\<lparr>db_orders := [first_row\<lparr>ow_status := OS_EXPIRED, ow_updated := Some 6,
     ow_link := (ow_link first_row)\<lparr>lk_unsent := Some 6, lk_released := None\<rparr>\<rparr>],
     db_audit := db_audit after_first @ [(''event_unsent_reservation_released'', ''v20-event-cohort-001'', 6)]\<rparr>"

lemma first_expired:
  "expire_unsent demo_env default_settings (entry_client_id demo_env ''v20-event-cohort-001:k'') 6 False after_first
     = (Inr (), after_expiry)"
  by (simp add: expire_unsent_def after_expiry_def after_first_def research_store_def first_row_def new_row_def find_row_def
      new_event_store_def default_settings_def transaction_def release_row_def releasable_def bind_st_def return_st_def
      update_st_def change_row_def audit_def)

lemma second_reserved:
  "\<exists>t. reserve_entry demo_env default_settings demo_intraday ''h'' ''a'' 0 (demo_entry ''l'') 7 ''w'' after_expiry
     = (Inr (EntryReserved (entry_client_id demo_env ''v20-event-cohort-001:l'')), t)"
  by (simp add: reserve_entry_def research_store_def after_expiry_def after_first_def first_row_def new_row_def transaction_def
      bind_st_def lift_st_def check_def default_settings_def decide_entry_def Let_def new_event_store_def demo_entry_def
      exposed_def session_rows_def inventory_def entries_today_def entry_limit_def demo_intraday_def
      default_intraday_config_def commit_entry_def update_st_def find_row_def return_st_def claim_key_def demo_env_def
      audit_def entry_client_id_def terminal_states_def add_at_def dget_def)


end
