(* ===== verification/MarketData.thy ===== *)
theory MarketData
  imports Domain DecimalText
begin

text \<open>
  \<^verbatim>\<open>data.py\<close> and the paging of \<^verbatim>\<open>alpaca.py\<close>: bars read from the rows of a CSV file, written to it and
  generated for offline tests, and the loop that follows a service's page tokens. A generator is the list of what
  it yields and the error that ends it, if any. The CSV module's quoting, the floats and the random draws behind a
  synthetic bar, and the HTTP service are parameters; sleeping between attempts is left out.
\<close>

subsection \<open>Bars in a file\<close>

record csv_row =
  cr_time :: "pydatetime option"
  cr_symbol :: string
  cr_open :: string
  cr_high :: string
  cr_low :: string
  cr_close :: string
  cr_volume :: string

text \<open>A Decimal from text: a numeral that is not finite is accepted by \<^verbatim>\<open>Decimal\<close> and refused by the model's field.\<close>

definition csv_decimal :: "string \<Rightarrow> dec res" where
  "csv_decimal s = (case decimal_of_string s of None \<Rightarrow> Inl InvalidOperation
     | Some NonFinite \<Rightarrow> Inl (ValidationError ''finite_number'') | Some (Finite d) \<Rightarrow> Inr (pvalue d))"

definition bar_of_row :: "csv_row \<Rightarrow> market_bar res" where
  "bar_of_row r =
     (case cr_time r of None \<Rightarrow> Inl (ValueError ''isoformat'')
      | Some t \<Rightarrow>
          bind_res (csv_decimal (cr_open r)) (\<lambda>op. bind_res (csv_decimal (cr_high r)) (\<lambda>hi.
          bind_res (csv_decimal (cr_low r)) (\<lambda>lo. bind_res (csv_decimal (cr_close r)) (\<lambda>cl.
          bind_res (csv_decimal (cr_volume r)) (\<lambda>vol. mk_market_bar (cr_symbol r) t op hi lo cl vol))))))"

definition skipped :: "string option \<Rightarrow> csv_row \<Rightarrow> bool" where
  "skipped only r \<longleftrightarrow> only \<noteq> None \<and> normalize_symbol (cr_symbol r) \<noteq> normalize_symbol (the only)"

fun read_rows :: "string option \<Rightarrow> csv_row list \<Rightarrow> (string, instant) dict \<Rightarrow> market_bar list \<times> err option" where
  "read_rows only [] latest = ([], None)"
| "read_rows only (r # rs) latest =
     (if skipped only r then read_rows only rs latest
      else (case bar_of_row r of Inl e \<Rightarrow> ([], Some e)
        | Inr b \<Rightarrow>
            if (case map_of latest (bar_symbol b) of None \<Rightarrow> False | Some t \<Rightarrow> bar_time b \<le> t)
            then ([], Some (ValueError ''bars must be unique and strictly chronological''))
            else (case read_rows only rs (AList.update (bar_symbol b) (bar_time b) latest) of (bs, e) \<Rightarrow> (b # bs, e))))"

definition required_columns :: "string list" where
  "required_columns = [''timestamp'', ''symbol'', ''open'', ''high'', ''low'', ''close'', ''volume'']"

definition read_bars :: "string option \<Rightarrow> string list \<Rightarrow> csv_row list \<Rightarrow> market_bar list \<times> err option" where
  "read_bars only columns rows =
     (if list_all (\<lambda>c. c \<in> set columns) required_columns then read_rows only rows []
      else ([], Some (ValueError ''CSV is missing columns'')))"

definition row_of_bar :: "(dec \<Rightarrow> string) \<Rightarrow> market_bar \<Rightarrow> csv_row" where
  "row_of_bar show_dec b = \<lparr>cr_time = Some \<lparr>wall = bar_time b, offset = Some 0\<rparr>, cr_symbol = bar_symbol b,
     cr_open = show_dec (bar_open b), cr_high = show_dec (bar_high b), cr_low = show_dec (bar_low b),
     cr_close = show_dec (bar_close b), cr_volume = show_dec (bar_volume b)\<rparr>"

text \<open>Writing refuses a file that exists unless it may be replaced; it returns the number of rows.\<close>

definition write_bars ::
  "(dec \<Rightarrow> string) \<Rightarrow> bool \<Rightarrow> market_bar list \<Rightarrow> (csv_row list option, nat) routine" where
  "write_bars show_dec overwrite bars file =
     (if file \<noteq> None \<and> \<not> overwrite then (Inl (RuntimeError ''FileExistsError''), file)
      else (Inr (length bars), Some (map (row_of_bar show_dec) bars)))"

subsection \<open>Synthetic bars\<close>

definition weekday :: "instant \<Rightarrow> int" where
  "weekday t = (utc_date t + 3) mod 7"

text \<open>\<open>draw\<close> makes the next bar's five numbers from a state \<open>'f\<close>: the running price, the regime and the random generator.\<close>

definition drawn_bar ::
  "string \<Rightarrow> ('f \<Rightarrow> (dec \<times> dec \<times> dec \<times> dec \<times> dec) \<times> 'f) \<Rightarrow> instant \<Rightarrow> 'f \<Rightarrow> market_bar res \<times> 'f" where
  "drawn_bar symbol draw t f =
     (case draw f of ((op, hi, lo, cl, vol), f') \<Rightarrow>
        (mk_market_bar symbol \<lparr>wall = t, offset = Some 0\<rparr> op hi lo cl vol, f'))"

definition yielding :: "market_bar \<Rightarrow> market_bar list \<times> err option \<Rightarrow> market_bar list \<times> err option" where
  "yielding b out = (b # fst out, snd out)"

function synthetic_loop ::
  "string \<Rightarrow> ('f \<Rightarrow> (dec \<times> dec \<times> dec \<times> dec \<times> dec) \<times> 'f) \<Rightarrow> int \<Rightarrow> int \<Rightarrow> instant \<Rightarrow> 'f \<Rightarrow> market_bar list \<times> err option" where
  "synthetic_loop symbol draw wanted generated t f =
     (if \<not> generated < wanted then ([], None)
      else if weekday t \<ge> 5 then synthetic_loop symbol draw wanted generated (t + days 1) f
      else (case fst (drawn_bar symbol draw t f) of Inl e \<Rightarrow> ([], Some e)
         | Inr b \<Rightarrow> yielding b
             (synthetic_loop symbol draw wanted (generated + 1) (t + days 1) (snd (drawn_bar symbol draw t f)))))"
  by pat_completeness auto

lemma utc_date_next: "utc_date (t + days 1) = utc_date t + 1"
  by (simp add: utc_date_def days_def)

lemma weekday_next: "weekday (t + days 1) = (if weekday t = 6 then 0 else weekday t + 1)"
proof -
  let ?n = "utc_date t + 3"
  have "(?n + 1) mod 7 = (?n mod 7 + 1) mod 7" by (simp add: mod_add_left_eq)
  moreover have "0 \<le> ?n mod 7" "?n mod 7 < 7" by simp_all
  ultimately show ?thesis
    by (auto simp: weekday_def utc_date_next add.commute add.left_commute)
qed

lemma weekday_range: "0 \<le> weekday t" "weekday t < 7"
  by (simp_all add: weekday_def)

definition weekend_left :: "instant \<Rightarrow> nat" where
  "weekend_left t = (if weekday t \<ge> 5 then nat (7 - weekday t) else 0)"

lemma weekend_shrinks: "weekday t \<ge> 5 \<Longrightarrow> weekend_left (t + days 1) < weekend_left t"
  using weekday_range [of t] by (simp add: weekend_left_def weekday_next)

termination synthetic_loop
  by (relation "measures [\<lambda>(_, _, wanted, generated, _, _). nat (wanted - generated), \<lambda>(_, _, _, _, t, _). weekend_left t]")
    (simp_all add: weekend_shrinks)

declare synthetic_loop.simps [simp del]

definition synthetic_bars ::
  "string \<Rightarrow> ('f \<Rightarrow> (dec \<times> dec \<times> dec \<times> dec \<times> dec) \<times> 'f) \<Rightarrow> int \<Rightarrow> instant \<Rightarrow> 'f \<Rightarrow> market_bar list \<times> err option" where
  "synthetic_bars symbol draw wanted start f = synthetic_loop symbol draw wanted 0 start f"

subsection \<open>Pages\<close>

record 'p page =
  pg_payload :: 'p
  pg_next :: "string option"

record 'p response =
  rs_status :: int
  rs_body :: "'p page option"

text \<open>\<open>http token\<close> is one GET of the page a token names; \<open>left\<close> is the number of further attempts.\<close>

fun get_with_retry :: "(string option \<Rightarrow> 'g \<Rightarrow> 'p response \<times> 'g) \<Rightarrow> string option \<Rightarrow> nat \<Rightarrow> 'g \<Rightarrow> 'p response \<times> 'g" where
  "get_with_retry http token 0 g = http token g"
| "get_with_retry http token (Suc left) g =
     (case http token g of (r, g') \<Rightarrow>
        if rs_status r \<noteq> 429 \<and> rs_status r < 500 then (r, g') else get_with_retry http token left g')"

definition get_page :: "(string option \<Rightarrow> 'g \<Rightarrow> 'p response \<times> 'g) \<Rightarrow> string option \<Rightarrow> ('g, 'p page) routine" where
  "get_page http token g =
     (case get_with_retry http token 6 g of (r, g') \<Rightarrow>
        (if rs_status r \<ge> 400 then Inl (RuntimeError ''HTTPStatusError'')
         else case rs_body r of None \<Rightarrow> Inl (ValueError ''Alpaca response must be an object'') | Some p \<Rightarrow> Inr p, g'))"

partial_function (option) pages_from ::
  "(string option \<Rightarrow> ('g, 'p page) routine) \<Rightarrow> string option \<Rightarrow> string list \<Rightarrow> 'g \<Rightarrow> ('p list \<times> err option \<times> 'g) option" where
  "pages_from get token prior g =
     (case get token g of
        (Inl e, g') \<Rightarrow> Some ([], Some e, g')
      | (Inr p, g') \<Rightarrow>
          if pg_next p \<in> {None, Some []} then Some ([pg_payload p], None, g')
          else if the (pg_next p) \<in> set prior
          then Some ([pg_payload p], Some (ValueError ''Alpaca returned a repeated pagination token''), g')
          else Option.bind (pages_from get (pg_next p) (the (pg_next p) # prior) g')
            (\<lambda>(ps, e, h). Some (pg_payload p # ps, e, h)))"

definition pages :: "(string option \<Rightarrow> 'g \<Rightarrow> 'p response \<times> 'g) \<Rightarrow> 'g \<Rightarrow> ('p list \<times> err option \<times> 'g) option" where
  "pages http g = pages_from (get_page http) None [] g"

subsection \<open>What reading and generating give\<close>

definition after_all :: "(string, instant) dict \<Rightarrow> market_bar list \<Rightarrow> bool" where
  "after_all latest bs \<longleftrightarrow> list_all (\<lambda>b. case map_of latest (bar_symbol b) of None \<Rightarrow> True | Some t \<Rightarrow> t < bar_time b) bs"

definition chronological :: "market_bar list \<Rightarrow> bool" where
  "chronological bs \<longleftrightarrow> sorted_wrt (\<lambda>a b. bar_symbol a = bar_symbol b \<longrightarrow> bar_time a < bar_time b) bs"

lemma bar_of_row_ok: "bar_of_row r = Inr b \<Longrightarrow> bar_ok b"
  by (auto simp: bar_of_row_def split: option.splits intro: mk_market_bar_ok)

lemma after_all_update:
  "after_all (AList.update s t latest) bs \<longleftrightarrow>
     list_all (\<lambda>b. bar_symbol b = s \<longrightarrow> t < bar_time b) bs
     \<and> list_all (\<lambda>b. bar_symbol b \<noteq> s \<longrightarrow> (case map_of latest (bar_symbol b) of None \<Rightarrow> True | Some t \<Rightarrow> t < bar_time b)) bs"
  by (auto simp: after_all_def list_all_iff map_of_update)

lemma earlier_too:
  assumes "after_all (AList.update (bar_symbol b) (bar_time b) latest) bs"
    and "\<not> (case map_of latest (bar_symbol b) of None \<Rightarrow> False | Some t \<Rightarrow> bar_time b \<le> t)"
  shows "list_all (\<lambda>x. case map_of latest (bar_symbol x) of None \<Rightarrow> True | Some t \<Rightarrow> t < bar_time x) bs"
  unfolding list_all_iff
proof
  fix x assume x: "x \<in> set bs"
  show "case map_of latest (bar_symbol x) of None \<Rightarrow> True | Some t \<Rightarrow> t < bar_time x"
  proof (cases "bar_symbol x = bar_symbol b")
    case True
    with x assms(1) have "bar_time b < bar_time x" by (simp add: after_all_update list_all_iff)
    with assms(2) True show ?thesis by (simp split: option.splits)
  next
    case False
    with x assms(1) show ?thesis by (simp add: after_all_update list_all_iff)
  qed
qed

lemma read_rows_ok:
  "read_rows only rs latest = (bs, e) \<Longrightarrow> list_all bar_ok bs \<and> chronological bs \<and> after_all latest bs"
proof (induction only rs latest arbitrary: bs e rule: read_rows.induct)
  case (2 only r rs latest)
  show ?case
  proof (cases "skipped only r")
    case True
    with "2.prems" have "read_rows only rs latest = (bs, e)" by simp
    then show ?thesis by (rule "2.IH"(1) [OF True])
  next
    case keep: False
    show ?thesis
    proof (cases "bar_of_row r")
      case (Inl err)
      with keep "2.prems" show ?thesis by (simp add: after_all_def chronological_def)
    next
      case (Inr b)
      show ?thesis
      proof (cases "case map_of latest (bar_symbol b) of None \<Rightarrow> False | Some t \<Rightarrow> bar_time b \<le> t")
        case True
        with keep "2.prems" Inr show ?thesis by (simp add: after_all_def chronological_def)
      next
        case fresh: False
        obtain bs' e' where rest: "read_rows only rs (AList.update (bar_symbol b) (bar_time b) latest) = (bs', e')"
          by force
        with keep fresh "2.prems" Inr have "bs = b # bs'" by simp
        moreover from "2.IH"(2) [OF keep Inr fresh rest] have ok: "list_all bar_ok bs'" "chronological bs'"
          "after_all (AList.update (bar_symbol b) (bar_time b) latest) bs'" by blast+
        moreover have "list_all (\<lambda>x. case map_of latest (bar_symbol x) of None \<Rightarrow> True | Some t \<Rightarrow> t < bar_time x) bs'"
          using ok(3) fresh by (rule earlier_too)
        ultimately show ?thesis
          using fresh bar_of_row_ok [OF Inr] unfolding after_all_update
          by (auto simp: chronological_def after_all_def list_all_iff not_le split: option.splits)
      qed
    qed
  qed
qed (simp add: after_all_def chronological_def)


text \<open>A bar read back: its text denotes its amounts and its symbol has the length the model asks for.\<close>

definition readable :: "(dec \<Rightarrow> string) \<Rightarrow> market_bar \<Rightarrow> bool" where
  "readable show_dec b \<longleftrightarrow> bar_ok b \<and> 1 \<le> length (bar_symbol b) \<and> length (bar_symbol b) \<le> 32
     \<and> list_all (\<lambda>x. csv_decimal (show_dec x) = Inr x) [bar_open b, bar_high b, bar_low b, bar_close b, bar_volume b]"

lemma bar_of_row_of_bar: "readable show_dec b \<Longrightarrow> bar_of_row (row_of_bar show_dec b) = Inr b"
  by (simp add: readable_def bar_of_row_def row_of_bar_def mk_market_bar_accepts)

lemma read_written:
  "list_all (readable show_dec) bs \<Longrightarrow> chronological bs \<Longrightarrow> after_all latest bs \<Longrightarrow>
   read_rows None (map (row_of_bar show_dec) bs) latest = (bs, None)"
proof (induction bs arbitrary: latest)
  case (Cons b bs)
  have "after_all (AList.update (bar_symbol b) (bar_time b) latest) bs"
    using Cons.prems unfolding after_all_update
    by (auto simp: chronological_def after_all_def list_all_iff)
  with Cons have "read_rows None (map (row_of_bar show_dec) bs) (AList.update (bar_symbol b) (bar_time b) latest) = (bs, None)"
    by (simp add: chronological_def)
  moreover have "\<not> (case map_of latest (bar_symbol b) of None \<Rightarrow> False | Some t \<Rightarrow> bar_time b \<le> t)"
    using Cons.prems(3) by (simp add: after_all_def split: option.splits)
  ultimately show ?case
    using Cons.prems(1) by (simp add: skipped_def bar_of_row_of_bar)
qed simp

text \<open>
  Every bar a file yields is a valid bar, and the bars of a symbol are strictly later one after the other, also
  when reading stops at a bad row.
\<close>

theorem file_bars_chronological:
  assumes "read_bars only columns rows = (bs, e)"
  shows "list_all bar_ok bs \<and> chronological bs"
  using assms read_rows_ok [of only rows "[]" bs e]
  by (auto simp: read_bars_def chronological_def split: if_splits)

definition demo_rows :: "csv_row list" where
  "demo_rows = [\<lparr>cr_time = Some \<lparr>wall = 1, offset = Some 0\<rparr>, cr_symbol = ''spy'', cr_open = ''1'', cr_high = ''2'',
     cr_low = ''1'', cr_close = ''2'', cr_volume = ''3''\<rparr>,
     \<lparr>cr_time = Some \<lparr>wall = 1, offset = Some 0\<rparr>, cr_symbol = ''SPY'', cr_open = ''1'', cr_high = ''2'',
     cr_low = ''1'', cr_close = ''2'', cr_volume = ''3''\<rparr>]"

lemma demo_decimals: "csv_decimal ''1'' = Inr 1" "csv_decimal ''2'' = Inr 2" "csv_decimal ''3'' = Inr 3"
  by (simp_all add: csv_decimal_def decimal_of_string_def take_sign_def py_strip_def is_space_def unsigned_number_def
      exponent_part_def digits_value_def digit_def lower_char_def pvalue_def Let_def)

theorem file_bars_chronological_witness:
  "\<exists>b. read_bars None required_columns demo_rows = ([b], Some (ValueError ''bars must be unique and strictly chronological''))
     \<and> bar_ok b"
proof -
  have "\<exists>b. read_bars None required_columns demo_rows
      = ([b], Some (ValueError ''bars must be unique and strictly chronological''))"
    by (simp add: read_bars_def required_columns_def demo_rows_def skipped_def bar_of_row_def demo_decimals
        mk_market_bar_def aware_def to_utc_def require_length_def require_gt0_def require_ge0_def normalize_symbol_def
        py_strip_def py_upper_def upper_char_def is_space_def char_of_def bit_iff_odd)
  then show ?thesis using file_bars_chronological by fastforce
qed


definition two_bars :: "market_bar list" where
  "two_bars = [\<lparr>bar_symbol = ''A'', bar_time = 1, bar_open = 1, bar_high = 2, bar_low = 1, bar_close = 2, bar_volume = 3\<rparr>,
     \<lparr>bar_symbol = ''A'', bar_time = 2, bar_open = 2, bar_high = 3, bar_low = 1, bar_close = 1, bar_volume = 3\<rparr>]"

definition show_small :: "dec \<Rightarrow> string" where
  "show_small x = (if x = 1 then ''1'' else if x = 2 then ''2'' else ''3'')"


definition daily_from :: "instant \<Rightarrow> market_bar list \<Rightarrow> bool" where
  "daily_from t bs \<longleftrightarrow> list_all (\<lambda>b. weekday (bar_time b) < 5 \<and> t \<le> bar_time b) bs
     \<and> sorted_wrt (\<lambda>a b. bar_time a < bar_time b) bs"

lemma daily_from_later: "daily_from (t + days 1) bs \<Longrightarrow> daily_from t bs"
  by (auto simp: daily_from_def list_all_iff days_def)

lemma daily_from_Cons:
  "bar_time b = t \<Longrightarrow> weekday t < 5 \<Longrightarrow> daily_from (t + days 1) bs \<Longrightarrow> daily_from t (b # bs)"
  by (auto simp: daily_from_def list_all_iff days_def)

lemma drawn_bar_time: "fst (drawn_bar symbol draw t f) = Inr b \<Longrightarrow> bar_time b = t"
  by (auto simp: drawn_bar_def mk_market_bar_def aware_def to_utc_def split: prod.splits)

lemma synthetic_yields:
  assumes "\<And>t f. \<exists>b. fst (drawn_bar symbol draw t f) = Inr b"
  shows "\<exists>bs. synthetic_loop symbol draw wanted generated t f = (bs, None)
    \<and> length bs = nat (wanted - generated) \<and> daily_from t bs"
  using assms
proof (induction symbol draw wanted generated t f rule: synthetic_loop.induct)
  case (1 symbol draw wanted generated t f)
  show ?case
  proof (cases "generated < wanted")
    case False
    then show ?thesis by (subst synthetic_loop.simps) (simp add: daily_from_def)
  next
    case more: True
    show ?thesis
    proof (cases "5 \<le> weekday t")
      case True
      from "1.IH"(1) [OF _ True "1.prems"] more obtain bs where
        "synthetic_loop symbol draw wanted generated (t + days 1) f = (bs, None)"
        "length bs = nat (wanted - generated)" "daily_from (t + days 1) bs" by auto
      with more True show ?thesis
        by (subst synthetic_loop.simps) (simp add: daily_from_later)
    next
      case False
      from "1.prems" obtain b where b: "fst (drawn_bar symbol draw t f) = Inr b" by blast
      from "1.IH"(2) [OF _ False b "1.prems"] more obtain bs where
        "synthetic_loop symbol draw wanted (generated + 1) (t + days 1) (snd (drawn_bar symbol draw t f)) = (bs, None)"
        "length bs = nat (wanted - (generated + 1))" "daily_from (t + days 1) bs" by auto
      moreover have "Suc (nat (wanted - (generated + 1))) = nat (wanted - generated)" using more by simp
      ultimately show ?thesis
        using more False b drawn_bar_time [OF b]
        by (subst synthetic_loop.simps) (simp add: yielding_def daily_from_Cons)
    qed
  qed
qed

text \<open>
  The generator of synthetic bars ends, whatever the draws are, and when every draw makes a valid bar it yields
  exactly as many bars as were asked for, none on a weekend, none before the start, each later than the one before.
\<close>

theorem synthetic_terminates:
  assumes "\<And>t f. \<exists>b. fst (drawn_bar symbol draw t f) = Inr b"
  shows "\<exists>bs. synthetic_bars symbol draw wanted start f = (bs, None) \<and> length bs = nat wanted
    \<and> list_all (\<lambda>b. weekday (bar_time b) < 5 \<and> start \<le> bar_time b) bs
    \<and> sorted_wrt (\<lambda>a b. bar_time a < bar_time b) bs"
  using synthetic_yields [OF assms, where wanted = wanted and generated = 0 and t = start and f = f]
  by (auto simp: synthetic_bars_def daily_from_def)

definition flat_draw :: "unit \<Rightarrow> (dec \<times> dec \<times> dec \<times> dec \<times> dec) \<times> unit" where
  "flat_draw f = ((1, 2, 1, 2, 5), ())"

theorem synthetic_terminates_witness:
  "\<exists>bs. synthetic_bars ''SPY'' flat_draw 7 0 () = (bs, None) \<and> length bs = 7
    \<and> list_all (\<lambda>b. weekday (bar_time b) < 5 \<and> 0 \<le> bar_time b) bs
    \<and> sorted_wrt (\<lambda>a b. bar_time a < bar_time b) bs"
proof -
  have "\<exists>b. fst (drawn_bar ''SPY'' flat_draw t f) = Inr b" for t f
    by (simp add: drawn_bar_def flat_draw_def mk_market_bar_def aware_def to_utc_def require_length_def
        require_gt0_def require_ge0_def normalize_symbol_def py_strip_def py_upper_def upper_char_def is_space_def)
  from synthetic_terminates [where draw = flat_draw and symbol = "''SPY''", OF this, of 7 0 "()"]
  show ?thesis by simp
qed

subsection \<open>Paging ends\<close>

text \<open>A successful page names no further page, or one of the tokens of \<open>ts\<close>.\<close>

definition names_only :: "string list \<Rightarrow> 'p page res \<Rightarrow> bool" where
  "names_only ts r = (case r of Inl _ \<Rightarrow> True | Inr p \<Rightarrow> pg_next p \<in> {None, Some []} \<or> the (pg_next p) \<in> set ts)"

lemma pages_from_ends:
  assumes "\<And>token g. names_only ts (fst (get token g))"
  shows "\<exists>ps e h. pages_from get token prior g = Some (ps, e, h) \<and> length ps \<le> Suc (card (set ts - set prior))"
proof (induction "card (set ts - set prior)" arbitrary: prior token g rule: less_induct)
  case less
  obtain r g' where r: "get token g = (r, g')" by force
  show ?case
  proof (cases r)
    case (Inl e)
    with r show ?thesis by (subst pages_from.simps) simp
  next
    case (Inr p)
    show ?thesis
    proof (cases "pg_next p \<in> {None, Some []} \<or> the (pg_next p) \<in> set prior")
      case True
      with r Inr show ?thesis by (subst pages_from.simps) auto
    next
      case False
      let ?t = "the (pg_next p)"
      have "?t \<in> set ts - set prior"
        using assms [of token g] r Inr False by (auto simp: names_only_def)
      then have fewer: "Suc (card (set ts - set (?t # prior))) = card (set ts - set prior)"
        by (metis Diff_insert List.finite_set card_Suc_Diff1 finite_Diff list.simps(15))
      then obtain ps e h where "pages_from get (pg_next p) (?t # prior) g' = Some (ps, e, h)"
        "length ps \<le> Suc (card (set ts - set (?t # prior)))"
        using less [of "?t # prior" "pg_next p" g'] by auto
      with r Inr False fewer show ?thesis by (subst pages_from.simps) auto
    qed
  qed
qed

lemma get_page_names:
  assumes "\<And>token g. case rs_body (fst (http token g)) of None \<Rightarrow> True | Some p \<Rightarrow> names_only ts (Inr p)"
  shows "names_only ts (fst (get_page http token g))"
proof -
  have "case rs_body (fst (get_with_retry http token n g)) of None \<Rightarrow> True | Some p \<Rightarrow> names_only ts (Inr p)" for n
  proof (induction n arbitrary: g)
    case 0 show ?case using assms [of token g] by simp
  next
    case (Suc n) then show ?case using assms [of token g] by (cases "http token g") simp
  qed
  from this [of 6] show ?thesis
    by (auto simp: get_page_def names_only_def split: prod.splits option.splits if_splits)
qed

text \<open>C38 Following a service's page tokens always ends when the tokens it can name are finitely many, even if it names
  the same ones for ever: at most one page more than there are tokens is yielded, then the loop has returned or raised.
\<close>

theorem paging_terminates:
  assumes "\<And>token g. case rs_body (fst (http token g)) of None \<Rightarrow> True | Some p \<Rightarrow> names_only ts (Inr p)"
  shows "\<exists>ps e h. pages http g = Some (ps, e, h) \<and> length ps \<le> Suc (card (set ts))"
  using pages_from_ends [where get = "get_page http" and ts = ts and token = None and prior = "[]", OF get_page_names [OF assms]]
  by (simp add: pages_def)

text \<open>A service that is busy once, then names the pages a, b, a, b for ever.\<close>

definition circular_service :: "string option \<Rightarrow> nat \<Rightarrow> nat response \<times> nat" where
  "circular_service token n =
     (if n = 0 then (\<lparr>rs_status = 429, rs_body = None\<rparr>, 1)
      else (\<lparr>rs_status = 200, rs_body = Some \<lparr>pg_payload = n, pg_next = Some (if token = Some ''a'' then ''b'' else ''a'')\<rparr>\<rparr>, n + 1))"

theorem paging_terminates_witness:
  "\<exists>ps e h. pages circular_service 0 = Some (ps, e, h) \<and> length ps \<le> Suc 2"
proof -
  have "case rs_body (fst (circular_service token g)) of None \<Rightarrow> True | Some p \<Rightarrow> names_only [''a'', ''b''] (Inr p)" for token g
    by (simp add: circular_service_def names_only_def)
  from paging_terminates [where http = circular_service and ts = "[''a'', ''b'']", OF this, of 0]
  show ?thesis by (simp add: numeral_3_eq_3)
qed

end
