(* ===== verification/Spec2Isabelle.thy ===== *)
theory Spec2Isabelle
  imports EngineLaws LedgerLaws OrderState Promotion OmsLaws Persistence Scheduler Universe Holdout
    KrakenBookLaws PortfolioLaws PortfolioStrategy EventPerformanceLaws AccountRiskLaws EventOrdersLaws MarketData
begin

text \<open>
  A verification library for TradeAgent, an autonomous paper-trading program in Python. All paths below are under
  \<^verbatim>\<open>src/src/tradeagent/\<close>.

  \<^bold>\<open>The program and its parts.\<close> Three trading paths share one set of value types.

  The simulated path: \<^verbatim>\<open>engine.py\<close> (one symbol) and \<^verbatim>\<open>portfolio.py\<close> (many) feed bars to a strategy
  (\<^verbatim>\<open>strategy.py\<close>, \<^verbatim>\<open>portfolio_strategy.py\<close>), plan an order from the target weight, ask the risk gate
  (\<^verbatim>\<open>risk.py\<close>), submit to the deterministic broker (\<^verbatim>\<open>broker.py\<close>) and write each step to the append-only
  ledger (\<^verbatim>\<open>ledger.py\<close>); \<^verbatim>\<open>metrics.py\<close> makes the report. The data comes from \<^verbatim>\<open>data.py\<close>, \<^verbatim>\<open>universe.py\<close>,
  \<^verbatim>\<open>intraday.py\<close> and the sealed sets of \<^verbatim>\<open>holdout.py\<close>.

  The external paper path: \<^verbatim>\<open>oms.py\<close> routes orders to the Alpaca paper account behind the same gate and the
  promotions of \<^verbatim>\<open>promotion.py\<close>, keeping each order's lifecycle in \<^verbatim>\<open>order_state.py\<close>; \<^verbatim>\<open>scheduler.py\<close> reconciles
  and trips the kill switch of \<^verbatim>\<open>persistence.py\<close>.

  The event path: \<^verbatim>\<open>event_orders.py\<close> reserves one entry per news event inside the session budget of
  \<^verbatim>\<open>event_session.py\<close> and the settings of \<^verbatim>\<open>experimental_policy.py\<close>; \<^verbatim>\<open>event_account_risk.py\<close> limits the account's
  losses from the fills \<^verbatim>\<open>event_performance.py\<close> accounts for and the broker history \<^verbatim>\<open>paper_account_history.py\<close>
  imports. \<^verbatim>\<open>kraken_confirmation_book.py\<close> rebuilds a checksummed order book beside it.

  \<^bold>\<open>Which theory models what.\<close> A Python object's attributes are a record, a method that changes them returns the
  record (a \<open>routine\<close>: the result, or the error raised, and the state left behind), a raise is a value of
  \<open>err\<close>, a database table is a list or an association list in insertion order, and a transaction that raises
  leaves the tables as they were. Names follow the source.

  \<^item> \<open>Prelude\<close>: errors, results, dictionaries, instants, civil dates, string operations, and the locales.
  \<^item> \<open>Decimal28\<close>, \<open>DecimalText\<close>: \<^verbatim>\<open>decimal.Decimal\<close> in the default context (28 digits, half even; \<open>dadd\<close>, \<open>dsub\<close>,
    \<open>dmul\<close>, \<open>ddiv\<close>, \<open>quantize\<close>) and its numerals.
  \<^item> \<open>Domain\<close>, \<open>Config\<close>: \<^verbatim>\<open>domain.py\<close> and \<^verbatim>\<open>config.py\<close>, every constraint and validator as a checked constructor.
  \<^item> \<open>Broker\<close> with \<open>BrokerProps\<close>, \<open>BrokerMachine\<close>, \<open>BrokerAccounting\<close>, \<open>BrokerLaws\<close>: \<^verbatim>\<open>PaperBroker\<close>.
  \<^item> \<open>Ledger\<close>, \<open>LedgerLaws\<close>: \<^verbatim>\<open>SQLiteLedger\<close>; \<open>Risk\<close>, \<open>RiskLaws\<close>: \<^verbatim>\<open>RiskEngine\<close>; \<open>Strategy\<close>, \<open>Metrics\<close>.
  \<^item> \<open>Engine\<close>, \<open>EngineLaws\<close>: \<^verbatim>\<open>TradingEngine\<close>; \<open>Targets\<close>, \<open>Portfolio\<close>, \<open>PortfolioLaws\<close>, \<open>PortfolioStrategy\<close>:
    \<^verbatim>\<open>PortfolioEngine\<close> and its strategies.
  \<^item> \<open>OrderState\<close>, \<open>Promotion\<close>, \<open>Oms\<close>, \<open>OmsLaws\<close>, \<open>Persistence\<close>, \<open>Scheduler\<close>: the external paper path.
  \<^item> \<open>Universe\<close>, \<open>Holdout\<close>, \<open>Intraday\<close>, \<open>MarketData\<close>: the data; \<open>MarketData\<close> also has the paging loop of
    \<^verbatim>\<open>alpaca.py\<close>.
  \<^item> \<open>ExperimentalPolicy\<close>, \<open>EventStore\<close>, \<open>EventPerformance\<close>, \<open>EventPerformanceLaws\<close>, \<open>AccountHistory\<close>, \<open>AccountRisk\<close>,
    \<open>AccountRiskLaws\<close>, \<open>EventOrders\<close>, \<open>EventOrdersLaws\<close>: the event path. Its tables are one record, \<open>event_store\<close>.
  \<^item> \<open>KrakenBook\<close>, \<open>KrakenBookLaws\<close>: the confirmation book with its CRC-32, bit by bit.

  \<^bold>\<open>Interfaces.\<close> \<open>machine\<close> and \<open>growing_machine\<close> (a step relation with an invariant, and with an order every step
  respects) give reachability once; they are interpreted on the broker, its two accountings, the ledger, the risk
  gate, the engine, the order database, the holdout files, the confirmation book, the account limits and the event
  order rows. \<open>control_store\<close> is the contract of a table of named controls, interpreted on the three stores that
  have one. \<open>rounding\<close> is what every rounding mode of \<open>Decimal\<close> satisfies, and \<open>keyed_table\<close> the idempotent insert
  of the market data tables.

  \<^bold>\<open>What the lemmas show.\<close> The simulated path: every fill is explained by an approval and a submission logged before
  it; approval is exactly the absence of the gate's codes; the kill switch admits only exits; the broker fills a
  client order once, keeps its books non-negative, never short, and in exact agreement with its fills; the engine's
  bar refines the broker's own operations. The external path: the broker is reached only through gate and promotion,
  lifecycles follow the transition table, a mismatch sets the switch and stops the loop, worker locks exclude each
  other. The event path: one reservation per event and one dispatch per order, fills that only grow, budgets charged
  in the same transaction, loss limits that only tighten, a baseline that is never rewritten, and an accounting that
  counts each order once and cuts rounds exactly where the position is flat. Data: aggregation bucket by bucket,
  holdout and development disjoint and opened once, files that read back, paging that ends, and a confirmed book
  whose top is the one the checksum proves.

  \<^bold>\<open>Bounds.\<close> No fuel is used. Loops recurse over lists with \<open>fun\<close>; the synthetic generator is a \<open>function\<close> whose
  measure counts the bars still wanted, then the days to the end of the weekend; the paging loop is a
  \<open>partial_function\<close> over \<open>option\<close> and its return is a theorem. Exact cash accounting holds for order quantities of at
  most four decimals and amounts below \<open>10 ^ 17\<close>, where no operation of the 28-digit context rounds; the hypothesis
  says so where it is needed. Decimal exponents are not bounded, so overflow and subnormal results are outside.

  \<^bold>\<open>Parameters.\<close> SHA-256, UUIDs, the clock, the time zone database, the exchange calendar, ISO formatting, the HTTP and
  venue gateways and the random draws are arguments. Amounts are compared as numbers, not as their text. Where the
  code goes through binary floats (volatility targets, synthetic prices) the resulting figure is an argument too.

  \<^bold>\<open>Not modelled.\<close> Rendering, email, HTTP and command line; the float ratios of reports; the research and machine
  learning modules, which are floating point over numerical libraries; the notification outbox that some
  transactions also write; the asynchronous workers and streams around the modelled parts. In the event order
  manager, the checks before the reservation, the POST itself, exits, supervision and reconciliation with the broker
  are still to come, as is the scalping engine (\<^verbatim>\<open>scalping_execution.py\<close>, \<^verbatim>\<open>scalping_strategy.py\<close>). The order of
  work from here: the rest of \<^verbatim>\<open>event_orders.py\<close>; \<^verbatim>\<open>event_news_policy.py\<close> and \<^verbatim>\<open>news.py\<close>; the intraday strategies
  (\<^verbatim>\<open>intraday_strategy.py\<close>, \<^verbatim>\<open>advanced_strategy.py\<close>); the scalping strategy, configuration and order engine.
\<close>

end
